(* ===== verification/Prelude.thy ===== *)
theory Prelude
  imports Complex_Main "HOL-Library.Word"
begin

text \<open>
  Shared vocabulary of the development: Go's error values and result pairs, the parts of Go's
  standard library the repository uses on strings and paths (\<^verbatim>\<open>strings\<close>, \<^verbatim>\<open>path\<close>,
  \<^verbatim>\<open>path/filepath\<close>, decimal formatting), 64-bit floating point arithmetic as a record of
  operations, and the generic lemmas the component theories share. A string is a list of bytes.
\<close>

named_theorems handler_defs "unfolding equations of the request handlers and their helpers"
named_theorems string_simps "facts about Go string functions"

section \<open>Errors, times and results\<close>

text \<open>
  Go's \<^verbatim>\<open>error\<close> values. The three API reasons are the ones the code and its retry logic
  distinguish; \<^verbatim>\<open>Errorf\<close> is an error known by its text and \<^verbatim>\<open>Wrap\<close> is
  \<^verbatim>\<open>fmt.Errorf("...: %w", err)\<close> or \<^verbatim>\<open>errors.Wrap\<close>, which keeps the cause.
\<close>

datatype error =
    NotFound
  | Conflict
  | AlreadyExists
  | Errorf string
  | Wrap string error

type_synonym 'a or_error = "error + 'a"
type_synonym time = int \<comment> \<open>nanoseconds\<close>
type_synonym duration = int

text \<open>\<^verbatim>\<open>apierrors.IsNotFound\<close> looks through wrapped errors.\<close>

fun IsNotFound :: "error \<Rightarrow> bool" where
  "IsNotFound NotFound = True"
| "IsNotFound (Wrap _ e) = IsNotFound e"
| "IsNotFound _ = False"

definition IgnoreNotFound :: "error \<Rightarrow> error option" where
  "IgnoreNotFound e = (if IsNotFound e then None else Some e)"

abbreviation Second :: duration where
  "Second \<equiv> 1000000000"

text \<open>A computation that may panic (nil dereference, slice bounds out of range).\<close>

datatype 'a go = Ret 'a | Panic string

section \<open>Floating point\<close>

text \<open>
  Go's \<^verbatim>\<open>float64\<close> as a record of its operations. The definitions that compute with floats
  take such a record, so what is proved of them without further hypotheses holds for IEEE
  arithmetic, rounding and NaN included. \<open>real_float\<close> is the instance with exact real
  arithmetic, for the properties that are about the formulas themselves.
\<close>

record 'f float_ops =
  f_of_int :: "int \<Rightarrow> 'f"
  f_add :: "'f \<Rightarrow> 'f \<Rightarrow> 'f"
  f_sub :: "'f \<Rightarrow> 'f \<Rightarrow> 'f"
  f_mul :: "'f \<Rightarrow> 'f \<Rightarrow> 'f"
  f_div :: "'f \<Rightarrow> 'f \<Rightarrow> 'f"
  f_lt :: "'f \<Rightarrow> 'f \<Rightarrow> bool"
  f_eq :: "'f \<Rightarrow> 'f \<Rightarrow> bool"
  f_exp :: "'f \<Rightarrow> 'f"
  f_parse :: "string \<Rightarrow> 'f or_error"
  f_format :: "'f \<Rightarrow> string"

definition real_float :: "(string \<Rightarrow> real or_error) \<Rightarrow> (real \<Rightarrow> string) \<Rightarrow> real float_ops" where
  "real_float parse fmt =
     \<lparr>f_of_int = of_int, f_add = (+), f_sub = (-), f_mul = (*), f_div = (/),
      f_lt = (<), f_eq = (=), f_exp = exp, f_parse = parse, f_format = fmt\<rparr>"

lemma real_float_simps [simp]:
  "f_of_int (real_float p s) = of_int"
  "f_add (real_float p s) = (+)"
  "f_sub (real_float p s) = (-)"
  "f_mul (real_float p s) = (*)"
  "f_div (real_float p s) = (/)"
  "f_lt (real_float p s) = (<)"
  "f_eq (real_float p s) = (=)"
  "f_exp (real_float p s) = exp"
  "f_parse (real_float p s) = p"
  "f_format (real_float p s) = s"
  by (simp_all add: real_float_def)

section \<open>Slices\<close>

text \<open>A slice that may be nil: its length is 0 and it ranges over nothing.\<close>

definition slice :: "'a list option \<Rightarrow> 'a list" where
  "slice xs = (case xs of None \<Rightarrow> [] | Some l \<Rightarrow> l)"

lemma slice_simps [simp]: "slice None = []" "slice (Some l) = l"
  by (simp_all add: slice_def)

section \<open>Strings\<close>

abbreviation LF :: char where "LF \<equiv> char_of (10::nat)"
abbreviation CR :: char where "CR \<equiv> char_of (13::nat)"

text \<open>\<^verbatim>\<open>strings.Split(s, sep)\<close> and \<^verbatim>\<open>bytes.Split\<close> for a separator of one byte.\<close>

fun split_on :: "char \<Rightarrow> string \<Rightarrow> string list" where
  "split_on c [] = [[]]"
| "split_on c (x # xs) =
     (if x = c then [] # split_on c xs
      else (case split_on c xs of [] \<Rightarrow> [[x]] | y # ys \<Rightarrow> (x # y) # ys))"

text \<open>\<^verbatim>\<open>strings.Join(elems, sep)\<close>.\<close>

fun join :: "string \<Rightarrow> string list \<Rightarrow> string" where
  "join sep [] = []"
| "join sep [x] = x"
| "join sep (x # y # ys) = x @ sep @ join sep (y # ys)"

definition has_prefix :: "string \<Rightarrow> string \<Rightarrow> bool" where
  "has_prefix p s = (take (length p) s = p)"

text \<open>
  \<^verbatim>\<open>strings.ReplaceAll(s, old, new)\<close> and \<^verbatim>\<open>bytes.Replace(..., -1)\<close>, for a
  non-empty \<^verbatim>\<open>old\<close>, as in every call of the repository: leftmost occurrences first,
  not overlapping.
\<close>

function replace_all :: "string \<Rightarrow> string \<Rightarrow> string \<Rightarrow> string" where
  "replace_all old new [] = []"
| "replace_all old new (x # xs) =
     (if old \<noteq> [] \<and> has_prefix old (x # xs)
      then new @ replace_all old new (drop (length old) (x # xs))
      else x # replace_all old new xs)"
  by pat_completeness auto
termination
  by (relation "measure (\<lambda>(old, new, s). length s)") auto

text \<open>Decimal formatting (\<^verbatim>\<open>%d\<close>) of a natural number.\<close>

definition digit_char :: "nat \<Rightarrow> char" where
  "digit_char d = char_of (48 + d)"

fun dec_nat :: "nat \<Rightarrow> string" where
  "dec_nat n = (if n < 10 then [digit_char n] else dec_nat (n div 10) @ [digit_char (n mod 10)])"

declare dec_nat.simps [simp del]

text \<open>
  \<^verbatim>\<open>strconv.ParseUint(s, 10, bits)\<close>: a non-empty string of ASCII digits whose value fits.
\<close>

definition is_digit :: "char \<Rightarrow> bool" where
  "is_digit c = (48 \<le> (of_char c :: nat) \<and> (of_char c :: nat) \<le> 57)"

definition digit_val :: "char \<Rightarrow> nat" where
  "digit_val c = (of_char c :: nat) - 48"

definition digits_val :: "string \<Rightarrow> nat" where
  "digits_val s = foldl (\<lambda>a c. 10 * a + digit_val c) 0 s"

definition ParseUint :: "nat \<Rightarrow> string \<Rightarrow> nat or_error" where
  "ParseUint bits s =
     (if s = [] \<or> \<not> list_all is_digit s then Inl (Errorf ''invalid syntax'')
      else if digits_val s < 2 ^ bits then Inr (digits_val s)
      else Inl (Errorf ''value out of range''))"

subsection \<open>Facts\<close>

lemma split_on_not_Nil [simp]: "split_on c s \<noteq> []"
  by (cases s) (auto split: list.splits)

lemma join_Cons: "ys \<noteq> [] \<Longrightarrow> join sep (x # ys) = x @ sep @ join sep ys"
  by (cases ys) auto

lemma join_split_on [string_simps]: "join [c] (split_on c s) = s"
proof (induction s)
  case Nil
  then show ?case by simp
next
  case (Cons x xs)
  obtain y ys where "split_on c xs = y # ys"
    by (meson list.exhaust split_on_not_Nil)
  with Cons show ?case
    by (cases ys) auto
qed

lemma split_on_single [string_simps]: "c \<notin> set s \<Longrightarrow> split_on c s = [s]"
  by (induction s) auto

lemma split_on_append [string_simps]:
  "c \<notin> set a \<Longrightarrow> split_on c (a @ c # b) = a # split_on c b"
  by (induction a) auto

lemma split_on_members: "p \<in> set (split_on c s) \<Longrightarrow> c \<notin> set p"
  by (induction s arbitrary: p) (auto split: list.splits if_splits)

lemma split_on_length: "length (split_on c s) = Suc (count_list s c)"
  by (induction s) (auto split: list.splits)

lemma has_prefix_append [simp]: "has_prefix p (p @ s)"
  by (simp add: has_prefix_def)

lemma has_prefixE: "has_prefix p s \<Longrightarrow> s = p @ drop (length p) s"
  by (metis append_take_drop_id has_prefix_def)

section \<open>Paths\<close>

text \<open>
  \<^verbatim>\<open>path.Clean\<close>: the lexical shortening of a slash-separated path, as a walk over its
  components with the kept ones on a stack; \<^verbatim>\<open>path.Join\<close> ignores empty elements and
  cleans the result.
\<close>

abbreviation slash :: char where
  "slash \<equiv> CHR ''/''"

fun clean_comps :: "bool \<Rightarrow> string list \<Rightarrow> string list \<Rightarrow> string list" where
  "clean_comps rooted st [] = rev st"
| "clean_comps rooted st (c # cs) =
     (if c = '''' \<or> c = ''.'' then clean_comps rooted st cs
      else if c = ''..'' then
        (case st of
           [] \<Rightarrow> clean_comps rooted (if rooted then [] else [''..'']) cs
         | t # ts \<Rightarrow> if t = ''..'' then clean_comps rooted (''..'' # st) cs
                     else clean_comps rooted ts cs)
      else clean_comps rooted (c # st) cs)"

definition path_clean :: "string \<Rightarrow> string" where
  "path_clean p =
     (let rooted = has_prefix ''/'' p;
          s = join ''/'' (clean_comps rooted [] (split_on slash p))
      in if rooted then ''/'' @ s else if s = '''' then ''.'' else s)"

definition path_join :: "string list \<Rightarrow> string" where
  "path_join elems =
     (let es = filter (\<lambda>e. e \<noteq> '''') elems
      in if es = [] then '''' else path_clean (join ''/'' es))"

text \<open>\<^verbatim>\<open>filepath.Base\<close> and \<^verbatim>\<open>filepath.Dir\<close> on a Unix system.\<close>

definition filepath_Base :: "string \<Rightarrow> string" where
  "filepath_Base p =
     (if p = '''' then ''.''
      else (let cs = filter (\<lambda>c. c \<noteq> '''') (split_on slash p)
            in if cs = [] then ''/'' else last cs))"

definition filepath_Dir :: "string \<Rightarrow> string" where
  "filepath_Dir p =
     (let cs = split_on slash p
      in path_clean (if length cs = 1 then '''' else join ''/'' (butlast cs) @ ''/''))"

text \<open>A file name: what Kubernetes object names are, among others.\<close>

definition plain_name :: "string \<Rightarrow> bool" where
  "plain_name n = (n \<noteq> '''' \<and> n \<noteq> ''.'' \<and> n \<noteq> ''..'' \<and> slash \<notin> set n)"

lemma split_on_join:
  assumes "xs \<noteq> []" and "\<forall>x \<in> set xs. c \<notin> set x"
  shows "split_on c (join [c] xs) = xs"
  using assms
proof (induction xs)
  case Nil
  then show ?case by simp
next
  case (Cons x xs)
  then show ?case
    by (cases xs) (auto simp: split_on_append split_on_single)
qed

lemma clean_comps_plain:
  "\<forall>x \<in> set cs. plain_name x \<Longrightarrow> clean_comps r st cs = rev st @ cs"
  by (induction cs arbitrary: st) (auto simp: plain_name_def)

lemma plain_name_no_slash: "plain_name x \<Longrightarrow> slash \<notin> set x"
  by (simp add: plain_name_def)

lemma join_plain_not_rooted:
  "plain_name x \<Longrightarrow> \<not> has_prefix ''/'' (join ''/'' (x # xs))"
  by (cases xs; cases x) (auto simp: plain_name_def has_prefix_def)

lemma join_plain_nonempty: "plain_name x \<Longrightarrow> join s (x # xs) \<noteq> ''''"
  by (cases xs) (auto simp: plain_name_def)

lemma path_clean_plain:
  assumes "plain_name x" and "\<forall>y \<in> set xs. plain_name y"
  shows "path_clean (join ''/'' (x # xs)) = join ''/'' (x # xs)"
proof -
  have "split_on slash (join ''/'' (x # xs)) = x # xs"
    using assms by (intro split_on_join) (auto simp: plain_name_def)
  moreover have "clean_comps False [] (x # xs) = x # xs"
    using assms clean_comps_plain [of "x # xs" False "[]"] by simp
  ultimately show ?thesis
    using join_plain_not_rooted [OF assms(1), of xs] join_plain_nonempty [OF assms(1), of "''/''" xs]
    by (simp add: path_clean_def Let_def)
qed

lemma path_join_plain [string_simps]:
  assumes "plain_name x" and "\<forall>y \<in> set xs. plain_name y"
  shows "path_join (x # xs) = join ''/'' (x # xs)"
proof -
  have "filter (\<lambda>e. e \<noteq> '''') (x # xs) = x # xs"
    using assms by (auto simp: plain_name_def intro: filter_True)
  then show ?thesis
    by (simp add: path_join_def path_clean_plain [OF assms])
qed

lemma is_digit_char [simp]: "d < 10 \<Longrightarrow> is_digit (digit_char d)"
  by (simp add: is_digit_def digit_char_def)

lemma digit_val_char [simp]: "d < 10 \<Longrightarrow> digit_val (digit_char d) = d"
  by (simp add: digit_val_def digit_char_def)

text \<open>Printing and parsing of numbers.\<close>

lemma digits_val_dec_nat [string_simps]: "digits_val (dec_nat n) = n"
proof (induction n rule: dec_nat.induct)
  case (1 n)
  then show ?case
    by (subst dec_nat.simps) (simp add: digits_val_def)
qed

lemma list_all_digits_dec_nat [string_simps]: "list_all is_digit (dec_nat n)"
proof (induction n rule: dec_nat.induct)
  case (1 n)
  then show ?case
    by (subst dec_nat.simps) simp
qed

lemma dec_nat_not_Nil [simp]: "dec_nat n \<noteq> []"
  by (subst dec_nat.simps) simp

lemma ParseUint_dec_nat [string_simps]: "n < 2 ^ bits \<Longrightarrow> ParseUint bits (dec_nat n) = Inr n"
  by (simp add: ParseUint_def digits_val_dec_nat list_all_digits_dec_nat)

end
