(* ===== verification/Api_Types.thy ===== *)
theory Api_Types
  imports Prelude
begin

text \<open>
  The API objects of \<^verbatim>\<open>api/v1alpha1\<close>: Problem, ProblemEnvironment and Worker, with
  the parts of the Kubernetes object model they embed (\<^verbatim>\<open>metav1.ObjectMeta\<close>,
  \<^verbatim>\<open>metav1.Condition\<close>, \<^verbatim>\<open>metav1.LabelSelector\<close>), and the admission
  webhooks. A nil map or slice is \<open>None\<close> where the code tells it from an empty one.
\<close>

section \<open>Embedded Kubernetes types\<close>

type_synonym label_map = "string \<rightharpoonup> string"

record OwnerReference =
  or_Kind :: string
  or_Name :: string
  or_Controller :: bool

record ObjectMeta =
  om_Name :: string
  om_Namespace :: string
  om_GenerateName :: string
  om_Labels :: "label_map option"
  om_Annotations :: "label_map option"
  om_Generation :: int
  om_ResourceVersion :: nat
  om_CreationTimestamp :: "time option"
  om_DeletionTimestamp :: "time option"
  om_Finalizers :: "string list"
  om_OwnerReferences :: "OwnerReference list"

definition ObjectMeta0 :: ObjectMeta where
  "ObjectMeta0 =
     \<lparr>om_Name = '''', om_Namespace = '''', om_GenerateName = '''', om_Labels = None,
      om_Annotations = None, om_Generation = 0, om_ResourceVersion = 0,
      om_CreationTimestamp = None, om_DeletionTimestamp = None, om_Finalizers = [],
      om_OwnerReferences = []\<rparr>"

text \<open>Reading a key of a map that may be nil.\<close>

definition map_get :: "label_map option \<Rightarrow> string \<Rightarrow> string option" where
  "map_get m k = (case m of None \<Rightarrow> None | Some f \<Rightarrow> f k)"

datatype ConditionStatus = ConditionTrue | ConditionFalse | ConditionUnknown

record Condition =
  c_Type :: string
  c_Status :: ConditionStatus
  c_ObservedGeneration :: int
  c_LastTransitionTime :: time
  c_Reason :: string
  c_Message :: string

record LabelSelectorRequirement =
  lr_Key :: string
  lr_Operator :: string
  lr_Values :: "string list"

record LabelSelector =
  ls_MatchLabels :: "label_map option"
  ls_MatchExpressions :: "LabelSelectorRequirement list option"

section \<open>ProblemEnvironment\<close>

definition ProblemEnvironmentConditionScheduled :: string where
  "ProblemEnvironmentConditionScheduled = ''Scheduled''"

definition ProblemEnvironmentConditionDeployed :: string where
  "ProblemEnvironmentConditionDeployed = ''Deployed''"

definition ProblemEnvironmentConditionReady :: string where
  "ProblemEnvironmentConditionReady = ''Ready''"

definition ProblemEnvironmentConditionAssigned :: string where
  "ProblemEnvironmentConditionAssigned = ''Assigned''"

definition ProblemEnvironmentEventScheduled :: string where
  "ProblemEnvironmentEventScheduled = ''Scheduled''"

definition ProblemEnvironmentEventDeploying :: string where
  "ProblemEnvironmentEventDeploying = ''Deploying''"

definition ProblemEnvironmentEventDeployed :: string where
  "ProblemEnvironmentEventDeployed = ''Deployed''"

definition ProblemEnvironmentEventAssigned :: string where
  "ProblemEnvironmentEventAssigned = ''Assigned''"

definition ProblemEnvironmentEventReady :: string where
  "ProblemEnvironmentEventReady = ''Ready''"

definition ProblemEnvironmentEventNotReady :: string where
  "ProblemEnvironmentEventNotReady = ''NotReady''"

record ConfigMapFileSource =
  cmfs_Key :: string
  cmfs_Name :: string

record FileSource =
  fs_ConfigMapRef :: ConfigMapFileSource

record ProblemEnvironmentSpec =
  pes_TopologyFile :: FileSource
  pes_ConfigFiles :: "FileSource list"
  pes_WorkerName :: string
  pes_WorkerSelectors :: "LabelSelector list option"

record ContainerStatus =
  cs_Name :: string
  cs_Image :: string
  cs_ContainerID :: string
  cs_ContainerName :: string
  cs_Ready :: bool
  cs_ManagementIPAddress :: string

record ProblemEnvironmentStatus =
  pest_Containers :: "ContainerStatus list option"
  pest_Password :: string
  pest_Conditions :: "Condition list"

record ProblemEnvironment =
  pe_ObjectMeta :: ObjectMeta
  pe_Spec :: ProblemEnvironmentSpec
  pe_Status :: ProblemEnvironmentStatus

abbreviation pe_Name :: "ProblemEnvironment \<Rightarrow> string" where
  "pe_Name pe \<equiv> om_Name (pe_ObjectMeta pe)"

abbreviation pe_Namespace :: "ProblemEnvironment \<Rightarrow> string" where
  "pe_Namespace pe \<equiv> om_Namespace (pe_ObjectMeta pe)"

abbreviation pe_WorkerName :: "ProblemEnvironment \<Rightarrow> string" where
  "pe_WorkerName pe \<equiv> pes_WorkerName (pe_Spec pe)"

abbreviation pe_Containers :: "ProblemEnvironment \<Rightarrow> ContainerStatus list option" where
  "pe_Containers pe \<equiv> pest_Containers (pe_Status pe)"

abbreviation pe_Password :: "ProblemEnvironment \<Rightarrow> string" where
  "pe_Password pe \<equiv> pest_Password (pe_Status pe)"

abbreviation pe_Conditions :: "ProblemEnvironment \<Rightarrow> Condition list" where
  "pe_Conditions pe \<equiv> pest_Conditions (pe_Status pe)"

abbreviation pe_deleting :: "ProblemEnvironment \<Rightarrow> bool" where
  "pe_deleting pe \<equiv> om_DeletionTimestamp (pe_ObjectMeta pe) \<noteq> None"

definition ProblemEnvironment0 :: ProblemEnvironment where
  "ProblemEnvironment0 =
     \<lparr>pe_ObjectMeta = ObjectMeta0,
      pe_Spec = \<lparr>pes_TopologyFile = \<lparr>fs_ConfigMapRef = \<lparr>cmfs_Key = '''', cmfs_Name = ''''\<rparr>\<rparr>,
                 pes_ConfigFiles = [], pes_WorkerName = '''', pes_WorkerSelectors = None\<rparr>,
      pe_Status = \<lparr>pest_Containers = None, pest_Password = '''', pest_Conditions = []\<rparr>\<rparr>"

section \<open>Problem\<close>

text \<open>
  \<^verbatim>\<open>Spec.Template\<close> is a pointer, nil is \<open>None\<close>. \<^verbatim>\<open>ProblemStatus\<close> has the
  one field \<^verbatim>\<open>Replicas\<close>.
\<close>

record ProblemEnvironmentTemplate =
  pet_Labels :: "label_map option"
  pet_Annotations :: "label_map option"
  pet_Spec :: ProblemEnvironmentSpec

record ProblemSpec =
  prs_Template :: "ProblemEnvironmentTemplate option"
  prs_AssignableReplicas :: int

record ProblemReplicas =
  rep_Total :: int
  rep_Scheduled :: int
  rep_Assignable :: int
  rep_Assigned :: int

record Problem =
  pr_ObjectMeta :: ObjectMeta
  pr_Spec :: ProblemSpec
  pr_Replicas :: ProblemReplicas

abbreviation pr_Name :: "Problem \<Rightarrow> string" where
  "pr_Name p \<equiv> om_Name (pr_ObjectMeta p)"

abbreviation pr_Namespace :: "Problem \<Rightarrow> string" where
  "pr_Namespace p \<equiv> om_Namespace (pr_ObjectMeta p)"

section \<open>Worker\<close>

definition WorkerConditionReady :: string where
  "WorkerConditionReady = ''Ready''"

definition WorkerEventReady :: string where
  "WorkerEventReady = ''Ready''"

definition WorkerEventNotReady :: string where
  "WorkerEventNotReady = ''NotReady''"

text \<open>
  \<open>wk_DisableSchedule\<close> is the one field of \<^verbatim>\<open>WorkerSpec\<close>; the two last fields of
  \<open>Worker\<close> are those of \<^verbatim>\<open>WorkerStatus\<close>.
\<close>

record WorkerInfo =
  wi_ExternalIPAddress :: string
  wi_ExternalPort :: "16 word"
  wi_Hostname :: string
  wi_MemoryUsedPercent :: string
  wi_CPUUsedPercent :: string

record Worker =
  wk_ObjectMeta :: ObjectMeta
  wk_DisableSchedule :: bool
  wk_WorkerInfo :: WorkerInfo
  wk_Conditions :: "Condition list"

abbreviation wk_Name :: "Worker \<Rightarrow> string" where
  "wk_Name w \<equiv> om_Name (wk_ObjectMeta w)"

definition Worker0 :: Worker where
  "Worker0 =
     \<lparr>wk_ObjectMeta = ObjectMeta0, wk_DisableSchedule = False,
      wk_WorkerInfo = \<lparr>wi_ExternalIPAddress = '''', wi_ExternalPort = 0, wi_Hostname = '''',
                       wi_MemoryUsedPercent = '''', wi_CPUUsedPercent = ''''\<rparr>,
      wk_Conditions = []\<rparr>"

lemmas condition_type_defs =
  ProblemEnvironmentConditionScheduled_def ProblemEnvironmentConditionDeployed_def
  ProblemEnvironmentConditionReady_def ProblemEnvironmentConditionAssigned_def
  WorkerConditionReady_def

text \<open>The four condition types of a ProblemEnvironment are different strings.\<close>

lemma condition_types_distinct [simp]:
  "ProblemEnvironmentConditionScheduled \<noteq> ProblemEnvironmentConditionDeployed"
  "ProblemEnvironmentConditionScheduled \<noteq> ProblemEnvironmentConditionReady"
  "ProblemEnvironmentConditionScheduled \<noteq> ProblemEnvironmentConditionAssigned"
  "ProblemEnvironmentConditionDeployed \<noteq> ProblemEnvironmentConditionScheduled"
  "ProblemEnvironmentConditionDeployed \<noteq> ProblemEnvironmentConditionReady"
  "ProblemEnvironmentConditionDeployed \<noteq> ProblemEnvironmentConditionAssigned"
  "ProblemEnvironmentConditionReady \<noteq> ProblemEnvironmentConditionScheduled"
  "ProblemEnvironmentConditionReady \<noteq> ProblemEnvironmentConditionDeployed"
  "ProblemEnvironmentConditionReady \<noteq> ProblemEnvironmentConditionAssigned"
  "ProblemEnvironmentConditionAssigned \<noteq> ProblemEnvironmentConditionScheduled"
  "ProblemEnvironmentConditionAssigned \<noteq> ProblemEnvironmentConditionDeployed"
  "ProblemEnvironmentConditionAssigned \<noteq> ProblemEnvironmentConditionReady"
  by (simp_all add: condition_type_defs)

end
