(* ===== verification/Webhook.thy ===== *)
theory Webhook
  imports Api_Types
begin

text \<open>
  The admission webhooks of \<^verbatim>\<open>api/v1alpha1/problemenvironment_webhook.go\<close> and
  \<^verbatim>\<open>api/v1alpha1/problem_webhook.go\<close>. A validator returns the error that rejects the
  request, or \<open>None\<close>. \<^verbatim>\<open>reflect.DeepEqual\<close> is equality of the modelled values, which tell
  nil from empty.
\<close>

definition ProblemEnvironment_Default :: "ProblemEnvironment \<Rightarrow> ProblemEnvironment" where
  "ProblemEnvironment_Default r = r"

definition ProblemEnvironment_ValidateCreate :: "ProblemEnvironment \<Rightarrow> error option" where
  "ProblemEnvironment_ValidateCreate r = None"

definition ProblemEnvironment_ValidateUpdate ::
    "ProblemEnvironment \<Rightarrow> ProblemEnvironment \<Rightarrow> error option" where
  "ProblemEnvironment_ValidateUpdate r old =
     (if pe_WorkerName old \<noteq> '''' \<and> pe_WorkerName r \<noteq> pe_WorkerName old then
        Some (Errorf ''.spec.workerName: workerName can't be updated after scheduling'')
      else if pes_TopologyFile (pe_Spec r) \<noteq> pes_TopologyFile (pe_Spec old) then
        Some (Errorf ''.spec.containerLabManifest: containerLabManifest can't be updated'')
      else if pes_WorkerSelectors (pe_Spec r) \<noteq> pes_WorkerSelectors (pe_Spec old) then
        Some (Errorf ''.spec.workerSelectors: workerSelectors can't be updated'')
      else None)"

definition ProblemEnvironment_ValidateDelete :: "ProblemEnvironment \<Rightarrow> error option" where
  "ProblemEnvironment_ValidateDelete r = None"

definition Problem_Default :: "Problem \<Rightarrow> Problem" where
  "Problem_Default r = r"

definition Problem_ValidateCreate :: "Problem \<Rightarrow> error option" where
  "Problem_ValidateCreate r = None"

definition Problem_ValidateUpdate :: "Problem \<Rightarrow> Problem \<Rightarrow> error option" where
  "Problem_ValidateUpdate r old = None"

definition Problem_ValidateDelete :: "Problem \<Rightarrow> error option" where
  "Problem_ValidateDelete r = None"

section \<open>What survives admitted updates\<close>

text \<open>
  One admitted update request: the mutating webhook runs first, then the validating one against
  the stored object, and the defaulted object is stored.
\<close>

inductive admitted_update :: "ProblemEnvironment \<Rightarrow> ProblemEnvironment \<Rightarrow> bool" where
  admit: "ProblemEnvironment_ValidateUpdate (ProblemEnvironment_Default r) old = None \<Longrightarrow>
    admitted_update old (ProblemEnvironment_Default r)"

inductive_cases admitted_updateE: "admitted_update old r"

lemma ValidateUpdate_None_iff:
  "ProblemEnvironment_ValidateUpdate r old = None \<longleftrightarrow>
     (pe_WorkerName old = '''' \<or> pe_WorkerName r = pe_WorkerName old) \<and>
     pes_TopologyFile (pe_Spec r) = pes_TopologyFile (pe_Spec old) \<and>
     pes_WorkerSelectors (pe_Spec r) = pes_WorkerSelectors (pe_Spec old)"
  by (auto simp: ProblemEnvironment_ValidateUpdate_def)

lemma admitted_update_iff:
  "admitted_update old r \<longleftrightarrow> ProblemEnvironment_ValidateUpdate r old = None"
  by (metis ProblemEnvironment_Default_def admit admitted_updateE)

lemma admitted_updates_keep:
  assumes "admitted_update\<^sup>*\<^sup>* pe pe'"
  shows "pes_TopologyFile (pe_Spec pe') = pes_TopologyFile (pe_Spec pe)"
    and "pes_WorkerSelectors (pe_Spec pe') = pes_WorkerSelectors (pe_Spec pe)"
    and "pe_WorkerName pe \<noteq> '''' \<Longrightarrow> pe_WorkerName pe' = pe_WorkerName pe"
  using assms
  by (induction rule: rtranclp_induct) (auto simp: admitted_update_iff ValidateUpdate_None_iff)

section \<open>Properties\<close>



end
