(* ===== verification/Conditions.thy ===== *)
theory Conditions
  imports Api_Types
begin

text \<open>
  \<^verbatim>\<open>pkg/util/condition.go\<close>: reading and writing status conditions of a
  ProblemEnvironment or a Worker. The two pairs of functions run the same loops over two object
  types; the contract they share is the locale \<open>condition_holder\<close>, proved once and interpreted
  for both.
\<close>

section \<open>The loops\<close>

text \<open>
  \<open>set_condition_loop\<close>: the loop over the conditions by index. The first condition of the
  type is updated in place and ends the loop; if there is none, a new one is appended.
\<close>

fun set_condition_loop ::
    "time \<Rightarrow> int \<Rightarrow> string \<Rightarrow> ConditionStatus \<Rightarrow> string \<Rightarrow> string \<Rightarrow>
     Condition list \<Rightarrow> Condition list" where
  "set_condition_loop now gen t st reason msg [] =
     [\<lparr>c_Type = t, c_Status = st, c_ObservedGeneration = gen, c_LastTransitionTime = now,
       c_Reason = reason, c_Message = msg\<rparr>]"
| "set_condition_loop now gen t st reason msg (c # cs) =
     (if c_Type c \<noteq> t then c # set_condition_loop now gen t st reason msg cs
      else (let c' = (if c_Status c \<noteq> st
                      then c\<lparr>c_Status := st, c_LastTransitionTime := now\<rparr> else c)
            in c'\<lparr>c_ObservedGeneration := gen, c_Reason := reason, c_Message := msg\<rparr> # cs))"

fun get_condition_loop :: "string \<Rightarrow> Condition list \<Rightarrow> ConditionStatus" where
  "get_condition_loop t [] = ConditionUnknown"
| "get_condition_loop t (c # cs) =
     (if c_Type c \<noteq> t then get_condition_loop t cs else c_Status c)"

definition SetProblemEnvironmentCondition ::
    "time \<Rightarrow> ProblemEnvironment \<Rightarrow> string \<Rightarrow> ConditionStatus \<Rightarrow> string \<Rightarrow> string \<Rightarrow>
     ProblemEnvironment" where
  "SetProblemEnvironmentCondition now pe t st reason msg =
     pe\<lparr>pe_Status := (pe_Status pe)\<lparr>pest_Conditions :=
       set_condition_loop now (om_Generation (pe_ObjectMeta pe)) t st reason msg
         (pe_Conditions pe)\<rparr>\<rparr>"

definition GetProblemEnvironmentCondition :: "ProblemEnvironment \<Rightarrow> string \<Rightarrow> ConditionStatus" where
  "GetProblemEnvironmentCondition pe t = get_condition_loop t (pe_Conditions pe)"

definition SetWorkerCondition ::
    "time \<Rightarrow> Worker \<Rightarrow> string \<Rightarrow> ConditionStatus \<Rightarrow> string \<Rightarrow> string \<Rightarrow> Worker" where
  "SetWorkerCondition now w t st reason msg =
     w\<lparr>wk_Conditions :=
       set_condition_loop now (om_Generation (wk_ObjectMeta w)) t st reason msg
         (wk_Conditions w)\<rparr>"

definition GetWorkerCondition :: "Worker \<Rightarrow> string \<Rightarrow> ConditionStatus" where
  "GetWorkerCondition w t = get_condition_loop t (wk_Conditions w)"

section \<open>Facts about the loops\<close>

definition find_condition :: "string \<Rightarrow> Condition list \<Rightarrow> Condition option" where
  "find_condition t cs = find (\<lambda>c. c_Type c = t) cs"

text \<open>At most one condition per type, as the API conventions ask of a condition list.\<close>

definition conditions_wf :: "Condition list \<Rightarrow> bool" where
  "conditions_wf cs = distinct (map c_Type cs)"

lemma get_set_condition_loop_same [simp]:
  "get_condition_loop t (set_condition_loop now gen t st reason msg cs) = st"
  by (induction cs) (auto simp: Let_def)

lemma get_set_condition_loop_other [simp]:
  "t' \<noteq> t \<Longrightarrow>
     get_condition_loop t' (set_condition_loop now gen t st reason msg cs) = get_condition_loop t' cs"
  by (induction cs) (auto simp: Let_def)

lemma get_condition_loop_find:
  "get_condition_loop t cs =
     (case find_condition t cs of None \<Rightarrow> ConditionUnknown | Some c \<Rightarrow> c_Status c)"
  by (induction cs) (auto simp: find_condition_def)

lemma find_set_condition_loop:
  "find_condition t (set_condition_loop now gen t st reason msg cs) =
     Some \<lparr>c_Type = t, c_Status = st, c_ObservedGeneration = gen,
           c_LastTransitionTime =
             (case find_condition t cs of
                None \<Rightarrow> now
              | Some c \<Rightarrow> if c_Status c = st then c_LastTransitionTime c else now),
           c_Reason = reason, c_Message = msg\<rparr>"
  by (induction cs) (auto simp: find_condition_def Let_def)

lemma find_set_condition_loop_other:
  "t' \<noteq> t \<Longrightarrow> find_condition t' (set_condition_loop now gen t st reason msg cs) = find_condition t' cs"
  by (induction cs) (auto simp: find_condition_def Let_def)

lemma types_set_condition_loop:
  "map c_Type (set_condition_loop now gen t st reason msg cs) =
     (if t \<in> set (map c_Type cs) then map c_Type cs else map c_Type cs @ [t])"
  by (induction cs) (auto simp: Let_def)

lemma conditions_wf_set_loop:
  "conditions_wf cs \<Longrightarrow> conditions_wf (set_condition_loop now gen t st reason msg cs)"
  unfolding conditions_wf_def types_set_condition_loop by auto

section \<open>The contract of a condition holder\<close>

text \<open>
  An object with a condition list, a reader and a writer. A client needs only this contract: what
  is read after a write, that other types keep their value, and that the rest of the object
  (here: its generation) is left alone.
\<close>

locale condition_holder =
  fixes conds :: "'o \<Rightarrow> Condition list"
    and gen :: "'o \<Rightarrow> int"
    and getc :: "'o \<Rightarrow> string \<Rightarrow> ConditionStatus"
    and setc :: "time \<Rightarrow> 'o \<Rightarrow> string \<Rightarrow> ConditionStatus \<Rightarrow> string \<Rightarrow> string \<Rightarrow> 'o"
  assumes getc_conds: "getc x t = get_condition_loop t (conds x)"
    and conds_setc: "conds (setc now x t st r m) = set_condition_loop now (gen x) t st r m (conds x)"
    and gen_setc: "gen (setc now x t st r m) = gen x"
begin

lemma get_set: "getc (setc now x t st r m) t' = (if t' = t then st else getc x t')"
  by (simp add: getc_conds conds_setc)

lemma find_set:
  "find_condition t' (conds (setc now x t st r m)) =
     (if t' = t then
        Some \<lparr>c_Type = t, c_Status = st, c_ObservedGeneration = gen x,
              c_LastTransitionTime =
                (case find_condition t (conds x) of
                   None \<Rightarrow> now
                 | Some c \<Rightarrow> if c_Status c = st then c_LastTransitionTime c else now),
              c_Reason = r, c_Message = m\<rparr>
      else find_condition t' (conds x))"
  by (simp add: conds_setc find_set_condition_loop find_set_condition_loop_other)

lemma wf_set: "conditions_wf (conds x) \<Longrightarrow> conditions_wf (conds (setc now x t st r m))"
  by (simp add: conds_setc conditions_wf_set_loop)

end

interpretation pe_cond: condition_holder pe_Conditions
    "\<lambda>pe. om_Generation (pe_ObjectMeta pe)"
    GetProblemEnvironmentCondition SetProblemEnvironmentCondition
  by unfold_locales
    (simp_all add: GetProblemEnvironmentCondition_def SetProblemEnvironmentCondition_def)

interpretation worker_cond: condition_holder wk_Conditions
    "\<lambda>w. om_Generation (wk_ObjectMeta w)"
    GetWorkerCondition SetWorkerCondition
  by unfold_locales (simp_all add: GetWorkerCondition_def SetWorkerCondition_def)

lemmas get_set_conditions [simp] = pe_cond.get_set worker_cond.get_set

text \<open>Writing a condition changes nothing but the conditions.\<close>

lemma SetProblemEnvironmentCondition_frame [simp]:
  "pe_ObjectMeta (SetProblemEnvironmentCondition now pe t st r m) = pe_ObjectMeta pe"
  "pe_Spec (SetProblemEnvironmentCondition now pe t st r m) = pe_Spec pe"
  "pe_Containers (SetProblemEnvironmentCondition now pe t st r m) = pe_Containers pe"
  "pe_Password (SetProblemEnvironmentCondition now pe t st r m) = pe_Password pe"
  by (simp_all add: SetProblemEnvironmentCondition_def)

lemma SetWorkerCondition_frame [simp]:
  "wk_ObjectMeta (SetWorkerCondition now w t st r m) = wk_ObjectMeta w"
  "wk_DisableSchedule (SetWorkerCondition now w t st r m) = wk_DisableSchedule w"
  "wk_WorkerInfo (SetWorkerCondition now w t st r m) = wk_WorkerInfo w"
  by (simp_all add: SetWorkerCondition_def)

lemma GetProblemEnvironmentCondition_cong:
  "pe_Conditions pe = pe_Conditions pe' \<Longrightarrow>
     GetProblemEnvironmentCondition pe t = GetProblemEnvironmentCondition pe' t"
  by (simp add: GetProblemEnvironmentCondition_def)

section \<open>Properties\<close>

text \<open>
  C7. Conditions: after a write of condition \<open>t\<close>, a read of \<open>t\<close> returns the written
  status and a read of another type what it returned before. The stored condition carries the
  object's generation, the reason and the message; its transition time moves only when the
  status changes. The same holds of ProblemEnvironments and of Workers.
\<close>

theorem conditions_contract:
  "GetProblemEnvironmentCondition (SetProblemEnvironmentCondition now pe t st r m) t' =
     (if t' = t then st else GetProblemEnvironmentCondition pe t') \<and>
   GetWorkerCondition (SetWorkerCondition now wk t st r m) t' =
     (if t' = t then st else GetWorkerCondition wk t') \<and>
   find_condition t' (pe_Conditions (SetProblemEnvironmentCondition now pe t st r m)) =
     (if t' = t then
        Some \<lparr>c_Type = t, c_Status = st, c_ObservedGeneration = om_Generation (pe_ObjectMeta pe),
              c_LastTransitionTime =
                (case find_condition t (pe_Conditions pe) of
                   None \<Rightarrow> now
                 | Some c \<Rightarrow> if c_Status c = st then c_LastTransitionTime c else now),
              c_Reason = r, c_Message = m\<rparr>
      else find_condition t' (pe_Conditions pe)) \<and>
   find_condition t' (wk_Conditions (SetWorkerCondition now wk t st r m)) =
     (if t' = t then
        Some \<lparr>c_Type = t, c_Status = st, c_ObservedGeneration = om_Generation (wk_ObjectMeta wk),
              c_LastTransitionTime =
                (case find_condition t (wk_Conditions wk) of
                   None \<Rightarrow> now
                 | Some c \<Rightarrow> if c_Status c = st then c_LastTransitionTime c else now),
              c_Reason = r, c_Message = m\<rparr>
      else find_condition t' (wk_Conditions wk))"
  by (intro conjI pe_cond.get_set worker_cond.get_set pe_cond.find_set worker_cond.find_set)

end
