(* ===== verification/Kube_Client.thy ===== *)
theory Kube_Client
  imports Webhook Conditions
begin

text \<open>
  The Kubernetes API client (\<^verbatim>\<open>client.Client\<close> of controller-runtime, the clientset of
  \<^verbatim>\<open>kubectl-netcon\<close> and the event recorder). The API server and the client library are not
  part of the repository, so the client is a parameter: a record of operations over a type of
  worlds. Every handler of the development takes such a record. What the code relies on is stated
  as the laws of five locales, from the documented behaviour of the API server:
  \<^item> \<open>kube_api\<close>: what a successful write of a ProblemEnvironment does (optimistic
    concurrency on \<^verbatim>\<open>resourceVersion\<close>, the status subresource, finalizers, the admission
    webhook), that a rejected request changes nothing, and that other writes leave
    ProblemEnvironments alone;
  \<^item> \<open>worker_writes\<close>: the same of the writes of Workers, for the components that make them;
  \<^item> \<open>versioned_reads\<close>: a read may be stale (controller-runtime reads from a cache), but an
    object read with the stored version is the stored object;
  \<^item> \<open>consistent_reads\<close>: reads return what is stored (the cache has caught up);
  \<^item> \<open>reliable_api\<close>: valid writes succeed.
\<close>

section \<open>The interface\<close>

type_synonym NamespacedName = "string \<times> string"

record ListOptions =
  lo_InNamespace :: "string option"
  lo_MatchingLabels :: "(string \<times> string) list"

definition ListAll :: ListOptions where
  "ListAll = \<lparr>lo_InNamespace = None, lo_MatchingLabels = []\<rparr>"

record Lease =
  le_Namespace :: string
  le_Name :: string
  le_HolderIdentity :: "string option"
  le_RenewTime :: "time option"
  le_LeaseDurationSeconds :: "32 word option"

record ConfigMap =
  cm_Namespace :: string
  cm_Name :: string
  cm_Data :: label_map
  cm_OwnerReferences :: "OwnerReference list"

datatype EventType = EventTypeNormal | EventTypeWarning

record Event =
  ev_Object :: string
  ev_Type :: EventType
  ev_Reason :: string
  ev_Message :: string

record 'w kube =
  getProblemEnvironment :: "'w \<Rightarrow> NamespacedName \<Rightarrow> ProblemEnvironment or_error"
  listProblemEnvironment :: "'w \<Rightarrow> ListOptions \<Rightarrow> ProblemEnvironment list or_error"
  createProblemEnvironment :: "ProblemEnvironment \<Rightarrow> 'w \<Rightarrow> ProblemEnvironment or_error \<times> 'w"
  updateProblemEnvironment :: "ProblemEnvironment \<Rightarrow> 'w \<Rightarrow> ProblemEnvironment or_error \<times> 'w"
  updateStatusProblemEnvironment :: "ProblemEnvironment \<Rightarrow> 'w \<Rightarrow> ProblemEnvironment or_error \<times> 'w"
  deleteProblemEnvironment :: "NamespacedName \<Rightarrow> 'w \<Rightarrow> error option \<times> 'w"
  getProblem :: "'w \<Rightarrow> NamespacedName \<Rightarrow> Problem or_error"
  listProblem :: "'w \<Rightarrow> ListOptions \<Rightarrow> Problem list or_error"
  updateStatusProblem :: "Problem \<Rightarrow> 'w \<Rightarrow> Problem or_error \<times> 'w"
  getWorker :: "'w \<Rightarrow> string \<Rightarrow> Worker or_error"
  listWorker :: "'w \<Rightarrow> ListOptions \<Rightarrow> Worker list or_error"
  createWorker :: "Worker \<Rightarrow> 'w \<Rightarrow> Worker or_error \<times> 'w"
  updateWorker :: "Worker \<Rightarrow> 'w \<Rightarrow> Worker or_error \<times> 'w"
  updateStatusWorker :: "Worker \<Rightarrow> 'w \<Rightarrow> Worker or_error \<times> 'w"
  getLease :: "'w \<Rightarrow> NamespacedName \<Rightarrow> Lease or_error"
  createLease :: "Lease \<Rightarrow> 'w \<Rightarrow> Lease or_error \<times> 'w"
  updateLease :: "Lease \<Rightarrow> 'w \<Rightarrow> Lease or_error \<times> 'w"
  getConfigMap :: "'w \<Rightarrow> NamespacedName \<Rightarrow> ConfigMap or_error"
  listConfigMap :: "'w \<Rightarrow> ListOptions \<Rightarrow> ConfigMap list or_error"
  createConfigMap :: "ConfigMap \<Rightarrow> 'w \<Rightarrow> ConfigMap or_error \<times> 'w"
  recordEvent :: "Event \<Rightarrow> 'w \<Rightarrow> 'w"

abbreviation pe_key :: "ProblemEnvironment \<Rightarrow> NamespacedName" where
  "pe_key pe \<equiv> (pe_Namespace pe, pe_Name pe)"

abbreviation pe_rv :: "ProblemEnvironment \<Rightarrow> nat" where
  "pe_rv pe \<equiv> om_ResourceVersion (pe_ObjectMeta pe)"

text \<open>\<^verbatim>\<open>ctrl.Result\<close> and \<^verbatim>\<open>ctrl.Request\<close>.\<close>

record Result =
  RequeueAfter :: duration

definition Result0 :: Result where
  "Result0 = \<lparr>RequeueAfter = 0\<rparr>"

type_synonym 'w reconciled = "(Result \<times> error option) \<times> 'w"

definition matches_options :: "ListOptions \<Rightarrow> ObjectMeta \<Rightarrow> bool" where
  "matches_options opts m =
     ((case lo_InNamespace opts of None \<Rightarrow> True | Some ns \<Rightarrow> om_Namespace m = ns) \<and>
      list_all (\<lambda>(key, v). map_get (om_Labels m) key = Some v) (lo_MatchingLabels opts))"

section \<open>The laws\<close>

definition store_find :: "NamespacedName \<Rightarrow> ProblemEnvironment list \<Rightarrow> ProblemEnvironment option" where
  "store_find key pes = find (\<lambda>pe. pe_key pe = key) pes"

definition store_put :: "ProblemEnvironment \<Rightarrow> ProblemEnvironment list \<Rightarrow> ProblemEnvironment list" where
  "store_put pe pes = map (\<lambda>cur. if pe_key cur = pe_key pe then pe else cur) pes"

definition store_drop :: "NamespacedName \<Rightarrow> ProblemEnvironment list \<Rightarrow> ProblemEnvironment list" where
  "store_drop key pes = filter (\<lambda>cur. pe_key cur \<noteq> key) pes"

text \<open>
  The object an update of the status subresource stores: the status of the request, the rest of
  the stored object, a new version. The containers are serialised with \<^verbatim>\<open>omitempty\<close>, so an
  empty list is stored as a missing one.
\<close>

definition omit_empty :: "ContainerStatus list option \<Rightarrow> ContainerStatus list option" where
  "omit_empty cs = (if cs = Some [] then None else cs)"

definition with_status :: "ProblemEnvironment \<Rightarrow> nat \<Rightarrow> ProblemEnvironment \<Rightarrow> ProblemEnvironment" where
  "with_status req v cur =
     cur\<lparr>pe_Status := (pe_Status req)\<lparr>pest_Containers := omit_empty (pe_Containers req)\<rparr>,
         pe_ObjectMeta := (pe_ObjectMeta cur)\<lparr>om_ResourceVersion := v\<rparr>\<rparr>"

text \<open>
  The object an update of the main resource stores: spec, labels, annotations, finalizers and
  owners of the request, the stored status. The generation grows when the spec changes.
\<close>

definition with_spec :: "ProblemEnvironment \<Rightarrow> nat \<Rightarrow> ProblemEnvironment \<Rightarrow> ProblemEnvironment" where
  "with_spec req v cur =
     cur\<lparr>pe_Spec := pe_Spec req,
         pe_ObjectMeta := (pe_ObjectMeta cur)\<lparr>
           om_Labels := om_Labels (pe_ObjectMeta req),
           om_Annotations := om_Annotations (pe_ObjectMeta req),
           om_Finalizers := om_Finalizers (pe_ObjectMeta req),
           om_OwnerReferences := om_OwnerReferences (pe_ObjectMeta req),
           om_Generation := om_Generation (pe_ObjectMeta cur) +
             (if pe_Spec req = pe_Spec cur then 0 else 1),
           om_ResourceVersion := v\<rparr>\<rparr>"

text \<open>
  An object that is being deleted leaves the store with its last finalizer. A delete request
  removes an object without finalizers and otherwise sets the deletion timestamp once.
\<close>

definition commit :: "ProblemEnvironment \<Rightarrow> ProblemEnvironment list \<Rightarrow> ProblemEnvironment list" where
  "commit new pes =
     (if pe_deleting new \<and> om_Finalizers (pe_ObjectMeta new) = []
      then store_drop (pe_key new) pes else store_put new pes)"

definition mark_deleted :: "time \<Rightarrow> nat \<Rightarrow> ProblemEnvironment \<Rightarrow> ProblemEnvironment" where
  "mark_deleted now v cur =
     (if pe_deleting cur then cur
      else cur\<lparr>pe_ObjectMeta := (pe_ObjectMeta cur)\<lparr>om_DeletionTimestamp := Some now,
                                                   om_ResourceVersion := v\<rparr>\<rparr>)"

locale kube_api =
  fixes k :: "'w kube"
    and contents :: "'w \<Rightarrow> ProblemEnvironment list"
    and ok :: "'w \<Rightarrow> bool"
  assumes distinct_keys: "ok w \<Longrightarrow> distinct (map pe_key (contents w))"
    and live_objects: "ok w \<Longrightarrow> pe \<in> set (contents w) \<Longrightarrow> pe_deleting pe \<Longrightarrow>
      om_Finalizers (pe_ObjectMeta pe) \<noteq> []"
    and update_status:
      "ok w \<Longrightarrow> updateStatusProblemEnvironment k pe w = (Inr pe', w') \<Longrightarrow>
         ok w' \<and> (\<exists>cur \<in> set (contents w). \<exists>v. pe_key cur = pe_key pe \<and> pe_rv cur = pe_rv pe \<and>
           pe_rv cur < v \<and> pe' = with_status pe v cur \<and> contents w' = store_put pe' (contents w))"
    and update_main:
      "ok w \<Longrightarrow> updateProblemEnvironment k pe w = (Inr pe', w') \<Longrightarrow>
         ok w' \<and> (\<exists>cur \<in> set (contents w). \<exists>v. pe_key cur = pe_key pe \<and> pe_rv cur = pe_rv pe \<and>
           pe_rv cur < v \<and> ProblemEnvironment_ValidateUpdate pe cur = None \<and>
           pe' = with_spec pe v cur \<and> contents w' = commit pe' (contents w))"
    and delete_main:
      "ok w \<Longrightarrow> deleteProblemEnvironment k key w = (None, w') \<Longrightarrow>
         ok w' \<and> (\<exists>cur \<in> set (contents w). \<exists>now v. pe_key cur = key \<and> pe_rv cur < v \<and>
           contents w' = commit (mark_deleted now v cur) (contents w))"
    and create_main:
      "ok w \<Longrightarrow> createProblemEnvironment k pe w = (Inr pe', w') \<Longrightarrow>
         ok w' \<and> (\<exists>xs ys. contents w = xs @ ys \<and> contents w' = xs @ pe' # ys) \<and>
         pe_Spec pe' = pe_Spec pe \<and> pe_Status pe' = pe_Status ProblemEnvironment0 \<and>
         pe_Namespace pe' = pe_Namespace pe \<and>
         om_Labels (pe_ObjectMeta pe') = om_Labels (pe_ObjectMeta pe) \<and>
         om_OwnerReferences (pe_ObjectMeta pe') = om_OwnerReferences (pe_ObjectMeta pe) \<and>
         om_Finalizers (pe_ObjectMeta pe') = om_Finalizers (pe_ObjectMeta pe) \<and>
         \<not> pe_deleting pe'"
    and update_status_rejected:
      "ok w \<Longrightarrow> updateStatusProblemEnvironment k pe w = (Inl e, w') \<Longrightarrow>
         ok w' \<and> contents w' = contents w"
    and update_main_rejected:
      "ok w \<Longrightarrow> updateProblemEnvironment k pe w = (Inl e, w') \<Longrightarrow> ok w' \<and> contents w' = contents w"
    and delete_rejected:
      "ok w \<Longrightarrow> deleteProblemEnvironment k key w = (Some e, w') \<Longrightarrow> ok w' \<and> contents w' = contents w"
    and create_rejected:
      "ok w \<Longrightarrow> createProblemEnvironment k pe w = (Inl e, w') \<Longrightarrow> ok w' \<and> contents w' = contents w"
    and event_frame: "ok w \<Longrightarrow> ok (recordEvent k ev w) \<and> contents (recordEvent k ev w) = contents w"
    and problem_frame:
      "ok w \<Longrightarrow> updateStatusProblem k p w = (rp, w') \<Longrightarrow> ok w' \<and> contents w' = contents w"
    and config_map_frame:
      "ok w \<Longrightarrow> createConfigMap k cm w = (rc, w') \<Longrightarrow> ok w' \<and> contents w' = contents w"

text \<open>Writes of Workers and events leave the environments alone.\<close>

locale worker_writes =
  fixes k :: "'w kube"
    and contents :: "'w \<Rightarrow> ProblemEnvironment list"
    and ok :: "'w \<Rightarrow> bool"
  assumes update_worker_frame: "ok w \<Longrightarrow> updateWorker k wk w = (r, w') \<Longrightarrow> ok w' \<and> contents w' = contents w"
    and worker_status_frame: "ok w \<Longrightarrow> updateStatusWorker k wk w = (r, w') \<Longrightarrow> ok w' \<and> contents w' = contents w"
    and worker_event_frame: "ok w \<Longrightarrow> ok (recordEvent k ev w) \<and> contents (recordEvent k ev w) = contents w"

locale versioned_reads = kube_api +
  assumes get_version: "ok w \<Longrightarrow> getProblemEnvironment k w key = Inr pe \<Longrightarrow> cur \<in> set (contents w) \<Longrightarrow>
      pe_key cur = pe_key pe \<Longrightarrow> pe_rv cur = pe_rv pe \<Longrightarrow> pe = cur"
    and get_key: "ok w \<Longrightarrow> getProblemEnvironment k w key = Inr pe \<Longrightarrow> pe_key pe = key"
    and list_version: "ok w \<Longrightarrow> listProblemEnvironment k w opts = Inr pes \<Longrightarrow> pe \<in> set pes \<Longrightarrow>
      cur \<in> set (contents w) \<Longrightarrow> pe_key cur = pe_key pe \<Longrightarrow> pe_rv cur = pe_rv pe \<Longrightarrow> pe = cur"
    and list_matches: "ok w \<Longrightarrow> listProblemEnvironment k w opts = Inr pes \<Longrightarrow> pe \<in> set pes \<Longrightarrow>
      matches_options opts (pe_ObjectMeta pe)"

locale consistent_reads = kube_api +
  assumes get_reads: "ok w \<Longrightarrow> getProblemEnvironment k w key =
      (case store_find key (contents w) of None \<Rightarrow> Inl NotFound | Some pe \<Rightarrow> Inr pe)"
    and list_reads: "ok w \<Longrightarrow> listProblemEnvironment k w opts =
      Inr (filter (\<lambda>pe. matches_options opts (pe_ObjectMeta pe)) (contents w))"

locale reliable_api = consistent_reads +
  assumes update_status_succeeds:
      "ok w \<Longrightarrow> cur \<in> set (contents w) \<Longrightarrow> pe_key cur = pe_key pe \<Longrightarrow> pe_rv cur = pe_rv pe \<Longrightarrow>
         \<exists>pe' w'. updateStatusProblemEnvironment k pe w = (Inr pe', w')"
    and update_main_succeeds:
      "ok w \<Longrightarrow> cur \<in> set (contents w) \<Longrightarrow> pe_key cur = pe_key pe \<Longrightarrow> pe_rv cur = pe_rv pe \<Longrightarrow>
         ProblemEnvironment_ValidateUpdate pe cur = None \<Longrightarrow>
         \<exists>pe' w'. updateProblemEnvironment k pe w = (Inr pe', w')"
    and delete_succeeds:
      "ok w \<Longrightarrow> cur \<in> set (contents w) \<Longrightarrow>
         \<exists>w'. deleteProblemEnvironment k (pe_key cur) w = (None, w')"
    and create_succeeds:
      "ok w \<Longrightarrow> pe_Name pe = '''' \<Longrightarrow>
         \<exists>pe' w'. createProblemEnvironment k pe w = (Inr pe', w')"

section \<open>Facts about the abstract store\<close>

text \<open>
  One request changes the store by at most one object: \<open>store_step R\<close> says that the stored
  list is unchanged or one object was replaced (or dropped with its last finalizer) by an object
  of the same key related to it by \<open>R\<close>.
\<close>

definition store_step ::
    "(ProblemEnvironment \<Rightarrow> ProblemEnvironment \<Rightarrow> bool) \<Rightarrow>
     ProblemEnvironment list \<Rightarrow> ProblemEnvironment list \<Rightarrow> bool" where
  "store_step R pes pes' \<longleftrightarrow>
     pes' = pes \<or>
     (\<exists>cur \<in> set pes. \<exists>new. R cur new \<and> pe_key new = pe_key cur \<and> pes' = commit new pes)"

lemma store_step_refl [simp]: "store_step R pes pes"
  by (simp add: store_step_def)

lemma store_stepI:
  "cur \<in> set pes \<Longrightarrow> R cur new \<Longrightarrow> pe_key new = pe_key cur \<Longrightarrow> pes' = commit new pes \<Longrightarrow>
     store_step R pes pes'"
  unfolding store_step_def by blast

lemma store_step_mono: "store_step R pes pes' \<Longrightarrow> (\<And>a b. R a b \<Longrightarrow> S a b) \<Longrightarrow> store_step S pes pes'"
  unfolding store_step_def by blast


lemma store_find_Some_iff:
  "distinct (map pe_key pes) \<Longrightarrow>
     store_find key pes = Some pe \<longleftrightarrow> pe \<in> set pes \<and> pe_key pe = key"
  by (induction pes) (auto simp: store_find_def)

lemma distinct_keysD:
  "distinct (map pe_key pes) \<Longrightarrow> a \<in> set pes \<Longrightarrow> b \<in> set pes \<Longrightarrow> pe_key a = pe_key b \<Longrightarrow> a = b"
  by (auto simp: distinct_map inj_on_def)

lemma keys_store_put [simp]: "map pe_key (store_put pe pes) = map pe_key pes"
  by (induction pes) (auto simp: store_put_def)

lemma set_store_put:
  "cur \<in> set pes \<Longrightarrow> pe_key cur = pe_key pe \<Longrightarrow>
     set (store_put pe pes) = insert pe {q \<in> set pes. pe_key q \<noteq> pe_key pe}"
  by (force simp: store_put_def image_iff)

lemma with_status_simps [simp]:
  "pe_Spec (with_status req v cur) = pe_Spec cur"
  "pe_Conditions (with_status req v cur) = pe_Conditions req"
  "pe_Password (with_status req v cur) = pe_Password req"
  "pe_Containers (with_status req v cur) = omit_empty (pe_Containers req)"
  "pe_Name (with_status req v cur) = pe_Name cur"
  "pe_Namespace (with_status req v cur) = pe_Namespace cur"
  "pe_rv (with_status req v cur) = v"
  "om_Labels (pe_ObjectMeta (with_status req v cur)) = om_Labels (pe_ObjectMeta cur)"
  "om_Finalizers (pe_ObjectMeta (with_status req v cur)) = om_Finalizers (pe_ObjectMeta cur)"
  "om_DeletionTimestamp (pe_ObjectMeta (with_status req v cur)) =
     om_DeletionTimestamp (pe_ObjectMeta cur)"
  by (simp_all add: with_status_def)

lemma with_spec_simps [simp]:
  "pe_Spec (with_spec req v cur) = pe_Spec req"
  "pe_Status (with_spec req v cur) = pe_Status cur"
  "pe_Name (with_spec req v cur) = pe_Name cur"
  "pe_Namespace (with_spec req v cur) = pe_Namespace cur"
  "pe_rv (with_spec req v cur) = v"
  "om_Labels (pe_ObjectMeta (with_spec req v cur)) = om_Labels (pe_ObjectMeta req)"
  "om_Finalizers (pe_ObjectMeta (with_spec req v cur)) = om_Finalizers (pe_ObjectMeta req)"
  "om_DeletionTimestamp (pe_ObjectMeta (with_spec req v cur)) =
     om_DeletionTimestamp (pe_ObjectMeta cur)"
  by (simp_all add: with_spec_def)

lemma mark_deleted_simps [simp]:
  "pe_Spec (mark_deleted now v cur) = pe_Spec cur"
  "pe_Status (mark_deleted now v cur) = pe_Status cur"
  "pe_Name (mark_deleted now v cur) = pe_Name cur"
  "pe_Namespace (mark_deleted now v cur) = pe_Namespace cur"
  "om_Labels (pe_ObjectMeta (mark_deleted now v cur)) = om_Labels (pe_ObjectMeta cur)"
  "om_Finalizers (pe_ObjectMeta (mark_deleted now v cur)) = om_Finalizers (pe_ObjectMeta cur)"
  "pe_deleting (mark_deleted now v cur)"
  by (auto simp: mark_deleted_def)

lemma omit_empty_idem [simp]: "omit_empty (omit_empty cs) = omit_empty cs"
  by (simp add: omit_empty_def)

text \<open>
  \<open>current pe pes\<close>: if the store still holds the version of \<open>pe\<close>, it is \<open>pe\<close>. Every object
  read through the client is current at the time of the read.
\<close>

definition current :: "ProblemEnvironment \<Rightarrow> ProblemEnvironment list \<Rightarrow> bool" where
  "current pe pes \<longleftrightarrow> (\<forall>cur \<in> set pes. pe_key cur = pe_key pe \<and> pe_rv cur = pe_rv pe \<longrightarrow> cur = pe)"

lemma currentD:
  "current pe pes \<Longrightarrow> cur \<in> set pes \<Longrightarrow> pe_key cur = pe_key pe \<Longrightarrow> pe_rv cur = pe_rv pe \<Longrightarrow> cur = pe"
  by (auto simp: current_def)

lemma set_commit: "set (commit new pes) \<subseteq> insert new (set pes)"
  by (auto simp: commit_def store_put_def store_drop_def)

lemma commit_keeps: "q \<in> set pes \<Longrightarrow> pe_key q \<noteq> pe_key new \<Longrightarrow> q \<in> set (commit new pes)"
  by (auto simp: commit_def store_put_def store_drop_def image_iff)

lemma store_step_set:
  "store_step R pes pes' \<Longrightarrow> pe \<in> set pes' \<Longrightarrow>
     pe \<in> set pes \<or> (\<exists>cur \<in> set pes. R cur pe \<and> pe_key pe = pe_key cur)"
  using set_commit by (fastforce simp: store_step_def)

context kube_api
begin

lemma status_commit:
  assumes "ok w" and "cur \<in> set (contents w)"
  shows "commit (with_status pe v cur) (contents w) = store_put (with_status pe v cur) (contents w)"
  using live_objects [OF assms] by (auto simp: commit_def)

lemma update_status_step:
  assumes "ok w" and "updateStatusProblemEnvironment k pe w = (r, w')"
    and "\<And>cur v. cur \<in> set (contents w) \<Longrightarrow> pe_key cur = pe_key pe \<Longrightarrow> pe_rv cur = pe_rv pe \<Longrightarrow>
           R cur (with_status pe v cur)"
  shows "ok w' \<and> store_step R (contents w) (contents w')"
proof (cases r)
  case (Inl e)
  with assms update_status_rejected show ?thesis by fastforce
next
  case (Inr pe')
  with assms(2) have eq: "updateStatusProblemEnvironment k pe w = (Inr pe', w')" by simp
  from update_status [OF assms(1) eq] obtain cur v where
    st: "ok w'" "cur \<in> set (contents w)" "pe_key cur = pe_key pe" "pe_rv cur = pe_rv pe"
    "pe' = with_status pe v cur" "contents w' = store_put pe' (contents w)"
    by blast
  have "R cur pe'"
    unfolding st(5) by (rule assms(3) [OF st(2-4)])
  then show ?thesis
    using st status_commit [OF assms(1) st(2)] by (auto intro: store_stepI)
qed

lemma update_main_step:
  assumes "ok w" and "updateProblemEnvironment k pe w = (r, w')"
    and "\<And>cur v. cur \<in> set (contents w) \<Longrightarrow> pe_key cur = pe_key pe \<Longrightarrow> pe_rv cur = pe_rv pe \<Longrightarrow>
           ProblemEnvironment_ValidateUpdate pe cur = None \<Longrightarrow> R cur (with_spec pe v cur)"
  shows "ok w' \<and> store_step R (contents w) (contents w')"
proof (cases r)
  case (Inl e)
  with assms update_main_rejected show ?thesis by fastforce
next
  case (Inr pe')
  with assms(2) have eq: "updateProblemEnvironment k pe w = (Inr pe', w')" by simp
  from update_main [OF assms(1) eq] obtain cur v where
    st: "ok w'" "cur \<in> set (contents w)" "pe_key cur = pe_key pe" "pe_rv cur = pe_rv pe"
    "ProblemEnvironment_ValidateUpdate pe cur = None"
    "pe' = with_spec pe v cur" "contents w' = commit pe' (contents w)"
    by blast
  have "R cur pe'"
    unfolding st(6) by (rule assms(3) [OF st(2-5)])
  then show ?thesis
    using st by (auto intro: store_stepI)
qed

lemma delete_step:
  assumes "ok w" and "deleteProblemEnvironment k key w = (r, w')"
    and "\<And>cur now v. cur \<in> set (contents w) \<Longrightarrow> pe_key cur = key \<Longrightarrow> R cur (mark_deleted now v cur)"
  shows "ok w' \<and> store_step R (contents w) (contents w')"
proof (cases r)
  case None
  with assms(2) have eq: "deleteProblemEnvironment k key w = (None, w')" by simp
  from delete_main [OF assms(1) eq] obtain cur now v where
    st: "ok w'" "cur \<in> set (contents w)" "pe_key cur = key"
    "contents w' = commit (mark_deleted now v cur) (contents w)"
    by blast
  have "R cur (mark_deleted now v cur)"
    by (rule assms(3) [OF st(2-3)])
  then show ?thesis
    using st by (auto intro: store_stepI)
next
  case (Some e)
  with assms delete_rejected show ?thesis by fastforce
qed

end

context versioned_reads
begin

lemma get_current: "ok w \<Longrightarrow> getProblemEnvironment k w key = Inr pe \<Longrightarrow> current pe (contents w)"
  unfolding current_def using get_version by blast

lemma list_current:
  "ok w \<Longrightarrow> listProblemEnvironment k w opts = Inr pes \<Longrightarrow> pe \<in> set pes \<Longrightarrow> current pe (contents w)"
  unfolding current_def using list_version by blast

end

context kube_api
begin

lemma update_status_current:
  assumes "ok w" and "updateStatusProblemEnvironment k req w = (r, w')"
    and "current pe (contents w)" and "pe_key req = pe_key pe" and "pe_rv req = pe_rv pe"
    and "\<And>v. R pe (with_status req v pe)"
  shows "ok w' \<and> store_step R (contents w) (contents w')"
  using assms(1,2)
proof (rule update_status_step)
  fix cur v
  assume "cur \<in> set (contents w)" "pe_key cur = pe_key req" "pe_rv cur = pe_rv req"
  then have "cur = pe" using currentD [OF assms(3)] assms(4,5) by simp
  then show "R cur (with_status req v cur)" using assms(6) by simp
qed

lemma update_main_current:
  assumes "ok w" and "updateProblemEnvironment k req w = (r, w')"
    and "current pe (contents w)" and "pe_key req = pe_key pe" and "pe_rv req = pe_rv pe"
    and "\<And>v. ProblemEnvironment_ValidateUpdate req pe = None \<Longrightarrow> R pe (with_spec req v pe)"
  shows "ok w' \<and> store_step R (contents w) (contents w')"
  using assms(1,2)
proof (rule update_main_step)
  fix cur v
  assume a: "cur \<in> set (contents w)" "pe_key cur = pe_key req" "pe_rv cur = pe_rv req"
    and val: "ProblemEnvironment_ValidateUpdate req cur = None"
  then have "cur = pe" using currentD [OF assms(3)] assms(4,5) by simp
  then show "R cur (with_spec req v cur)" using val assms(6) by simp
qed

end

text \<open>Reads that return what is stored are versioned reads.\<close>

sublocale consistent_reads \<subseteq> versioned_reads
proof (unfold_locales, goal_cases)
  case (1 w key pe cur)
  then have "pe \<in> set (contents w)"
    using store_find_Some_iff [OF distinct_keys] by (auto simp: get_reads split: option.splits)
  with 1 show ?case
    using distinct_keysD [OF distinct_keys] by blast
next
  case (2 w key pe)
  then show ?case
    using store_find_Some_iff [OF distinct_keys] by (auto simp: get_reads split: option.splits)
next
  case (3 w opts pes pe cur)
  then show ?case
    using distinct_keysD [OF distinct_keys] by (auto simp: list_reads)
next
  case (4 w opts pes pe)
  then show ?case
    by (auto simp: list_reads)
qed

context consistent_reads
begin

lemma versioned: "versioned_reads k contents ok"
  by unfold_locales

lemma stored_get:
  "ok w \<Longrightarrow> cur \<in> set (contents w) \<Longrightarrow> getProblemEnvironment k w (pe_key cur) = Inr cur"
  using store_find_Some_iff [OF distinct_keys, of w "pe_key cur" cur] by (simp add: get_reads)

end

lemma matches_options_cong:
  "om_Labels m = om_Labels m' \<Longrightarrow> om_Namespace m = om_Namespace m' \<Longrightarrow>
     matches_options opts m = matches_options opts m'"
  by (simp add: matches_options_def split: option.splits)

end
