(* ===== verification/Password.thy ===== *)
theory Password
  imports Prelude
begin

text \<open>
  \<^verbatim>\<open>pkg/crypto/password.go\<close>. The source of randomness \<^verbatim>\<open>rand.Int(rand.Reader, n)\<close> is
  a parameter: \<open>rnd i n\<close> is the outcome of the \<open>i\<close>-th draw below \<open>n\<close>.
\<close>

definition password_chars :: string where
  "password_chars = ''ABCDEFGHIJKLMNOPQRSTUVWXYZabcdefghijklmnopqrstuvwxyz0123456789''"

text \<open>The loop from index \<open>i\<close> with \<open>n\<close> characters left to draw.\<close>

fun password_loop :: "(nat \<Rightarrow> nat \<Rightarrow> nat or_error) \<Rightarrow> nat \<Rightarrow> nat \<Rightarrow> string or_error" where
  "password_loop rnd i 0 = Inr []"
| "password_loop rnd i (Suc n) =
     (case rnd i (length password_chars) of
        Inl e \<Rightarrow> Inl e
      | Inr idx \<Rightarrow>
          (case password_loop rnd (Suc i) n of
             Inl e \<Rightarrow> Inl e
           | Inr buf \<Rightarrow> Inr (password_chars ! idx # buf)))"

definition GeneratePassword :: "(nat \<Rightarrow> nat \<Rightarrow> nat or_error) \<Rightarrow> int \<Rightarrow> string or_error" where
  "GeneratePassword rnd len =
     (if len < 0 then Inl (Errorf ''invalid length'') else password_loop rnd 0 (nat len))"

definition DEFAULT_PASSWORD_LENGTH :: int where
  "DEFAULT_PASSWORD_LENGTH = 24"

text \<open>The documented contract of \<^verbatim>\<open>crypto/rand.Int\<close>: a value in \<open>[0, max)\<close>.\<close>

definition rand_in_range :: "(nat \<Rightarrow> nat \<Rightarrow> nat or_error) \<Rightarrow> bool" where
  "rand_in_range rnd \<longleftrightarrow> (\<forall>i n v. rnd i n = Inr v \<longrightarrow> v < n)"

definition alnum_string :: "string \<Rightarrow> bool" where
  "alnum_string s = list_all (\<lambda>c. c \<in> set password_chars) s"

lemma length_password_chars: "length password_chars = 62"
  by (simp add: password_chars_def)

lemma distinct_password_chars: "distinct password_chars"
  by (simp add: password_chars_def)

lemma password_loop_draws:
  assumes "\<And>j. j < n \<Longrightarrow> rnd (i + j) 62 = Inr (d (i + j))"
  shows "password_loop rnd i n = Inr (map (\<lambda>j. password_chars ! d (i + j)) [0..<n])"
  using assms
proof (induction n arbitrary: i)
  case 0
  then show ?case by simp
next
  case (Suc n)
  have "rnd i 62 = Inr (d i)"
    using Suc.prems [of 0] by simp
  moreover have "password_loop rnd (Suc i) n = Inr (map (\<lambda>j. password_chars ! d (Suc i + j)) [0..<n])"
    using Suc.prems [of "Suc _"] by (intro Suc.IH) simp
  ultimately show ?case
    by (simp add: length_password_chars map_upt_Suc del: upt_Suc)
qed

lemma password_loop_sound:
  "rand_in_range rnd \<Longrightarrow> password_loop rnd i n = Inr s \<Longrightarrow> length s = n \<and> alnum_string s"
  by (induction n arbitrary: i s)
    (auto simp: alnum_string_def rand_in_range_def split: sum.splits)

lemma GeneratePassword_sound:
  "rand_in_range rnd \<Longrightarrow> GeneratePassword rnd len = Inr s \<Longrightarrow>
     int (length s) = len \<and> alnum_string s"
  by (auto simp: GeneratePassword_def dest: password_loop_sound split: if_splits)

lemma GeneratePassword_total:
  assumes "\<And>n i. 0 < n \<Longrightarrow> \<exists>v. rnd i n = Inr v" "0 \<le> len"
  shows "\<exists>pw. GeneratePassword rnd len = Inr pw"
proof -
  have "\<exists>pw. password_loop rnd i n = Inr pw" for i n
  proof (induction n arbitrary: i)
    case (Suc n)
    then show ?case
      using assms(1) [of "length password_chars" i] length_password_chars
      by (metis (no_types) password_loop.simps(2) sum.case(2) zero_less_numeral)
  qed simp
  then show ?thesis
    using assms(2) by (simp add: GeneratePassword_def)
qed

section \<open>Properties\<close>

lemma GeneratePassword_draws:
  "GeneratePassword (\<lambda>i _. Inr (ds ! i)) (int (length ds)) = Inr (map (\<lambda>d. password_chars ! d) ds)"
proof -
  have "map (\<lambda>j. password_chars ! (ds ! j)) [0..<length ds] = map (\<lambda>d. password_chars ! d) ds"
    by (rule nth_equalityI) simp_all
  then show ?thesis
    using password_loop_draws [of "length ds" "\<lambda>i _. Inr (ds ! i)" 0 "\<lambda>i. ds ! i"]
    by (simp add: GeneratePassword_def)
qed

lemma password_chars_bij: "bij_betw (\<lambda>d. password_chars ! d) {..<62} (set password_chars)"
  using distinct_password_chars length_password_chars
  by (auto simp: bij_betw_def inj_on_def nth_eq_iff_index_eq in_set_conv_nth)

lemma bij_betw_map_lists:
  assumes "bij_betw f A B"
  shows "bij_betw (map f) {xs. length xs = n \<and> set xs \<subseteq> A} {ys. length ys = n \<and> set ys \<subseteq> B}"
proof -
  have "bij_betw (map f) (lists A) (lists B)"
    using assms by (rule bij_lists)
  then have inj: "inj_on (map f) (lists A)" and img: "map f ` lists A = lists B"
    by (simp_all add: bij_betw_def)
  have "map f ` {xs. length xs = n \<and> set xs \<subseteq> A} = {ys. length ys = n \<and> set ys \<subseteq> B}"
  proof (intro equalityI subsetI)
    fix ys assume ys: "ys \<in> {ys. length ys = n \<and> set ys \<subseteq> B}"
    then have "ys \<in> map f ` lists A"
      unfolding img by (simp add: in_lists_conv_set subset_iff)
    then obtain xs where "ys = map f xs" "xs \<in> lists A" by blast
    with ys show "ys \<in> map f ` {xs. length xs = n \<and> set xs \<subseteq> A}"
      by (auto simp: in_lists_conv_set intro!: image_eqI [of _ _ xs])
  next
    fix ys assume "ys \<in> map f ` {xs. length xs = n \<and> set xs \<subseteq> A}"
    then obtain xs where "ys = map f xs" "length xs = n" "set xs \<subseteq> A" by blast
    then show "ys \<in> {ys. length ys = n \<and> set ys \<subseteq> B}"
      using assms by (auto simp: bij_betw_def)
  qed
  moreover have "inj_on (map f) {xs. length xs = n \<and> set xs \<subseteq> A}"
    by (rule inj_on_subset [OF inj]) (auto simp: in_lists_conv_set)
  ultimately show ?thesis
    by (simp add: bij_betw_def)
qed


end
