(* ===== verification/Lifecycle.thy ===== *)
theory Lifecycle
  imports Kube_Client Password
begin

text \<open>
  The abstract protocol the components of the subsystem run on one ProblemEnvironment. Its state
  is what the components tell each other through the object (\<open>phase\<close>); its steps are what each
  component may do. Every handler that writes ProblemEnvironments is proved to refine a step of
  this machine, in the theory of the handler; the invariants proved here then hold of every stored
  object, whatever the interleaving.
\<close>

definition ProblemEnvironmentFinalizer :: string where
  "ProblemEnvironmentFinalizer = ''problemenvironment.netcon.janog.gr.jp''"

record phase =
  ph_worker :: string
  ph_scheduled :: ConditionStatus
  ph_deployed :: ConditionStatus
  ph_ready :: ConditionStatus
  ph_assigned :: ConditionStatus
  ph_containers :: "ContainerStatus list option"
  ph_password :: string
  ph_finalizer :: bool
  ph_deleting :: bool

definition phase_of :: "ProblemEnvironment \<Rightarrow> phase" where
  "phase_of pe =
     \<lparr>ph_worker = pe_WorkerName pe,
      ph_scheduled = GetProblemEnvironmentCondition pe ProblemEnvironmentConditionScheduled,
      ph_deployed = GetProblemEnvironmentCondition pe ProblemEnvironmentConditionDeployed,
      ph_ready = GetProblemEnvironmentCondition pe ProblemEnvironmentConditionReady,
      ph_assigned = GetProblemEnvironmentCondition pe ProblemEnvironmentConditionAssigned,
      ph_containers = omit_empty (pe_Containers pe),
      ph_password = pe_Password pe,
      ph_finalizer = (ProblemEnvironmentFinalizer \<in> set (om_Finalizers (pe_ObjectMeta pe))),
      ph_deleting = pe_deleting pe\<rparr>"

definition good_password :: "string \<Rightarrow> bool" where
  "good_password s \<longleftrightarrow> length s = 24 \<and> alnum_string s"

definition all_ready :: "ContainerStatus list option \<Rightarrow> bool" where
  "all_ready cs = (case cs of None \<Rightarrow> False | Some l \<Rightarrow> l \<noteq> [] \<and> list_all cs_Ready l)"

lemma all_ready_omit_empty [simp]: "all_ready (omit_empty cs) = all_ready cs"
  by (auto simp: all_ready_def omit_empty_def)

text \<open>
  Steps of the controller manager (\<open>bind\<close> to \<open>not_ready\<close>), of nclet (\<open>protect\<close> to
  \<open>unprotect\<close>), of the gateway and the operators (\<open>assign\<close>, \<open>unassign\<close>,
  \<open>delete\<close>).
\<close>

inductive lifecycle :: "phase \<Rightarrow> phase \<Rightarrow> bool" where
  bind: "ph_scheduled p \<noteq> ConditionTrue \<Longrightarrow> ph_worker p = '''' \<Longrightarrow> \<not> ph_deleting p \<Longrightarrow> n \<noteq> '''' \<Longrightarrow>
    lifecycle p (p\<lparr>ph_worker := n\<rparr>)"
| not_scheduled: "ph_scheduled p \<noteq> ConditionTrue \<Longrightarrow> \<not> ph_deleting p \<Longrightarrow>
    lifecycle p (p\<lparr>ph_scheduled := ConditionFalse\<rparr>)"
| confirm: "ph_scheduled p \<noteq> ConditionTrue \<Longrightarrow> ph_worker p \<noteq> '''' \<Longrightarrow> \<not> ph_deleting p \<Longrightarrow>
    good_password pw \<Longrightarrow>
    lifecycle p (p\<lparr>ph_scheduled := ConditionTrue, ph_deployed := ConditionFalse,
      ph_ready := ConditionFalse, ph_assigned := ConditionFalse, ph_password := pw\<rparr>)"
| ready: "ph_scheduled p = ConditionTrue \<Longrightarrow> \<not> ph_deleting p \<Longrightarrow> all_ready (ph_containers p) \<Longrightarrow>
    lifecycle p (p\<lparr>ph_ready := ConditionTrue\<rparr>)"
| not_ready: "ph_scheduled p = ConditionTrue \<Longrightarrow> \<not> ph_deleting p \<Longrightarrow> \<not> all_ready (ph_containers p) \<Longrightarrow>
    lifecycle p (p\<lparr>ph_ready := ConditionFalse\<rparr>)"
| protect: "ph_scheduled p = ConditionTrue \<Longrightarrow> \<not> ph_deleting p \<Longrightarrow> \<not> ph_finalizer p \<Longrightarrow>
    lifecycle p (p\<lparr>ph_finalizer := True\<rparr>)"
| report: "ph_scheduled p = ConditionTrue \<Longrightarrow> \<not> ph_deleting p \<Longrightarrow> ph_finalizer p \<Longrightarrow>
    d = ph_deployed p \<or> d = ConditionTrue \<Longrightarrow>
    lifecycle p (p\<lparr>ph_deployed := d, ph_containers := cs\<rparr>)"
| destroy_failed: "ph_scheduled p = ConditionTrue \<Longrightarrow> ph_deleting p \<Longrightarrow> ph_finalizer p \<Longrightarrow>
    lifecycle p (p\<lparr>ph_ready := ConditionFalse\<rparr>)"
| unprotect: "ph_scheduled p = ConditionTrue \<Longrightarrow> ph_deleting p \<Longrightarrow> ph_finalizer p \<Longrightarrow>
    lifecycle p (p\<lparr>ph_finalizer := False\<rparr>)"
| assign: "ph_ready p = ConditionTrue \<Longrightarrow> ph_assigned p = ConditionFalse \<Longrightarrow>
    lifecycle p (p\<lparr>ph_assigned := ConditionTrue\<rparr>)"
| unassign: "ph_assigned p = ConditionTrue \<Longrightarrow>
    lifecycle p (p\<lparr>ph_assigned := ConditionFalse\<rparr>)"
| delete: "lifecycle p (p\<lparr>ph_deleting := True\<rparr>)"

inductive_cases lifecycleE: "lifecycle p q"

text \<open>The phase of a new object: nothing but its spec is set.\<close>

definition fresh_phase :: "phase \<Rightarrow> bool" where
  "fresh_phase p \<longleftrightarrow>
     ph_scheduled p = ConditionUnknown \<and> ph_deployed p = ConditionUnknown \<and>
     ph_ready p = ConditionUnknown \<and> ph_assigned p = ConditionUnknown \<and>
     ph_containers p = None \<and> ph_password p = '''' \<and> \<not> ph_finalizer p \<and> \<not> ph_deleting p"

inductive reachable_phase :: "phase \<Rightarrow> bool" where
  fresh: "fresh_phase p \<Longrightarrow> reachable_phase p"
| step: "reachable_phase p \<Longrightarrow> lifecycle p q \<Longrightarrow> reachable_phase q"

section \<open>Invariants of the protocol\<close>

definition phase_inv :: "phase \<Rightarrow> bool" where
  "phase_inv p \<longleftrightarrow>
     (ph_scheduled p \<noteq> ConditionTrue \<longrightarrow>
        ph_deployed p = ConditionUnknown \<and> ph_ready p = ConditionUnknown \<and>
        ph_assigned p = ConditionUnknown \<and> ph_containers p = None \<and> ph_password p = '''' \<and>
        \<not> ph_finalizer p) \<and>
     (ph_scheduled p = ConditionTrue \<longrightarrow> ph_worker p \<noteq> '''' \<and> good_password (ph_password p)) \<and>
     (\<not> ph_deleting p \<and> (ph_deployed p = ConditionTrue \<or> ph_containers p \<noteq> None) \<longrightarrow>
        ph_finalizer p)"

lemma phase_inv_fresh: "fresh_phase p \<Longrightarrow> phase_inv p"
  by (simp add: fresh_phase_def phase_inv_def)

lemma phase_inv_step: "lifecycle p q \<Longrightarrow> phase_inv p \<Longrightarrow> phase_inv q"
  by (induction rule: lifecycle.induct) (auto simp: phase_inv_def)

lemma phase_inv_reachable: "reachable_phase p \<Longrightarrow> phase_inv p"
  by (induction rule: reachable_phase.induct) (auto intro: phase_inv_fresh phase_inv_step)

text \<open>What never changes once it is set.\<close>

lemma lifecycle_sticky:
  assumes "lifecycle p q"
  shows "ph_worker p \<noteq> '''' \<Longrightarrow> ph_worker q = ph_worker p"
    and "ph_scheduled p = ConditionTrue \<Longrightarrow> ph_scheduled q = ConditionTrue \<and> ph_password q = ph_password p"
    and "ph_deleting p \<Longrightarrow> ph_deleting q"
    and "ph_deployed p = ConditionTrue \<Longrightarrow> ph_scheduled p = ConditionTrue \<Longrightarrow> ph_deployed q = ConditionTrue"
  using assms by (induction rule: lifecycle.induct) auto

section \<open>Phases of written objects\<close>

lemma phase_of_simps [simp]:
  "ph_worker (phase_of pe) = pe_WorkerName pe"
  "ph_scheduled (phase_of pe) = GetProblemEnvironmentCondition pe ProblemEnvironmentConditionScheduled"
  "ph_deployed (phase_of pe) = GetProblemEnvironmentCondition pe ProblemEnvironmentConditionDeployed"
  "ph_ready (phase_of pe) = GetProblemEnvironmentCondition pe ProblemEnvironmentConditionReady"
  "ph_assigned (phase_of pe) = GetProblemEnvironmentCondition pe ProblemEnvironmentConditionAssigned"
  "ph_containers (phase_of pe) = omit_empty (pe_Containers pe)"
  "ph_password (phase_of pe) = pe_Password pe"
  "ph_finalizer (phase_of pe) = (ProblemEnvironmentFinalizer \<in> set (om_Finalizers (pe_ObjectMeta pe)))"
  "ph_deleting (phase_of pe) = pe_deleting pe"
  by (simp_all add: phase_of_def)

lemma Get_with_status [simp]:
  "GetProblemEnvironmentCondition (with_status req v cur) t = GetProblemEnvironmentCondition req t"
  by (rule GetProblemEnvironmentCondition_cong) simp

lemma Get_with_spec [simp]:
  "GetProblemEnvironmentCondition (with_spec req v cur) t = GetProblemEnvironmentCondition cur t"
  by (rule GetProblemEnvironmentCondition_cong) simp

lemma Get_mark_deleted [simp]:
  "GetProblemEnvironmentCondition (mark_deleted now v cur) t = GetProblemEnvironmentCondition cur t"
  by (rule GetProblemEnvironmentCondition_cong) simp

lemma phase_mark_deleted: "phase_of (mark_deleted now v cur) = (phase_of cur)\<lparr>ph_deleting := True\<rparr>"
  using mark_deleted_simps [of now v cur] by (intro phase.equality) (simp_all del: mark_deleted_simps(7))

lemma delete_refines: "lifecycle (phase_of cur) (phase_of (mark_deleted now v cur))"
  by (simp add: phase_mark_deleted lifecycle.delete)

abbreviation protocol_step :: "ProblemEnvironment \<Rightarrow> ProblemEnvironment \<Rightarrow> bool" where
  "protocol_step cur new \<equiv> lifecycle (phase_of cur) (phase_of new)"

section \<open>Steps of the whole store\<close>

text \<open>
  What one request may do to the stored environments: a step of the protocol on one of them, or
  the creation of a fresh one. The invariant of the protocol is kept for all of them.
\<close>

definition world_step :: "ProblemEnvironment list \<Rightarrow> ProblemEnvironment list \<Rightarrow> bool" where
  "world_step pes pes' \<longleftrightarrow>
     store_step protocol_step pes pes' \<or>
     (\<exists>xs ys new. pes = xs @ ys \<and> pes' = xs @ new # ys \<and> fresh_phase (phase_of new))"

definition store_inv :: "ProblemEnvironment list \<Rightarrow> bool" where
  "store_inv pes \<longleftrightarrow> (\<forall>pe \<in> set pes. phase_inv (phase_of pe))"

lemma world_step_refl [simp]: "world_step pes pes"
  by (simp add: world_step_def)

lemma store_inv_step: "world_step pes pes' \<Longrightarrow> store_inv pes \<Longrightarrow> store_inv pes'"
proof -
  assume st: "world_step pes pes'" and inv: "store_inv pes"
  have "phase_inv (phase_of pe)" if "store_step protocol_step pes pes'" "pe \<in> set pes'" for pe
    using store_step_set [OF that] inv phase_inv_step unfolding store_inv_def by blast
  then show "store_inv pes'"
    using st inv phase_inv_fresh unfolding world_step_def store_inv_def by fastforce
qed

lemma store_inv_steps: "world_step\<^sup>*\<^sup>* pes pes' \<Longrightarrow> store_inv pes \<Longrightarrow> store_inv pes'"
  by (induction rule: rtranclp_induct) (auto intro: store_inv_step)

lemma store_step_world: "store_step protocol_step pes pes' \<Longrightarrow> world_step pes pes'"
  by (simp add: world_step_def)

end
