(* ===== verification/Kube_Store.thy ===== *)
theory Kube_Store
  imports Kube_Client
begin

text \<open>
  An in-memory API server: a concrete client that satisfies every law of \<open>kube_api\<close>,
  \<open>consistent_reads\<close> and \<open>reliable_api\<close>. It shows that the laws can hold together and is
  what witnesses run on. It stands for no code of the repository.
\<close>

record kmem =
  km_pes :: "ProblemEnvironment list"
  km_problems :: "Problem list"
  km_workers :: "Worker list"
  km_leases :: "Lease list"
  km_configmaps :: "ConfigMap list"
  km_events :: "Event list"
  km_rev :: nat
  km_now :: time

definition kmem0 :: kmem where
  "kmem0 = \<lparr>km_pes = [], km_problems = [], km_workers = [], km_leases = [], km_configmaps = [],
            km_events = [], km_rev = 0, km_now = 0\<rparr>"

definition lookup_obj :: "('o \<Rightarrow> 'k) \<Rightarrow> 'k \<Rightarrow> 'o list \<Rightarrow> 'o or_error" where
  "lookup_obj key x os = (case find (\<lambda>ob. key ob = x) os of None \<Rightarrow> Inl NotFound | Some ob \<Rightarrow> Inr ob)"

definition put_obj :: "('o \<Rightarrow> 'k) \<Rightarrow> 'o \<Rightarrow> 'o list \<Rightarrow> 'o list" where
  "put_obj key ob os = map (\<lambda>cur. if key cur = key ob then ob else cur) os"

text \<open>A name suffix longer than every stored name, hence new.\<close>

definition fresh_suffix :: "ProblemEnvironment list \<Rightarrow> string" where
  "fresh_suffix pes = replicate (Suc (sum_list (map (\<lambda>pe. length (pe_Name pe)) pes))) (CHR ''x'')"

definition mem_create :: "ProblemEnvironment \<Rightarrow> kmem \<Rightarrow> ProblemEnvironment or_error \<times> kmem" where
  "mem_create pe w =
     (let name = (if pe_Name pe = '''' then om_GenerateName (pe_ObjectMeta pe) @ fresh_suffix (km_pes w)
                  else pe_Name pe);
          new = pe\<lparr>pe_Status := pe_Status ProblemEnvironment0,
                   pe_ObjectMeta := (pe_ObjectMeta pe)\<lparr>om_Name := name, om_ResourceVersion := Suc (km_rev w),
                     om_Generation := 1, om_CreationTimestamp := Some (km_now w),
                     om_DeletionTimestamp := None\<rparr>\<rparr>
      in if store_find (pe_Namespace pe, name) (km_pes w) \<noteq> None then (Inl AlreadyExists, w)
         else (Inr new, w\<lparr>km_pes := km_pes w @ [new], km_rev := Suc (km_rev w)\<rparr>))"

definition mem_write ::
    "(nat \<Rightarrow> ProblemEnvironment \<Rightarrow> ProblemEnvironment or_error) \<Rightarrow> ProblemEnvironment \<Rightarrow> kmem \<Rightarrow>
     ProblemEnvironment or_error \<times> kmem" where
  "mem_write change pe w =
     (case store_find (pe_key pe) (km_pes w) of
        None \<Rightarrow> (Inl NotFound, w)
      | Some cur \<Rightarrow>
          if pe_rv cur \<noteq> pe_rv pe then (Inl Conflict, w)
          else (case change (Suc (km_rev w)) cur of
                  Inl e \<Rightarrow> (Inl e, w)
                | Inr new \<Rightarrow> (Inr new, w\<lparr>km_pes := commit new (km_pes w), km_rev := Suc (km_rev w)\<rparr>)))"

definition mem_update_status :: "ProblemEnvironment \<Rightarrow> kmem \<Rightarrow> ProblemEnvironment or_error \<times> kmem" where
  "mem_update_status pe = mem_write (\<lambda>v cur. Inr (with_status pe v cur)) pe"

definition mem_update :: "ProblemEnvironment \<Rightarrow> kmem \<Rightarrow> ProblemEnvironment or_error \<times> kmem" where
  "mem_update pe =
     mem_write (\<lambda>v cur. case ProblemEnvironment_ValidateUpdate pe cur of
       Some e \<Rightarrow> Inl e | None \<Rightarrow> Inr (with_spec pe v cur)) pe"

definition mem_delete :: "NamespacedName \<Rightarrow> kmem \<Rightarrow> error option \<times> kmem" where
  "mem_delete key w =
     (case store_find key (km_pes w) of
        None \<Rightarrow> (Some NotFound, w)
      | Some cur \<Rightarrow>
          (None, w\<lparr>km_pes := commit (mark_deleted (km_now w) (Suc (km_rev w)) cur) (km_pes w),
                   km_rev := Suc (km_rev w)\<rparr>))"

definition mem_client :: "kmem kube" where
  "mem_client =
     \<lparr>getProblemEnvironment = (\<lambda>w key. lookup_obj (\<lambda>pe. pe_key pe) key (km_pes w)),
      listProblemEnvironment = (\<lambda>w opts. Inr (filter (\<lambda>pe. matches_options opts (pe_ObjectMeta pe)) (km_pes w))),
      createProblemEnvironment = mem_create,
      updateProblemEnvironment = mem_update,
      updateStatusProblemEnvironment = mem_update_status,
      deleteProblemEnvironment = mem_delete,
      getProblem = (\<lambda>w key. lookup_obj (\<lambda>p. (pr_Namespace p, pr_Name p)) key (km_problems w)),
      listProblem = (\<lambda>w opts. Inr (filter (\<lambda>p. matches_options opts (pr_ObjectMeta p)) (km_problems w))),
      updateStatusProblem = (\<lambda>p w. (Inr p, w\<lparr>km_problems := put_obj (\<lambda>p. (pr_Namespace p, pr_Name p)) p (km_problems w)\<rparr>)),
      getWorker = (\<lambda>w n. lookup_obj (\<lambda>wk. wk_Name wk) n (km_workers w)),
      listWorker = (\<lambda>w opts. Inr (filter (\<lambda>wk. matches_options opts (wk_ObjectMeta wk)) (km_workers w))),
      createWorker = (\<lambda>wk w. (Inr wk, w\<lparr>km_workers := km_workers w @ [wk]\<rparr>)),
      updateWorker = (\<lambda>wk w. (Inr wk, w\<lparr>km_workers := put_obj (\<lambda>wk. wk_Name wk) wk (km_workers w)\<rparr>)),
      updateStatusWorker = (\<lambda>wk w. (Inr wk, w\<lparr>km_workers := put_obj (\<lambda>wk. wk_Name wk) wk (km_workers w)\<rparr>)),
      getLease = (\<lambda>w key. lookup_obj (\<lambda>l. (le_Namespace l, le_Name l)) key (km_leases w)),
      createLease = (\<lambda>l w. (Inr l, w\<lparr>km_leases := km_leases w @ [l]\<rparr>)),
      updateLease = (\<lambda>l w. (Inr l, w\<lparr>km_leases := put_obj (\<lambda>l. (le_Namespace l, le_Name l)) l (km_leases w)\<rparr>)),
      getConfigMap = (\<lambda>w key. lookup_obj (\<lambda>c. (cm_Namespace c, cm_Name c)) key (km_configmaps w)),
      listConfigMap = (\<lambda>w opts. Inr (filter (\<lambda>c. case lo_InNamespace opts of None \<Rightarrow> True | Some ns \<Rightarrow> cm_Namespace c = ns) (km_configmaps w))),
      createConfigMap = (\<lambda>c w. (Inr c, w\<lparr>km_configmaps := km_configmaps w @ [c]\<rparr>)),
      recordEvent = (\<lambda>e w. w\<lparr>km_events := km_events w @ [e]\<rparr>)\<rparr>"

section \<open>The laws hold\<close>

definition mem_ok :: "kmem \<Rightarrow> bool" where
  "mem_ok w =
     (distinct (map pe_key (km_pes w)) \<and>
      list_all (\<lambda>pe. pe_rv pe \<le> km_rev w) (km_pes w) \<and>
      list_all (\<lambda>pe. pe_deleting pe \<longrightarrow> om_Finalizers (pe_ObjectMeta pe) \<noteq> []) (km_pes w))"

lemma mem_ok_commit:
  assumes ok: "mem_ok w" and cur: "cur \<in> set (km_pes w)" and key: "pe_key new = pe_key cur"
    and rv: "pe_rv new \<le> Suc (km_rev w)"
  shows "mem_ok (w\<lparr>km_pes := commit new (km_pes w), km_rev := Suc (km_rev w)\<rparr>)"
proof (cases "pe_deleting new \<and> om_Finalizers (pe_ObjectMeta new) = []")
  case True
  with ok show ?thesis
    by (auto simp: mem_ok_def commit_def store_drop_def list_all_iff distinct_map_filter)
next
  case False
  have "set (store_put new (km_pes w)) = insert new {q \<in> set (km_pes w). pe_key q \<noteq> pe_key new}"
    by (rule set_store_put [OF cur key [symmetric]])
  moreover have "distinct (map pe_key (store_put new (km_pes w)))"
    using ok by (simp only: keys_store_put mem_ok_def)
  moreover have "commit new (km_pes w) = store_put new (km_pes w)"
    using False by (auto simp: commit_def)
  ultimately show ?thesis
    using ok rv False by (auto simp: mem_ok_def list_all_iff le_Suc_eq)
qed

lemma mem_write_Inr:
  assumes "mem_ok w" and "mem_write change pe w = (Inr pe', w')"
    and "\<And>v cur new. change v cur = Inr new \<Longrightarrow> pe_key new = pe_key cur \<and> pe_rv new = v"
  shows "mem_ok w' \<and> (\<exists>cur \<in> set (km_pes w). \<exists>v. pe_key cur = pe_key pe \<and> pe_rv cur = pe_rv pe \<and>
           pe_rv cur < v \<and> change v cur = Inr pe' \<and> km_pes w' = commit pe' (km_pes w))"
proof -
  from assms(2) obtain cur where find: "store_find (pe_key pe) (km_pes w) = Some cur"
    and rv: "pe_rv cur = pe_rv pe" and change: "change (Suc (km_rev w)) cur = Inr pe'"
    and w': "w' = w\<lparr>km_pes := commit pe' (km_pes w), km_rev := Suc (km_rev w)\<rparr>"
    by (auto simp: mem_write_def split: option.splits if_splits sum.splits)
  from assms(1) find have cur: "cur \<in> set (km_pes w)" "pe_key cur = pe_key pe"
    using store_find_Some_iff by (auto simp: mem_ok_def)
  moreover from assms(1) cur(1) have "pe_rv cur < Suc (km_rev w)"
    by (auto simp: mem_ok_def list_all_iff less_Suc_eq_le)
  moreover have "mem_ok w'"
    unfolding w' using assms(3) [OF change] by (intro mem_ok_commit [OF assms(1) cur(1)]) auto
  ultimately show ?thesis
    using rv change w' by (intro conjI bexI [of _ cur] exI [of _ "Suc (km_rev w)"]) simp_all
qed

lemma mem_write_succeeds:
  assumes "mem_ok w" and "cur \<in> set (km_pes w)" and "pe_key cur = pe_key pe"
    and "pe_rv cur = pe_rv pe" and "\<And>v. \<exists>new. change v cur = Inr new"
  shows "\<exists>pe' w'. mem_write change pe w = (Inr pe', w')"
proof -
  have "store_find (pe_key pe) (km_pes w) = Some cur"
    using assms(1-3) store_find_Some_iff by (auto simp: mem_ok_def)
  moreover obtain new where "change (Suc (km_rev w)) cur = Inr new"
    using assms(5) by blast
  ultimately show ?thesis
    using assms(4) by (simp add: mem_write_def)
qed

lemma commit_with_status:
  assumes "mem_ok w" and "cur \<in> set (km_pes w)"
  shows "commit (with_status pe v cur) (km_pes w) = store_put (with_status pe v cur) (km_pes w)"
  using assms by (auto simp: commit_def mem_ok_def list_all_iff)

lemma fresh_suffix_fresh:
  "store_find (ns, g @ fresh_suffix pes) pes = None"
proof -
  have "length (pe_Name pe) \<le> sum_list (map (\<lambda>pe. length (pe_Name pe)) pes)" if "pe \<in> set pes" for pe
    using that by (auto intro: member_le_sum_list)
  then have "pe_Name pe \<noteq> g @ fresh_suffix pes" if "pe \<in> set pes" for pe
    using that by (force simp: fresh_suffix_def)
  then show ?thesis
    by (auto simp: store_find_def find_None_iff)
qed

lemma mem_create_Inr:
  assumes "mem_ok w" and "mem_create pe w = (Inr pe', w')"
  shows "mem_ok w'" and "km_pes w' = km_pes w @ [pe']"
    and "pe_Spec pe' = pe_Spec pe" and "pe_Status pe' = pe_Status ProblemEnvironment0"
    and "pe_Namespace pe' = pe_Namespace pe"
    and "om_Labels (pe_ObjectMeta pe') = om_Labels (pe_ObjectMeta pe)"
    and "om_OwnerReferences (pe_ObjectMeta pe') = om_OwnerReferences (pe_ObjectMeta pe)"
    and "om_Finalizers (pe_ObjectMeta pe') = om_Finalizers (pe_ObjectMeta pe)"
    and "\<not> pe_deleting pe'"
proof -
  have new: "store_find (pe_key pe') (km_pes w) = None" and rev: "pe_rv pe' = Suc (km_rev w)"
    and w': "w' = w\<lparr>km_pes := km_pes w @ [pe'], km_rev := Suc (km_rev w)\<rparr>"
    and live: "\<not> pe_deleting pe'"
    using assms(2) by (auto simp: mem_create_def Let_def split: if_splits)
  have "pe_key q \<noteq> pe_key pe'" if "q \<in> set (km_pes w)" for q
    using new that unfolding store_find_def find_None_iff by blast
  then have "pe_key pe' \<notin> set (map pe_key (km_pes w))"
    by (metis (no_types, lifting) image_iff list.set_map)
  then have "distinct (map pe_key (km_pes w'))"
    using assms(1) by (simp add: w' mem_ok_def)
  with assms(1) rev live show "mem_ok w'"
    by (auto simp: mem_ok_def w' list_all_iff le_Suc_eq)
  show "km_pes w' = km_pes w @ [pe']"
    by (simp add: w')
  show "\<not> pe_deleting pe'"
    by (rule live)
qed (use assms(2) in \<open>auto simp: mem_create_def Let_def split: if_splits\<close>)

interpretation mem: reliable_api mem_client km_pes mem_ok
proof (unfold_locales, goal_cases)
  case (3 w pe pe' w')
  then show ?case
    using mem_write_Inr [of w "\<lambda>v cur. Inr (with_status pe v cur)" pe pe' w']
    by (fastforce simp: mem_client_def mem_update_status_def commit_with_status)
next
  case (4 w pe pe' w')
  then show ?case
    using mem_write_Inr [of w "\<lambda>v cur. case ProblemEnvironment_ValidateUpdate pe cur of
       Some e \<Rightarrow> Inl e | None \<Rightarrow> Inr (with_spec pe v cur)" pe pe' w']
    by (fastforce simp: mem_client_def mem_update_def split: option.splits)
next
  case (5 w key w')
  then obtain cur where cur: "store_find key (km_pes w) = Some cur"
    and w': "w' = w\<lparr>km_pes := commit (mark_deleted (km_now w) (Suc (km_rev w)) cur) (km_pes w),
                   km_rev := Suc (km_rev w)\<rparr>"
    by (auto simp: mem_client_def mem_delete_def split: option.splits)
  with 5 have mem: "cur \<in> set (km_pes w)" "pe_key cur = key" "pe_rv cur < Suc (km_rev w)"
    using store_find_Some_iff [of "km_pes w" key cur]
    by (auto simp: mem_ok_def list_all_iff less_Suc_eq_le)
  moreover have "mem_ok w'"
    unfolding w' using mem by (intro mem_ok_commit [OF 5(1) mem(1)]) (auto simp: mark_deleted_def)
  ultimately show ?case
    using w' by auto
next
  case (6 w pe pe' w')
  then show ?case
    using mem_create_Inr [of w pe pe' w'] by (auto simp: mem_client_def)
next
  case (7 w pe e w')
  then show ?case
    by (auto simp: mem_client_def mem_update_status_def mem_write_def split: option.splits if_splits)
next
  case (8 w pe e w')
  then show ?case
    by (auto simp: mem_client_def mem_update_def mem_write_def split: option.splits if_splits)
next
  case (9 w key e w')
  then show ?case
    by (auto simp: mem_client_def mem_delete_def split: option.splits)
next
  case (10 w pe e w')
  then show ?case
    by (auto simp: mem_client_def mem_create_def Let_def split: if_splits)
next
  case (16 w cur pe)
  then show ?case
    unfolding mem_client_def by (simp add: mem_update_status_def mem_write_succeeds)
next
  case (17 w cur pe)
  then show ?case
    unfolding mem_client_def by (simp add: mem_update_def mem_write_succeeds)
next
  case (18 w cur)
  then have "store_find (pe_key cur) (km_pes w) = Some cur"
    using store_find_Some_iff [of "km_pes w" "pe_key cur" cur] by (auto simp: mem_ok_def)
  then show ?case
    by (simp add: mem_client_def mem_delete_def)
next
  case (19 w pe)
  then show ?case
    by (simp add: mem_client_def mem_create_def Let_def fresh_suffix_fresh)
qed (auto simp: mem_client_def mem_ok_def list_all_iff lookup_obj_def store_find_def)

interpretation mem_worker_writes: worker_writes mem_client km_pes mem_ok
  by unfold_locales (auto simp: mem_client_def mem_ok_def split: if_splits)

end
