(* ===== verification/Samples.thy ===== *)
theory Samples
  imports Kube_Store
begin

text \<open>
  Concrete objects for the witnesses of the development: a ready worker, environments in the
  stages of their life, and the in-memory API server holding them.
\<close>

definition sample_condition :: "string \<Rightarrow> ConditionStatus \<Rightarrow> Condition" where
  "sample_condition t s = \<lparr>c_Type = t, c_Status = s, c_ObservedGeneration = 1,
     c_LastTransitionTime = 0, c_Reason = '''', c_Message = ''''\<rparr>"

definition sample_worker :: Worker where
  "sample_worker = Worker0\<lparr>wk_ObjectMeta := ObjectMeta0\<lparr>om_Name := ''worker1''\<rparr>,
     wk_Conditions := [sample_condition WorkerConditionReady ConditionTrue]\<rparr>"

definition sample_container :: ContainerStatus where
  "sample_container = \<lparr>cs_Name = ''r1'', cs_Image = ''frr'', cs_ContainerID = ''c0'',
     cs_ContainerName = ''clab-r1'', cs_Ready = True, cs_ManagementIPAddress = ''172.20.20.2''\<rparr>"

text \<open>An environment just created, and one bound to the worker.\<close>

definition sample_new :: ProblemEnvironment where
  "sample_new = ProblemEnvironment0\<lparr>pe_ObjectMeta := ObjectMeta0\<lparr>om_Name := ''abc-1'',
     om_Namespace := ''netcon'', om_ResourceVersion := 1,
     om_Labels := Some [''problemName'' \<mapsto> ''abc'']\<rparr>\<rparr>"

definition sample_bound :: ProblemEnvironment where
  "sample_bound = sample_new\<lparr>pe_Spec := (pe_Spec sample_new)\<lparr>pes_WorkerName := ''worker1''\<rparr>\<rparr>"

text \<open>A deployed environment with one running container and the given conditions.\<close>

definition sample_deployed :: "ConditionStatus \<Rightarrow> ConditionStatus \<Rightarrow> ProblemEnvironment" where
  "sample_deployed rdy asg = sample_bound\<lparr>
     pe_ObjectMeta := (pe_ObjectMeta sample_bound)\<lparr>om_Finalizers := [''problemenvironment.netcon.janog.gr.jp'']\<rparr>,
     pe_Status := \<lparr>pest_Containers = Some [sample_container], pest_Password = replicate 24 CHR ''A'',
       pest_Conditions = [sample_condition ProblemEnvironmentConditionScheduled ConditionTrue,
         sample_condition ProblemEnvironmentConditionDeployed ConditionTrue,
         sample_condition ProblemEnvironmentConditionReady rdy,
         sample_condition ProblemEnvironmentConditionAssigned asg]\<rparr>\<rparr>"

definition sample_world :: "ProblemEnvironment list \<Rightarrow> kmem" where
  "sample_world pes = kmem0\<lparr>km_pes := pes, km_workers := [sample_worker], km_rev := 1\<rparr>"

lemmas sample_defs = sample_condition_def sample_worker_def sample_container_def sample_new_def
  sample_bound_def sample_deployed_def sample_world_def kmem0_def ObjectMeta0_def
  ProblemEnvironment0_def Worker0_def

end
