(* ===== verification/Problem_Controller.thy ===== *)
theory Problem_Controller
  imports Lifecycle Samples
begin

text \<open>
  The Problem controller (\<^verbatim>\<open>controllers/controller-manager/problem_controller.go\<close>): it
  keeps as many assignable environments of a Problem as its spec asks for, by creating one or
  deleting some per call, and reports the counts. \<^verbatim>\<open>SetControllerReference\<close> is a function of
  controller-runtime and a field of the model's reconciler. A nil template is dereferenced by the
  create branch: that is the \<open>Panic\<close> of the model.

  \<^verbatim>\<open>listChildProblemEnvironments\<close> returns \<^verbatim>\<open>problemEnvironments\<close> and the error of the
  call that fills it in one return statement; the model takes the order the Go compiler takes, the
  call first.
\<close>

section \<open>The handlers\<close>

definition KeyProblemName :: string where
  "KeyProblemName = ''problemName''"

record 'w ProblemReconciler =
  prr_Client :: "'w kube"
  prr_SetControllerReference :: "Problem \<Rightarrow> ProblemEnvironment \<Rightarrow> ProblemEnvironment or_error"

definition child_options :: "Problem \<Rightarrow> ListOptions" where
  "child_options p =
     \<lparr>lo_InNamespace = Some (pr_Namespace p), lo_MatchingLabels = [(KeyProblemName, pr_Name p)]\<rparr>"

definition listChildProblemEnvironments ::
    "'w ProblemReconciler \<Rightarrow> Problem \<Rightarrow> 'w \<Rightarrow> ProblemEnvironment list or_error" where
  "listChildProblemEnvironments r p w = listProblemEnvironment (prr_Client r) w (child_options p)"

fun count_assignable :: "int \<Rightarrow> ProblemEnvironment list \<Rightarrow> int" where
  "count_assignable n [] = n"
| "count_assignable n (pe # pes) =
     (if om_DeletionTimestamp (pe_ObjectMeta pe) \<noteq> None then count_assignable n pes
      else if GetProblemEnvironmentCondition pe ProblemEnvironmentConditionAssigned = ConditionTrue
      then count_assignable n pes
      else count_assignable (n + 1) pes)"

definition new_environment :: "Problem \<Rightarrow> ProblemEnvironmentTemplate \<Rightarrow> ProblemEnvironment" where
  "new_environment p template =
     ProblemEnvironment0\<lparr>
       pe_ObjectMeta := ObjectMeta0\<lparr>
         om_Labels := Some ((case pet_Labels template of None \<Rightarrow> Map.empty | Some ls \<Rightarrow> ls)
                              (KeyProblemName \<mapsto> pr_Name p)),
         om_Annotations := pet_Annotations template,
         om_Namespace := pr_Namespace p,
         om_GenerateName := pr_Name p @ ''-''\<rparr>,
       pe_Spec := pet_Spec template\<rparr>"

text \<open>The loop that scales down: \<^verbatim>\<open>break\<close> when enough were deleted, return at the first error.\<close>

fun delete_loop ::
    "'w kube \<Rightarrow> int \<Rightarrow> int \<Rightarrow> ProblemEnvironment list \<Rightarrow> 'w \<Rightarrow> error option \<times> 'w" where
  "delete_loop k diff delete_count [] w = (None, w)"
| "delete_loop k diff delete_count (pe # pes) w =
     (if delete_count \<ge> diff then (None, w)
      else if GetProblemEnvironmentCondition pe ProblemEnvironmentConditionAssigned \<noteq> ConditionTrue
      then (case deleteProblemEnvironment k (pe_key pe) w of
              (Some e, w') \<Rightarrow> (Some e, w')
            | (None, w') \<Rightarrow> delete_loop k diff (delete_count + 1) pes w')
      else delete_loop k diff delete_count pes w)"

fun count_status :: "int \<times> int \<times> int \<Rightarrow> ProblemEnvironment list \<Rightarrow> int \<times> int \<times> int" where
  "count_status (scheduled, assignable, assigned) [] = (scheduled, assignable, assigned)"
| "count_status (scheduled, assignable, assigned) (pe # pes) =
     (let isScheduled = GetProblemEnvironmentCondition pe ProblemEnvironmentConditionScheduled;
          isReady = GetProblemEnvironmentCondition pe ProblemEnvironmentConditionReady;
          isAssigned = GetProblemEnvironmentCondition pe ProblemEnvironmentConditionAssigned;
          scheduled = (if isScheduled = ConditionTrue then scheduled + 1 else scheduled)
      in if isReady = ConditionTrue
         then (if isAssigned \<noteq> ConditionTrue
               then count_status (scheduled, assignable + 1, assigned) pes
               else count_status (scheduled, assignable, assigned + 1) pes)
         else count_status (scheduled, assignable, assigned) pes)"

definition problem_updateStatus :: "'w ProblemReconciler \<Rightarrow> Problem \<Rightarrow> 'w \<Rightarrow> 'w reconciled" where
  "problem_updateStatus r p w =
     (case listChildProblemEnvironments r p w of
        Inl _ \<Rightarrow> ((Result0, None), w)
      | Inr pes \<Rightarrow>
          (let (scheduled, assignable, assigned) = count_status (0, 0, 0) pes;
               p = p\<lparr>pr_Replicas := \<lparr>rep_Total = int (length pes), rep_Scheduled = scheduled,
                                    rep_Assignable = assignable, rep_Assigned = assigned\<rparr>\<rparr>
           in case updateStatusProblem (prr_Client r) p w of
                (Inl e, w') \<Rightarrow> ((Result0, Some e), w')
              | (Inr _, w') \<Rightarrow> ((Result0, None), w')))"

definition problem_scale ::
    "'w ProblemReconciler \<Rightarrow> Problem \<Rightarrow> ProblemEnvironment list \<Rightarrow> 'w \<Rightarrow> (error option \<times> 'w) go" where
  "problem_scale r p pes w =
     (let assignable = count_assignable 0 pes; want = prs_AssignableReplicas (pr_Spec p)
      in if want > assignable
         then (case prs_Template (pr_Spec p) of
                 None \<Rightarrow> Panic ''invalid memory address or nil pointer dereference''
               | Some template \<Rightarrow>
                   (case prr_SetControllerReference r p (new_environment p template) of
                      Inl e \<Rightarrow> Ret (Some e, w)
                    | Inr newProbEnv \<Rightarrow>
                        (case createProblemEnvironment (prr_Client r) newProbEnv w of
                           (Inl e, w') \<Rightarrow> Ret (Some e, w')
                         | (Inr _, w') \<Rightarrow> Ret (None, w'))))
         else if want < assignable
         then Ret (delete_loop (prr_Client r) (assignable - want) 0 pes w)
         else Ret (None, w))"

definition problem_Reconcile ::
    "'w ProblemReconciler \<Rightarrow> NamespacedName \<Rightarrow> 'w \<Rightarrow> 'w reconciled go" where
  "problem_Reconcile r req w =
     (case getProblem (prr_Client r) w req of
        Inl e \<Rightarrow> Ret ((Result0, IgnoreNotFound e), w)
      | Inr p \<Rightarrow>
          if om_DeletionTimestamp (pr_ObjectMeta p) \<noteq> None then Ret (problem_updateStatus r p w)
          else
            (case listChildProblemEnvironments r p w of
               Inl _ \<Rightarrow> Ret ((Result0, None), w)
             | Inr pes \<Rightarrow>
                 (case problem_scale r p pes w of
                    Panic m \<Rightarrow> Panic m
                  | Ret (Some e, w') \<Rightarrow> Ret ((Result0, Some e), w')
                  | Ret (None, w') \<Rightarrow> Ret (problem_updateStatus r p w'))))"

section \<open>The loops compute counts\<close>

definition is_assigned :: "ProblemEnvironment \<Rightarrow> bool" where
  "is_assigned pe \<longleftrightarrow> GetProblemEnvironmentCondition pe ProblemEnvironmentConditionAssigned = ConditionTrue"

definition is_assignable :: "ProblemEnvironment \<Rightarrow> bool" where
  "is_assignable pe \<longleftrightarrow> \<not> pe_deleting pe \<and> \<not> is_assigned pe"

abbreviation child_of :: "Problem \<Rightarrow> ProblemEnvironment \<Rightarrow> bool" where
  "child_of p pe \<equiv> matches_options (child_options p) (pe_ObjectMeta pe)"

definition assignable_children :: "Problem \<Rightarrow> ProblemEnvironment list \<Rightarrow> nat" where
  "assignable_children p pes = length (filter (\<lambda>pe. child_of p pe \<and> is_assignable pe) pes)"

lemma count_assignable_filter: "count_assignable n pes = n + int (length (filter is_assignable pes))"
  by (induction n pes rule: count_assignable.induct) (auto simp: is_assignable_def is_assigned_def)

lemma count_assignable_children:
  "count_assignable 0 (filter (child_of p) pes) = int (assignable_children p pes)"
  by (simp add: count_assignable_filter assignable_children_def conj_commute)

definition has_status :: "string \<Rightarrow> ProblemEnvironment \<Rightarrow> bool" where
  "has_status t pe \<longleftrightarrow> GetProblemEnvironmentCondition pe t = ConditionTrue"

lemma count_status_filter:
  "count_status (a, b, c) pes =
     (a + int (length (filter (has_status ProblemEnvironmentConditionScheduled) pes)),
      b + int (length (filter (\<lambda>pe. has_status ProblemEnvironmentConditionReady pe \<and>
                                    \<not> has_status ProblemEnvironmentConditionAssigned pe) pes)),
      c + int (length (filter (\<lambda>pe. has_status ProblemEnvironmentConditionReady pe \<and>
                                    has_status ProblemEnvironmentConditionAssigned pe) pes)))"
  by (induction pes arbitrary: a b c) (auto simp: has_status_def Let_def)

section \<open>Deleting\<close>

lemma length_filter_commit:
  assumes "\<not> P new"
  shows "length (filter P (commit new pes)) = length (filter (\<lambda>q. P q \<and> pe_key q \<noteq> pe_key new) pes)"
  using assms by (induction pes) (auto simp: commit_def store_put_def store_drop_def)

lemma distinct_keys_ne:
  assumes "distinct (map pe_key (q # pes))" "x \<in> set pes"
  shows "pe_key x \<noteq> pe_key q"
proof
  assume "pe_key x = pe_key q"
  then have "x = q"
    using distinct_keysD [OF assms(1), of x q] assms(2) by simp
  then show False
    using assms unfolding distinct_map by simp
qed

lemma length_filter_distinct:
  assumes "distinct (map pe_key pes)" "cur \<in> set pes" "P cur"
  shows "length (filter P pes) = Suc (length (filter (\<lambda>q. P q \<and> pe_key q \<noteq> pe_key cur) pes))"
  using assms
proof (induction pes)
  case (Cons q pes)
  note ne = distinct_keys_ne [OF Cons.prems(1)]
  show ?case
  proof (cases "q = cur")
    case True
    then have "filter (\<lambda>q. P q \<and> pe_key q \<noteq> pe_key cur) pes = filter P pes"
      using ne by (intro filter_cong) auto
    then show ?thesis using True Cons.prems(3) by simp
  next
    case False
    then have "cur \<in> set pes" using Cons.prems(2) by simp
    then show ?thesis using Cons ne [of cur] by auto
  qed
qed simp

lemma mark_deleted_not_assignable [simp]: "\<not> is_assignable (mark_deleted now v cur)"
  using mark_deleted_simps(7) [of now v cur] by (simp add: is_assignable_def del: mark_deleted_simps(7))

lemma assignable_children_delete:
  assumes "distinct (map pe_key pes)" "cur \<in> set pes" "child_of p cur" "is_assignable cur"
  shows "Suc (assignable_children p (commit (mark_deleted now v cur) pes)) = assignable_children p pes"
  using length_filter_distinct [OF assms(1,2), of "\<lambda>pe. child_of p pe \<and> is_assignable pe"] assms(3,4)
  by (simp add: assignable_children_def length_filter_commit)

context kube_api
begin

lemma delete_one:
  assumes "ok w" "deleteProblemEnvironment k key w = (e, w')"
  shows "ok w' \<and> world_step (contents w) (contents w') \<and>
    (\<forall>q \<in> set (contents w). pe_key q \<noteq> key \<longrightarrow> q \<in> set (contents w'))"
proof (cases e)
  case None
  from delete_main [OF assms(1), of key w'] assms(2) None obtain cur now v where
    cur: "pe_key cur = key" "contents w' = commit (mark_deleted now v cur) (contents w)"
    by auto
  have "q \<in> set (contents w')" if "q \<in> set (contents w)" "pe_key q \<noteq> key" for q
    unfolding cur(2) by (rule commit_keeps [OF that(1)]) (use cur(1) that(2) in simp)
  then show ?thesis
    using delete_step [OF assms, of protocol_step] delete_refines by (blast intro: store_step_world)
next
  case (Some x)
  then show ?thesis
    using delete_rejected [OF assms(1), of key x w'] assms(2) by simp
qed

lemma delete_loop_steps:
  assumes "ok w" "delete_loop k diff c ls w = (e, w')"
  shows "ok w' \<and> world_step\<^sup>*\<^sup>* (contents w) (contents w') \<and>
    (\<forall>q \<in> set (contents w). (\<forall>pe \<in> set ls. is_assigned pe \<or> pe_key pe \<noteq> pe_key q) \<longrightarrow> q \<in> set (contents w'))"
  using assms
proof (induction ls arbitrary: c w)
  case (Cons pe ls)
  show ?case
  proof (cases "diff \<le> c \<or> is_assigned pe")
    case True
    then show ?thesis
      using Cons by (auto simp: is_assigned_def split: if_splits)
  next
    case False
    obtain e1 w1 where del: "deleteProblemEnvironment k (pe_key pe) w = (e1, w1)"
      by fastforce
    note one = delete_one [OF Cons.prems(1) del]
    show ?thesis
    proof (cases e1)
      case None
      then have "delete_loop k diff (c + 1) ls w1 = (e, w')"
        using Cons.prems(2) False del by (simp add: is_assigned_def)
      then have IH: "ok w'" "world_step\<^sup>*\<^sup>* (contents w1) (contents w')"
        "q \<in> set (contents w1) \<Longrightarrow> (\<forall>pe \<in> set ls. is_assigned pe \<or> pe_key pe \<noteq> pe_key q) \<Longrightarrow>
           q \<in> set (contents w')" for q
        using Cons.IH [of w1 "c + 1"] one by blast+
      have "q \<in> set (contents w')" if "q \<in> set (contents w)"
          "\<forall>pe \<in> set (pe # ls). is_assigned pe \<or> pe_key pe \<noteq> pe_key q" for q
      proof (rule IH(3))
        have "pe_key q \<noteq> pe_key pe"
          using that(2) False by (metis list.set_intros(1))
        then show "q \<in> set (contents w1)"
          using one that(1) by blast
      qed (use that(2) in simp)
      then show ?thesis
        using IH(1,2) one converse_rtranclp_into_rtranclp [of world_step] by blast
    next
      case (Some x)
      then have "w' = w1"
        using Cons.prems(2) False del by (simp add: is_assigned_def)
      then show ?thesis
        using one False by auto
    qed
  qed
qed simp

end

section \<open>Refinement and safety\<close>

text \<open>
  The documented behaviour of \<^verbatim>\<open>SetControllerReference\<close>: on success it adds one controller
  reference to the owner and changes nothing else.
\<close>

definition sets_controller_reference ::
    "(Problem \<Rightarrow> ProblemEnvironment \<Rightarrow> ProblemEnvironment or_error) \<Rightarrow> bool" where
  "sets_controller_reference f \<longleftrightarrow>
     (\<forall>p pe pe'. f p pe = Inr pe' \<longrightarrow>
        (\<exists>ref. or_Name ref = pr_Name p \<and> or_Controller ref \<and>
           pe' = pe\<lparr>pe_ObjectMeta := (pe_ObjectMeta pe)\<lparr>om_OwnerReferences :=
             om_OwnerReferences (pe_ObjectMeta pe) @ [ref]\<rparr>\<rparr>))"

lemma fresh_created:
  assumes "pe_Status pe = pe_Status ProblemEnvironment0" "om_Finalizers (pe_ObjectMeta pe) = []"
    "\<not> pe_deleting pe"
  shows "fresh_phase (phase_of pe)"
  using assms by (simp add: fresh_phase_def GetProblemEnvironmentCondition_def ProblemEnvironment0_def
      omit_empty_def)

lemma new_environment_owned:
  assumes "sets_controller_reference f" "f p (new_environment p t) = Inr pe"
  shows "om_Finalizers (pe_ObjectMeta pe) = []" "child_of p pe" "pe_Name pe = ''''"
    "pe_Spec pe = pet_Spec t" "map or_Name (om_OwnerReferences (pe_ObjectMeta pe)) = [pr_Name p]"
proof -
  from assms obtain ref where "or_Name ref = pr_Name p"
    and pe: "pe = (new_environment p t)\<lparr>pe_ObjectMeta := (pe_ObjectMeta (new_environment p t))
      \<lparr>om_OwnerReferences := om_OwnerReferences (pe_ObjectMeta (new_environment p t)) @ [ref]\<rparr>\<rparr>"
    unfolding sets_controller_reference_def by blast
  then show "om_Finalizers (pe_ObjectMeta pe) = []" "child_of p pe" "pe_Name pe = ''''"
    "pe_Spec pe = pet_Spec t" "map or_Name (om_OwnerReferences (pe_ObjectMeta pe)) = [pr_Name p]"
    by (simp_all add: pe new_environment_def ObjectMeta0_def matches_options_def child_options_def
        map_get_def)
qed

context kube_api
begin

lemma create_step:
  assumes "ok w" "createProblemEnvironment k pe w = (r, w')" "om_Finalizers (pe_ObjectMeta pe) = []"
  shows "ok w' \<and> world_step (contents w) (contents w') \<and> set (contents w) \<subseteq> set (contents w')"
proof (cases r)
  case (Inl e)
  then show ?thesis using create_rejected [OF assms(1), of pe e w'] assms(2) by simp
next
  case (Inr pe')
  with create_main [OF assms(1), of pe pe' w'] assms(2,3) obtain xs ys where
    "ok w'" "contents w = xs @ ys" "contents w' = xs @ pe' # ys" "fresh_phase (phase_of pe')"
    using fresh_created [of pe'] by auto
  then show ?thesis
    by (auto simp: world_step_def)
qed

lemma problem_scale_steps:
  assumes "ok w" "prr_Client r = k" "sets_controller_reference (prr_SetControllerReference r)"
    and "problem_scale r p pes w = Ret (e, w')"
  shows "ok w' \<and> world_step\<^sup>*\<^sup>* (contents w) (contents w') \<and>
    (\<forall>q \<in> set (contents w). (\<forall>pe \<in> set pes. is_assigned pe \<or> pe_key pe \<noteq> pe_key q) \<longrightarrow> q \<in> set (contents w'))"
proof -
  let ?n = "count_assignable 0 pes" and ?R = "prs_AssignableReplicas (pr_Spec p)"
  consider (create) "?R > ?n" | (delete) "?R < ?n" | (none) "?R = ?n" by linarith
  then show ?thesis
  proof cases
    case create
    then obtain t where t: "prs_Template (pr_Spec p) = Some t"
      using assms(4) by (auto simp: problem_scale_def Let_def split: option.splits)
    show ?thesis
    proof (cases "prr_SetControllerReference r p (new_environment p t)")
      case (Inl x)
      then show ?thesis using create t assms(1,4) by (auto simp: problem_scale_def Let_def)
    next
      case (Inr pe)
      obtain x w1 where c: "createProblemEnvironment k pe w = (x, w1)" by fastforce
      then have "w1 = w'"
        using create t Inr assms(2,4) by (auto simp: problem_scale_def Let_def split: sum.splits)
      then show ?thesis
        using create_step [OF assms(1) c] new_environment_owned(1) [OF assms(3) Inr] by auto
    qed
  next
    case delete
    then have "delete_loop k (?n - ?R) 0 pes w = (e, w')"
      using assms(2,4) by (simp add: problem_scale_def Let_def)
    then show ?thesis by (rule delete_loop_steps [OF assms(1)])
  next
    case none
    then show ?thesis using assms(1,4) by (simp add: problem_scale_def)
  qed
qed

lemma problem_updateStatus_frame:
  assumes "ok w" "prr_Client r = k" "problem_updateStatus r p w = (out, w')"
  shows "ok w' \<and> contents w' = contents w"
proof (cases "listChildProblemEnvironments r p w")
  case (Inl e)
  then show ?thesis using assms by (simp add: problem_updateStatus_def)
next
  case (Inr pes)
  then obtain q x where "updateStatusProblem k q w = (x, w')"
    using assms(2,3) by (auto simp: problem_updateStatus_def Let_def split: prod.splits sum.splits)
  then show ?thesis by (rule problem_frame [OF assms(1)])
qed

end

text \<open>
  \<open>spared r p w q\<close>: no unassigned environment the controller lists for \<open>p\<close> has the name of
  \<open>q\<close>.
\<close>

definition spared :: "'w ProblemReconciler \<Rightarrow> NamespacedName \<Rightarrow> 'w \<Rightarrow> ProblemEnvironment \<Rightarrow> bool" where
  "spared r req w q \<longleftrightarrow>
     (\<forall>p pes pe. getProblem (prr_Client r) w req = Inr p \<longrightarrow>
        listChildProblemEnvironments r p w = Inr pes \<longrightarrow> pe \<in> set pes \<longrightarrow>
        is_assigned pe \<or> pe_key pe \<noteq> pe_key q)"

context kube_api
begin

lemma problem_Reconcile_steps:
  assumes "ok w" "prr_Client r = k" "sets_controller_reference (prr_SetControllerReference r)"
    and "problem_Reconcile r req w = Ret (out, w')"
  shows "ok w' \<and> world_step\<^sup>*\<^sup>* (contents w) (contents w') \<and>
    (\<forall>q \<in> set (contents w). spared r req w q \<longrightarrow> q \<in> set (contents w'))"
proof (cases "getProblem k w req")
  case (Inl e)
  then show ?thesis using assms by (simp add: problem_Reconcile_def)
next
  case p: (Inr p)
  show ?thesis
  proof (cases "om_DeletionTimestamp (pr_ObjectMeta p) = None")
    case False
    then have "problem_updateStatus r p w = (out, w')"
      using p assms(2,4) by (simp add: problem_Reconcile_def)
    then show ?thesis using problem_updateStatus_frame [OF assms(1,2)] by simp
  next
    case live: True
    show ?thesis
    proof (cases "listChildProblemEnvironments r p w")
      case (Inl e)
      then show ?thesis using live p assms(1,2,4) by (simp add: problem_Reconcile_def)
    next
      case (Inr pes)
      then obtain e w1 where sc: "problem_scale r p pes w = Ret (e, w1)"
        and rest: "case e of Some x \<Rightarrow> w' = w1 | None \<Rightarrow> problem_updateStatus r p w1 = (out, w')"
        using live p assms(2,4)
        by (auto simp: problem_Reconcile_def split: go.splits option.splits prod.splits)
      note scaled = problem_scale_steps [OF assms(1-3) sc]
      have keep: "ok w' \<and> contents w' = contents w1"
        using rest scaled problem_updateStatus_frame [of w1 r p out w'] assms(2)
        by (cases e) auto
      show ?thesis
        using scaled keep p Inr assms(2) unfolding spared_def by metis
    qed
  qed
qed

end

section \<open>Convergence\<close>

context reliable_api
begin

lemma delete_loop_count:
  assumes "ok w" "distinct (map pe_key ls)" "\<And>pe. pe \<in> set ls \<Longrightarrow> child_of p pe"
    and "\<And>pe. pe \<in> set ls \<Longrightarrow> \<not> is_assigned pe \<Longrightarrow> pe \<in> set (contents w) \<and> is_assignable pe"
  shows "\<exists>w'. delete_loop k diff c ls w = (None, w') \<and> ok w' \<and>
    assignable_children p (contents w) =
      assignable_children p (contents w') + min (nat (diff - c)) (length (filter (\<lambda>pe. \<not> is_assigned pe) ls))"
  using assms
proof (induction ls arbitrary: c w)
  case Nil
  then show ?case by simp
next
  case (Cons pe ls)
  show ?case
  proof (cases "diff \<le> c \<or> is_assigned pe")
    case True
    then show ?thesis
      using Cons.IH [of w c] Cons.prems by (auto simp: is_assigned_def split: if_splits)
  next
    case False
    then have pe: "pe \<in> set (contents w)" "is_assignable pe" "child_of p pe"
      using Cons.prems(3,4) by auto
    obtain w1 where del: "deleteProblemEnvironment k (pe_key pe) w = (None, w1)"
      using delete_succeeds [OF Cons.prems(1) pe(1)] by blast
    from delete_main [OF Cons.prems(1) del] obtain cur now v where
      cur: "ok w1" "cur \<in> set (contents w)" "pe_key cur = pe_key pe"
      "contents w1 = commit (mark_deleted now v cur) (contents w)" by blast
    have "cur = pe"
      using distinct_keysD [OF distinct_keys [OF Cons.prems(1)] cur(2) pe(1) cur(3)] .
    then have one: "Suc (assignable_children p (contents w1)) = assignable_children p (contents w)"
      unfolding cur(4) using assignable_children_delete [OF distinct_keys [OF Cons.prems(1)] pe(1,3,2)] by simp
    have "q \<in> set (contents w1) \<and> is_assignable q" if q: "q \<in> set ls" "\<not> is_assigned q" for q
    proof -
      have "pe_key q \<noteq> pe_key pe"
        by (rule distinct_keys_ne [OF Cons.prems(2) q(1)])
      then show ?thesis
        using delete_one [OF Cons.prems(1) del] Cons.prems(4) [of q] q by auto
    qed
    then obtain w' where "delete_loop k diff (c + 1) ls w1 = (None, w')" "ok w'"
      "assignable_children p (contents w1) =
        assignable_children p (contents w') + min (nat (diff - (c + 1))) (length (filter (\<lambda>pe. \<not> is_assigned pe) ls))"
      using Cons.IH [of w1 "c + 1"] cur(1) Cons.prems(2,3) by auto
    then show ?thesis
      using False del one by (auto simp: is_assigned_def)
  qed
qed

lemma create_count:
  assumes "ok w" "child_of p pe" "pe_Name pe = ''''"
  shows "\<exists>pe' w'. createProblemEnvironment k pe w = (Inr pe', w') \<and> ok w' \<and>
    assignable_children p (contents w') = Suc (assignable_children p (contents w))"
proof -
  obtain pe' w' where c: "createProblemEnvironment k pe w = (Inr pe', w')"
    using create_succeeds [OF assms(1,3)] by blast
  from create_main [OF assms(1) c] obtain xs ys where
    st: "ok w'" "contents w = xs @ ys" "contents w' = xs @ pe' # ys"
    "pe_Status pe' = pe_Status ProblemEnvironment0" "pe_Namespace pe' = pe_Namespace pe"
    "om_Labels (pe_ObjectMeta pe') = om_Labels (pe_ObjectMeta pe)" "\<not> pe_deleting pe'"
    by blast
  have "child_of p pe'"
    using assms(2) matches_options_cong [OF st(6,5)] by simp
  moreover have "is_assignable pe'"
    using st(4,7) by (simp add: is_assignable_def is_assigned_def GetProblemEnvironmentCondition_def
        ProblemEnvironment0_def)
  ultimately show ?thesis
    using c st(1-3) by (auto simp: assignable_children_def)
qed

lemma problem_scale_count:
  assumes "ok w" "prr_Client r = k" "sets_controller_reference (prr_SetControllerReference r)"
    and "\<forall>pe. \<exists>pe'. prr_SetControllerReference r p pe = Inr pe'" "prs_Template (pr_Spec p) \<noteq> None"
    and "\<forall>q \<in> set (contents w). child_of p q \<and> pe_deleting q \<longrightarrow> is_assigned q"
  shows "\<exists>w'. problem_scale r p (filter (child_of p) (contents w)) w = Ret (None, w') \<and> ok w' \<and>
    int (assignable_children p (contents w')) =
      (if int (assignable_children p (contents w)) < prs_AssignableReplicas (pr_Spec p)
       then int (assignable_children p (contents w)) + 1
       else max 0 (prs_AssignableReplicas (pr_Spec p)))"
proof -
  let ?n = "int (assignable_children p (contents w))" and ?R = "prs_AssignableReplicas (pr_Spec p)"
  let ?ls = "filter (child_of p) (contents w)"
  consider (create) "?R > ?n" | (delete) "?R < ?n" | (none) "?R = ?n" by linarith
  then show ?thesis
  proof cases
    case create
    obtain t where "prs_Template (pr_Spec p) = Some t"
      using assms(5) by auto
    moreover obtain pe where "prr_SetControllerReference r p (new_environment p t) = Inr pe"
      using assms(4) by blast
    ultimately have t: "prs_Template (pr_Spec p) = Some t"
      "prr_SetControllerReference r p (new_environment p t) = Inr pe"
      by simp_all
    from new_environment_owned(2,3) [OF assms(3) t(2)] obtain pe' w' where
      "createProblemEnvironment k pe w = (Inr pe', w')" "ok w'"
      "assignable_children p (contents w') = Suc (assignable_children p (contents w))"
      using create_count [OF assms(1)] by blast
    then show ?thesis
      using create t assms(2) by (simp add: problem_scale_def Let_def count_assignable_children)
  next
    case delete
    have d: "distinct (map pe_key ?ls)"
      using distinct_keys [OF assms(1)] by (simp add: distinct_map_filter)
    have as: "pe \<in> set (contents w) \<and> is_assignable pe" if "pe \<in> set ?ls" "\<not> is_assigned pe" for pe
      using that assms(6) by (auto simp: is_assignable_def)
    have ch: "child_of p pe" if "pe \<in> set ?ls" for pe
      using that by simp
    obtain w' where w': "delete_loop k (?n - ?R) 0 ?ls w = (None, w')" "ok w'"
      "assignable_children p (contents w) = assignable_children p (contents w') +
         min (nat (?n - ?R)) (length (filter (\<lambda>pe. \<not> is_assigned pe) ?ls))"
      using delete_loop_count [OF assms(1) d ch as, of "?n - ?R" 0] unfolding diff_zero by blast
    have "filter (\<lambda>pe. \<not> is_assigned pe) ?ls = filter (\<lambda>pe. child_of p pe \<and> is_assignable pe) (contents w)"
      using assms(6) unfolding filter_filter by (intro filter_cong) (auto simp: is_assignable_def)
    then have "length (filter (\<lambda>pe. \<not> is_assigned pe) ?ls) = assignable_children p (contents w)"
      by (simp add: assignable_children_def)
    then show ?thesis
      using w' delete assms(2) by (simp add: problem_scale_def Let_def count_assignable_children)
  next
    case none
    then show ?thesis
      using assms(1) by (simp add: problem_scale_def count_assignable_children)
  qed
qed

lemma problem_Reconcile_converges:
  assumes "ok w" "prr_Client r = k" "sets_controller_reference (prr_SetControllerReference r)"
    and "\<forall>pe. \<exists>pe'. prr_SetControllerReference r p pe = Inr pe'" "prs_Template (pr_Spec p) \<noteq> None"
    and "\<forall>q \<in> set (contents w). child_of p q \<and> pe_deleting q \<longrightarrow> is_assigned q"
    and "getProblem k w req = Inr p" "om_DeletionTimestamp (pr_ObjectMeta p) = None"
  shows "\<exists>out w'. problem_Reconcile r req w = Ret (out, w') \<and> ok w' \<and>
    int (assignable_children p (contents w')) =
      (if int (assignable_children p (contents w)) < prs_AssignableReplicas (pr_Spec p)
       then int (assignable_children p (contents w)) + 1
       else max 0 (prs_AssignableReplicas (pr_Spec p)))"
proof -
  have ls: "listChildProblemEnvironments r p w = Inr (filter (child_of p) (contents w))"
    using list_reads [OF assms(1)] assms(2) by (simp add: listChildProblemEnvironments_def)
  obtain w1 where w1: "problem_scale r p (filter (child_of p) (contents w)) w = Ret (None, w1)" "ok w1"
    "int (assignable_children p (contents w1)) =
      (if int (assignable_children p (contents w)) < prs_AssignableReplicas (pr_Spec p)
       then int (assignable_children p (contents w)) + 1
       else max 0 (prs_AssignableReplicas (pr_Spec p)))"
    using problem_scale_count [OF assms(1-6)] by blast
  obtain out w' where st: "problem_updateStatus r p w1 = (out, w')" by fastforce
  then have "ok w' \<and> contents w' = contents w1"
    using problem_updateStatus_frame [OF w1(2) assms(2)] by blast
  moreover have "problem_Reconcile r req w = Ret (out, w')"
    using assms(2,7,8) ls w1(1) st by (simp add: problem_Reconcile_def)
  ultimately show ?thesis
    using w1(3) by auto
qed

end

section \<open>Properties\<close>

definition sample_set_reference :: "Problem \<Rightarrow> ProblemEnvironment \<Rightarrow> ProblemEnvironment or_error" where
  "sample_set_reference p pe = Inr (pe\<lparr>pe_ObjectMeta := (pe_ObjectMeta pe)\<lparr>om_OwnerReferences :=
     om_OwnerReferences (pe_ObjectMeta pe) @
       [\<lparr>or_Kind = ''Problem'', or_Name = pr_Name p, or_Controller = True\<rparr>]\<rparr>\<rparr>)"

definition sample_problem_reconciler :: "kmem ProblemReconciler" where
  "sample_problem_reconciler =
     \<lparr>prr_Client = mem_client, prr_SetControllerReference = sample_set_reference\<rparr>"

definition sample_problem :: "int \<Rightarrow> Problem" where
  "sample_problem n =
     \<lparr>pr_ObjectMeta = ObjectMeta0\<lparr>om_Name := ''abc'', om_Namespace := ''netcon''\<rparr>,
      pr_Spec = \<lparr>prs_Template = Some \<lparr>pet_Labels = None, pet_Annotations = None,
        pet_Spec = pe_Spec ProblemEnvironment0\<rparr>, prs_AssignableReplicas = n\<rparr>,
      pr_Replicas = \<lparr>rep_Total = 0, rep_Scheduled = 0, rep_Assignable = 0, rep_Assigned = 0\<rparr>\<rparr>"

lemma sample_set_reference_ok: "sets_controller_reference sample_set_reference"
  unfolding sets_controller_reference_def
proof (intro allI impI)
  fix p :: Problem and pe pe'
  assume "sample_set_reference p pe = Inr pe'"
  then show "\<exists>ref. or_Name ref = pr_Name p \<and> or_Controller ref \<and>
      pe' = pe\<lparr>pe_ObjectMeta := (pe_ObjectMeta pe)\<lparr>om_OwnerReferences :=
        om_OwnerReferences (pe_ObjectMeta pe) @ [ref]\<rparr>\<rparr>"
    by (intro exI [of _ "\<lparr>or_Kind = ''Problem'', or_Name = pr_Name p, or_Controller = True\<rparr>"])
      (simp add: sample_set_reference_def)
qed


lemma kmem_ok_problems [simp]: "mem_ok (w\<lparr>km_problems := ps\<rparr>) = mem_ok w"
  by (simp add: mem_ok_def)

text \<open>
  C13. Safety of the Problem controller: whatever the server answers, a call of \<^verbatim>\<open>Reconcile\<close> that
  returns takes the store through protocol steps (deletions) or the creation of a fresh
  environment, and an environment is left alone unless the controller listed an unassigned
  environment of that name: with consistent reads it never deletes an assigned environment or
  one of another Problem.
\<close>

theorem problem_Reconcile_safe:
  assumes "consistent_reads (prr_Client r) contents ok"
    and "sets_controller_reference (prr_SetControllerReference r)" and "ok w"
    and "problem_Reconcile r req w = Ret (out, w')"
    and "getProblem (prr_Client r) w req = Inr p"
  shows "ok w' \<and> world_step\<^sup>*\<^sup>* (contents w) (contents w') \<and>
    (\<forall>q \<in> set (contents w). is_assigned q \<or> \<not> child_of p q \<longrightarrow> q \<in> set (contents w'))"
proof -
  have d: "distinct (map pe_key (contents w))"
    using kube_api.distinct_keys [OF consistent_reads.axioms(1) [OF assms(1)] assms(3)] .
  have ls: "listChildProblemEnvironments r p w = Inr (filter (child_of p) (contents w))"
    using consistent_reads.list_reads [OF assms(1,3)] by (simp add: listChildProblemEnvironments_def)
  have "spared r req w q" if q: "q \<in> set (contents w)" "is_assigned q \<or> \<not> child_of p q" for q
  proof -
    have "is_assigned pe" if "pe \<in> set (contents w)" "child_of p pe" "pe_key pe = pe_key q" for pe
      using distinct_keysD [OF d that(1) q(1) that(3)] that(2) q(2) by auto
    then show ?thesis
      unfolding spared_def using assms(5) ls by auto
  qed
  then show ?thesis
    using kube_api.problem_Reconcile_steps [OF consistent_reads.axioms(1) [OF assms(1)] assms(3) refl assms(2,4)]
    by blast
qed

definition sample_assigned :: ProblemEnvironment where
  "sample_assigned = (sample_deployed ConditionTrue ConditionTrue)\<lparr>pe_ObjectMeta :=
     (pe_ObjectMeta (sample_deployed ConditionTrue ConditionTrue))\<lparr>om_Name := ''abc-2''\<rparr>\<rparr>"

definition sample_problem_world :: "int \<Rightarrow> kmem" where
  "sample_problem_world n =
     (sample_world [sample_new, sample_assigned])\<lparr>km_problems := [sample_problem n]\<rparr>"

lemma sample_getProblem:
  "getProblem mem_client (sample_problem_world n) (''netcon'', ''abc'') = Inr (sample_problem n)"
  by (simp add: mem_client_def lookup_obj_def sample_problem_world_def sample_problem_def ObjectMeta0_def)

lemma sample_problem_world_facts:
  "mem_ok (sample_problem_world n)" "km_pes (sample_problem_world n) = [sample_new, sample_assigned]"
  "is_assigned sample_assigned" "\<not> is_assigned sample_new" "\<not> pe_deleting sample_new"
  "\<not> pe_deleting sample_assigned" "om_DeletionTimestamp (pr_ObjectMeta (sample_problem n)) = None"
  "prs_Template (pr_Spec (sample_problem n)) \<noteq> None"
  "prs_AssignableReplicas (pr_Spec (sample_problem n)) = n"
  "child_of (sample_problem n) sample_new" "child_of (sample_problem n) sample_assigned"
  by (simp_all add: sample_problem_world_def is_assigned_def
      GetProblemEnvironmentCondition_def mem_ok_def sample_assigned_def sample_problem_def
      sample_defs matches_options_def child_options_def map_get_def KeyProblemName_def
      condition_type_defs)

theorem problem_Reconcile_safe_witness:
  "\<exists>out w'. problem_Reconcile sample_problem_reconciler (''netcon'', ''abc'') (sample_problem_world 0) =
     Ret (out, w') \<and> sample_assigned \<in> set (km_pes w')"
proof -
  note facts = sample_problem_world_facts sample_getProblem
  have client: "prr_Client sample_problem_reconciler = mem_client"
    "prr_SetControllerReference sample_problem_reconciler = sample_set_reference"
    by (simp_all add: sample_problem_reconciler_def)
  obtain out w' where ret: "problem_Reconcile sample_problem_reconciler (''netcon'', ''abc'')
      (sample_problem_world 0) = Ret (out, w')"
    using mem.problem_Reconcile_converges [of "sample_problem_world 0" sample_problem_reconciler
        "sample_problem 0" "(''netcon'', ''abc'')"] client facts sample_set_reference_ok
    by (auto simp: sample_set_reference_def)
  have "sample_assigned \<in> set (km_pes w')"
    using problem_Reconcile_safe [of sample_problem_reconciler km_pes mem_ok "sample_problem_world 0"
        "(''netcon'', ''abc'')" out w' "sample_problem 0"]
      mem.consistent_reads_axioms client facts sample_set_reference_ok ret
    by simp
  with ret show ?thesis by blast
qed



text \<open>
  Status of a Problem: \<^verbatim>\<open>updateStatus\<close> writes the number of environments listed for the
  Problem, of those scheduled, of those ready and not assigned, and of those ready and assigned;
  the last two add up to the ready ones. A failed listing writes nothing.
\<close>

theorem problem_updateStatus_counts:
  "problem_updateStatus r p w =
     (case listProblemEnvironment (prr_Client r) w (child_options p) of
        Inl _ \<Rightarrow> ((Result0, None), w)
      | Inr pes \<Rightarrow>
          map_prod (\<lambda>x. (Result0, case x of Inl e \<Rightarrow> Some e | Inr _ \<Rightarrow> None)) id
            (updateStatusProblem (prr_Client r)
               (p\<lparr>pr_Replicas :=
                  \<lparr>rep_Total = int (length pes),
                   rep_Scheduled = int (length (filter (has_status ProblemEnvironmentConditionScheduled) pes)),
                   rep_Assignable = int (length (filter (\<lambda>pe. has_status ProblemEnvironmentConditionReady pe \<and>
                      \<not> has_status ProblemEnvironmentConditionAssigned pe) pes)),
                   rep_Assigned = int (length (filter (has_status ProblemEnvironmentConditionReady) pes)) -
                     int (length (filter (\<lambda>pe. has_status ProblemEnvironmentConditionReady pe \<and>
                      \<not> has_status ProblemEnvironmentConditionAssigned pe) pes))\<rparr>\<rparr>) w))"
proof -
  have split: "int (length (filter (\<lambda>pe. P pe \<and> Q pe) pes)) =
      int (length (filter P pes)) - int (length (filter (\<lambda>pe. P pe \<and> \<not> Q pe) pes))"
    for P Q and pes :: "ProblemEnvironment list"
    by (induction pes) auto
  show ?thesis
    by (simp add: problem_updateStatus_def listChildProblemEnvironments_def count_status_filter
        split [of "has_status ProblemEnvironmentConditionReady" "has_status ProblemEnvironmentConditionAssigned"]
        Let_def split: sum.splits prod.splits)
qed

end
