(* ===== verification/Metrics_Exporter.thy ===== *)
theory Metrics_Exporter
  imports Problem_Controller
begin

text \<open>
  The metrics exporter (\<^verbatim>\<open>controllers/controller-manager/metrics_exporter.go\<close>). A gauge is
  its value; a gauge vector is a map from its two label values to the value; \<^verbatim>\<open>Reset\<close> empties
  it. The values are \<^verbatim>\<open>float64\<close> conversions of counts, taken from \<open>float_ops\<close>. The
  Prometheus registry is a parameter.
\<close>

section \<open>Collecting\<close>

type_synonym 'f gauge_vec = "string \<times> string \<rightharpoonup> 'f"

record 'f gauges =
  workersTotal :: 'f
  workersReady :: "'f gauge_vec"
  workersSchedulable :: "'f gauge_vec"
  workersScheduledProblemEnvironmentsTotal :: "'f gauge_vec"
  problemsTotal :: 'f
  problemsAssignableReplicasTotal :: "'f gauge_vec"
  problemEnvironmentsTotal :: "'f gauge_vec"
  problemEnvironmentsReadyTotal :: "'f gauge_vec"
  problemEnvironmentsAssignedTotal :: "'f gauge_vec"
  problemEnvironmentsReady :: "'f gauge_vec"

abbreviation worker_labels :: "Worker \<Rightarrow> string \<times> string" where
  "worker_labels wk \<equiv> (om_Namespace (wk_ObjectMeta wk), wk_Name wk)"

abbreviation problem_labels :: "Problem \<Rightarrow> string \<times> string" where
  "problem_labels p \<equiv> (pr_Namespace p, pr_Name p)"

fun count_scheduled :: "string \<Rightarrow> int \<Rightarrow> ProblemEnvironment list \<Rightarrow> int" where
  "count_scheduled name tot [] = tot"
| "count_scheduled name tot (pe # pes) =
     count_scheduled name (if pe_WorkerName pe = name then tot + 1 else tot) pes"

fun collect_workers ::
    "'f float_ops \<Rightarrow> ProblemEnvironment list \<Rightarrow> Worker list \<Rightarrow> 'f gauges \<Rightarrow> 'f gauges" where
  "collect_workers F pes [] m = m"
| "collect_workers F pes (worker # workers) m =
     (let labels = worker_labels worker;
          tot = count_scheduled (wk_Name worker) 0 pes;
          schedulableValue = (if \<not> wk_DisableSchedule worker then 1 else 0);
          readyValue = (if GetWorkerCondition worker WorkerConditionReady = ConditionTrue then 1 else 0)
      in collect_workers F pes workers
           (m\<lparr>workersReady := (workersReady m)(labels \<mapsto> f_of_int F readyValue),
              workersSchedulable := (workersSchedulable m)(labels \<mapsto> f_of_int F schedulableValue),
              workersScheduledProblemEnvironmentsTotal :=
                (workersScheduledProblemEnvironmentsTotal m)(labels \<mapsto> f_of_int F tot)\<rparr>))"

fun collect_replicas :: "'f float_ops \<Rightarrow> Problem list \<Rightarrow> 'f gauges \<Rightarrow> 'f gauges" where
  "collect_replicas F [] m = m"
| "collect_replicas F (problem # problems) m =
     collect_replicas F problems
       (m\<lparr>problemsAssignableReplicasTotal :=
            (problemsAssignableReplicasTotal m)
              (problem_labels problem \<mapsto> f_of_int F (prs_AssignableReplicas (pr_Spec problem)))\<rparr>)"

fun count_owned :: "string \<Rightarrow> int \<times> int \<times> int \<Rightarrow> ProblemEnvironment list \<Rightarrow> int \<times> int \<times> int" where
  "count_owned name (tot, readyTotal, assignedTotal) [] = (tot, readyTotal, assignedTotal)"
| "count_owned name (tot, readyTotal, assignedTotal) (pe # pes) =
     (case om_OwnerReferences (pe_ObjectMeta pe) of
        [] \<Rightarrow> count_owned name (tot, readyTotal, assignedTotal) pes
      | owner # _ \<Rightarrow>
          if or_Name owner \<noteq> name then count_owned name (tot, readyTotal, assignedTotal) pes
          else count_owned name
            (tot + 1,
             if GetProblemEnvironmentCondition pe ProblemEnvironmentConditionReady = ConditionTrue
             then readyTotal + 1 else readyTotal,
             if GetProblemEnvironmentCondition pe ProblemEnvironmentConditionAssigned = ConditionTrue
             then assignedTotal + 1 else assignedTotal) pes)"

fun collect_problems ::
    "'f float_ops \<Rightarrow> ProblemEnvironment list \<Rightarrow> Problem list \<Rightarrow> 'f gauges \<Rightarrow> 'f gauges" where
  "collect_problems F pes [] m = m"
| "collect_problems F pes (problem # problems) m =
     (let labels = problem_labels problem;
          (tot, readyTotal, assignedTotal) = count_owned (pr_Name problem) (0, 0, 0) pes
      in collect_problems F pes problems
           (m\<lparr>problemEnvironmentsTotal := (problemEnvironmentsTotal m)(labels \<mapsto> f_of_int F tot),
              problemEnvironmentsReadyTotal :=
                (problemEnvironmentsReadyTotal m)(labels \<mapsto> f_of_int F readyTotal),
              problemEnvironmentsAssignedTotal :=
                (problemEnvironmentsAssignedTotal m)(labels \<mapsto> f_of_int F assignedTotal)\<rparr>))"

fun collect_ready :: "'f float_ops \<Rightarrow> ProblemEnvironment list \<Rightarrow> 'f gauges \<Rightarrow> 'f gauges" where
  "collect_ready F [] m = m"
| "collect_ready F (pe # pes) m =
     (let isReady = (GetProblemEnvironmentCondition pe ProblemEnvironmentConditionReady = ConditionTrue)
      in collect_ready F pes
           (m\<lparr>problemEnvironmentsReady := (problemEnvironmentsReady m)
                (pe_key pe \<mapsto> f_of_int F (if isReady then 1 else 0))\<rparr>))"

definition metrics_collect ::
    "'f float_ops \<Rightarrow> 'w kube \<Rightarrow> 'w \<Rightarrow> 'f gauges \<Rightarrow> error option \<times> 'f gauges" where
  "metrics_collect F k w m =
     (case listWorker k w ListAll of
        Inl e \<Rightarrow> (Some e, m)
      | Inr workers \<Rightarrow>
     (case listProblem k w ListAll of
        Inl e \<Rightarrow> (Some e, m)
      | Inr problems \<Rightarrow>
     (case listProblemEnvironment k w ListAll of
        Inl e \<Rightarrow> (Some e, m)
      | Inr pes \<Rightarrow>
          (let m = m\<lparr>workersTotal := f_of_int F (int (length workers)),
                     workersReady := Map.empty, workersSchedulable := Map.empty,
                     workersScheduledProblemEnvironmentsTotal := Map.empty\<rparr>;
               m = collect_workers F pes workers m;
               m = m\<lparr>problemsTotal := f_of_int F (int (length problems)),
                     problemsAssignableReplicasTotal := Map.empty\<rparr>;
               m = collect_replicas F problems m;
               m = m\<lparr>problemEnvironmentsTotal := Map.empty, problemEnvironmentsReadyTotal := Map.empty,
                     problemEnvironmentsAssignedTotal := Map.empty, problemEnvironmentsReady := Map.empty\<rparr>;
               m = collect_problems F pes problems m
           in (None, collect_ready F pes m)))))"

text \<open>
  \<^verbatim>\<open>Start\<close>: the collectors are registered in order, an error ends the exporter; then every tick
  collects (from the world of that moment) and an error is only logged.
\<close>

fun register_all :: "('r \<Rightarrow> string \<Rightarrow> 'r or_error) \<Rightarrow> string list \<Rightarrow> 'r \<Rightarrow> 'r or_error" where
  "register_all reg [] r = Inr r"
| "register_all reg (c # cs) r = (case reg r c of Inl e \<Rightarrow> Inl e | Inr r' \<Rightarrow> register_all reg cs r')"

definition collectors :: "string list" where
  "collectors = [''workers_total'', ''workers_ready'', ''workers_schedulable'',
     ''workers_scheduled_problem_environments_total'', ''problems_total'',
     ''problems_assignable_replicas_total'', ''problem_environments_total'',
     ''problem_environments_ready_total'', ''problem_environments_assigned_total'',
     ''problem_environments_ready'']"

datatype 'w scrape_event = ScrapeTick 'w | ScrapeDone

fun scrape_loop ::
    "'f float_ops \<Rightarrow> 'w kube \<Rightarrow> 'w scrape_event list \<Rightarrow> 'f gauges \<Rightarrow> bool \<times> 'f gauges" where
  "scrape_loop F k [] m = (False, m)"
| "scrape_loop F k (ScrapeTick w # evs) m = scrape_loop F k evs (snd (metrics_collect F k w m))"
| "scrape_loop F k (ScrapeDone # evs) m = (True, m)"

definition metrics_Start ::
    "'f float_ops \<Rightarrow> 'w kube \<Rightarrow> ('r \<Rightarrow> string \<Rightarrow> 'r or_error) \<Rightarrow> 'r \<Rightarrow> 'w scrape_event list \<Rightarrow>
     'f gauges \<Rightarrow> error option \<times> bool \<times> 'f gauges" where
  "metrics_Start F k reg r evs m =
     (case register_all reg collectors r of
        Inl e \<Rightarrow> (Some e, True, m)
      | Inr _ \<Rightarrow> (None, scrape_loop F k evs m))"

section \<open>What is collected\<close>

lemma count_scheduled_filter:
  "count_scheduled name n pes = n + int (length (filter (\<lambda>pe. pe_WorkerName pe = name) pes))"
  by (induction pes arbitrary: n) auto

definition owned_by :: "string \<Rightarrow> ProblemEnvironment \<Rightarrow> bool" where
  "owned_by name pe =
     (case om_OwnerReferences (pe_ObjectMeta pe) of [] \<Rightarrow> False | owner # _ \<Rightarrow> or_Name owner = name)"

lemma count_owned_filter:
  "count_owned name (a, b, c) pes =
     (a + int (length (filter (owned_by name) pes)),
      b + int (length (filter (\<lambda>pe. owned_by name pe \<and> has_status ProblemEnvironmentConditionReady pe) pes)),
      c + int (length (filter (\<lambda>pe. owned_by name pe \<and> has_status ProblemEnvironmentConditionAssigned pe) pes)))"
  by (induction pes arbitrary: a b c) (auto simp: owned_by_def has_status_def split: list.splits)

text \<open>A vector filled from a list holds the value of the last object with the labels.\<close>

abbreviation vec_of :: "('o \<Rightarrow> string \<times> string) \<Rightarrow> ('o \<Rightarrow> 'f) \<Rightarrow> 'o list \<Rightarrow> 'f gauge_vec" where
  "vec_of key val os \<equiv> map_of (rev (map (\<lambda>x. (key x, val x)) os))"

lemma map_add_upd_vec: "m ++ vec_of key val (x # xs) = m(key x \<mapsto> val x) ++ vec_of key val xs"
  by (simp add: map_add_def map_of_append fun_eq_iff split: option.splits)

lemma collect_workers_vec:
  "collect_workers F pes wks m =
     m\<lparr>workersReady := workersReady m ++ vec_of (\<lambda>x. worker_labels x) (\<lambda>x. f_of_int F
          (if GetWorkerCondition x WorkerConditionReady = ConditionTrue then 1 else 0)) wks,
       workersSchedulable := workersSchedulable m ++ vec_of (\<lambda>x. worker_labels x) (\<lambda>x. f_of_int F
          (if \<not> wk_DisableSchedule x then 1 else 0)) wks,
       workersScheduledProblemEnvironmentsTotal := workersScheduledProblemEnvironmentsTotal m ++
          vec_of (\<lambda>x. worker_labels x) (\<lambda>x. f_of_int F
            (int (length (filter (\<lambda>pe. pe_WorkerName pe = wk_Name x) pes)))) wks\<rparr>"
  by (induction wks arbitrary: m) (simp_all add: Let_def map_add_upd_vec count_scheduled_filter)

lemma collect_replicas_vec:
  "collect_replicas F ps m =
     m\<lparr>problemsAssignableReplicasTotal := problemsAssignableReplicasTotal m ++
          vec_of (\<lambda>p. problem_labels p) (\<lambda>p. f_of_int F (prs_AssignableReplicas (pr_Spec p))) ps\<rparr>"
  by (induction ps arbitrary: m) (simp_all add: map_add_upd_vec)

lemma collect_problems_vec:
  "collect_problems F pes ps m =
     m\<lparr>problemEnvironmentsTotal := problemEnvironmentsTotal m ++
          vec_of (\<lambda>p. problem_labels p) (\<lambda>p. f_of_int F
            (int (length (filter (owned_by (pr_Name p)) pes)))) ps,
       problemEnvironmentsReadyTotal := problemEnvironmentsReadyTotal m ++
          vec_of (\<lambda>p. problem_labels p) (\<lambda>p. f_of_int F
            (int (length (filter (\<lambda>pe. owned_by (pr_Name p) pe \<and>
               has_status ProblemEnvironmentConditionReady pe) pes)))) ps,
       problemEnvironmentsAssignedTotal := problemEnvironmentsAssignedTotal m ++
          vec_of (\<lambda>p. problem_labels p) (\<lambda>p. f_of_int F
            (int (length (filter (\<lambda>pe. owned_by (pr_Name p) pe \<and>
               has_status ProblemEnvironmentConditionAssigned pe) pes)))) ps\<rparr>"
  by (induction ps arbitrary: m) (simp_all add: Let_def map_add_upd_vec count_owned_filter)

lemma collect_ready_vec:
  "collect_ready F pes m =
     m\<lparr>problemEnvironmentsReady := problemEnvironmentsReady m ++
          vec_of (\<lambda>pe. pe_key pe) (\<lambda>pe. f_of_int F
            (if has_status ProblemEnvironmentConditionReady pe then 1 else 0)) pes\<rparr>"
  by (induction pes arbitrary: m) (simp_all add: Let_def map_add_upd_vec has_status_def)

section \<open>Properties\<close>

text \<open>
  C18. Metrics: a round of \<^verbatim>\<open>collect\<close> whose three listings succeed leaves exactly the series of
  the listed objects, whatever was exported before: readiness, schedulability and number of bound
  environments per worker; wanted replicas and numbers of owned, ready and assigned environments
  per Problem; readiness per environment. A failed listing leaves every gauge as it was.
\<close>

theorem metrics_collect_exact:
  "metrics_collect F k w m =
     (case (listWorker k w ListAll, listProblem k w ListAll, listProblemEnvironment k w ListAll) of
        (Inl e, _, _) \<Rightarrow> (Some e, m)
      | (Inr _, Inl e, _) \<Rightarrow> (Some e, m)
      | (Inr _, Inr _, Inl e) \<Rightarrow> (Some e, m)
      | (Inr wks, Inr ps, Inr pes) \<Rightarrow>
          (None,
           \<lparr>workersTotal = f_of_int F (int (length wks)),
            workersReady = vec_of (\<lambda>x. worker_labels x) (\<lambda>x. f_of_int F
              (if GetWorkerCondition x WorkerConditionReady = ConditionTrue then 1 else 0)) wks,
            workersSchedulable = vec_of (\<lambda>x. worker_labels x) (\<lambda>x. f_of_int F
              (if \<not> wk_DisableSchedule x then 1 else 0)) wks,
            workersScheduledProblemEnvironmentsTotal = vec_of (\<lambda>x. worker_labels x) (\<lambda>x. f_of_int F
              (int (length (filter (\<lambda>pe. pe_WorkerName pe = wk_Name x) pes)))) wks,
            problemsTotal = f_of_int F (int (length ps)),
            problemsAssignableReplicasTotal = vec_of (\<lambda>p. problem_labels p)
              (\<lambda>p. f_of_int F (prs_AssignableReplicas (pr_Spec p))) ps,
            problemEnvironmentsTotal = vec_of (\<lambda>p. problem_labels p) (\<lambda>p. f_of_int F
              (int (length (filter (owned_by (pr_Name p)) pes)))) ps,
            problemEnvironmentsReadyTotal = vec_of (\<lambda>p. problem_labels p) (\<lambda>p. f_of_int F
              (int (length (filter (\<lambda>pe. owned_by (pr_Name p) pe \<and>
                 has_status ProblemEnvironmentConditionReady pe) pes)))) ps,
            problemEnvironmentsAssignedTotal = vec_of (\<lambda>p. problem_labels p) (\<lambda>p. f_of_int F
              (int (length (filter (\<lambda>pe. owned_by (pr_Name p) pe \<and>
                 has_status ProblemEnvironmentConditionAssigned pe) pes)))) ps,
            problemEnvironmentsReady = vec_of (\<lambda>pe. pe_key pe) (\<lambda>pe. f_of_int F
              (if has_status ProblemEnvironmentConditionReady pe then 1 else 0)) pes\<rparr>))"
  by (simp add: metrics_collect_def Let_def collect_workers_vec collect_replicas_vec
      collect_problems_vec collect_ready_vec split: sum.splits)

end
