(* ===== verification/Containerlab.thy ===== *)
theory Containerlab
  imports Kube_Client
begin

text \<open>
  The host a worker runs on and the ContainerLab client (\<^verbatim>\<open>pkg/containerlab\<close>). The file
  system is modelled: a map from paths to directories and files, with the calls of the
  \<^verbatim>\<open>os\<close> package the code uses; the paths are those \<^verbatim>\<open>path.Join\<close> and \<^verbatim>\<open>filepath.Dir\<close>
  return, so equal paths are equal strings. \<open>ho_fault\<close> decides which calls fail for reasons
  outside the model (permissions, a full disk). The \<^verbatim>\<open>clab\<close> command, the docker daemon and
  the YAML and JSON packages are parameters, fields of \<open>host_ops\<close>.
\<close>

section \<open>File system\<close>

datatype fs_node = Dir | File string

type_synonym fs = "string \<rightharpoonup> fs_node"

record 'x host =
  h_fs :: fs
  h_ext :: 'x

text \<open>The directories \<^verbatim>\<open>MkdirAll\<close> needs, outermost first.\<close>

definition ancestors :: "string \<Rightarrow> string list" where
  "ancestors p =
     filter (\<lambda>q. q \<noteq> '''') (map (\<lambda>n. join ''/'' (take n (split_on slash p))) [1..<Suc (length (split_on slash p))])"

fun mkdir_walk :: "string list \<Rightarrow> fs \<Rightarrow> error option \<times> fs" where
  "mkdir_walk [] f = (None, f)"
| "mkdir_walk (p # ps) f =
     (case f p of
        None \<Rightarrow> mkdir_walk ps (f(p \<mapsto> Dir))
      | Some Dir \<Rightarrow> mkdir_walk ps f
      | Some (File _) \<Rightarrow> (Some (Errorf ''not a directory''), f))"

section \<open>Configuration types\<close>

typedecl yaml_value

record MgmtNet =
  mn_Network :: string
  mn_Bridge :: string
  mn_IPv4Subnet :: string
  mn_IPv4Gw :: string
  mn_IPv6Subnet :: string
  mn_IPv6Gw :: string
  mn_MTU :: string
  mn_ExternalAccess :: "bool option"

definition MgmtNet0 :: MgmtNet where
  "MgmtNet0 = \<lparr>mn_Network = '''', mn_Bridge = '''', mn_IPv4Subnet = '''', mn_IPv4Gw = '''',
     mn_IPv6Subnet = '''', mn_IPv6Gw = '''', mn_MTU = '''', mn_ExternalAccess = None\<rparr>"

record ConfigDispatcher =
  cd_Vars :: "(string \<times> yaml_value) list"

record Extras =
  ex_SRLAgents :: "string list"
  ex_MysocketProxy :: string
  ex_CeosCopyToFlash :: "string list"

record LinkConfig =
  lc_Endpoints :: "string list"
  lc_Labels :: label_map
  lc_Vars :: "(string \<times> yaml_value) list"

record 'f NodeDefinition =
  nd_Kind :: string
  nd_Group :: string
  nd_Type :: string
  nd_StartupConfig :: string
  nd_StartupDelay :: "64 word"
  nd_EnforceStartupConfig :: bool
  nd_Config :: "ConfigDispatcher option"
  nd_Image :: string
  nd_License :: string
  nd_Position :: string
  nd_Entrypoint :: string
  nd_Cmd :: string
  nd_SANs :: "string list"
  nd_Exec :: "string list"
  nd_Binds :: "string list"
  nd_Ports :: "string list"
  nd_MgmtIPv4 :: string
  nd_MgmtIPv6 :: string
  nd_Publish :: "string list"
  nd_Env :: label_map
  nd_EnvFiles :: "string list"
  nd_User :: string
  nd_Labels :: label_map
  nd_NetworkMode :: string
  nd_Sandbox :: string
  nd_Kernel :: string
  nd_Runtime :: string
  nd_CPU :: 'f
  nd_CPUSet :: string
  nd_Memory :: string
  nd_Sysctls :: label_map
  nd_Extras :: "Extras option"
  nd_WaitFor :: "string list"

text \<open>Maps of pointers: an entry may be nil.\<close>

record 'f Topology =
  tp_Defaults :: "'f NodeDefinition option"
  tp_Kinds :: "(string \<times> 'f NodeDefinition option) list"
  tp_Nodes :: "(string \<times> 'f NodeDefinition option) list"
  tp_Links :: "LinkConfig option list"

record 'f Config =
  cf_Name :: string
  cf_Prefix :: "string option"
  cf_Mgmt :: "MgmtNet option"
  cf_Topology :: "'f Topology"

record ContainerDetails =
  cd_LabName :: string
  cd_LabPath :: string
  cd_Name :: string
  cd_ContainerID :: string
  cd_Image :: string
  cd_Kind :: string
  cd_State :: string
  cd_IPv4Address :: string
  cd_IPv6Address :: string

section \<open>What the code calls\<close>

record ContainerState =
  st_Running :: bool
  st_Health :: "string option"

record ContainerInfo =
  ci_Name :: string
  ci_State :: ContainerState

record IPAMConfig =
  ipam_Subnet :: string
  ipam_Gateway :: string

record NetworkResource =
  nr_Driver :: string
  nr_IPAMDriver :: string
  nr_IPAMConfig :: "IPAMConfig list"

text \<open>
  \<open>ho_clab args dir\<close> runs \<^verbatim>\<open>clab\<close> in a directory and returns its two outputs and the error
  of the run; \<open>ho_clab_query\<close> is a run that only reads. \<open>ho_json\<close> decodes a JSON object to
  the entries of a Go map in the order the loop visits them.
\<close>

record ('f, 'x) host_ops =
  ho_fault :: "'x host \<Rightarrow> string \<Rightarrow> string \<Rightarrow> error option"
  ho_clab :: "string list \<Rightarrow> string \<Rightarrow> 'x host \<Rightarrow> (string \<times> string \<times> error option) \<times> 'x host"
  ho_clab_query :: "string list \<Rightarrow> string \<Rightarrow> 'x host \<Rightarrow> string or_error"
  ho_json :: "string \<Rightarrow> (string \<times> ContainerDetails list) list or_error"
  ho_yaml_Unmarshal :: "string \<Rightarrow> 'f Config or_error"
  ho_yaml_Marshal :: "'f Config \<Rightarrow> string or_error"
  ho_ContainerInspect :: "'x host \<Rightarrow> string \<Rightarrow> ContainerInfo or_error"
  ho_NetworkInspect :: "'x host \<Rightarrow> string \<Rightarrow> NetworkResource or_error"
  ho_NetworkRemove :: "string \<Rightarrow> 'x host \<Rightarrow> error option \<times> 'x host"
  ho_NetworkCreate :: "string \<Rightarrow> NetworkResource \<Rightarrow> 'x host \<Rightarrow> error option \<times> 'x host"
  ho_format_time :: "time \<Rightarrow> string"
  ho_SetOwnerReference :: "ProblemEnvironment \<Rightarrow> ConfigMap \<Rightarrow> ConfigMap"

section \<open>The os package\<close>

definition os_Stat :: "('f, 'x) host_ops \<Rightarrow> 'x host \<Rightarrow> string \<Rightarrow> fs_node or_error" where
  "os_Stat ho h p =
     (case ho_fault ho h ''stat'' p of
        Some e \<Rightarrow> Inl e
      | None \<Rightarrow> (case h_fs h p of None \<Rightarrow> Inl (Errorf ''no such file or directory'') | Some n \<Rightarrow> Inr n))"

definition os_MkdirAll :: "('f, 'x) host_ops \<Rightarrow> string \<Rightarrow> 'x host \<Rightarrow> error option \<times> 'x host" where
  "os_MkdirAll ho p h =
     (case ho_fault ho h ''mkdir'' p of
        Some e \<Rightarrow> (Some e, h)
      | None \<Rightarrow> (case mkdir_walk (ancestors p) (h_fs h) of (r, f) \<Rightarrow> (r, h\<lparr>h_fs := f\<rparr>)))"

definition os_ReadFile :: "('f, 'x) host_ops \<Rightarrow> 'x host \<Rightarrow> string \<Rightarrow> string or_error" where
  "os_ReadFile ho h p =
     (case ho_fault ho h ''read'' p of
        Some e \<Rightarrow> Inl e
      | None \<Rightarrow>
          (case h_fs h p of
             None \<Rightarrow> Inl (Errorf ''no such file or directory'')
           | Some Dir \<Rightarrow> Inl (Errorf ''is a directory'')
           | Some (File c) \<Rightarrow> Inr c))"

definition os_WriteFile :: "('f, 'x) host_ops \<Rightarrow> string \<Rightarrow> string \<Rightarrow> 'x host \<Rightarrow> error option \<times> 'x host" where
  "os_WriteFile ho p content h =
     (case ho_fault ho h ''write'' p of
        Some e \<Rightarrow> (Some e, h)
      | None \<Rightarrow>
          if filepath_Dir p \<noteq> ''.'' \<and> filepath_Dir p \<noteq> ''/'' \<and> h_fs h (filepath_Dir p) \<noteq> Some Dir
          then (Some (Errorf ''no such file or directory''), h)
          else if h_fs h p = Some Dir then (Some (Errorf ''is a directory''), h)
          else (None, h\<lparr>h_fs := (h_fs h)(p \<mapsto> File content)\<rparr>))"

definition os_RemoveAll :: "('f, 'x) host_ops \<Rightarrow> string \<Rightarrow> 'x host \<Rightarrow> error option \<times> 'x host" where
  "os_RemoveAll ho p h =
     (case ho_fault ho h ''remove'' p of
        Some e \<Rightarrow> (Some e, h)
      | None \<Rightarrow>
          (None, h\<lparr>h_fs := (\<lambda>q. if q = p \<or> has_prefix (p @ ''/'') q then None else h_fs h q)\<rparr>))"

section \<open>The client\<close>

record ContainerLabClient =
  workingDirectoryPath :: string
  topologyFileName :: string

definition NewContainerLabClient :: "string \<Rightarrow> ContainerLabClient" where
  "NewContainerLabClient topologyFilePath =
     \<lparr>workingDirectoryPath = filepath_Dir topologyFilePath,
      topologyFileName = filepath_Base topologyFilePath\<rparr>"

definition NewContainerLabClientFor :: "ProblemEnvironment option \<Rightarrow> ContainerLabClient option" where
  "NewContainerLabClientFor pe =
     (case pe of
        None \<Rightarrow> None
      | Some pe \<Rightarrow> Some (NewContainerLabClient (path_join [''data'', pe_Name pe, ''manifest.yml''])))"

definition TopologyFilePath :: "ContainerLabClient \<Rightarrow> string" where
  "TopologyFilePath c = path_join [workingDirectoryPath c, topologyFileName c]"

definition LoadTopologyFile :: "('f, 'x) host_ops \<Rightarrow> ContainerLabClient \<Rightarrow> 'x host \<Rightarrow> 'f Config or_error" where
  "LoadTopologyFile ho c h =
     (case os_ReadFile ho h (TopologyFilePath c) of
        Inl e \<Rightarrow> Inl (Wrap ''failed to read topology file: '' e)
      | Inr d \<Rightarrow>
          (case ho_yaml_Unmarshal ho d of
             Inl e \<Rightarrow> Inl (Wrap ''failed to unmarshal topology file: '' e)
           | Inr cf \<Rightarrow> Inr cf))"

definition clab_Deploy :: "('f, 'x) host_ops \<Rightarrow> ContainerLabClient \<Rightarrow> 'x host \<Rightarrow> error option \<times> 'x host" where
  "clab_Deploy ho c h =
     (case ho_clab ho [''--log-level'', ''debug'', ''-t'', topologyFileName c, ''deploy'']
             (workingDirectoryPath c) h of
        ((_, _, r), h') \<Rightarrow> (r, h'))"

definition DeployWithOutput ::
    "('f, 'x) host_ops \<Rightarrow> ContainerLabClient \<Rightarrow> 'x host \<Rightarrow> (string \<times> string \<times> error option) \<times> 'x host" where
  "DeployWithOutput ho c h =
     ho_clab ho [''--log-level'', ''debug'', ''-t'', topologyFileName c, ''deploy'']
       (workingDirectoryPath c) h"

definition clab_Destroy :: "('f, 'x) host_ops \<Rightarrow> ContainerLabClient \<Rightarrow> 'x host \<Rightarrow> error option \<times> 'x host" where
  "clab_Destroy ho c h =
     (case ho_clab ho [''--log-level'', ''debug'', ''-t'', topologyFileName c, ''destroy'', ''--keep-mgmt-net'']
             (workingDirectoryPath c) h of
        ((_, _, r), h') \<Rightarrow> (r, h'))"

definition clab_Inspect :: "('f, 'x) host_ops \<Rightarrow> ContainerLabClient \<Rightarrow> 'x host \<Rightarrow> ContainerDetails list or_error" where
  "clab_Inspect ho c h =
     (case ho_clab_query ho [''-t'', topologyFileName c, ''inspect'', ''-f'', ''json'']
             (workingDirectoryPath c) h of
        Inl e \<Rightarrow> Inl e
      | Inr stdout \<Rightarrow>
          (case ho_json ho stdout of
             Inl e \<Rightarrow> Inl e
           | Inr entries \<Rightarrow> Inr (foldl (\<lambda>result entry. result @ snd entry) [] entries)))"

section \<open>Paths of an environment\<close>

lemma filepath_Dir_plain:
  assumes "plain_name x" "\<forall>y \<in> set xs. plain_name y" "plain_name z"
  shows "filepath_Dir (join ''/'' (x # xs @ [z])) = join ''/'' (x # xs)"
    and "filepath_Base (join ''/'' (x # xs @ [z])) = z"
proof -
  have sp: "split_on slash (join ''/'' (x # xs @ [z])) = x # xs @ [z]"
    using assms by (intro split_on_join) (auto simp: plain_name_def)
  have cl: "clean_comps False [] (x # xs @ ['''']) = x # xs"
  proof -
    have "clean_comps False st (cs @ ['''']) = clean_comps False st cs" for st cs
      by (induction cs arbitrary: st) (auto split: list.splits)
    from this [of "[]" "x # xs"] show ?thesis
      using clean_comps_plain [of "x # xs" False "[]"] assms(1,2) by simp
  qed
  have j: "join ''/'' (x # xs) @ ''/'' = join ''/'' (x # xs @ [''''])"
    by (induction xs arbitrary: x) simp_all
  have "split_on slash (join ''/'' (x # xs @ [''''])) = x # xs @ ['''']"
    using assms by (intro split_on_join) (auto simp: plain_name_def)
  moreover have "\<not> has_prefix ''/'' (join ''/'' (x # xs @ ['''']))"
    by (rule join_plain_not_rooted [OF assms(1)])
  moreover have "join ''/'' (x # xs) \<noteq> ''''"
    by (rule join_plain_nonempty [OF assms(1)])
  ultimately have "path_clean (join ''/'' (x # xs) @ ''/'') = join ''/'' (x # xs)"
    unfolding j by (simp add: path_clean_def Let_def cl del: clean_comps.simps)
  then show "filepath_Dir (join ''/'' (x # xs @ [z])) = join ''/'' (x # xs)"
    by (simp add: filepath_Dir_def sp butlast_append)
  have "filter (\<lambda>c. c \<noteq> '''') (x # xs @ [z]) = x # xs @ [z]"
    using assms by (auto simp: plain_name_def intro: filter_True)
  then show "filepath_Base (join ''/'' (x # xs @ [z])) = z"
    using join_plain_nonempty [OF assms(1), of "''/''" "xs @ [z]"] by (simp add: filepath_Base_def sp)
qed

lemma plain_consts [simp]: "plain_name ''data''" "plain_name ''manifest.yml''" "plain_name ''config''"
  by (simp_all add: plain_name_def)

lemma client_paths:
  assumes "plain_name n"
  defines "c \<equiv> NewContainerLabClient (path_join [''data'', n, ''manifest.yml''])"
  shows "workingDirectoryPath c = ''data/'' @ n" "topologyFileName c = ''manifest.yml''"
    "TopologyFilePath c = ''data/'' @ n @ ''/manifest.yml''"
proof -
  have p: "path_join [''data'', n, ''manifest.yml''] = join ''/'' [''data'', n, ''manifest.yml'']"
    using assms(1) by (intro path_join_plain) simp_all
  have wd: "workingDirectoryPath c = join ''/'' [''data'', n]" and tn: "topologyFileName c = ''manifest.yml''"
    using filepath_Dir_plain [of "''data''" "[n]" "''manifest.yml''"] assms(1)
    by (simp_all add: c_def NewContainerLabClient_def p)
  show "workingDirectoryPath c = ''data/'' @ n" "topologyFileName c = ''manifest.yml''"
    using wd tn by simp_all
  have "path_join [join ''/'' [''data'', n], ''manifest.yml''] = path_clean (join ''/'' [''data'', n, ''manifest.yml''])"
    by (simp add: path_join_def)
  also have "\<dots> = join ''/'' [''data'', n, ''manifest.yml'']"
    using assms(1) by (intro path_clean_plain) simp_all
  finally show "TopologyFilePath c = ''data/'' @ n @ ''/manifest.yml''"
    using wd tn by (simp add: TopologyFilePath_def)
qed

end
