(* ===== verification/Scheduler.thy ===== *)
theory Scheduler
  imports Kube_Client
begin

text \<open>
  Worker election of the controller manager
  (\<^verbatim>\<open>controllers/controller-manager/problemenvironment_controller.go\<close>,
  \<^verbatim>\<open>electWorker\<close> and \<^verbatim>\<open>electWorkerFromCandidates\<close>). Label selectors are parsed
  and matched by apimachinery: \<open>sel s\<close> is \<^verbatim>\<open>LabelSelectorAsSelector\<close>, a matcher or an
  error. \<open>u\<close> is the value of \<^verbatim>\<open>rand.Float64()\<close>.
\<close>

record 'f SchedulerParameters =
  CPUWeight :: 'f
  MemoryWeight :: 'f
  MemoryThreshold :: 'f
  Temperature :: 'f

record 'f CandidateWorker =
  cw_Name :: string
  cw_Score :: 'f

type_synonym selector_parser = "LabelSelector \<Rightarrow> (label_map \<Rightarrow> bool) or_error"

definition MAX_USED_PERCENT :: "'f float_ops \<Rightarrow> 'f" where
  "MAX_USED_PERCENT F = f_of_int F 100"

text \<open>The loop over the selectors: the first one that parses and matches ends it.\<close>

fun selectors_match :: "selector_parser \<Rightarrow> LabelSelector list \<Rightarrow> label_map \<Rightarrow> bool" where
  "selectors_match sel [] ls = False"
| "selectors_match sel (s # ss) ls =
     (case sel s of
        Inl _ \<Rightarrow> selectors_match sel ss ls
      | Inr m \<Rightarrow> if m ls then True else selectors_match sel ss ls)"

definition used_percent :: "'f float_ops \<Rightarrow> string \<Rightarrow> 'f" where
  "used_percent F s = (case f_parse F s of Inl _ \<Rightarrow> MAX_USED_PERCENT F | Inr v \<Rightarrow> v)"

definition worker_score :: "'f float_ops \<Rightarrow> 'f SchedulerParameters \<Rightarrow> 'f \<Rightarrow> 'f \<Rightarrow> 'f" where
  "worker_score F par cpuUsed memUsed =
     (let cost = f_add F (f_mul F cpuUsed (CPUWeight par)) (f_mul F memUsed (MemoryWeight par));
          cost = f_div F (f_div F cost (f_add F (CPUWeight par) (MemoryWeight par))) (f_of_int F 100)
      in f_sub F (f_of_int F 1) cost)"

text \<open>One iteration of the loop over the workers; \<^verbatim>\<open>continue\<close> is \<open>None\<close>.\<close>

definition candidate_of ::
    "'f float_ops \<Rightarrow> selector_parser \<Rightarrow> 'f SchedulerParameters \<Rightarrow> LabelSelector list \<Rightarrow> Worker \<Rightarrow>
     'f CandidateWorker option" where
  "candidate_of F sel par selectors wk =
     (if GetWorkerCondition wk WorkerConditionReady \<noteq> ConditionTrue then None
      else if wk_DisableSchedule wk then None
      else if length selectors > 0 \<and>
        \<not> selectors_match sel selectors (case om_Labels (wk_ObjectMeta wk) of None \<Rightarrow> Map.empty | Some m \<Rightarrow> m)
      then None
      else
        (let cpuUsedPercent = used_percent F (wi_CPUUsedPercent (wk_WorkerInfo wk));
             memoryUsedPercent = used_percent F (wi_MemoryUsedPercent (wk_WorkerInfo wk))
         in if f_lt F (MemoryThreshold par) memoryUsedPercent then None
            else Some \<lparr>cw_Name = wk_Name wk,
                       cw_Score = worker_score F par cpuUsedPercent memoryUsedPercent\<rparr>))"

text \<open>The election loop: \<open>v\<close> is what is left of the drawn number.\<close>

fun elect_loop :: "'f float_ops \<Rightarrow> 'f \<Rightarrow> 'f \<Rightarrow> (string \<times> 'f) list \<Rightarrow> string option" where
  "elect_loop F tot v [] = None"
| "elect_loop F tot v ((name, t) # rest) =
     (let v' = f_sub F v (f_div F t tot)
      in if f_lt F v' (f_of_int F 0) then Some name else elect_loop F tot v' rest)"

text \<open>Called with a non-empty list of candidates only.\<close>

definition electWorkerFromCandidates ::
    "'f float_ops \<Rightarrow> 'f SchedulerParameters \<Rightarrow> 'f \<Rightarrow> 'f CandidateWorker list \<Rightarrow> string" where
  "electWorkerFromCandidates F par u candidates =
     (let tmps = map (\<lambda>c. f_exp F (f_div F (cw_Score c) (Temperature par))) candidates;
          tot = foldl (f_add F) (f_of_int F 0) tmps
      in case elect_loop F tot u (zip (map cw_Name candidates) tmps) of
           Some name \<Rightarrow> name
         | None \<Rightarrow> cw_Name (last candidates))"

definition electWorker ::
    "'f float_ops \<Rightarrow> selector_parser \<Rightarrow> 'f SchedulerParameters \<Rightarrow> 'f \<Rightarrow> Worker list \<Rightarrow>
     LabelSelector list \<Rightarrow> string" where
  "electWorker F sel par u workers selectors =
     (let candidates = List.map_filter (candidate_of F sel par selectors) workers
      in if candidates = [] then '''' else electWorkerFromCandidates F par u candidates)"

section \<open>Who can be elected\<close>

text \<open>
  The specification: a worker is eligible when it is ready, enabled, selected (if selectors are
  given) and its memory usage is not above the threshold.
\<close>

definition eligible ::
    "'f float_ops \<Rightarrow> selector_parser \<Rightarrow> 'f SchedulerParameters \<Rightarrow> LabelSelector list \<Rightarrow> Worker \<Rightarrow> bool" where
  "eligible F sel par selectors wk \<longleftrightarrow>
     GetWorkerCondition wk WorkerConditionReady = ConditionTrue \<and>
     \<not> wk_DisableSchedule wk \<and>
     (selectors = [] \<or>
      (\<exists>s \<in> set selectors. \<exists>m. sel s = Inr m \<and>
         m (case om_Labels (wk_ObjectMeta wk) of None \<Rightarrow> Map.empty | Some l \<Rightarrow> l))) \<and>
     \<not> f_lt F (MemoryThreshold par) (used_percent F (wi_MemoryUsedPercent (wk_WorkerInfo wk)))"

lemma selectors_match_iff:
  "selectors_match sel ss ls \<longleftrightarrow> (\<exists>s \<in> set ss. \<exists>m. sel s = Inr m \<and> m ls)"
  by (induction ss) (auto split: sum.splits)

lemma candidate_of_Some_iff:
  "candidate_of F sel par selectors wk \<noteq> None \<longleftrightarrow> eligible F sel par selectors wk"
  by (auto simp: candidate_of_def eligible_def selectors_match_iff Let_def)

lemma candidate_of_name:
  "candidate_of F sel par selectors wk = Some c \<Longrightarrow> cw_Name c = wk_Name wk"
  by (auto simp: candidate_of_def Let_def split: if_splits)

lemma elect_loop_member: "elect_loop F tot v xs = Some n \<Longrightarrow> n \<in> fst ` set xs"
  by (induction F tot v xs rule: elect_loop.induct) (auto simp: Let_def split: if_splits)

lemma electWorkerFromCandidates_member:
  assumes "cs \<noteq> []"
  shows "electWorkerFromCandidates F par u cs \<in> cw_Name ` set cs"
proof -
  have "n \<in> cw_Name ` set cs" if "n \<in> fst ` set (zip (map cw_Name cs) ts)" for n and ts :: "'a list"
    using that by (auto dest: set_zip_leftD)
  then show ?thesis
    using assms by (auto simp: electWorkerFromCandidates_def Let_def split: option.splits
        dest!: elect_loop_member)
qed

lemma set_map_filter: "set (List.map_filter f xs) = {y. \<exists>x \<in> set xs. f x = Some y}"
  by (induction xs) (auto simp: List.map_filter_simps split: option.splits)

lemma electWorker_eligible:
  assumes "electWorker F sel par u workers selectors \<noteq> ''''"
  shows "\<exists>wk \<in> set workers. wk_Name wk = electWorker F sel par u workers selectors \<and>
           eligible F sel par selectors wk"
proof -
  let ?cs = "List.map_filter (candidate_of F sel par selectors) workers"
  have ne: "?cs \<noteq> []" and eq: "electWorker F sel par u workers selectors = electWorkerFromCandidates F par u ?cs"
    using assms by (auto simp: electWorker_def Let_def split: if_splits)
  obtain c where "c \<in> set ?cs" and c: "cw_Name c = electWorker F sel par u workers selectors"
    using electWorkerFromCandidates_member [OF ne, of F par u] eq by auto
  then obtain wk where "wk \<in> set workers" "candidate_of F sel par selectors wk = Some c"
    by (auto simp: set_map_filter)
  then show ?thesis
    using c candidate_of_name [of F sel par selectors wk c]
      candidate_of_Some_iff [of F sel par selectors wk] by auto
qed

lemma electWorker_none:
  assumes "\<And>wk. wk \<in> set workers \<Longrightarrow> \<not> eligible F sel par selectors wk"
  shows "electWorker F sel par u workers selectors = ''''"
proof -
  have "List.map_filter (candidate_of F sel par selectors) workers = []"
    using assms candidate_of_Some_iff [of F sel par selectors]
    by (fastforce simp: set_map_filter simp flip: set_empty)
  then show ?thesis
    by (simp add: electWorker_def)
qed

section \<open>The Boltzmann distribution\<close>

text \<open>With exact arithmetic, the loop finds the candidate in whose interval the number lies.\<close>

lemma elect_loop_real:
  assumes "i < length xs"
    and "(\<Sum>j < i. snd (xs ! j) / tot) \<le> v"
    and "v < (\<Sum>j < Suc i. snd (xs ! j) / tot)"
    and "\<And>j. j < length xs \<Longrightarrow> 0 \<le> snd (xs ! j) / tot"
  shows "elect_loop (real_float p s) tot v xs = Some (fst (xs ! i))"
  using assms
proof (induction xs arbitrary: i v)
  case Nil
  then show ?case by simp
next
  case (Cons x xs)
  obtain n t where x: "x = (n, t)" by (cases x)
  show ?case
  proof (cases i)
    case 0
    with Cons.prems x show ?thesis by (simp add: Let_def)
  next
    case (Suc i')
    have shift: "(\<Sum>j < Suc m. snd ((x # xs) ! j) / tot) = t / tot + (\<Sum>j < m. snd (xs ! j) / tot)" for m
      by (simp only: sum.lessThan_Suc_shift nth_Cons_0 nth_Cons_Suc x snd_conv o_def)
    have nonneg: "0 \<le> (\<Sum>j < i'. snd (xs ! j) / tot)"
      using Cons.prems(1,4) Suc by (intro sum_nonneg) (metis Suc_less_eq length_Cons lessThan_iff less_trans nth_Cons_Suc)
    have "elect_loop (real_float p s) tot (v - t / tot) xs = Some (fst (xs ! i'))"
    proof (rule Cons.IH)
      show "i' < length xs" using Cons.prems(1) Suc by simp
      show "(\<Sum>j < i'. snd (xs ! j) / tot) \<le> v - t / tot"
        using Cons.prems(2) shift [of i'] Suc by simp
      show "v - t / tot < (\<Sum>j < Suc i'. snd (xs ! j) / tot)"
        using Cons.prems(3) shift [of "Suc i'"] Suc by simp
      show "0 \<le> snd (xs ! j) / tot" if "j < length xs" for j
        using Cons.prems(4) [of "Suc j"] that by simp
    qed
    moreover have "\<not> v - t / tot < 0"
      using Cons.prems(2) shift [of i'] nonneg Suc by simp
    ultimately show ?thesis
      using Suc x by (simp add: Let_def)
  qed
qed

text \<open>The weight of a candidate, \<open>exp (score / temperature)\<close> over the sum of all weights.\<close>

definition boltzmann :: "real SchedulerParameters \<Rightarrow> real CandidateWorker list \<Rightarrow> nat \<Rightarrow> real" where
  "boltzmann par cs i =
     exp (cw_Score (cs ! i) / Temperature par) /
     (\<Sum>j < length cs. exp (cw_Score (cs ! j) / Temperature par))"

lemma boltzmann_total:
  assumes "cs \<noteq> []"
  shows "(\<Sum>i < length cs. boltzmann par cs i) = 1"
proof -
  have "0 < (\<Sum>j < length cs. exp (cw_Score (cs ! j) / Temperature par))"
    using assms by (intro sum_pos) auto
  then show ?thesis
    by (simp add: boltzmann_def flip: sum_divide_distrib)
qed

lemma foldl_add_sum: "foldl (+) (a::real) xs = a + (\<Sum>j < length xs. xs ! j)"
  by (induction xs arbitrary: a) (auto simp: sum.lessThan_Suc_shift simp del: sum.lessThan_Suc)

lemma electWorkerFromCandidates_real:
  assumes "i < length cs"
    and "(\<Sum>j < i. boltzmann par cs j) \<le> u" and "u < (\<Sum>j < Suc i. boltzmann par cs j)"
  shows "electWorkerFromCandidates (real_float p s) par u cs = cw_Name (cs ! i)"
proof -
  define tmps where "tmps = map (\<lambda>c. exp (cw_Score c / Temperature par)) cs"
  define tot where "tot = (\<Sum>j < length cs. exp (cw_Score (cs ! j) / Temperature par))"
  let ?xs = "zip (map cw_Name cs) tmps"
  have toteq: "foldl (+) 0 tmps = tot"
    by (simp add: foldl_add_sum tmps_def tot_def)
  have len: "length ?xs = length cs"
    by (simp add: tmps_def)
  have pos: "0 \<le> tot"
    unfolding tot_def by (intro sum_nonneg) simp
  have b: "snd (?xs ! j) / tot = boltzmann par cs j" if "j < length cs" for j
    using that by (simp add: tmps_def tot_def boltzmann_def)
  have sums: "(\<Sum>j < m. snd (?xs ! j) / tot) = (\<Sum>j < m. boltzmann par cs j)" if "m \<le> length cs" for m
    using that b by (intro sum.cong) auto
  have "elect_loop (real_float p s) tot u ?xs = Some (fst (?xs ! i))"
  proof (rule elect_loop_real)
    show "i < length ?xs" using assms(1) len by simp
    show "(\<Sum>j < i. snd (?xs ! j) / tot) \<le> u"
      using assms(1,2) sums [of i] by simp
    show "u < (\<Sum>j < Suc i. snd (?xs ! j) / tot)"
      using assms(1,3) sums [of "Suc i"] by simp
    show "0 \<le> snd (?xs ! j) / tot" if "j < length ?xs" for j
      using that pos by (simp add: tmps_def)
  qed
  then show ?thesis
    using assms(1) toteq by (simp add: electWorkerFromCandidates_def Let_def tmps_def)
qed

lemma worker_score_range:
  fixes par :: "real SchedulerParameters"
  assumes "0 \<le> cpu" "cpu \<le> 100" "0 \<le> mem" "mem \<le> 100"
    and "0 \<le> CPUWeight par" "0 \<le> MemoryWeight par" "0 < CPUWeight par + MemoryWeight par"
  shows "0 \<le> worker_score (real_float p s) par cpu mem \<and> worker_score (real_float p s) par cpu mem \<le> 1"
proof -
  let ?c = "cpu * CPUWeight par + mem * MemoryWeight par"
  let ?w = "CPUWeight par + MemoryWeight par"
  have "?c \<le> 100 * ?w"
    using assms mult_right_mono [of cpu 100 "CPUWeight par"] mult_right_mono [of mem 100 "MemoryWeight par"]
    by (simp add: algebra_simps)
  then have "?c / ?w / 100 \<le> 1" and "0 \<le> ?c / ?w / 100"
    using assms by (simp_all add: divide_le_eq algebra_simps)
  then show ?thesis
    unfolding worker_score_def Let_def real_float_simps by simp
qed

section \<open>Properties\<close>

lemma electWorker_elects:
  assumes "wk \<in> set workers" "eligible F sel par selectors wk"
    and "\<And>x. x \<in> set workers \<Longrightarrow> wk_Name x \<noteq> ''''"
  shows "electWorker F sel par u workers selectors \<noteq> ''''"
proof -
  let ?cs = "List.map_filter (candidate_of F sel par selectors) workers"
  have ne: "?cs \<noteq> []"
    using assms(1,2) candidate_of_Some_iff [of F sel par selectors wk]
    by (force simp: set_map_filter simp flip: set_empty)
  have "cw_Name c \<noteq> ''''" if "c \<in> set ?cs" for c
    using that assms(3) by (force simp: set_map_filter dest: candidate_of_name)
  then have "'''' \<notin> cw_Name ` set ?cs"
    by force
  moreover have "electWorker F sel par u workers selectors \<in> cw_Name ` set ?cs"
    using electWorkerFromCandidates_member [OF ne, of F par u] ne by (simp add: electWorker_def)
  ultimately show ?thesis
    by metis
qed

text \<open>
  C10. Election: for any floating-point arithmetic (NaN and rounding included) and any drawn number,
  the elected worker is an eligible one of the list, and one is elected exactly when one is
  eligible.
\<close>

theorem electWorker_sound_complete:
  assumes "\<forall>wk \<in> set workers. wk_Name wk \<noteq> ''''"
  shows "if \<exists>wk \<in> set workers. eligible F sel par selectors wk
    then \<exists>wk \<in> set workers. eligible F sel par selectors wk \<and>
           electWorker F sel par u workers selectors = wk_Name wk
    else electWorker F sel par u workers selectors = ''''"
proof (cases "\<exists>wk \<in> set workers. eligible F sel par selectors wk")
  case True
  then have "electWorker F sel par u workers selectors \<noteq> ''''"
    using electWorker_elects assms by metis
  then show ?thesis
    using electWorker_eligible True by (metis (no_types, lifting))
next
  case False
  then show ?thesis
    using electWorker_none by (metis (no_types, lifting))
qed

theorem electWorker_sound_complete_witness:
  "\<exists>wk \<in> set [Worker0\<lparr>wk_ObjectMeta := ObjectMeta0\<lparr>om_Name := ''worker1''\<rparr>,
       wk_Conditions := [\<lparr>c_Type = WorkerConditionReady, c_Status = ConditionTrue,
         c_ObservedGeneration = 1, c_LastTransitionTime = 0, c_Reason = '''', c_Message = ''''\<rparr>]\<rparr>].
     electWorker (real_float (\<lambda>_. Inr 10) (\<lambda>_. '''')) (\<lambda>_. Inr (\<lambda>_. True))
       \<lparr>CPUWeight = 1, MemoryWeight = 1, MemoryThreshold = 80, Temperature = 1\<rparr> (1 / 2) [wk] [] = wk_Name wk"
proof -
  let ?wk = "Worker0\<lparr>wk_ObjectMeta := ObjectMeta0\<lparr>om_Name := ''worker1''\<rparr>,
       wk_Conditions := [\<lparr>c_Type = WorkerConditionReady, c_Status = ConditionTrue,
         c_ObservedGeneration = 1, c_LastTransitionTime = 0, c_Reason = '''', c_Message = ''''\<rparr>]\<rparr>"
  let ?F = "real_float (\<lambda>_. Inr 10) (\<lambda>_. '''')"
  let ?par = "\<lparr>CPUWeight = 1, MemoryWeight = 1, MemoryThreshold = 80, Temperature = (1::real)\<rparr>"
  have "eligible ?F (\<lambda>_. Inr (\<lambda>_. True)) ?par [] ?wk"
    by (simp add: eligible_def used_percent_def GetWorkerCondition_def Worker0_def)
  moreover have "wk_Name ?wk \<noteq> ''''"
    by simp
  ultimately show ?thesis
    using electWorker_sound_complete [of "[?wk]" ?F "\<lambda>_. Inr (\<lambda>_. True)" ?par "[]" "1 / 2"] by simp
qed

text \<open>
  C11. The Boltzmann distribution: with exact arithmetic and a temperature other than 0, the weights
  \<open>exp (score / T)\<close>, divided by
  their sum, add up to 1 and cut the unit interval into consecutive pieces, one per candidate;
  the candidate elected is the one in whose piece the drawn number lies.
\<close>

theorem election_is_boltzmann:
  assumes "i < length cs" "(\<Sum>j < i. boltzmann par cs j) \<le> u" "u < (\<Sum>j < Suc i. boltzmann par cs j)"
    and "Temperature par \<noteq> 0"
  shows "electWorkerFromCandidates (real_float p s) par u cs = cw_Name (cs ! i) \<and>
    (\<Sum>j < length cs. boltzmann par cs j) = 1"
  using electWorkerFromCandidates_real [OF assms(1-3)] boltzmann_total [of cs par] assms(1)
  by (cases cs) auto

theorem election_is_boltzmann_witness:
  "electWorkerFromCandidates (real_float (\<lambda>_. Inr 0) (\<lambda>_. ''''))
     \<lparr>CPUWeight = 1, MemoryWeight = 1, MemoryThreshold = 80, Temperature = 1\<rparr> (3 / 4)
     [\<lparr>cw_Name = ''a'', cw_Score = 1 / 2\<rparr>, \<lparr>cw_Name = ''b'', cw_Score = 1 / 2\<rparr>] = ''b''"
proof -
  let ?par = "\<lparr>CPUWeight = 1, MemoryWeight = 1, MemoryThreshold = 80, Temperature = (1::real)\<rparr>"
  let ?cs = "[\<lparr>cw_Name = ''a'', cw_Score = (1::real) / 2\<rparr>, \<lparr>cw_Name = ''b'', cw_Score = 1 / 2\<rparr>]"
  have b: "boltzmann ?par ?cs 0 = 1 / 2" "boltzmann ?par ?cs (Suc 0) = 1 / 2"
    by (simp_all add: boltzmann_def lessThan_Suc)
  show ?thesis
    using election_is_boltzmann [of 1 ?cs ?par "3 / 4" "\<lambda>_. Inr 0" "\<lambda>_. ''''"] b
    by (simp add: lessThan_Suc)
qed

text \<open>
  Scores: for usages between 0 and 100 percent and non-negative weights that are not both 0,
  the score of a worker lies between 0 and 1 (exact arithmetic), as the comment on
  \<^verbatim>\<open>CandidateWorker\<close> says.
\<close>

theorem worker_score_unit_interval:
  fixes par :: "real SchedulerParameters"
  assumes "0 \<le> cpu" "cpu \<le> 100" "0 \<le> mem" "mem \<le> 100"
    and "0 \<le> CPUWeight par" "0 \<le> MemoryWeight par" "0 < CPUWeight par + MemoryWeight par"
  shows "0 \<le> worker_score (real_float p s) par cpu mem \<and> worker_score (real_float p s) par cpu mem \<le> 1"
  by (rule worker_score_range [OF assms])

theorem worker_score_unit_interval_witness:
  "0 \<le> worker_score (real_float (\<lambda>_. Inr 0) (\<lambda>_. ''''))
     \<lparr>CPUWeight = 1, MemoryWeight = 3, MemoryThreshold = 80, Temperature = 1\<rparr> 50 90"
  using worker_score_unit_interval [of 50 90
      "\<lparr>CPUWeight = 1, MemoryWeight = 3, MemoryThreshold = 80, Temperature = 1\<rparr>"
      "\<lambda>_. Inr 0" "\<lambda>_. ''''"] by simp

end
