(* ===== verification/Pe_Controller.thy ===== *)
theory Pe_Controller
  imports Scheduler Lifecycle Samples
begin

text \<open>
  The ProblemEnvironment controller of the controller manager
  (\<^verbatim>\<open>controllers/controller-manager/problemenvironment_controller.go\<close>): it binds a new
  environment to an elected worker, confirms the schedule with a fresh password, and keeps the
  Ready condition in line with the containers nclet reports.

  The reads of the clock and of the random sources are collected in \<open>runtime\<close>: \<open>rt_now i\<close> is
  the \<open>i\<close>-th reading of the clock during one call of \<^verbatim>\<open>Reconcile\<close>.
\<close>

section \<open>The handlers\<close>

record 'f runtime =
  rt_float :: "'f float_ops"
  rt_Float64 :: 'f
  rt_rand_Int :: "nat \<Rightarrow> nat \<Rightarrow> nat or_error"
  rt_now :: "nat \<Rightarrow> time"
  rt_selector :: selector_parser

record ('f, 'w) ProblemEnvironmentReconciler =
  per_Client :: "'w kube"
  per_Parameters :: "'f SchedulerParameters"

definition cm_update ::
    "('f, 'w) ProblemEnvironmentReconciler \<Rightarrow> ProblemEnvironment \<Rightarrow> Result \<Rightarrow> 'w \<Rightarrow> 'w reconciled" where
  "cm_update r pe res w =
     (case updateProblemEnvironment (per_Client r) pe w of
        (Inl e, w') \<Rightarrow> ((Result0, Some e), w')
      | (Inr _, w') \<Rightarrow> ((res, None), w'))"

definition cm_updateStatus ::
    "('f, 'w) ProblemEnvironmentReconciler \<Rightarrow> ProblemEnvironment \<Rightarrow> Result \<Rightarrow> 'w \<Rightarrow> 'w reconciled" where
  "cm_updateStatus r pe res w =
     (case updateStatusProblemEnvironment (per_Client r) pe w of
        (Inl e, w') \<Rightarrow> ((Result0, Some e), w')
      | (Inr _, w') \<Rightarrow> ((res, None), w'))"

definition cm_schedule ::
    "'f runtime \<Rightarrow> ('f, 'w) ProblemEnvironmentReconciler \<Rightarrow> ProblemEnvironment \<Rightarrow> 'w \<Rightarrow> 'w reconciled" where
  "cm_schedule rt r pe w =
     (case listWorker (per_Client r) w ListAll of
        Inl _ \<Rightarrow>
          cm_updateStatus r
            (SetProblemEnvironmentCondition (rt_now rt 0) pe ProblemEnvironmentConditionScheduled
               ConditionFalse ''WorkersMissing'' ''failed to list Workers'')
            \<lparr>RequeueAfter = 3 * Second\<rparr> w
      | Inr workers \<Rightarrow>
          (let electedWorkerName =
                 electWorker (rt_float rt) (rt_selector rt) (per_Parameters r) (rt_Float64 rt)
                   workers (slice (pes_WorkerSelectors (pe_Spec pe)))
           in if electedWorkerName \<noteq> ''''
              then cm_update r (pe\<lparr>pe_Spec := (pe_Spec pe)\<lparr>pes_WorkerName := electedWorkerName\<rparr>\<rparr>)
                     Result0 w
              else cm_updateStatus r
                     (SetProblemEnvironmentCondition (rt_now rt 0) pe
                        ProblemEnvironmentConditionScheduled ConditionFalse ''ScheduleFailed''
                        ''failed to elect worker for scheduling'')
                     \<lparr>RequeueAfter = 3 * Second\<rparr> w))"

definition confirmed ::
    "(nat \<Rightarrow> time) \<Rightarrow> string \<Rightarrow> ProblemEnvironment \<Rightarrow> ProblemEnvironment" where
  "confirmed now password pe =
     (let pe = SetProblemEnvironmentCondition (now 0) pe ProblemEnvironmentConditionScheduled
                 ConditionTrue ''Scheduled'' ''ProblemEnvironment is assigned to Worker'';
          pe = SetProblemEnvironmentCondition (now 1) pe ProblemEnvironmentConditionDeployed
                 ConditionFalse ''NotDeployed'' ''ProblemEnvironment is not deployed to Worker'';
          pe = SetProblemEnvironmentCondition (now 2) pe ProblemEnvironmentConditionReady
                 ConditionFalse ''NotReady'' ''ProblemEnvironment is not ready'';
          pe = SetProblemEnvironmentCondition (now 3) pe ProblemEnvironmentConditionAssigned
                 ConditionFalse ''NotAssigned'' ''ProblemEnvironment is not assigned''
      in pe\<lparr>pe_Status := (pe_Status pe)\<lparr>pest_Password := password\<rparr>\<rparr>)"

definition cm_confirmSchedule ::
    "'f runtime \<Rightarrow> ('f, 'w) ProblemEnvironmentReconciler \<Rightarrow> ProblemEnvironment \<Rightarrow> 'w \<Rightarrow> 'w reconciled" where
  "cm_confirmSchedule rt r pe w =
     (case getWorker (per_Client r) w (pe_WorkerName pe) of
        Inl _ \<Rightarrow>
          cm_updateStatus r
            (SetProblemEnvironmentCondition (rt_now rt 0) pe ProblemEnvironmentConditionScheduled
               ConditionFalse ''WorkersMissing'' ''failed to get Worker'')
            \<lparr>RequeueAfter = 3 * Second\<rparr> w
      | Inr _ \<Rightarrow>
          (case GeneratePassword (rt_rand_Int rt) DEFAULT_PASSWORD_LENGTH of
             Inl e \<Rightarrow> ((Result0, Some (Wrap ''failed to confirm schedule: '' e)), w)
           | Inr password \<Rightarrow>
               (let w = recordEvent (per_Client r)
                      \<lparr>ev_Object = pe_Name pe, ev_Type = EventTypeNormal,
                       ev_Reason = ProblemEnvironmentEventScheduled,
                       ev_Message = ''ProblemEnvironment was scheduled on '' @ pe_WorkerName pe\<rparr> w
                in cm_updateStatus r (confirmed (rt_now rt) password pe) Result0 w)))"

definition cm_markNotReadyInit ::
    "'f runtime \<Rightarrow> ('f, 'w) ProblemEnvironmentReconciler \<Rightarrow> ProblemEnvironment \<Rightarrow> Result \<Rightarrow> 'w \<Rightarrow>
     'w reconciled" where
  "cm_markNotReadyInit rt r pe res w =
     cm_updateStatus r
       (SetProblemEnvironmentCondition (rt_now rt 0) pe ProblemEnvironmentConditionReady
          ConditionFalse ''NotReady'' ''nclet haven't checked yet'') res w"

definition cm_markNotReady ::
    "'f runtime \<Rightarrow> ('f, 'w) ProblemEnvironmentReconciler \<Rightarrow> ProblemEnvironment \<Rightarrow> Result \<Rightarrow> 'w \<Rightarrow>
     'w reconciled" where
  "cm_markNotReady rt r pe res w =
     (if GetProblemEnvironmentCondition pe ProblemEnvironmentConditionReady = ConditionFalse
      then ((Result0, None), w)
      else
        (let w = recordEvent (per_Client r)
                   \<lparr>ev_Object = pe_Name pe, ev_Type = EventTypeWarning,
                    ev_Reason = ProblemEnvironmentEventNotReady,
                    ev_Message = ''Some containers went down''\<rparr> w
         in cm_updateStatus r
              (SetProblemEnvironmentCondition (rt_now rt 0) pe ProblemEnvironmentConditionReady
                 ConditionFalse ''NotReady'' ''ProblemEnvironment is not ready'') res w))"

definition cm_markReady ::
    "'f runtime \<Rightarrow> ('f, 'w) ProblemEnvironmentReconciler \<Rightarrow> ProblemEnvironment \<Rightarrow> Result \<Rightarrow> 'w \<Rightarrow>
     'w reconciled" where
  "cm_markReady rt r pe res w =
     (if GetProblemEnvironmentCondition pe ProblemEnvironmentConditionReady = ConditionTrue
      then ((Result0, None), w)
      else
        (let w = recordEvent (per_Client r)
                   \<lparr>ev_Object = pe_Name pe, ev_Type = EventTypeNormal,
                    ev_Reason = ProblemEnvironmentEventReady,
                    ev_Message = ''All containers are ready now''\<rparr> w
         in cm_updateStatus r
              (SetProblemEnvironmentCondition (rt_now rt 0) pe ProblemEnvironmentConditionReady
                 ConditionTrue ''Ready'' ''ProblemEnvironment is ready'') res w))"

text \<open>The loop of \<^verbatim>\<open>checkStatus\<close>: does it return from inside?\<close>

fun some_not_ready :: "ContainerStatus list \<Rightarrow> bool" where
  "some_not_ready [] = False"
| "some_not_ready (c # cs) = (if \<not> cs_Ready c then True else some_not_ready cs)"

definition cm_checkStatus ::
    "'f runtime \<Rightarrow> ('f, 'w) ProblemEnvironmentReconciler \<Rightarrow> ProblemEnvironment \<Rightarrow> 'w \<Rightarrow> 'w reconciled" where
  "cm_checkStatus rt r pe w =
     (case pe_Containers pe of
        None \<Rightarrow> cm_markNotReadyInit rt r pe Result0 w
      | Some cs \<Rightarrow>
          if length cs = 0 then cm_markNotReady rt r pe Result0 w
          else if some_not_ready cs then cm_markNotReady rt r pe Result0 w
          else cm_markReady rt r pe Result0 w)"

definition cm_Reconcile ::
    "'f runtime \<Rightarrow> ('f, 'w) ProblemEnvironmentReconciler \<Rightarrow> NamespacedName \<Rightarrow> 'w \<Rightarrow> 'w reconciled" where
  "cm_Reconcile rt r req w =
     (case getProblemEnvironment (per_Client r) w req of
        Inl e \<Rightarrow> ((Result0, IgnoreNotFound e), w)
      | Inr pe \<Rightarrow>
          if om_DeletionTimestamp (pe_ObjectMeta pe) \<noteq> None then ((Result0, None), w)
          else if GetProblemEnvironmentCondition pe ProblemEnvironmentConditionScheduled \<noteq> ConditionTrue
          then (if pe_WorkerName pe = '''' then cm_schedule rt r pe w
                else cm_confirmSchedule rt r pe w)
          else cm_checkStatus rt r pe w)"

section \<open>Refinement of the protocol\<close>

lemma some_not_ready_iff: "some_not_ready cs = (\<not> list_all cs_Ready cs)"
  by (induction cs) auto

lemma confirmed_frame [simp]:
  "pe_ObjectMeta (confirmed now pw pe) = pe_ObjectMeta pe"
  "pe_Spec (confirmed now pw pe) = pe_Spec pe"
  "pe_Containers (confirmed now pw pe) = pe_Containers pe"
  "pe_Password (confirmed now pw pe) = pw"
  by (simp_all add: confirmed_def Let_def)

lemma Get_set_password [simp]:
  "GetProblemEnvironmentCondition (pe\<lparr>pe_Status := (pe_Status pe)\<lparr>pest_Password := pw\<rparr>\<rparr>) t =
     GetProblemEnvironmentCondition pe t"
  by (rule GetProblemEnvironmentCondition_cong) simp

lemma Get_confirmed [simp]:
  "GetProblemEnvironmentCondition (confirmed now pw pe) t =
     (if t = ProblemEnvironmentConditionScheduled then ConditionTrue
      else if t \<in> {ProblemEnvironmentConditionDeployed, ProblemEnvironmentConditionReady,
                    ProblemEnvironmentConditionAssigned} then ConditionFalse
      else GetProblemEnvironmentCondition pe t)"
  by (simp add: confirmed_def Let_def)

lemma phase_confirmed:
  "phase_of (with_status (confirmed now pw pe) v pe) =
     (phase_of pe)\<lparr>ph_scheduled := ConditionTrue, ph_deployed := ConditionFalse,
       ph_ready := ConditionFalse, ph_assigned := ConditionFalse, ph_password := pw\<rparr>"
  by (rule phase.equality) simp_all

lemma phase_set_scheduled:
  "phase_of (with_status (SetProblemEnvironmentCondition now pe ProblemEnvironmentConditionScheduled s r m) v pe) =
     (phase_of pe)\<lparr>ph_scheduled := s\<rparr>"
  by (rule phase.equality) simp_all

lemma phase_set_ready:
  "phase_of (with_status (SetProblemEnvironmentCondition now pe ProblemEnvironmentConditionReady s r m) v pe) =
     (phase_of pe)\<lparr>ph_ready := s\<rparr>"
  by (rule phase.equality) simp_all

lemma phase_set_assigned:
  "phase_of (with_status (SetProblemEnvironmentCondition now pe ProblemEnvironmentConditionAssigned s r m) v pe) =
     (phase_of pe)\<lparr>ph_assigned := s\<rparr>"
  by (rule phase.equality) simp_all

lemma phase_bind:
  "phase_of (with_spec (pe\<lparr>pe_Spec := (pe_Spec pe)\<lparr>pes_WorkerName := n\<rparr>\<rparr>) v pe) =
     (phase_of pe)\<lparr>ph_worker := n\<rparr>"
  by (rule phase.equality) simp_all

lemmas phase_writes = phase_confirmed phase_set_scheduled phase_set_ready phase_set_assigned phase_bind

lemma password_good:
  assumes "rand_in_range rnd" and "GeneratePassword rnd DEFAULT_PASSWORD_LENGTH = Inr pw"
  shows "good_password pw"
  using GeneratePassword_sound [OF assms] by (simp add: good_password_def DEFAULT_PASSWORD_LENGTH_def)

lemma checkStatus_branches:
  "cm_checkStatus rt r pe w =
     (if all_ready (pe_Containers pe) then cm_markReady rt r pe Result0 w
      else if pe_Containers pe = None then cm_markNotReadyInit rt r pe Result0 w
      else cm_markNotReady rt r pe Result0 w)"
  by (auto simp: cm_checkStatus_def all_ready_def some_not_ready_iff split: option.splits)

lemma cm_updateStatus_world:
  "cm_updateStatus r pe res w = (out, w') \<Longrightarrow>
     \<exists>x. updateStatusProblemEnvironment (per_Client r) pe w = (x, w')"
  by (auto simp: cm_updateStatus_def split: prod.splits sum.splits)

lemma cm_update_world:
  "cm_update r pe res w = (out, w') \<Longrightarrow>
     \<exists>x. updateProblemEnvironment (per_Client r) pe w = (x, w')"
  by (auto simp: cm_update_def split: prod.splits sum.splits)

context versioned_reads
begin

abbreviation refines where
  "refines w w' \<equiv> ok w' \<and> store_step protocol_step (contents w) (contents w')"

lemma cm_updateStatus_refines:
  assumes "ok w" "per_Client r = k" "current pe (contents w)"
    and "cm_updateStatus r req res w = (out, w')"
    and "pe_ObjectMeta req = pe_ObjectMeta pe"
    and "\<And>v. protocol_step pe (with_status req v pe)"
  shows "refines w w'"
proof -
  from cm_updateStatus_world [OF assms(4)] obtain x where
    "updateStatusProblemEnvironment k req w = (x, w')"
    using assms(2) by auto
  then show ?thesis
    by (rule update_status_current [OF assms(1) _ assms(3)]) (use assms(5,6) in simp_all)
qed

lemma cm_update_refines:
  assumes "ok w" "per_Client r = k" "current pe (contents w)"
    and "cm_update r req res w = (out, w')"
    and "pe_ObjectMeta req = pe_ObjectMeta pe"
    and "\<And>v. protocol_step pe (with_spec req v pe)"
  shows "refines w w'"
proof -
  from cm_update_world [OF assms(4)] obtain x where
    "updateProblemEnvironment k req w = (x, w')"
    using assms(2) by auto
  then show ?thesis
    by (rule update_main_current [OF assms(1) _ assms(3)]) (use assms(5,6) in simp_all)
qed

lemma cm_schedule_refines:
  assumes "ok w" "per_Client r = k" "current pe (contents w)"
    and "cm_schedule rt r pe w = (out, w')"
    and "\<not> pe_deleting pe" "pe_WorkerName pe = ''''"
    and "GetProblemEnvironmentCondition pe ProblemEnvironmentConditionScheduled \<noteq> ConditionTrue"
  shows "refines w w'"
  using assms(4-7)
  by (auto simp: cm_schedule_def Let_def phase_writes
      intro!: lifecycle.not_scheduled lifecycle.bind
      elim!: cm_updateStatus_refines [OF assms(1-3)] cm_update_refines [OF assms(1-3)]
      split: sum.splits if_splits)

lemma cm_confirmSchedule_refines:
  assumes "ok w" "per_Client r = k" "current pe (contents w)"
    and "cm_confirmSchedule rt r pe w = (out, w')" and "rand_in_range (rt_rand_Int rt)"
    and "\<not> pe_deleting pe" "pe_WorkerName pe \<noteq> ''''"
    and "GetProblemEnvironmentCondition pe ProblemEnvironmentConditionScheduled \<noteq> ConditionTrue"
  shows "refines w w'"
proof (cases "getWorker k w (pe_WorkerName pe)")
  case (Inl e)
  then show ?thesis
    using assms(2,4-8) by (auto simp: cm_confirmSchedule_def phase_writes
        intro!: lifecycle.not_scheduled elim!: cm_updateStatus_refines [OF assms(1-3)])
next
  case (Inr wk)
  show ?thesis
  proof (cases "GeneratePassword (rt_rand_Int rt) DEFAULT_PASSWORD_LENGTH")
    case (Inl e)
    then show ?thesis
      using Inr assms(1,2,4) by (simp add: cm_confirmSchedule_def)
  next
    case pw: (Inr pw)
    define w1 where "w1 = recordEvent k
      \<lparr>ev_Object = pe_Name pe, ev_Type = EventTypeNormal,
       ev_Reason = ProblemEnvironmentEventScheduled,
       ev_Message = ''ProblemEnvironment was scheduled on '' @ pe_WorkerName pe\<rparr> w"
    have w1: "ok w1" "contents w1 = contents w"
      using event_frame [OF assms(1)] by (simp_all add: w1_def)
    have "refines w1 w'"
    proof (rule cm_updateStatus_refines)
      show "cm_updateStatus r (confirmed (rt_now rt) pw pe) Result0 w1 = (out, w')"
        using assms(2,4) Inr pw by (simp add: cm_confirmSchedule_def Let_def w1_def)
      show "protocol_step pe (with_status (confirmed (rt_now rt) pw pe) v pe)" for v
        using assms(6-8) password_good [OF assms(5) pw] by (auto simp: phase_writes intro!: lifecycle.confirm)
    qed (use w1 assms in simp_all)
    then show ?thesis using w1 by simp
  qed
qed

lemma cm_mark_refines:
  assumes "ok w" "per_Client r = k" "current pe (contents w)"
    and "cm_updateStatus r
           (SetProblemEnvironmentCondition now pe ProblemEnvironmentConditionReady s rs m) res
           (recordEvent k ev w) = (out, w')"
    and "lifecycle (phase_of pe) ((phase_of pe)\<lparr>ph_ready := s\<rparr>)"
  shows "refines w w'"
  using cm_updateStatus_refines [OF _ assms(2) _ assms(4)] event_frame [OF assms(1), of ev] assms(3,5)
  by (simp add: phase_writes)

lemma cm_checkStatus_refines:
  assumes "ok w" "per_Client r = k" "current pe (contents w)"
    and "cm_checkStatus rt r pe w = (out, w')"
    and "\<not> pe_deleting pe"
    and "GetProblemEnvironmentCondition pe ProblemEnvironmentConditionScheduled = ConditionTrue"
  shows "refines w w'"
proof (cases "all_ready (pe_Containers pe)")
  case True
  have step: "lifecycle (phase_of pe) ((phase_of pe)\<lparr>ph_ready := ConditionTrue\<rparr>)"
    using True assms(5,6) by (auto intro!: lifecycle.ready)
  from True assms(4) have "cm_markReady rt r pe Result0 w = (out, w')"
    by (simp add: checkStatus_branches)
  then show ?thesis
    unfolding cm_markReady_def Let_def assms(2)
    using assms(1) step cm_mark_refines [OF assms(1-3)] by (simp split: if_splits)
next
  case False
  have step: "lifecycle (phase_of pe) ((phase_of pe)\<lparr>ph_ready := ConditionFalse\<rparr>)"
    using False assms(5,6) by (auto intro!: lifecycle.not_ready)
  show ?thesis
  proof (cases "pe_Containers pe = None")
    case True
    then have "cm_markNotReadyInit rt r pe Result0 w = (out, w')"
      using False assms(4) by (simp add: checkStatus_branches)
    then show ?thesis
      using step unfolding cm_markNotReadyInit_def
      by (elim cm_updateStatus_refines [OF assms(1-3)]) (simp_all add: phase_writes)
  next
    case ne: False
    with False assms(4) have "cm_markNotReady rt r pe Result0 w = (out, w')"
      by (simp add: checkStatus_branches)
    then show ?thesis
      unfolding cm_markNotReady_def Let_def assms(2)
      using assms(1) step cm_mark_refines [OF assms(1-3)] by (simp split: if_splits)
  qed
qed

lemma cm_Reconcile_refines:
  assumes "ok w" "per_Client r = k" "rand_in_range (rt_rand_Int rt)"
    and "cm_Reconcile rt r req w = (out, w')"
  shows "refines w w'"
proof (cases "getProblemEnvironment k w req")
  case (Inl e)
  then show ?thesis
    using assms by (simp add: cm_Reconcile_def)
next
  case (Inr pe)
  note cur = assms(1,2) get_current [OF assms(1) Inr]
  show ?thesis
    using assms(4) assms(1,3) Inr cm_schedule_refines [OF cur, of rt out w']
      cm_confirmSchedule_refines [OF cur, of rt out w'] cm_checkStatus_refines [OF cur, of rt out w']
    unfolding cm_Reconcile_def assms(2) by (simp split: if_splits)
qed

end

section \<open>Progress\<close>

text \<open>
  With an API server that accepts valid requests, two calls of \<^verbatim>\<open>Reconcile\<close> take a new
  environment to a confirmed schedule.
\<close>

context reliable_api
begin

lemma status_written:
  assumes "ok w" "cur \<in> set (contents w)" "pe_key req = pe_key cur" "pe_rv req = pe_rv cur"
  shows "\<exists>w' v. updateStatusProblemEnvironment k req w = (Inr (with_status req v cur), w') \<and> ok w' \<and>
           with_status req v cur \<in> set (contents w')"
proof -
  obtain pe' w' where eq: "updateStatusProblemEnvironment k req w = (Inr pe', w')"
    using update_status_succeeds [of w cur req] assms by auto
  from update_status [OF assms(1) eq] obtain cur' v where
    st: "ok w'" "cur' \<in> set (contents w)" "pe_key cur' = pe_key req"
    "pe' = with_status req v cur'" "contents w' = store_put pe' (contents w)"
    by blast
  have "cur' = cur"
    using distinct_keysD [OF distinct_keys [OF assms(1)] st(2) assms(2)] st(3) assms(3) by simp
  moreover have "pe' \<in> set (contents w')"
    using st assms(2) by (auto simp: set_store_put [of cur'])
  ultimately show ?thesis
    using eq st by auto
qed

lemma spec_written:
  assumes "ok w" "cur \<in> set (contents w)" "pe_key req = pe_key cur" "pe_rv req = pe_rv cur"
    and "ProblemEnvironment_ValidateUpdate req cur = None" "\<not> pe_deleting cur"
  shows "\<exists>w' v. updateProblemEnvironment k req w = (Inr (with_spec req v cur), w') \<and> ok w' \<and>
           with_spec req v cur \<in> set (contents w')"
proof -
  obtain pe' w' where eq: "updateProblemEnvironment k req w = (Inr pe', w')"
    using update_main_succeeds [of w cur req] assms by auto
  from update_main [OF assms(1) eq] obtain cur' v where
    st: "ok w'" "cur' \<in> set (contents w)" "pe_key cur' = pe_key req"
    "pe' = with_spec req v cur'" "contents w' = commit pe' (contents w)"
    by blast
  have c: "cur' = cur"
    using distinct_keysD [OF distinct_keys [OF assms(1)] st(2) assms(2)] st(3) assms(3) by simp
  have "pe' \<in> set (contents w')"
    using st assms(2,6) c by (auto simp: commit_def set_store_put [of cur'])
  with c show ?thesis
    using eq st by auto
qed

lemma cm_Reconcile_binds:
  assumes "ok w" "per_Client r = k" "cur \<in> set (contents w)" "\<not> pe_deleting cur"
    and "GetProblemEnvironmentCondition cur ProblemEnvironmentConditionScheduled \<noteq> ConditionTrue"
    and "pe_WorkerName cur = ''''" and "listWorker k w ListAll = Inr workers"
    and "\<exists>wk \<in> set workers. eligible (rt_float rt) (rt_selector rt) (per_Parameters r)
            (slice (pes_WorkerSelectors (pe_Spec cur))) wk"
    and "\<forall>wk \<in> set workers. wk_Name wk \<noteq> ''''"
  shows "\<exists>w' new. cm_Reconcile rt r (pe_key cur) w = ((Result0, None), w') \<and> ok w' \<and>
           new \<in> set (contents w') \<and> pe_key new = pe_key cur \<and>
           phase_of new = (phase_of cur)\<lparr>ph_worker := pe_WorkerName new\<rparr> \<and>
           (\<exists>wk \<in> set workers. wk_Name wk = pe_WorkerName new \<and>
              eligible (rt_float rt) (rt_selector rt) (per_Parameters r)
                (slice (pes_WorkerSelectors (pe_Spec cur))) wk)"
proof -
  define n where "n = electWorker (rt_float rt) (rt_selector rt) (per_Parameters r) (rt_Float64 rt)
    workers (slice (pes_WorkerSelectors (pe_Spec cur)))"
  define req where "req = cur\<lparr>pe_Spec := (pe_Spec cur)\<lparr>pes_WorkerName := n\<rparr>\<rparr>"
  have n: "n \<noteq> ''''"
    using assms(8,9) electWorker_elects unfolding n_def by metis
  have "ProblemEnvironment_ValidateUpdate req cur = None"
    using assms(6) by (simp add: ValidateUpdate_None_iff req_def)
  then obtain w' v where up: "updateProblemEnvironment k req w = (Inr (with_spec req v cur), w')"
    "ok w'" "with_spec req v cur \<in> set (contents w')"
    using spec_written [OF assms(1,3), of req] assms(4) by (auto simp: req_def)
  have "cm_Reconcile rt r (pe_key cur) w = ((Result0, None), w')"
    using assms(2,4-7) n up(1) stored_get [OF assms(1,3)]
    by (simp add: cm_Reconcile_def cm_schedule_def cm_update_def Let_def n_def [symmetric]
        req_def [symmetric])
  moreover have "phase_of (with_spec req v cur) = (phase_of cur)\<lparr>ph_worker := n\<rparr>"
    unfolding req_def by (rule phase_bind)
  moreover have "pe_WorkerName (with_spec req v cur) = n"
    by (simp add: req_def)
  ultimately show ?thesis
    using up(2,3) electWorker_eligible [of "rt_float rt" "rt_selector rt" "per_Parameters r"
        "rt_Float64 rt" workers "slice (pes_WorkerSelectors (pe_Spec cur))"] n
    unfolding n_def [symmetric] by (intro exI [of _ w'] exI [of _ "with_spec req v cur"]) simp
qed

lemma cm_Reconcile_confirms:
  assumes "ok w" "per_Client r = k" "cur \<in> set (contents w)" "\<not> pe_deleting cur"
    and "GetProblemEnvironmentCondition cur ProblemEnvironmentConditionScheduled \<noteq> ConditionTrue"
    and "pe_WorkerName cur \<noteq> ''''" and "getWorker k w (pe_WorkerName cur) = Inr wk"
    and "rand_in_range (rt_rand_Int rt)" "\<forall>i n. 0 < n \<longrightarrow> (\<exists>v. rt_rand_Int rt i n = Inr v)"
  shows "\<exists>w' new pw. cm_Reconcile rt r (pe_key cur) w = ((Result0, None), w') \<and> ok w' \<and>
           new \<in> set (contents w') \<and> pe_key new = pe_key cur \<and> good_password pw \<and>
           phase_of new = (phase_of cur)\<lparr>ph_scheduled := ConditionTrue,
             ph_deployed := ConditionFalse, ph_ready := ConditionFalse,
             ph_assigned := ConditionFalse, ph_password := pw\<rparr>"
proof -
  obtain pw where pw: "GeneratePassword (rt_rand_Int rt) DEFAULT_PASSWORD_LENGTH = Inr pw"
    using GeneratePassword_total [of "rt_rand_Int rt" DEFAULT_PASSWORD_LENGTH] assms(9) DEFAULT_PASSWORD_LENGTH_def by auto
  define w1 where "w1 = recordEvent k
      \<lparr>ev_Object = pe_Name cur, ev_Type = EventTypeNormal,
       ev_Reason = ProblemEnvironmentEventScheduled,
       ev_Message = ''ProblemEnvironment was scheduled on '' @ pe_WorkerName cur\<rparr> w"
  have w1: "ok w1" "contents w1 = contents w"
    using event_frame [OF assms(1)] by (simp_all add: w1_def)
  define req where "req = confirmed (rt_now rt) pw cur"
  obtain w' v where up: "updateStatusProblemEnvironment k req w1 = (Inr (with_status req v cur), w')"
    "ok w'" "with_status req v cur \<in> set (contents w')"
    using status_written [OF w1(1), of cur req] assms(3) w1(2) by (auto simp: req_def)
  have "cm_Reconcile rt r (pe_key cur) w = ((Result0, None), w')"
    using assms(2,4-7) up(1) pw stored_get [OF assms(1,3)]
    by (simp add: cm_Reconcile_def cm_confirmSchedule_def cm_updateStatus_def Let_def w1_def req_def)
  then show ?thesis
    using up(2,3) password_good [OF assms(8) pw] phase_confirmed [of "rt_now rt" pw cur v]
    by (intro exI [of _ w'] exI [of _ "with_status req v cur"] exI [of _ pw]) (simp add: req_def)
qed

end

context reliable_api
begin

definition ready_stored :: "ProblemEnvironment \<Rightarrow> ConditionStatus \<Rightarrow> 'a reconciled \<Rightarrow> bool" where
  "ready_stored cur s out \<longleftrightarrow>
     (\<exists>w' new. out = ((Result0, None), w') \<and> ok w' \<and> new \<in> set (contents w') \<and>
        pe_key new = pe_key cur \<and> phase_of new = (phase_of cur)\<lparr>ph_ready := s\<rparr>)"

lemma mark_written:
  assumes "ok w" "per_Client r = k" "cur \<in> set (contents w)" and "w1 = w \<or> w1 = recordEvent k ev w"
  shows "ready_stored cur s (cm_updateStatus r (SetProblemEnvironmentCondition now cur
             ProblemEnvironmentConditionReady s rs m) Result0 w1)"
proof -
  let ?req = "SetProblemEnvironmentCondition now cur ProblemEnvironmentConditionReady s rs m"
  have w1: "ok w1" "contents w1 = contents w"
    using event_frame [OF assms(1), of ev] assms(1,4) by auto
  obtain w' v where "updateStatusProblemEnvironment k ?req w1 = (Inr (with_status ?req v cur), w')"
    "ok w'" "with_status ?req v cur \<in> set (contents w')"
    using status_written [OF w1(1), of cur ?req] assms(3) w1(2) by auto
  then show ?thesis
    unfolding ready_stored_def using assms(2) phase_set_ready [of now cur s rs m v]
    by (intro exI [of _ w'] exI [of _ "with_status ?req v cur"]) (simp add: cm_updateStatus_def)
qed

lemma cm_Reconcile_checks:
  assumes "ok w" "per_Client r = k" "cur \<in> set (contents w)" "\<not> pe_deleting cur"
    and "GetProblemEnvironmentCondition cur ProblemEnvironmentConditionScheduled = ConditionTrue"
  shows "ready_stored cur (if all_ready (pe_Containers cur) then ConditionTrue else ConditionFalse)
           (cm_Reconcile rt r (pe_key cur) w)"
proof -
  note written = mark_written [OF assms(1-3) disjI1 [OF refl]] mark_written [OF assms(1-3) disjI2 [OF refl]]
  have keep: "ready_stored cur s ((Result0, None), w)"
    if "GetProblemEnvironmentCondition cur ProblemEnvironmentConditionReady = s" for s
    unfolding ready_stored_def using that assms(1,3)
    by (intro exI [of _ w] exI [of _ cur]) (auto intro: phase.equality)
  have eq: "cm_Reconcile rt r (pe_key cur) w = cm_checkStatus rt r cur w"
    using assms(2,4,5) stored_get [OF assms(1,3)] by (simp add: cm_Reconcile_def)
  show ?thesis
    using keep written unfolding eq checkStatus_branches cm_markReady_def cm_markNotReady_def
      cm_markNotReadyInit_def Let_def assms(2) by (auto split: if_split)
qed

lemmas cm_Reconcile_checks' = cm_Reconcile_checks [unfolded ready_stored_def]

end

section \<open>Properties\<close>

definition sample_runtime :: "real runtime" where
  "sample_runtime =
     \<lparr>rt_float = real_float (\<lambda>_. Inr 10) (\<lambda>_. ''''), rt_Float64 = 0,
      rt_rand_Int = (\<lambda>i n. Inr 0), rt_now = int, rt_selector = (\<lambda>_. Inr (\<lambda>_. True))\<rparr>"

definition sample_random :: "nat \<Rightarrow> nat \<Rightarrow> nat or_error" where
  "sample_random i n = (if n = 0 then Inl NotFound else Inr ((7 * i) mod n))"

definition sample_reconciler :: "(real, kmem) ProblemEnvironmentReconciler" where
  "sample_reconciler =
     \<lparr>per_Client = mem_client,
      per_Parameters = \<lparr>CPUWeight = 1, MemoryWeight = 1, MemoryThreshold = 80, Temperature = 1\<rparr>\<rparr>"

lemma sample_reconciler_client [simp]: "per_Client sample_reconciler = mem_client"
  by (simp add: sample_reconciler_def)

lemma sample_random_range [simp]: "rand_in_range sample_random"
  by (auto simp: rand_in_range_def sample_random_def split: if_splits)

lemma mem_reliable: "reliable_api mem_client km_pes mem_ok"
  by (rule mem.reliable_api_axioms)

lemma mem_versioned: "versioned_reads mem_client km_pes mem_ok"
  by (rule mem.versioned_reads_axioms)

text \<open>
  C3. Whatever the API server answers, one call of \<^verbatim>\<open>Reconcile\<close> of the ProblemEnvironment
  controller changes at most one stored environment, and that by one step of the protocol: it binds
  an unbound one, marks the schedule as failed, confirms it with a good password, or sets Ready to
  what the containers say. Reads may be stale.
\<close>

theorem cm_Reconcile_refines_lifecycle:
  assumes "versioned_reads (per_Client r) contents ok" and "rand_in_range (rt_rand_Int rt)"
    and "ok w" and "cm_Reconcile rt r req w = (out, w')"
  shows "ok w' \<and> store_step protocol_step (contents w) (contents w')"
  by (rule versioned_reads.cm_Reconcile_refines [OF assms(1,3) refl assms(2,4)])

theorem cm_Reconcile_refines_lifecycle_witness:
  "store_step protocol_step (km_pes (sample_world [sample_bound]))
     (km_pes (snd (cm_Reconcile (sample_runtime\<lparr>rt_rand_Int := sample_random\<rparr>) sample_reconciler
        (''netcon'', ''abc-1'') (sample_world [sample_bound]))))"
proof -
  let ?w = "sample_world [sample_bound]"
  let ?rt = "sample_runtime\<lparr>rt_rand_Int := sample_random\<rparr>"
  have "mem_ok ?w"
    by (simp add: sample_defs mem_ok_def)
  then show ?thesis
    using cm_Reconcile_refines_lifecycle [of sample_reconciler km_pes mem_ok ?rt ?w "(''netcon'', ''abc-1'')"
        "fst (cm_Reconcile ?rt sample_reconciler (''netcon'', ''abc-1'') ?w)"
        "snd (cm_Reconcile ?rt sample_reconciler (''netcon'', ''abc-1'') ?w)"] mem_versioned
    by simp
qed

text \<open>
  C4. Progress of scheduling: when some worker is eligible, one call of \<^verbatim>\<open>Reconcile\<close> binds
  a new environment to an eligible worker and changes nothing else of it.
\<close>

theorem cm_Reconcile_binds_eligible:
  assumes "reliable_api (per_Client r) contents ok"
    and "ok w" "cur \<in> set (contents w)" "\<not> pe_deleting cur"
    and "GetProblemEnvironmentCondition cur ProblemEnvironmentConditionScheduled \<noteq> ConditionTrue"
    and "pe_WorkerName cur = ''''" and "listWorker (per_Client r) w ListAll = Inr workers"
    and "\<exists>wk \<in> set workers. eligible (rt_float rt) (rt_selector rt) (per_Parameters r)
            (slice (pes_WorkerSelectors (pe_Spec cur))) wk"
    and "\<forall>wk \<in> set workers. wk_Name wk \<noteq> ''''"
  shows "\<exists>w' new. cm_Reconcile rt r (pe_key cur) w = ((Result0, None), w') \<and> ok w' \<and>
           new \<in> set (contents w') \<and> pe_key new = pe_key cur \<and>
           phase_of new = (phase_of cur)\<lparr>ph_worker := pe_WorkerName new\<rparr> \<and>
           (\<exists>wk \<in> set workers. wk_Name wk = pe_WorkerName new \<and>
              eligible (rt_float rt) (rt_selector rt) (per_Parameters r)
                (slice (pes_WorkerSelectors (pe_Spec cur))) wk)"
  by (rule reliable_api.cm_Reconcile_binds [OF assms(1,2) refl assms(3-9)])

theorem cm_Reconcile_binds_eligible_witness:
  "\<exists>w' new. cm_Reconcile sample_runtime sample_reconciler (''netcon'', ''abc-1'')
       (sample_world [sample_new]) = ((Result0, None), w') \<and>
     new \<in> set (km_pes w') \<and> pe_WorkerName new = ''worker1''"
proof -
  let ?w = "sample_world [sample_new]"
  have "mem_ok ?w"
    by (simp add: sample_defs mem_ok_def)
  moreover have "listWorker mem_client ?w ListAll = Inr [sample_worker]"
    by (simp add: mem_client_def sample_world_def ListAll_def matches_options_def)
  moreover have "eligible (rt_float sample_runtime) (rt_selector sample_runtime)
      (per_Parameters sample_reconciler) [] sample_worker"
    by (simp add: eligible_def sample_runtime_def sample_reconciler_def used_percent_def sample_defs
        GetWorkerCondition_def)
  moreover have "wk_Name sample_worker = ''worker1''" "pe_WorkerName sample_new = ''''"
    "pes_WorkerSelectors (pe_Spec sample_new) = None" "pe_key sample_new = (''netcon'', ''abc-1'')"
    "\<not> pe_deleting sample_new"
    "GetProblemEnvironmentCondition sample_new ProblemEnvironmentConditionScheduled = ConditionUnknown"
    "km_pes ?w = [sample_new]"
    by (simp_all add: sample_defs GetProblemEnvironmentCondition_def)
  ultimately show ?thesis
    using cm_Reconcile_binds_eligible [of sample_reconciler km_pes mem_ok ?w sample_new
        "[sample_worker]" sample_runtime] mem_reliable
    by auto
qed

text \<open>
  C5. Progress of confirmation: when the worker an environment is bound to exists and random numbers
  can be drawn, one call of \<^verbatim>\<open>Reconcile\<close> confirms the schedule: Scheduled becomes True, the
  other three conditions become False and a password of 24 alphanumeric characters is stored.
\<close>

theorem cm_Reconcile_confirms_schedule:
  assumes "reliable_api (per_Client r) contents ok"
    and "ok w" "cur \<in> set (contents w)" "\<not> pe_deleting cur"
    and "GetProblemEnvironmentCondition cur ProblemEnvironmentConditionScheduled \<noteq> ConditionTrue"
    and "pe_WorkerName cur \<noteq> ''''" and "getWorker (per_Client r) w (pe_WorkerName cur) = Inr wk"
    and "rand_in_range (rt_rand_Int rt)" "\<forall>i n. 0 < n \<longrightarrow> (\<exists>v. rt_rand_Int rt i n = Inr v)"
  shows "\<exists>w' new pw. cm_Reconcile rt r (pe_key cur) w = ((Result0, None), w') \<and> ok w' \<and>
           new \<in> set (contents w') \<and> pe_key new = pe_key cur \<and> good_password pw \<and>
           phase_of new = (phase_of cur)\<lparr>ph_scheduled := ConditionTrue,
             ph_deployed := ConditionFalse, ph_ready := ConditionFalse,
             ph_assigned := ConditionFalse, ph_password := pw\<rparr>"
  by (rule reliable_api.cm_Reconcile_confirms [OF assms(1,2) refl assms(3-9)])

theorem cm_Reconcile_confirms_schedule_witness:
  "\<exists>w' new. cm_Reconcile (sample_runtime\<lparr>rt_rand_Int := sample_random\<rparr>) sample_reconciler
       (''netcon'', ''abc-1'') (sample_world [sample_bound]) = ((Result0, None), w') \<and>
     new \<in> set (km_pes w') \<and> ph_scheduled (phase_of new) = ConditionTrue \<and>
     good_password (ph_password (phase_of new))"
proof -
  let ?w = "sample_world [sample_bound]"
  let ?rt = "sample_runtime\<lparr>rt_rand_Int := sample_random\<rparr>"
  have "mem_ok ?w"
    by (simp add: sample_defs mem_ok_def)
  moreover have "getWorker mem_client ?w ''worker1'' = Inr sample_worker"
    by (simp add: mem_client_def lookup_obj_def sample_defs)
  moreover have "\<forall>i n. 0 < n \<longrightarrow> (\<exists>v. rt_rand_Int ?rt i n = Inr v)"
    by (simp add: sample_random_def)
  moreover have "pe_WorkerName sample_bound = ''worker1''"
    "pe_key sample_bound = (''netcon'', ''abc-1'')" "\<not> pe_deleting sample_bound"
    "GetProblemEnvironmentCondition sample_bound ProblemEnvironmentConditionScheduled = ConditionUnknown"
    "km_pes ?w = [sample_bound]"
    by (simp_all add: sample_defs GetProblemEnvironmentCondition_def)
  ultimately obtain w' new pw where
    "cm_Reconcile ?rt sample_reconciler (''netcon'', ''abc-1'') ?w = ((Result0, None), w')"
    "new \<in> set (km_pes w')" "good_password pw"
    and ph: "phase_of new = (phase_of sample_bound)\<lparr>ph_scheduled := ConditionTrue,
      ph_deployed := ConditionFalse, ph_ready := ConditionFalse, ph_assigned := ConditionFalse,
      ph_password := pw\<rparr>"
    using cm_Reconcile_confirms_schedule [of sample_reconciler km_pes mem_ok ?w sample_bound
        sample_worker ?rt] mem_reliable
    by auto
  then show ?thesis
    by (intro exI [of _ w'] exI [of _ new]) (simp add: ph del: phase_of_simps)
qed

text \<open>
  C6. Readiness: after \<^verbatim>\<open>Reconcile\<close> of a scheduled environment that is not being deleted,
  its stored Ready condition is True exactly when containers are reported and all of them are
  ready, False otherwise, and nothing else of the environment changed.
\<close>

theorem cm_Reconcile_sets_ready:
  assumes "reliable_api (per_Client r) contents ok"
    and "ok w" "cur \<in> set (contents w)" "\<not> pe_deleting cur"
    and "GetProblemEnvironmentCondition cur ProblemEnvironmentConditionScheduled = ConditionTrue"
  shows "\<exists>w' new. cm_Reconcile rt r (pe_key cur) w = ((Result0, None), w') \<and> ok w' \<and>
           new \<in> set (contents w') \<and> pe_key new = pe_key cur \<and>
           phase_of new = (phase_of cur)\<lparr>ph_ready :=
             (if all_ready (pe_Containers cur) then ConditionTrue else ConditionFalse)\<rparr>"
  by (rule reliable_api.cm_Reconcile_checks' [OF assms(1,2) refl assms(3-5)])

theorem cm_Reconcile_sets_ready_witness:
  "\<exists>w' new. cm_Reconcile sample_runtime sample_reconciler (''netcon'', ''abc-1'')
       (sample_world [sample_deployed ConditionFalse ConditionFalse]) = ((Result0, None), w') \<and>
     new \<in> set (km_pes w') \<and> ph_ready (phase_of new) = ConditionTrue"
proof -
  let ?pe = "sample_deployed ConditionFalse ConditionFalse"
  let ?w = "sample_world [?pe]"
  have "mem_ok ?w"
    by (simp add: sample_defs mem_ok_def)
  moreover have "pe_key ?pe = (''netcon'', ''abc-1'')" "\<not> pe_deleting ?pe"
    "GetProblemEnvironmentCondition ?pe ProblemEnvironmentConditionScheduled = ConditionTrue"
    "km_pes ?w = [?pe]" "all_ready (pe_Containers ?pe)"
    by (simp_all add: sample_defs GetProblemEnvironmentCondition_def all_ready_def)
  ultimately obtain w' new where
    "cm_Reconcile sample_runtime sample_reconciler (''netcon'', ''abc-1'') ?w = ((Result0, None), w')"
    "new \<in> set (km_pes w')" and ph: "phase_of new = (phase_of ?pe)\<lparr>ph_ready := ConditionTrue\<rparr>"
    using cm_Reconcile_sets_ready [of sample_reconciler km_pes mem_ok ?w ?pe sample_runtime] mem_reliable
    by auto
  then show ?thesis
    by (intro exI [of _ w'] exI [of _ new]) (simp add: ph del: phase_of_simps)
qed

end
