(* ===== verification/Driver.thy ===== *)
theory Driver
  imports Containerlab Samples Pe_Controller
begin

text \<open>
  The drivers of nclet (\<^verbatim>\<open>controllers/nclet/drivers\<close>): the interface, the no-op driver and the
  ContainerLab driver. A driver works on a world; the ContainerLab driver's world is the world of
  the API client together with the host. A null node of a topology file is a nil pointer that
  \<^verbatim>\<open>getTopologyFileFor\<close> dereferences: \<open>Panic\<close>.
\<close>

section \<open>The interface\<close>

datatype DriverStatus = StatusInit | StatusDeployed | StatusError

record 'w driver =
  dr_Check :: "ProblemEnvironment \<Rightarrow> 'w \<Rightarrow> DriverStatus \<times> ContainerStatus list option"
  dr_Deploy :: "ProblemEnvironment \<Rightarrow> 'w \<Rightarrow> (error option \<times> 'w) go"
  dr_Destroy :: "ProblemEnvironment \<Rightarrow> 'w \<Rightarrow> error option \<times> 'w"

text \<open>
  What the interface promises its client: containers are reported only for a deployed
  environment, and the driver leaves the stored ProblemEnvironments alone.
\<close>

locale problem_environment_driver =
  fixes d :: "'w driver" and contents :: "'w \<Rightarrow> ProblemEnvironment list" and ok :: "'w \<Rightarrow> bool"
  assumes check_nil: "fst (dr_Check d pe w) \<noteq> StatusDeployed \<Longrightarrow> snd (dr_Check d pe w) = None"
    and deploy_frame: "ok w \<Longrightarrow> dr_Deploy d pe w = Ret (r, w') \<Longrightarrow> ok w' \<and> contents w' = contents w"
    and destroy_frame: "ok w \<Longrightarrow> dr_Destroy d pe w = (r, w') \<Longrightarrow> ok w' \<and> contents w' = contents w"

section \<open>The no-op driver\<close>

definition noop_Check :: "ProblemEnvironment \<Rightarrow> 'w \<Rightarrow> DriverStatus \<times> ContainerStatus list option" where
  "noop_Check pe w = (StatusDeployed, None)"

definition noop_Deploy :: "ProblemEnvironment \<Rightarrow> 'w \<Rightarrow> (error option \<times> 'w) go" where
  "noop_Deploy pe w = Ret (None, w)"

definition noop_Destroy :: "ProblemEnvironment \<Rightarrow> 'w \<Rightarrow> error option \<times> 'w" where
  "noop_Destroy pe w = (None, w)"

definition NoopProblemEnvironmentDriver :: "'w driver" where
  "NoopProblemEnvironmentDriver = \<lparr>dr_Check = noop_Check, dr_Deploy = noop_Deploy, dr_Destroy = noop_Destroy\<rparr>"

interpretation noop: problem_environment_driver NoopProblemEnvironmentDriver contents ok
  by unfold_locales (simp_all add: NoopProblemEnvironmentDriver_def noop_Check_def noop_Deploy_def noop_Destroy_def)

section \<open>The ContainerLab driver\<close>

record ('f, 'x) ContainerLabDriver =
  cl_configDir :: string
  cl_ops :: "('f, 'x) host_ops"

abbreviation clab_client :: "ProblemEnvironment \<Rightarrow> ContainerLabClient" where
  "clab_client pe \<equiv> the (NewContainerLabClientFor (Some pe))"

definition ensureDirectory :: "('f, 'x) ContainerLabDriver \<Rightarrow> string \<Rightarrow> 'x host \<Rightarrow> error option \<times> 'x host" where
  "ensureDirectory d path h = os_MkdirAll (cl_ops d) path h"

definition fileExists :: "('f, 'x) ContainerLabDriver \<Rightarrow> string \<Rightarrow> 'x host \<Rightarrow> bool" where
  "fileExists d path h = (case os_Stat (cl_ops d) h path of Inl _ \<Rightarrow> False | Inr _ \<Rightarrow> True)"

definition createOrUpdateFile ::
    "('f, 'x) ContainerLabDriver \<Rightarrow> string \<Rightarrow> string \<Rightarrow> 'x host \<Rightarrow> (bool \<times> error option) \<times> 'x host" where
  "createOrUpdateFile d path content h =
     (let write = (case os_WriteFile (cl_ops d) path content h of (r, h') \<Rightarrow> ((True, r), h'))
      in if fileExists d path h
         then (case os_ReadFile (cl_ops d) h path of
                 Inl e \<Rightarrow> ((False, Some e), h)
               | Inr currentContent \<Rightarrow>
                   if currentContent = content then ((False, None), h) else write)
         else write)"

definition driver_delete :: "('f, 'x) ContainerLabDriver \<Rightarrow> string \<Rightarrow> 'x host \<Rightarrow> (bool \<times> error option) \<times> 'x host" where
  "driver_delete d path h =
     (if \<not> fileExists d path h then ((False, None), h)
      else (case os_RemoveAll (cl_ops d) path h of (r, h') \<Rightarrow> ((True, r), h')))"

definition fetchFile :: "'w kube \<Rightarrow> ProblemEnvironment \<Rightarrow> FileSource \<Rightarrow> 'w \<Rightarrow> string or_error" where
  "fetchFile k pe fileSource w =
     (case getConfigMap k w (pe_Namespace pe, cmfs_Name (fs_ConfigMapRef fileSource)) of
        Inl e \<Rightarrow> Inl e
      | Inr configMap \<Rightarrow>
          (case cm_Data configMap (cmfs_Key (fs_ConfigMapRef fileSource)) of
             None \<Rightarrow> Inl (Errorf (''ConfigMap found, but key `'' @ cmfs_Key (fs_ConfigMapRef fileSource) @ ''` missing''))
           | Some data \<Rightarrow> Inr data))"

definition rewrite_bind :: "string \<Rightarrow> string \<Rightarrow> string" where
  "rewrite_bind base bind =
     (let parts = split_on CHR '':'' bind
      in join '':'' (path_join [base, hd parts] # tl parts))"

definition rewrite_node :: "string \<Rightarrow> 'f NodeDefinition \<Rightarrow> 'f NodeDefinition" where
  "rewrite_node prefix node =
     (let node = (if nd_StartupConfig node \<noteq> ''''
                  then node\<lparr>nd_StartupConfig := path_join [prefix, nd_StartupConfig node]\<rparr> else node)
      in node\<lparr>nd_Binds := map (rewrite_bind (nd_StartupConfig node)) (nd_Binds node)\<rparr>)"

fun rewrite_nodes ::
    "string \<Rightarrow> (string \<times> 'f NodeDefinition option) list \<Rightarrow> (string \<times> 'f NodeDefinition option) list go" where
  "rewrite_nodes prefix [] = Ret []"
| "rewrite_nodes prefix ((n, None) # nodes) = Panic ''invalid memory address or nil pointer dereference''"
| "rewrite_nodes prefix ((n, Some node) # nodes) =
     (case rewrite_nodes prefix nodes of
        Panic m \<Rightarrow> Panic m
      | Ret nodes' \<Rightarrow> Ret ((n, Some (rewrite_node prefix node)) # nodes'))"

definition getTopologyFileFor ::
    "('f, 'x) ContainerLabDriver \<Rightarrow> 'w kube \<Rightarrow> ProblemEnvironment \<Rightarrow> 'w \<Rightarrow> string or_error go" where
  "getTopologyFileFor d k pe w =
     (case fetchFile k pe (pes_TopologyFile (pe_Spec pe)) w of
        Inl e \<Rightarrow> Ret (Inl e)
      | Inr topology \<Rightarrow>
          (case ho_yaml_Unmarshal (cl_ops d) topology of
             Inl e \<Rightarrow> Ret (Inl e)
           | Inr cf \<Rightarrow>
               (let cf = cf\<lparr>cf_Prefix := None, cf_Name := pe_Name pe,
                            cf_Mgmt := Some (MgmtNet0\<lparr>mn_Network := ''nc-mgmt''\<rparr>)\<rparr>;
                    prefix = path_join [cl_configDir d, pe_Name pe]
                in case rewrite_nodes prefix (tp_Nodes (cf_Topology cf)) of
                     Panic m \<Rightarrow> Panic m
                   | Ret nodes \<Rightarrow>
                       Ret (ho_yaml_Marshal (cl_ops d)
                              (cf\<lparr>cf_Topology := (cf_Topology cf)\<lparr>tp_Nodes := nodes\<rparr>\<rparr>)))))"

fun place_config_files ::
    "('f, 'x) ContainerLabDriver \<Rightarrow> 'w kube \<Rightarrow> ProblemEnvironment \<Rightarrow> string \<Rightarrow> FileSource list \<Rightarrow>
     'w \<Rightarrow> 'x host \<Rightarrow> error option \<times> 'x host" where
  "place_config_files d k pe dir [] w h = (None, h)"
| "place_config_files d k pe dir (config # configs) w h =
     (case fetchFile k pe config w of
        Inl e \<Rightarrow> (Some e, h)
      | Inr data \<Rightarrow>
          (case createOrUpdateFile d (path_join [dir, cmfs_Key (fs_ConfigMapRef config)]) data h of
             ((_, Some e), h') \<Rightarrow> (Some (Wrap ''failed to create or update topology file: '' e), h')
           | ((_, None), h') \<Rightarrow> place_config_files d k pe dir configs w h'))"

definition placeFiles ::
    "('f, 'x) ContainerLabDriver \<Rightarrow> 'w kube \<Rightarrow> ContainerLabClient \<Rightarrow> ProblemEnvironment \<Rightarrow> 'w \<Rightarrow> 'x host \<Rightarrow>
     (error option \<times> 'x host) go" where
  "placeFiles d k c pe w h =
     (case ensureDirectory d (workingDirectoryPath c) h of
        (Some e, h) \<Rightarrow> Ret (Some (Wrap ''failed to create directory: '' e), h)
      | (None, h) \<Rightarrow>
     (let configDirectoryPath = path_join [workingDirectoryPath c, ''config''] in
      case ensureDirectory d configDirectoryPath h of
        (Some e, h) \<Rightarrow> Ret (Some (Wrap ''failed to create directory: '' e), h)
      | (None, h) \<Rightarrow>
     (case getTopologyFileFor d k pe w of
        Panic m \<Rightarrow> Panic m
      | Ret (Inl e) \<Rightarrow> Ret (Some e, h)
      | Ret (Inr topologyFile) \<Rightarrow>
     (case createOrUpdateFile d (TopologyFilePath c) topologyFile h of
        ((_, Some e), h) \<Rightarrow> Ret (Some (Wrap ''failed to create or update topology file: '' e), h)
      | ((_, None), h) \<Rightarrow>
          Ret (place_config_files d k pe configDirectoryPath (pes_ConfigFiles (pe_Spec pe)) w h)))))"

definition container_ready :: "ContainerInfo \<Rightarrow> bool" where
  "container_ready info =
     (if st_Running (ci_State info)
      then (case st_Health (ci_State info) of
              None \<Rightarrow> True
            | Some status \<Rightarrow> if status = ''healthy'' then True else False)
      else False)"

definition container_status ::
    "('f, 'x) ContainerLabDriver \<Rightarrow> ProblemEnvironment \<Rightarrow> 'x host \<Rightarrow> ContainerDetails \<Rightarrow> ContainerStatus" where
  "container_status d pe h c =
     (let containerPrefix = ''clab-'' @ pe_Name pe @ ''-'';
          containerStatus = \<lparr>cs_Name = replace_all containerPrefix '''' (cd_Name c), cs_Image = cd_Image c,
            cs_ContainerID = cd_ContainerID c, cs_ContainerName = '''', cs_Ready = False,
            cs_ManagementIPAddress = cd_IPv4Address c\<rparr>
      in case ho_ContainerInspect (cl_ops d) h (cd_ContainerID c) of
           Inl _ \<Rightarrow> containerStatus
         | Inr containerInfo \<Rightarrow>
             containerStatus\<lparr>cs_ContainerName := ci_Name containerInfo,
                             cs_Ready := container_ready containerInfo\<rparr>)"

definition clab_driver_Check ::
    "('f, 'x) ContainerLabDriver \<Rightarrow> ProblemEnvironment \<Rightarrow> 'x host \<Rightarrow> DriverStatus \<times> ContainerStatus list option" where
  "clab_driver_Check d pe h =
     (let c = clab_client pe
      in if \<not> fileExists d (workingDirectoryPath c) h then (StatusInit, None)
         else if \<not> fileExists d (TopologyFilePath c) h then (StatusError, None)
         else (case clab_Inspect (cl_ops d) c h of
                 Inl _ \<Rightarrow> (StatusError, None)
               | Inr containers \<Rightarrow> (StatusDeployed, Some (map (container_status d pe h) containers))))"

definition desired_network :: NetworkResource where
  "desired_network =
     \<lparr>nr_Driver = ''bridge'', nr_IPAMDriver = ''default'',
      nr_IPAMConfig = [\<lparr>ipam_Subnet = ''100.64.0.0/10'', ipam_Gateway = ''100.64.0.1''\<rparr>]\<rparr>"

definition checkManagementNetwork :: "NetworkResource \<Rightarrow> bool" where
  "checkManagementNetwork net =
     (if nr_Driver net \<noteq> ''bridge'' then False
      else if nr_IPAMDriver net \<noteq> ''default'' then False
      else if length (nr_IPAMConfig net) \<noteq> 1 then False
      else if ipam_Subnet (nr_IPAMConfig net ! 0) \<noteq> ''100.64.0.0/10'' \<or>
              ipam_Gateway (nr_IPAMConfig net ! 0) \<noteq> ''100.64.0.1'' then False
      else True)"

definition ensureManagementNetwork :: "('f, 'x) ContainerLabDriver \<Rightarrow> 'x host \<Rightarrow> error option \<times> 'x host" where
  "ensureManagementNetwork d h =
     (let create = ho_NetworkCreate (cl_ops d) ''nc-mgmt'' desired_network
      in case ho_NetworkInspect (cl_ops d) h ''nc-mgmt'' of
           Inl e \<Rightarrow> if \<not> IsNotFound e then (Some e, h) else create h
         | Inr managementNetwork \<Rightarrow>
             if checkManagementNetwork managementNetwork then (None, h)
             else (case ho_NetworkRemove (cl_ops d) ''nc-mgmt'' h of
                     (Some e, h') \<Rightarrow> (Some e, h')
                   | (None, h') \<Rightarrow> create h'))"

definition clab_driver_deploy ::
    "('f, 'x) ContainerLabDriver \<Rightarrow> 'w kube \<Rightarrow> time \<Rightarrow> time \<Rightarrow> ContainerLabClient \<Rightarrow> ProblemEnvironment \<Rightarrow>
     'w \<times> 'x host \<Rightarrow> error option \<times> 'w \<times> 'x host" where
  "clab_driver_deploy d k startedAt endedAt c pe wh =
     (case wh of (w, h) \<Rightarrow>
     (case DeployWithOutput (cl_ops d) c h of
        ((stdout, stderr, err), h') \<Rightarrow>
          (let configMap = \<lparr>cm_Namespace = pe_Namespace pe,
                 cm_Name = ''deploy-'' @ pe_Name pe @ ''-'' @ dec_nat (nat (startedAt div Second)),
                 cm_Data = [''stdout'' \<mapsto> stdout, ''stderr'' \<mapsto> stderr,
                    ''startedAt'' \<mapsto> ho_format_time (cl_ops d) startedAt,
                    ''endedAt'' \<mapsto> ho_format_time (cl_ops d) endedAt],
                 cm_OwnerReferences = []\<rparr>;
               configMap = ho_SetOwnerReference (cl_ops d) pe configMap
           in case createConfigMap k configMap w of (_, w') \<Rightarrow> (err, w', h'))))"

definition clab_driver_Deploy ::
    "('f, 'x) ContainerLabDriver \<Rightarrow> 'w kube \<Rightarrow> time \<Rightarrow> time \<Rightarrow> ProblemEnvironment \<Rightarrow> 'w \<times> 'x host \<Rightarrow>
     (error option \<times> 'w \<times> 'x host) go" where
  "clab_driver_Deploy d k startedAt endedAt pe wh =
     (case wh of (w, h) \<Rightarrow>
     (case placeFiles d k (clab_client pe) pe w h of
        Panic m \<Rightarrow> Panic m
      | Ret (Some e, h) \<Rightarrow> Ret (Some e, w, h)
      | Ret (None, h) \<Rightarrow>
          (case ensureManagementNetwork d h of
             (Some e, h) \<Rightarrow> Ret (Some e, w, h)
           | (None, h) \<Rightarrow> Ret (clab_driver_deploy d k startedAt endedAt (clab_client pe) pe (w, h)))))"

definition clab_driver_Destroy ::
    "('f, 'x) ContainerLabDriver \<Rightarrow> ProblemEnvironment \<Rightarrow> 'x host \<Rightarrow> error option \<times> 'x host" where
  "clab_driver_Destroy d pe h =
     (let c = clab_client pe;
          cleanup = (\<lambda>h. case driver_delete d (workingDirectoryPath c) h of
            ((_, Some e), h') \<Rightarrow> (Some (Wrap ''failed to delete directory for ProblemEnvironment: '' e), h')
          | ((_, None), h') \<Rightarrow> (None, h'))
      in if fst (clab_driver_Check d pe h) = StatusDeployed
         then (case clab_Destroy (cl_ops d) c h of
                 (Some e, h') \<Rightarrow> (Some (Wrap ''failed to destroy ContainerLab: '' e), h')
               | (None, h') \<Rightarrow> cleanup h')
         else cleanup h)"

definition ContainerLabProblemEnvironmentDriver ::
    "('f, 'x) ContainerLabDriver \<Rightarrow> 'w kube \<Rightarrow> time \<Rightarrow> time \<Rightarrow> ('w \<times> 'x host) driver" where
  "ContainerLabProblemEnvironmentDriver d k startedAt endedAt =
     \<lparr>dr_Check = (\<lambda>pe (w, h). clab_driver_Check d pe h),
      dr_Deploy = clab_driver_Deploy d k startedAt endedAt,
      dr_Destroy = (\<lambda>pe (w, h). case clab_driver_Destroy d pe h of (r, h') \<Rightarrow> (r, w, h'))\<rparr>"

section \<open>The contract holds\<close>

lemma clab_Check_nil: "fst (clab_driver_Check d pe h) \<noteq> StatusDeployed \<Longrightarrow> snd (clab_driver_Check d pe h) = None"
  by (auto simp: clab_driver_Check_def Let_def split: sum.splits if_splits)

sublocale kube_api \<subseteq> clab: problem_environment_driver "ContainerLabProblemEnvironmentDriver dr k t0 t1"
    "\<lambda>wh. contents (fst wh)" "\<lambda>wh. ok (fst wh)"
  for dr :: "('f, 'x) ContainerLabDriver" and t0 t1
proof (unfold_locales, goal_cases)
  case (1 pe wh)
  then show ?case
    using clab_Check_nil by (auto simp: ContainerLabProblemEnvironmentDriver_def split: prod.splits)
next
  case (2 wh pe r wh')
  obtain w h w' h' where wh: "wh = (w, h)" "wh' = (w', h')" by fastforce
  have "w' = w \<or> (\<exists>cm x. createConfigMap k cm w = (x, w'))"
    using 2(2) unfolding wh ContainerLabProblemEnvironmentDriver_def clab_driver_Deploy_def clab_driver_deploy_def Let_def
    by (auto split: go.splits option.splits prod.splits)
  then show ?case
    using 2(1) config_map_frame unfolding wh by auto
next
  case (3 wh pe r wh')
  then show ?case
    by (auto simp: ContainerLabProblemEnvironmentDriver_def split: prod.splits)
qed

section \<open>Files\<close>

lemma createOrUpdateFile_fs:
  assumes "createOrUpdateFile d p c h = ((b, None), h')"
  shows "h_fs h' = (h_fs h)(p \<mapsto> File c)"
proof -
  have "os_WriteFile (cl_ops d) p c h = (None, h') \<or> (h' = h \<and> os_ReadFile (cl_ops d) h p = Inr c)"
    using assms by (auto simp: createOrUpdateFile_def Let_def split: prod.splits if_splits sum.splits)
  then show ?thesis
    by (auto simp: os_WriteFile_def os_ReadFile_def fun_upd_idem split: option.splits if_splits fs_node.splits)
qed

lemma createOrUpdateFile_again:
  assumes "createOrUpdateFile d p c h = ((b, None), h')"
    and "ho_fault (cl_ops d) h' ''stat'' p = None" "ho_fault (cl_ops d) h' ''read'' p = None"
  shows "createOrUpdateFile d p c h' = ((False, None), h')"
  using createOrUpdateFile_fs [OF assms(1)] assms(2,3)
  by (simp add: createOrUpdateFile_def fileExists_def os_Stat_def os_ReadFile_def)

lemma place_config_files_fs:
  assumes "place_config_files d k pe dir configs w h = (None, h')"
    and "distinct (map (\<lambda>c. path_join [dir, cmfs_Key (fs_ConfigMapRef c)]) configs)"
  shows "(\<forall>c \<in> set configs. \<exists>data. fetchFile k pe c w = Inr data \<and>
      h_fs h' (path_join [dir, cmfs_Key (fs_ConfigMapRef c)]) = Some (File data)) \<and>
    (\<forall>p. p \<notin> (\<lambda>c. path_join [dir, cmfs_Key (fs_ConfigMapRef c)]) ` set configs \<longrightarrow> h_fs h' p = h_fs h p)"
  using assms
proof (induction configs arbitrary: h)
  case Nil
  then show ?case by simp
next
  case (Cons c configs)
  let ?p = "path_join [dir, cmfs_Key (fs_ConfigMapRef c)]"
  obtain data where data: "fetchFile k pe c w = Inr data"
    using Cons.prems(1) by (auto split: sum.splits)
  obtain b h1 where up: "createOrUpdateFile d ?p data h = ((b, None), h1)"
    and rest: "place_config_files d k pe dir configs w h1 = (None, h')"
    using Cons.prems(1) data by (auto split: prod.splits option.splits)
  note IH = Cons.IH [OF rest]
  have "h_fs h' ?p = Some (File data)"
    using IH Cons.prems(2) createOrUpdateFile_fs [OF up] by (auto simp: image_iff)
  then show ?case
    using IH Cons.prems(2) data createOrUpdateFile_fs [OF up] by auto
qed

definition no_stat_faults :: "('f, 'x) host_ops \<Rightarrow> bool" where
  "no_stat_faults ho \<longleftrightarrow> (\<forall>h p. ho_fault ho h ''stat'' p = None)"

lemma fileExists_iff: "no_stat_faults (cl_ops d) \<Longrightarrow> fileExists d p h = (h_fs h p \<noteq> None)"
  by (auto simp: fileExists_def os_Stat_def no_stat_faults_def split: option.splits)

lemma driver_delete_gone:
  assumes "no_stat_faults (cl_ops d)" "driver_delete d p h = ((b, None), h')"
  shows "h_fs h' p = None"
  using assms(2) fileExists_iff [OF assms(1), of p h]
  by (auto simp: driver_delete_def os_RemoveAll_def split: if_splits option.splits prod.splits)

lemma Destroy_then_Init:
  assumes "no_stat_faults (cl_ops d)" "clab_driver_Destroy d pe h = (None, h')"
  shows "clab_driver_Check d pe h' = (StatusInit, None)"
proof -
  have "\<exists>h1 b. driver_delete d (workingDirectoryPath (clab_client pe)) h1 = ((b, None), h')"
    using assms(2) unfolding clab_driver_Destroy_def Let_def
    by (auto split: if_splits prod.splits option.splits)
  then have "h_fs h' (workingDirectoryPath (clab_client pe)) = None"
    using driver_delete_gone [OF assms(1)] by blast
  then show ?thesis
    using fileExists_iff [OF assms(1)] by (simp add: clab_driver_Check_def)
qed

lemma config_path:
  assumes "plain_name n" "plain_name key"
  shows "path_join [path_join [''data/'' @ n, ''config''], key] = ''data/'' @ n @ ''/config/'' @ key"
    and "path_join [''data/'' @ n, ''config''] = ''data/'' @ n @ ''/config''"
proof -
  have "path_join [''data/'' @ n, ''config''] = path_clean (join ''/'' [''data'', n, ''config''])"
    by (simp add: path_join_def)
  also have "\<dots> = join ''/'' [''data'', n, ''config'']"
    using assms(1) by (intro path_clean_plain) simp_all
  finally show c: "path_join [''data/'' @ n, ''config''] = ''data/'' @ n @ ''/config''"
    by simp
  have "path_join [''data/'' @ n @ ''/config'', key] = path_clean (join ''/'' [''data'', n, ''config'', key])"
    using assms(2) by (simp add: path_join_def plain_name_def)
  also have "\<dots> = join ''/'' [''data'', n, ''config'', key]"
    using assms by (intro path_clean_plain) simp_all
  finally show "path_join [path_join [''data/'' @ n, ''config''], key] = ''data/'' @ n @ ''/config/'' @ key"
    unfolding c by simp
qed

section \<open>Properties\<close>

text \<open>
  What \<^verbatim>\<open>Check\<close> reports: containers are reported exactly when the status is Deployed (nil
  otherwise, as the interface asks), one per container ContainerLab lists, and a container is ready
  exactly when docker knows it, it runs, and it has no health check or a healthy one.
\<close>

theorem Check_reports:
  "(snd (clab_driver_Check d pe h) \<noteq> None) = (fst (clab_driver_Check d pe h) = StatusDeployed) \<and>
   (fst (clab_driver_Check d pe h) = StatusDeployed) =
     (fileExists d (workingDirectoryPath (clab_client pe)) h \<and> fileExists d (TopologyFilePath (clab_client pe)) h \<and>
      (\<exists>cs. clab_Inspect (cl_ops d) (clab_client pe) h = Inr cs \<and>
         snd (clab_driver_Check d pe h) = Some (map (container_status d pe h) cs))) \<and>
   cs_Ready (container_status d pe h c) =
     (\<exists>info. ho_ContainerInspect (cl_ops d) h (cd_ContainerID c) = Inr info \<and> st_Running (ci_State info) \<and>
        st_Health (ci_State info) \<in> {None, Some ''healthy''})"
  by (intro conjI)
    (auto simp: clab_driver_Check_def container_status_def container_ready_def Let_def split: sum.splits option.splits if_splits)

text \<open>
  Files: after \<^verbatim>\<open>createOrUpdateFile\<close> without error the file has the content and nothing else
  changed, and a second call finds nothing to do (unless the file system fails).
\<close>

theorem createOrUpdateFile_idempotent:
  assumes "createOrUpdateFile d p c h = ((b, None), h')"
    and "ho_fault (cl_ops d) h' ''stat'' p = None" "ho_fault (cl_ops d) h' ''read'' p = None"
  shows "h_fs h' = (h_fs h)(p \<mapsto> File c) \<and> createOrUpdateFile d p c h' = ((False, None), h')"
  using createOrUpdateFile_fs [OF assms(1)] createOrUpdateFile_again [OF assms] by simp

text \<open>A host on which nothing fails and no container runs.\<close>

definition sample_ops :: "(real, NetworkResource option) host_ops" where
  "sample_ops =
     \<lparr>ho_fault = (\<lambda>h op p. None), ho_clab = (\<lambda>args dir h. ((''out'', ''err'', None), h)),
      ho_clab_query = (\<lambda>args dir h. Inr ''{}''), ho_json = (\<lambda>s. Inr []),
      ho_yaml_Unmarshal = (\<lambda>s. Inr \<lparr>cf_Name = s, cf_Prefix = None, cf_Mgmt = None,
        cf_Topology = \<lparr>tp_Defaults = None, tp_Kinds = [], tp_Nodes = [], tp_Links = []\<rparr>\<rparr>),
      ho_yaml_Marshal = (\<lambda>c. Inr (''name: '' @ cf_Name c)),
      ho_ContainerInspect = (\<lambda>h i. Inl NotFound),
      ho_NetworkInspect = (\<lambda>h n. case h_ext h of None \<Rightarrow> Inl NotFound | Some r \<Rightarrow> Inr r),
      ho_NetworkRemove = (\<lambda>n h. (None, h\<lparr>h_ext := None\<rparr>)),
      ho_NetworkCreate = (\<lambda>n r h. (None, h\<lparr>h_ext := Some r\<rparr>)),
      ho_format_time = (\<lambda>t. dec_nat (nat t)), ho_SetOwnerReference = (\<lambda>pe c. c)\<rparr>"

definition sample_driver :: "(real, NetworkResource option) ContainerLabDriver" where
  "sample_driver = \<lparr>cl_configDir = ''/etc/nclet'', cl_ops = sample_ops\<rparr>"

definition sample_host :: "NetworkResource option host" where
  "sample_host = \<lparr>h_fs = [''data'' \<mapsto> Dir, ''data/abc-1'' \<mapsto> Dir, ''data/abc-1/manifest.yml'' \<mapsto> File ''old''],
     h_ext = None\<rparr>"

lemmas sample_host_defs = sample_host_def sample_driver_def sample_ops_def

theorem createOrUpdateFile_idempotent_witness:
  "\<exists>b h'. createOrUpdateFile sample_driver ''data'' ''x'' (sample_host\<lparr>h_fs := Map.empty\<rparr>) = ((b, None), h') \<and>
     createOrUpdateFile sample_driver ''data'' ''x'' h' = ((False, None), h')"
proof -
  have "\<exists>h'. createOrUpdateFile sample_driver ''data'' ''x'' (sample_host\<lparr>h_fs := Map.empty\<rparr>) = ((True, None), h')"
    by (simp add: createOrUpdateFile_def fileExists_def os_Stat_def os_WriteFile_def sample_host_defs
        filepath_Dir_def path_clean_def Let_def has_prefix_def)
  then obtain b h' where
    "createOrUpdateFile sample_driver ''data'' ''x'' (sample_host\<lparr>h_fs := Map.empty\<rparr>) = ((b, None), h')"
    by blast
  then show ?thesis
    using createOrUpdateFile_idempotent [of sample_driver "''data''" "''x''"] by (auto simp: sample_host_defs)
qed



text \<open>
  The management network: when docker creates what it is asked to create, \<^verbatim>\<open>ensureManagementNetwork\<close>
  without error leaves a network \<^verbatim>\<open>nc-mgmt\<close> with the required driver, subnet and gateway,
  whatever was there before.
\<close>

theorem ensureManagementNetwork_ensures:
  assumes "\<forall>net h h'. ho_NetworkCreate (cl_ops d) ''nc-mgmt'' net h = (None, h') \<longrightarrow>
      ho_NetworkInspect (cl_ops d) h' ''nc-mgmt'' = Inr net"
    and "ensureManagementNetwork d h = (None, h')"
  shows "\<exists>net. ho_NetworkInspect (cl_ops d) h' ''nc-mgmt'' = Inr net \<and> checkManagementNetwork net"
proof -
  have "checkManagementNetwork desired_network"
    by (simp add: checkManagementNetwork_def desired_network_def)
  then show ?thesis
    using assms by (auto simp: ensureManagementNetwork_def Let_def split: sum.splits if_splits prod.splits option.splits)
qed

theorem ensureManagementNetwork_ensures_witness:
  "\<exists>h' net. ensureManagementNetwork sample_driver sample_host = (None, h') \<and>
     ho_NetworkInspect sample_ops h' ''nc-mgmt'' = Inr net \<and> checkManagementNetwork net"
proof -
  have "\<exists>h'. ensureManagementNetwork sample_driver sample_host = (None, h')"
    by (simp add: ensureManagementNetwork_def sample_host_defs)
  then show ?thesis
    using ensureManagementNetwork_ensures [of sample_driver sample_host] by (auto simp: sample_host_defs)
qed

lemma placeFiles_files:
  assumes "placeFiles d k c pe w h = Ret (None, h')"
  shows "\<exists>h1 topo. getTopologyFileFor d k pe w = Ret (Inr topo) \<and>
    h_fs h1 (TopologyFilePath c) = Some (File topo) \<and>
    place_config_files d k pe (path_join [workingDirectoryPath c, ''config'']) (pes_ConfigFiles (pe_Spec pe)) w h1 =
      (None, h')"
proof -
  obtain h0 topo where t: "getTopologyFileFor d k pe w = Ret (Inr topo)"
    and rest: "(case createOrUpdateFile d (TopologyFilePath c) topo h0 of
        ((_, Some e), h) \<Rightarrow> Ret (Some (Wrap ''failed to create or update topology file: '' e), h)
      | ((_, None), h) \<Rightarrow>
          Ret (place_config_files d k pe (path_join [workingDirectoryPath c, ''config''])
                 (pes_ConfigFiles (pe_Spec pe)) w h)) = Ret (None, h')"
    using assms unfolding placeFiles_def Let_def
    by (auto split: prod.splits option.splits go.splits sum.splits)
  obtain r h1 where up: "createOrUpdateFile d (TopologyFilePath c) topo h0 = (r, h1)" by fastforce
  then obtain b where "r = (b, None)"
    "place_config_files d k pe (path_join [workingDirectoryPath c, ''config'']) (pes_ConfigFiles (pe_Spec pe)) w h1 =
      (None, h')"
    using rest by (cases r) (auto split: option.splits)
  then show ?thesis
    using t createOrUpdateFile_fs [of d "TopologyFilePath c" topo h0 b h1] up
    by (intro exI [of _ h1] exI [of _ topo]) auto
qed

text \<open>
  Placing files: when \<^verbatim>\<open>placeFiles\<close> succeeds for an environment with a plain name and
  distinct plain configuration keys, \<^verbatim>\<open>data/<name>/manifest.yml\<close> holds the rewritten topology and
  \<^verbatim>\<open>data/<name>/config/<key>\<close> the data of each config map key.
\<close>

theorem placeFiles_places:
  assumes "placeFiles d k (clab_client pe) pe w h = Ret (None, h')" "plain_name (pe_Name pe)"
    and "distinct (map (\<lambda>c. cmfs_Key (fs_ConfigMapRef c)) (pes_ConfigFiles (pe_Spec pe)))"
    and "\<forall>c \<in> set (pes_ConfigFiles (pe_Spec pe)). plain_name (cmfs_Key (fs_ConfigMapRef c))"
  shows "(\<exists>topo. getTopologyFileFor d k pe w = Ret (Inr topo) \<and>
      h_fs h' (''data/'' @ pe_Name pe @ ''/manifest.yml'') = Some (File topo)) \<and>
    (\<forall>c \<in> set (pes_ConfigFiles (pe_Spec pe)). \<exists>data. fetchFile k pe c w = Inr data \<and>
      h_fs h' (''data/'' @ pe_Name pe @ ''/config/'' @ cmfs_Key (fs_ConfigMapRef c)) = Some (File data))"
proof -
  let ?cs = "pes_ConfigFiles (pe_Spec pe)" and ?dir = "path_join [''data/'' @ pe_Name pe, ''config'']"
  let ?key = "\<lambda>c. cmfs_Key (fs_ConfigMapRef c)"
  have paths: "workingDirectoryPath (clab_client pe) = ''data/'' @ pe_Name pe"
    "TopologyFilePath (clab_client pe) = ''data/'' @ pe_Name pe @ ''/manifest.yml''"
    using client_paths [OF assms(2)] by (simp_all add: NewContainerLabClientFor_def)
  have cp: "path_join [?dir, ?key c] = ''data/'' @ pe_Name pe @ ''/config/'' @ ?key c" if "c \<in> set ?cs" for c
    using config_path(1) [OF assms(2)] assms(4) that by blast
  obtain h1 topo where topo: "getTopologyFileFor d k pe w = Ret (Inr topo)"
    "h_fs h1 (''data/'' @ pe_Name pe @ ''/manifest.yml'') = Some (File topo)"
    "place_config_files d k pe ?dir ?cs w h1 = (None, h')"
    using placeFiles_files [OF assms(1)] unfolding paths by blast
  have "map (\<lambda>c. path_join [?dir, ?key c]) ?cs =
      map (\<lambda>s. ''data/'' @ pe_Name pe @ ''/config/'' @ s) (map ?key ?cs)"
    using cp by simp
  moreover have "inj (\<lambda>s. ''data/'' @ pe_Name pe @ ''/config/'' @ s)"
    by (simp add: inj_def)
  ultimately have "distinct (map (\<lambda>c. path_join [?dir, ?key c]) ?cs)"
    using assms(3) by (simp add: distinct_map inj_on_def)
  note placed = place_config_files_fs [OF topo(3) this]
  have "''data/'' @ pe_Name pe @ ''/manifest.yml'' \<notin> (\<lambda>c. path_join [?dir, ?key c]) ` set ?cs"
    using cp by auto
  then have "h_fs h' (''data/'' @ pe_Name pe @ ''/manifest.yml'') = Some (File topo)"
    using placed topo(2) by simp
  then show ?thesis
    using placed cp topo(1) by auto
qed

definition sample_config_world :: kmem where
  "sample_config_world = kmem0\<lparr>km_configmaps := [\<lparr>cm_Namespace = ''netcon'', cm_Name = '''',
     cm_Data = ['''' \<mapsto> ''topology''], cm_OwnerReferences = []\<rparr>]\<rparr>"

lemma sample_placeFiles:
  "\<exists>h'. placeFiles sample_driver mem_client (clab_client sample_new) sample_new sample_config_world
     (sample_host\<lparr>h_fs := Map.empty\<rparr>) = Ret (None, h')"
proof -
  let ?c = "clab_client sample_new"
  have n: "pe_Name sample_new = ''abc-1''" "plain_name ''abc-1''" "pes_ConfigFiles (pe_Spec sample_new) = []"
    by (simp_all add: sample_defs plain_name_def)
  then have p: "workingDirectoryPath ?c = ''data/abc-1''" "TopologyFilePath ?c = ''data/abc-1/manifest.yml''"
    "path_join [''data/abc-1'', ''config''] = ''data/abc-1/config''"
    using client_paths [of "''abc-1''"] config_path(2) [of "''abc-1''"] by (simp_all add: NewContainerLabClientFor_def)
  have a: "ancestors ''data/abc-1'' = [''data'', ''data/abc-1'']"
    "ancestors ''data/abc-1/config'' = [''data'', ''data/abc-1'', ''data/abc-1/config'']"
    "filepath_Dir ''data/abc-1/manifest.yml'' = ''data/abc-1''"
    using filepath_Dir_plain(1) [of "''data''" "[''abc-1'']" "''manifest.yml''"] n(2)
    by (simp_all add: ancestors_def numeral_eq_Suc)
  have t: "getTopologyFileFor sample_driver mem_client sample_new sample_config_world = Ret (Inr ''name: abc-1'')"
    by (simp add: getTopologyFileFor_def fetchFile_def mem_client_def lookup_obj_def sample_config_world_def
        sample_defs sample_host_defs Let_def)
  have f: "ho_fault (cl_ops sample_driver) h op q = None" for h op q
    by (simp add: sample_host_defs)
  show ?thesis
    unfolding placeFiles_def ensureDirectory_def os_MkdirAll_def p a t n f Let_def
    by (simp add: p a t n f createOrUpdateFile_def fileExists_def os_Stat_def os_WriteFile_def)
qed

theorem placeFiles_places_witness:
  "\<exists>h' topo. placeFiles sample_driver mem_client (clab_client sample_new) sample_new sample_config_world
     (sample_host\<lparr>h_fs := Map.empty\<rparr>) = Ret (None, h') \<and>
     h_fs h' ''data/abc-1/manifest.yml'' = Some (File topo)"
proof -
  obtain h' where h': "placeFiles sample_driver mem_client (clab_client sample_new) sample_new sample_config_world
      (sample_host\<lparr>h_fs := Map.empty\<rparr>) = Ret (None, h')"
    using sample_placeFiles by blast
  have "pe_Name sample_new = ''abc-1''" "plain_name ''abc-1''" "pes_ConfigFiles (pe_Spec sample_new) = []"
    by (simp_all add: sample_defs plain_name_def)
  then show ?thesis
    using placeFiles_places [OF h'] h' by auto
qed

text \<open>
  Bind mounts: a node without a startup configuration keeps its relative bind sources: the
  source is joined to the (empty) startup configuration and not to the directory of the
  environment, although the code means to rewrite it below that directory.
\<close>

theorem bind_source_not_prefixed:
  assumes "nd_StartupConfig node = ''''" "nd_Binds node = [src @ '':'' @ dst]"
    and "CHR '':'' \<notin> set src" "plain_name src"
  shows "nd_Binds (rewrite_node prefix node) = [src @ '':'' @ dst]"
proof -
  note sp = split_on_append [OF assms(3), of dst]
  have "path_join ['''', src] = src"
    using path_join_plain [of src "[]"] assms(4) by (simp add: path_join_def)
  then show ?thesis
    using assms(1,2) join_split_on [of "CHR '':''" dst]
    by (simp add: rewrite_node_def Let_def rewrite_bind_def sp join_Cons)
qed

definition sample_node :: "real NodeDefinition" where
  "sample_node = \<lparr>nd_Kind = ''linux'', nd_Group = '''', nd_Type = '''', nd_StartupConfig = '''',
     nd_StartupDelay = 0, nd_EnforceStartupConfig = False, nd_Config = None, nd_Image = ''frr'',
     nd_License = '''', nd_Position = '''', nd_Entrypoint = '''', nd_Cmd = '''', nd_SANs = [], nd_Exec = [],
     nd_Binds = [''frr.conf:/etc/frr/frr.conf''], nd_Ports = [], nd_MgmtIPv4 = '''', nd_MgmtIPv6 = '''',
     nd_Publish = [], nd_Env = Map.empty, nd_EnvFiles = [], nd_User = '''', nd_Labels = Map.empty,
     nd_NetworkMode = '''', nd_Sandbox = '''', nd_Kernel = '''', nd_Runtime = '''', nd_CPU = 0,
     nd_CPUSet = '''', nd_Memory = '''', nd_Sysctls = Map.empty, nd_Extras = None, nd_WaitFor = []\<rparr>"

theorem bind_source_not_prefixed_witness:
  "nd_Binds (rewrite_node ''/etc/nclet/abc-1'' sample_node) = [''frr.conf:/etc/frr/frr.conf'']"
  using bind_source_not_prefixed [of sample_node "''frr.conf''" "''/etc/frr/frr.conf''" "''/etc/nclet/abc-1''"]
  by (simp add: sample_node_def plain_name_def)

end
