(* ===== verification/Kube_Lift.thy ===== *)
theory Kube_Lift
  imports Kube_Client
begin

text \<open>
  nclet works on the API server and on its host. A client of the API server is a client of the
  pair of both, which leaves the host alone; the laws carry over.
\<close>

definition lift_write :: "('w \<Rightarrow> 'r \<times> 'w) \<Rightarrow> 'w \<times> 'h \<Rightarrow> 'r \<times> 'w \<times> 'h" where
  "lift_write f wh = (case f (fst wh) of (r, w') \<Rightarrow> (r, w', snd wh))"

definition lift_kube :: "'w kube \<Rightarrow> ('w \<times> 'h) kube" where
  "lift_kube k =
     \<lparr>getProblemEnvironment = (\<lambda>wh. getProblemEnvironment k (fst wh)),
      listProblemEnvironment = (\<lambda>wh. listProblemEnvironment k (fst wh)),
      createProblemEnvironment = (\<lambda>pe. lift_write (createProblemEnvironment k pe)),
      updateProblemEnvironment = (\<lambda>pe. lift_write (updateProblemEnvironment k pe)),
      updateStatusProblemEnvironment = (\<lambda>pe. lift_write (updateStatusProblemEnvironment k pe)),
      deleteProblemEnvironment = (\<lambda>key. lift_write (deleteProblemEnvironment k key)),
      getProblem = (\<lambda>wh. getProblem k (fst wh)),
      listProblem = (\<lambda>wh. listProblem k (fst wh)),
      updateStatusProblem = (\<lambda>p. lift_write (updateStatusProblem k p)),
      getWorker = (\<lambda>wh. getWorker k (fst wh)),
      listWorker = (\<lambda>wh. listWorker k (fst wh)),
      createWorker = (\<lambda>x. lift_write (createWorker k x)),
      updateWorker = (\<lambda>x. lift_write (updateWorker k x)),
      updateStatusWorker = (\<lambda>x. lift_write (updateStatusWorker k x)),
      getLease = (\<lambda>wh. getLease k (fst wh)),
      createLease = (\<lambda>x. lift_write (createLease k x)),
      updateLease = (\<lambda>x. lift_write (updateLease k x)),
      getConfigMap = (\<lambda>wh. getConfigMap k (fst wh)),
      listConfigMap = (\<lambda>wh. listConfigMap k (fst wh)),
      createConfigMap = (\<lambda>x. lift_write (createConfigMap k x)),
      recordEvent = (\<lambda>ev wh. (recordEvent k ev (fst wh), snd wh))\<rparr>"

lemma lift_write_eq: "lift_write f wh = (r, wh') \<longleftrightarrow> f (fst wh) = (r, fst wh') \<and> snd wh' = snd wh"
  by (cases "f (fst wh)"; cases wh') (auto simp: lift_write_def)

lemma lift_simps [simp]:
  "getProblemEnvironment (lift_kube k) wh = getProblemEnvironment k (fst wh)"
  "listProblemEnvironment (lift_kube k) wh = listProblemEnvironment k (fst wh)"
  "createProblemEnvironment (lift_kube k) pe = lift_write (createProblemEnvironment k pe)"
  "updateProblemEnvironment (lift_kube k) pe = lift_write (updateProblemEnvironment k pe)"
  "updateStatusProblemEnvironment (lift_kube k) pe = lift_write (updateStatusProblemEnvironment k pe)"
  "deleteProblemEnvironment (lift_kube k) key = lift_write (deleteProblemEnvironment k key)"
  "updateStatusProblem (lift_kube k) p = lift_write (updateStatusProblem k p)"
  "createConfigMap (lift_kube k) c = lift_write (createConfigMap k c)"
  "recordEvent (lift_kube k) ev wh = (recordEvent k ev (fst wh), snd wh)"
  by (simp_all add: lift_kube_def)

context kube_api
begin

lemma lifted_kube_api: "kube_api (lift_kube k) (\<lambda>wh. contents (fst wh)) (\<lambda>wh. ok (fst wh))"
proof (unfold_locales, unfold lift_simps lift_write_eq, goal_cases)
  case 1 then show ?case using distinct_keys by blast
next
  case 2 then show ?case using live_objects by blast
next
  case 3 then show ?case using update_status by blast
next
  case 4 then show ?case using update_main by blast
next
  case 5 then show ?case using delete_main by blast
next
  case 6 then show ?case using create_main by blast
next
  case 7 then show ?case using update_status_rejected by blast
next
  case 8 then show ?case using update_main_rejected by blast
next
  case 9 then show ?case using delete_rejected by blast
next
  case 10 then show ?case using create_rejected by blast
next
  case 11 then show ?case using event_frame by simp
next
  case 12 then show ?case using problem_frame by blast
next
  case 13 then show ?case using config_map_frame by blast
qed

end

context versioned_reads
begin

lemma lifted_versioned_reads: "versioned_reads (lift_kube k) (\<lambda>wh. contents (fst wh)) (\<lambda>wh. ok (fst wh))"
proof (rule versioned_reads.intro [OF lifted_kube_api versioned_reads_axioms.intro], unfold lift_simps, goal_cases)
  case 1 then show ?case using get_version by blast
next
  case 2 then show ?case using get_key by blast
next
  case 3 then show ?case using list_version by blast
next
  case 4 then show ?case using list_matches by blast
qed

end

end
