(* ===== verification/Nclet_Controller.thy ===== *)
theory Nclet_Controller
  imports Driver Kube_Lift
begin

text \<open>
  The ProblemEnvironment controller of nclet (\<^verbatim>\<open>controllers/nclet/problemenvironment_controller.go\<close>):
  on the worker an environment is bound to, it protects the object with a finalizer, deploys the
  environment with the driver, reports the containers and destroys it when the object is deleted.
\<close>

section \<open>The handlers\<close>

definition StatusRefreshInterval :: duration where
  "StatusRefreshInterval = 5 * Second"

record 'w NcletReconciler =
  ncr_Client :: "'w kube"
  ncr_WorkerName :: string
  ncr_Driver :: "'w driver"

record nclet_runtime =
  nrt_now :: "nat \<Rightarrow> time"
  nrt_format_duration :: "duration \<Rightarrow> string"

text \<open>\<^verbatim>\<open>controllerutil\<close> on finalizers.\<close>

definition ContainsFinalizer :: "ProblemEnvironment \<Rightarrow> string \<Rightarrow> bool" where
  "ContainsFinalizer pe f = (f \<in> set (om_Finalizers (pe_ObjectMeta pe)))"

definition AddFinalizer :: "ProblemEnvironment \<Rightarrow> string \<Rightarrow> ProblemEnvironment" where
  "AddFinalizer pe f =
     (if ContainsFinalizer pe f then pe
      else pe\<lparr>pe_ObjectMeta := (pe_ObjectMeta pe)\<lparr>om_Finalizers := om_Finalizers (pe_ObjectMeta pe) @ [f]\<rparr>\<rparr>)"

definition RemoveFinalizer :: "ProblemEnvironment \<Rightarrow> string \<Rightarrow> ProblemEnvironment" where
  "RemoveFinalizer pe f =
     pe\<lparr>pe_ObjectMeta := (pe_ObjectMeta pe)\<lparr>om_Finalizers := removeAll f (om_Finalizers (pe_ObjectMeta pe))\<rparr>\<rparr>"

definition nclet_update ::
    "'w NcletReconciler \<Rightarrow> ProblemEnvironment \<Rightarrow> Result \<Rightarrow> 'w \<Rightarrow> 'w reconciled" where
  "nclet_update r pe res w =
     (case updateProblemEnvironment (ncr_Client r) pe w of
        (Inl e, w') \<Rightarrow> ((Result0, Some e), w')
      | (Inr _, w') \<Rightarrow> ((res, None), w'))"

definition nclet_updateStatus ::
    "'w NcletReconciler \<Rightarrow> ProblemEnvironment \<Rightarrow> Result \<Rightarrow> 'w \<Rightarrow> 'w reconciled" where
  "nclet_updateStatus r pe res w =
     (case updateStatusProblemEnvironment (ncr_Client r) pe w of
        (Inl e, w') \<Rightarrow> ((Result0, Some e), w')
      | (Inr _, w') \<Rightarrow> ((res, None), w'))"

definition nclet_cleanup ::
    "nclet_runtime \<Rightarrow> 'w NcletReconciler \<Rightarrow> ProblemEnvironment \<Rightarrow> 'w \<Rightarrow> 'w reconciled" where
  "nclet_cleanup rt r pe w =
     (case dr_Destroy (ncr_Driver r) pe w of
        (Some _, w) \<Rightarrow>
          nclet_updateStatus r
            (SetProblemEnvironmentCondition (nrt_now rt 0) pe ProblemEnvironmentConditionReady ConditionFalse
               ''DestroyFailed'' ''failed to destroy ProblemEnvironment'') Result0 w
      | (None, w) \<Rightarrow> nclet_update r (RemoveFinalizer pe ProblemEnvironmentFinalizer) Result0 w)"

definition nclet_updateContainerStatus ::
    "'w NcletReconciler \<Rightarrow> ProblemEnvironment \<Rightarrow> ContainerStatus list option \<Rightarrow> 'w \<Rightarrow> 'w reconciled" where
  "nclet_updateContainerStatus r pe containerStatuses w =
     (if containerStatuses \<noteq> pe_Containers pe
      then nclet_updateStatus r (pe\<lparr>pe_Status := (pe_Status pe)\<lparr>pest_Containers := containerStatuses\<rparr>\<rparr>)
             \<lparr>RequeueAfter = StatusRefreshInterval\<rparr> w
      else ((\<lparr>RequeueAfter = StatusRefreshInterval\<rparr>, None), w))"

definition nclet_check :: "'w NcletReconciler \<Rightarrow> ProblemEnvironment \<Rightarrow> 'w \<Rightarrow> 'w reconciled" where
  "nclet_check r pe w =
     (let (_, containerDetailStatuses) = dr_Check (ncr_Driver r) pe w
      in nclet_updateContainerStatus r pe containerDetailStatuses w)"

definition nclet_deploy ::
    "nclet_runtime \<Rightarrow> 'w NcletReconciler \<Rightarrow> ProblemEnvironment \<Rightarrow> 'w \<Rightarrow> 'w reconciled go" where
  "nclet_deploy rt r pe w =
     (case fst (dr_Check (ncr_Driver r) pe w) of
        StatusInit \<Rightarrow>
          (let w = recordEvent (ncr_Client r)
                     \<lparr>ev_Object = pe_Name pe, ev_Type = EventTypeNormal,
                      ev_Reason = ProblemEnvironmentEventDeploying,
                      ev_Message = ''Starting to deploy ProblemEnvironment on '' @ ncr_WorkerName r\<rparr> w;
               start = nrt_now rt 0
           in case dr_Deploy (ncr_Driver r) pe w of
                Panic m \<Rightarrow> Panic m
              | Ret (_, w) \<Rightarrow>
                  (let elapsed = nrt_now rt 1 - start;
                       w = recordEvent (ncr_Client r)
                             \<lparr>ev_Object = pe_Name pe, ev_Type = EventTypeNormal,
                              ev_Reason = ProblemEnvironmentEventDeployed,
                              ev_Message = ''Deployed ProblemEnvironment in '' @ nrt_format_duration rt elapsed\<rparr> w;
                       pe = SetProblemEnvironmentCondition (nrt_now rt 2) pe ProblemEnvironmentConditionDeployed
                              ConditionTrue ''Deployed'' ''ProblemEnvironment is deployed''
                   in Ret (nclet_check r pe w)))
      | _ \<Rightarrow>
          Ret (nclet_updateStatus r
                 (SetProblemEnvironmentCondition (nrt_now rt 0) pe ProblemEnvironmentConditionDeployed
                    ConditionTrue ''DeployFailed'' ''internal error'') Result0 w))"

definition nclet_Reconcile ::
    "nclet_runtime \<Rightarrow> 'w NcletReconciler \<Rightarrow> NamespacedName \<Rightarrow> 'w \<Rightarrow> 'w reconciled go" where
  "nclet_Reconcile rt r req w =
     (case getProblemEnvironment (ncr_Client r) w req of
        Inl e \<Rightarrow> Ret ((Result0, IgnoreNotFound e), w)
      | Inr pe \<Rightarrow>
          if GetProblemEnvironmentCondition pe ProblemEnvironmentConditionScheduled \<noteq> ConditionTrue
          then Ret ((Result0, None), w)
          else if pe_WorkerName pe \<noteq> ncr_WorkerName r then Ret ((Result0, None), w)
          else if om_DeletionTimestamp (pe_ObjectMeta pe) \<noteq> None
          then (if \<not> ContainsFinalizer pe ProblemEnvironmentFinalizer then Ret ((Result0, None), w)
                else Ret (nclet_cleanup rt r pe w))
          else if \<not> ContainsFinalizer pe ProblemEnvironmentFinalizer
          then Ret (nclet_update r (AddFinalizer pe ProblemEnvironmentFinalizer) Result0 w)
          else if GetProblemEnvironmentCondition pe ProblemEnvironmentConditionDeployed \<noteq> ConditionTrue
          then nclet_deploy rt r pe w
          else Ret (nclet_check r pe w))"

section \<open>Refinement of the protocol\<close>

lemma Finalizer_simps [simp]:
  "pe_key (AddFinalizer pe f) = pe_key pe" "pe_rv (AddFinalizer pe f) = pe_rv pe"
  "pe_Spec (AddFinalizer pe f) = pe_Spec pe" "f \<in> set (om_Finalizers (pe_ObjectMeta (AddFinalizer pe f)))"
  "pe_key (RemoveFinalizer pe f) = pe_key pe" "pe_rv (RemoveFinalizer pe f) = pe_rv pe"
  "pe_Spec (RemoveFinalizer pe f) = pe_Spec pe"
  "f \<notin> set (om_Finalizers (pe_ObjectMeta (RemoveFinalizer pe f)))"
  by (simp_all add: AddFinalizer_def RemoveFinalizer_def ContainsFinalizer_def)

lemma phase_add_finalizer:
  "phase_of (with_spec (AddFinalizer pe ProblemEnvironmentFinalizer) v pe) = (phase_of pe)\<lparr>ph_finalizer := True\<rparr>"
  by (rule phase.equality) simp_all

lemma phase_remove_finalizer:
  "phase_of (with_spec (RemoveFinalizer pe ProblemEnvironmentFinalizer) v pe) = (phase_of pe)\<lparr>ph_finalizer := False\<rparr>"
  by (rule phase.equality) simp_all

lemma Get_set_containers [simp]:
  "GetProblemEnvironmentCondition (pe\<lparr>pe_Status := (pe_Status pe)\<lparr>pest_Containers := cs\<rparr>\<rparr>) t =
     GetProblemEnvironmentCondition pe t"
  by (rule GetProblemEnvironmentCondition_cong) simp

lemma phase_set_deployed:
  "phase_of (with_status (SetProblemEnvironmentCondition now pe ProblemEnvironmentConditionDeployed s r m) v pe) =
     (phase_of pe)\<lparr>ph_deployed := s, ph_containers := omit_empty (pe_Containers pe)\<rparr>"
  by (rule phase.equality) simp_all

text \<open>A report: the containers, with the Deployed condition as it was or set.\<close>

lemma phase_report:
  assumes "req = pe \<or> (\<exists>now r m. req = SetProblemEnvironmentCondition now pe ProblemEnvironmentConditionDeployed ConditionTrue r m)"
  shows "phase_of (with_status (req\<lparr>pe_Status := (pe_Status req)\<lparr>pest_Containers := cs\<rparr>\<rparr>) v pe) =
     (phase_of pe)\<lparr>ph_deployed := GetProblemEnvironmentCondition req ProblemEnvironmentConditionDeployed,
       ph_containers := omit_empty cs\<rparr>"
  using assms by (intro phase.equality) auto

lemma nclet_updateStatus_world:
  "nclet_updateStatus r pe res w = (out, w') \<Longrightarrow>
     \<exists>x. updateStatusProblemEnvironment (ncr_Client r) pe w = (x, w')"
  by (auto simp: nclet_updateStatus_def split: prod.splits sum.splits)

lemma nclet_update_world:
  "nclet_update r pe res w = (out, w') \<Longrightarrow> \<exists>x. updateProblemEnvironment (ncr_Client r) pe w = (x, w')"
  by (auto simp: nclet_update_def split: prod.splits sum.splits)

locale nclet_setting = versioned_reads k contents ok + problem_environment_driver d contents ok
  for k :: "'w kube" and contents :: "'w \<Rightarrow> ProblemEnvironment list" and ok :: "'w \<Rightarrow> bool" and d :: "'w driver" +
  fixes r :: "'w NcletReconciler"
  assumes client: "ncr_Client r = k" and driver: "ncr_Driver r = d"
begin

lemma nclet_updateStatus_refines:
  assumes "ok w" "current pe (contents w)" "nclet_updateStatus r req res w = (out, w')"
    and "pe_ObjectMeta req = pe_ObjectMeta pe" "\<And>v. protocol_step pe (with_status req v pe)"
  shows "refines w w'"
proof -
  from nclet_updateStatus_world [OF assms(3)] obtain x where
    "updateStatusProblemEnvironment k req w = (x, w')"
    using client by auto
  then show ?thesis
    by (rule update_status_current [OF assms(1) _ assms(2)]) (use assms(4,5) in simp_all)
qed

lemma nclet_update_refines:
  assumes "ok w" "current pe (contents w)" "nclet_update r req res w = (out, w')"
    and "pe_key req = pe_key pe" "pe_rv req = pe_rv pe" "\<And>v. protocol_step pe (with_spec req v pe)"
  shows "refines w w'"
proof -
  from nclet_update_world [OF assms(3)] obtain x where
    "updateProblemEnvironment k req w = (x, w')"
    using client by auto
  then show ?thesis
    by (rule update_main_current [OF assms(1) _ assms(2,4,5)]) (rule assms(6))
qed

lemma nclet_check_refines:
  assumes "ok w" "current pe (contents w)" "nclet_check r req w = (out, w')"
    and "req = pe \<or> (\<exists>now rs m. req = SetProblemEnvironmentCondition now pe ProblemEnvironmentConditionDeployed ConditionTrue rs m)"
    and "ph_scheduled (phase_of pe) = ConditionTrue" "\<not> ph_deleting (phase_of pe)" "ph_finalizer (phase_of pe)"
  shows "refines w w'"
proof -
  obtain s cs where "dr_Check d req w = (s, cs)" by fastforce
  then have upd: "nclet_updateContainerStatus r req cs w = (out, w')"
    using assms(3) driver by (simp add: nclet_check_def)
  show ?thesis
  proof (cases "cs = pe_Containers req")
    case True
    then show ?thesis
      using upd assms(1) by (simp add: nclet_updateContainerStatus_def)
  next
    case False
    then have "nclet_updateStatus r (req\<lparr>pe_Status := (pe_Status req)\<lparr>pest_Containers := cs\<rparr>\<rparr>)
        \<lparr>RequeueAfter = StatusRefreshInterval\<rparr> w = (out, w')"
      using upd by (simp add: nclet_updateContainerStatus_def)
    then show ?thesis
    proof (rule nclet_updateStatus_refines [OF assms(1,2)])
      show "pe_ObjectMeta (req\<lparr>pe_Status := (pe_Status req)\<lparr>pest_Containers := cs\<rparr>\<rparr>) = pe_ObjectMeta pe"
        using assms(4) by auto
      show "protocol_step pe (with_status (req\<lparr>pe_Status := (pe_Status req)\<lparr>pest_Containers := cs\<rparr>\<rparr>) v pe)" for v
        unfolding phase_report [OF assms(4)]
        by (rule lifecycle.report [OF assms(5-7)]) (use assms(4) in auto)
    qed
  qed
qed

lemma nclet_deploy_refines:
  assumes "ok w" "current pe (contents w)" "nclet_deploy rt r pe w = Ret (out, w')"
    and "ph_scheduled (phase_of pe) = ConditionTrue" "\<not> ph_deleting (phase_of pe)" "ph_finalizer (phase_of pe)"
  shows "refines w w'"
proof (cases "fst (dr_Check d pe w) = StatusInit")
  case True
  then obtain e1 w2 e2 now rs m x where
    dep: "dr_Deploy d pe (recordEvent k e1 w) = Ret (x, w2)"
    and chk: "nclet_check r (SetProblemEnvironmentCondition now pe ProblemEnvironmentConditionDeployed
        ConditionTrue rs m) (recordEvent k e2 w2) = (out, w')"
    using assms(3) client driver by (auto simp: nclet_deploy_def Let_def split: go.splits prod.splits)
  have w2: "ok w2" "contents w2 = contents w"
    using deploy_frame [OF _ dep] event_frame [OF assms(1), of e1] by auto
  then have w3: "ok (recordEvent k e2 w2)" "contents (recordEvent k e2 w2) = contents w"
    using event_frame [of w2 e2] by auto
  then have "refines (recordEvent k e2 w2) w'"
    using nclet_check_refines [OF _ _ chk, of pe] assms(2,4-6) by auto
  then show ?thesis using w3 by simp
next
  case False
  then obtain now rs m where "nclet_updateStatus r (SetProblemEnvironmentCondition now pe
      ProblemEnvironmentConditionDeployed ConditionTrue rs m) Result0 w = (out, w')"
    using assms(3) driver by (auto simp: nclet_deploy_def split: DriverStatus.splits)
  then show ?thesis
  proof (rule nclet_updateStatus_refines [OF assms(1,2)])
    show "protocol_step pe (with_status (SetProblemEnvironmentCondition now pe
        ProblemEnvironmentConditionDeployed ConditionTrue rs m) v pe)" for v
      unfolding phase_set_deployed by (rule lifecycle.report [OF assms(4-6)]) simp
  qed simp
qed

lemma nclet_cleanup_refines:
  assumes "ok w" "current pe (contents w)" "nclet_cleanup rt r pe w = (out, w')"
    and "ph_scheduled (phase_of pe) = ConditionTrue" "ph_deleting (phase_of pe)" "ph_finalizer (phase_of pe)"
  shows "refines w w'"
proof -
  obtain e w1 where des: "dr_Destroy d pe w = (e, w1)" by fastforce
  have w1: "ok w1" "contents w1 = contents w"
    using destroy_frame [OF assms(1) des] by auto
  have "refines w1 w'"
  proof (cases e)
    case None
    then have "nclet_update r (RemoveFinalizer pe ProblemEnvironmentFinalizer) Result0 w1 = (out, w')"
      using assms(3) des driver by (simp add: nclet_cleanup_def)
    from nclet_update_refines [OF w1(1) _ this, of pe] show ?thesis
      using assms(2,4-6) w1(2) by (simp add: phase_remove_finalizer lifecycle.unprotect)
  next
    case (Some x)
    then obtain now rs m where "nclet_updateStatus r (SetProblemEnvironmentCondition now pe
        ProblemEnvironmentConditionReady ConditionFalse rs m) Result0 w1 = (out, w')"
      using assms(3) des driver by (auto simp: nclet_cleanup_def)
    from nclet_updateStatus_refines [OF w1(1) _ this, of pe] show ?thesis
      using assms(2,4-6) w1(2) by (simp add: phase_set_ready lifecycle.destroy_failed)
  qed
  then show ?thesis using w1 by simp
qed

lemma nclet_Reconcile_refines:
  assumes "ok w" "nclet_Reconcile rt r req w = Ret (out, w')"
  shows "refines w w'"
proof (cases "getProblemEnvironment k w req")
  case (Inl e)
  then show ?thesis
    using assms client by (simp add: nclet_Reconcile_def)
next
  case (Inr pe)
  note cur = get_current [OF assms(1) Inr]
  have fin: "refines w w'"
    if "nclet_update r (AddFinalizer pe ProblemEnvironmentFinalizer) Result0 w = (out, w')"
      "ph_scheduled (phase_of pe) = ConditionTrue" "\<not> ph_deleting (phase_of pe)" "\<not> ph_finalizer (phase_of pe)"
    using nclet_update_refines [OF assms(1) cur that(1)] that(2-4)
    by (simp add: phase_add_finalizer lifecycle.protect)
  show ?thesis
    using assms(2) assms(1) Inr fin nclet_cleanup_refines [OF assms(1) cur, of rt out w']
      nclet_deploy_refines [OF assms(1) cur, of rt out w'] nclet_check_refines [OF assms(1) cur, of pe out w']
    unfolding nclet_Reconcile_def client
    by (simp add: ContainsFinalizer_def split: if_splits)
qed

end

section \<open>Protection\<close>

definition keeps_finalizers :: "ProblemEnvironment \<Rightarrow> ProblemEnvironment \<Rightarrow> bool" where
  "keeps_finalizers a b \<longleftrightarrow> set (om_Finalizers (pe_ObjectMeta a)) \<subseteq> set (om_Finalizers (pe_ObjectMeta b))"

lemma store_step_finalizer:
  assumes "store_step keeps_finalizers pes pes'" "distinct (map pe_key pes)" "cur \<in> set pes"
    and "f \<in> set (om_Finalizers (pe_ObjectMeta cur))"
  shows "\<exists>q \<in> set pes'. pe_key q = pe_key cur \<and> f \<in> set (om_Finalizers (pe_ObjectMeta q))"
proof (cases "pes' = pes")
  case True
  then show ?thesis using assms(3,4) by blast
next
  case False
  then obtain c new where c: "c \<in> set pes" "keeps_finalizers c new" "pe_key new = pe_key c" "pes' = commit new pes"
    using assms(1) unfolding store_step_def by blast
  show ?thesis
  proof (cases "pe_key cur = pe_key new")
    case True
    have "pe_key c = pe_key cur"
      by (simp only: c(3) [symmetric] True)
    then have "c = cur"
      by (rule distinct_keysD [OF assms(2) c(1) assms(3)])
    then have f: "f \<in> set (om_Finalizers (pe_ObjectMeta new))"
      using c(2) assms(4) by (auto simp: keeps_finalizers_def)
    then have "pes' = store_put new pes"
      using c(4) by (auto simp: commit_def)
    then have "new \<in> set pes'"
      using set_store_put [of c pes new] c(1,3) by simp
    then show ?thesis using f True by metis
  next
    case False
    then show ?thesis
      using commit_keeps [OF assms(3)] c(4) assms(4) by metis
  qed
qed

context nclet_setting
begin

lemma nclet_updateStatus_keeps:
  assumes "ok w" "nclet_updateStatus r req res w = (out, w')"
  shows "ok w' \<and> store_step keeps_finalizers (contents w) (contents w')"
proof -
  from nclet_updateStatus_world [OF assms(2)] obtain x where
    "updateStatusProblemEnvironment k req w = (x, w')"
    using client by auto
  then show ?thesis
    by (rule update_status_step [OF assms(1)]) (simp add: keeps_finalizers_def)
qed

lemma nclet_check_keeps:
  assumes "ok w" "nclet_check r pe w = (out, w')"
  shows "ok w' \<and> store_step keeps_finalizers (contents w) (contents w')"
  using assms(2) assms(1) nclet_updateStatus_keeps [OF assms(1)]
  unfolding nclet_check_def nclet_updateContainerStatus_def
  by (auto split: prod.splits if_splits)

lemma nclet_deploy_keeps:
  assumes "ok w" "nclet_deploy rt r pe w = Ret (out, w')"
  shows "ok w' \<and> store_step keeps_finalizers (contents w) (contents w')"
proof (cases "fst (dr_Check d pe w) = StatusInit")
  case True
  then obtain e1 w2 e2 req x where
    dep: "dr_Deploy d pe (recordEvent k e1 w) = Ret (x, w2)"
    and chk: "nclet_check r req (recordEvent k e2 w2) = (out, w')"
    using assms(2) client driver by (auto simp: nclet_deploy_def Let_def split: go.splits prod.splits)
  have w2: "ok w2" "contents w2 = contents w"
    using deploy_frame [OF _ dep] event_frame [OF assms(1), of e1] by auto
  then have w3: "ok (recordEvent k e2 w2)" "contents (recordEvent k e2 w2) = contents w"
    using event_frame [of w2 e2] by auto
  then show ?thesis
    using nclet_check_keeps [OF w3(1) chk] by simp
next
  case False
  then show ?thesis
    using assms(2) nclet_updateStatus_keeps [OF assms(1)] driver
    by (auto simp: nclet_deploy_def split: DriverStatus.splits)
qed

lemma nclet_add_keeps:
  assumes "ok w" "current pe (contents w)" "nclet_update r (AddFinalizer pe f) res w = (out, w')"
  shows "ok w' \<and> store_step keeps_finalizers (contents w) (contents w')"
proof -
  from nclet_update_world [OF assms(3)] obtain x where
    up: "updateProblemEnvironment k (AddFinalizer pe f) w = (x, w')"
    using client by auto
  show ?thesis
  proof (rule update_main_current [OF assms(1) up assms(2)])
    show "keeps_finalizers pe (with_spec (AddFinalizer pe f) v pe)" for v
      by (auto simp: keeps_finalizers_def AddFinalizer_def)
  qed simp_all
qed

lemma nclet_finalizer_kept:
  assumes "ok w" "nclet_Reconcile rt r req w = Ret (out, w')" "cur \<in> set (contents w)"
    and "ph_finalizer (phase_of cur)"
    and "\<not> (\<exists>q \<in> set (contents w'). pe_key q = pe_key cur \<and> ph_finalizer (phase_of q))"
  shows "\<exists>pe w1. getProblemEnvironment k w req = Inr pe \<and> pe_WorkerName pe = ncr_WorkerName r \<and>
    ph_deleting (phase_of pe) \<and> dr_Destroy d pe w = (None, w1)"
proof (rule ccontr)
  assume no: "\<not> ?thesis"
  have "ok w' \<and> store_step keeps_finalizers (contents w) (contents w')"
  proof (cases "getProblemEnvironment k w req")
    case (Inl e)
    then show ?thesis using assms(1,2) client by (simp add: nclet_Reconcile_def)
  next
    case (Inr pe)
    note cur = get_current [OF assms(1) Inr]
    have cl: "ok w' \<and> store_step keeps_finalizers (contents w) (contents w')"
      if run: "nclet_cleanup rt r pe w = (out, w')" "pe_WorkerName pe = ncr_WorkerName r" "ph_deleting (phase_of pe)"
    proof -
      have "fst (dr_Destroy d pe w) \<noteq> None"
        using no Inr run(2,3) by (metis prod.collapse)
      then obtain x w1 where des: "dr_Destroy d pe w = (Some x, w1)"
        by (cases "dr_Destroy d pe w") auto
      then show ?thesis
        using run(1) driver destroy_frame [OF assms(1) des] nclet_updateStatus_keeps [of w1]
        by (auto simp: nclet_cleanup_def)
    qed
    show ?thesis
      using assms(2) assms(1) Inr cl nclet_add_keeps [OF assms(1) cur, of ProblemEnvironmentFinalizer Result0 out w']
        nclet_deploy_keeps [OF assms(1), of rt pe out w'] nclet_check_keeps [OF assms(1), of pe out w']
      unfolding nclet_Reconcile_def client by (simp split: if_splits)
  qed
  then show False
    using store_step_finalizer [OF _ distinct_keys [OF assms(1)] assms(3), of "contents w'" ProblemEnvironmentFinalizer]
      assms(4,5) by auto
qed

lemma nclet_deploy_silent:
  assumes "ok w" "dr_Check d pe w = (StatusInit, cs)" "\<forall>pe w. \<exists>x w'. dr_Deploy d pe w = Ret (x, w')"
    and "\<forall>pe w. fst (dr_Check d pe w) = StatusInit \<or> snd (dr_Check d pe w) = None" "pe_Containers pe = None"
  shows "\<exists>w'. nclet_deploy rt r pe w = Ret ((\<lparr>RequeueAfter = StatusRefreshInterval\<rparr>, None), w') \<and>
    contents w' = contents w"
proof -
  obtain e1 where e1: "e1 = \<lparr>ev_Object = pe_Name pe, ev_Type = EventTypeNormal,
      ev_Reason = ProblemEnvironmentEventDeploying,
      ev_Message = ''Starting to deploy ProblemEnvironment on '' @ ncr_WorkerName r\<rparr>" by simp
  obtain x w1 where dep: "dr_Deploy d pe (recordEvent k e1 w) = Ret (x, w1)"
    using assms(3) by blast
  have w1: "ok w1" "contents w1 = contents w"
    using deploy_frame [OF _ dep] event_frame [OF assms(1), of e1] by auto
  have none: "snd (dr_Check d p w) = None" for p w
    using assms(4) check_nil [of p w] by (metis DriverStatus.distinct(1))
  then have "nclet_check r p w2 = ((\<lparr>RequeueAfter = StatusRefreshInterval\<rparr>, None), w2)"
    if "pe_Containers p = None" for p w2
    using that driver by (simp add: nclet_check_def nclet_updateContainerStatus_def split_beta)
  then show ?thesis
    using assms(2,5) dep client driver event_frame [OF w1(1)] w1(2)
    by (simp add: nclet_deploy_def Let_def e1)
qed

end

section \<open>Instances\<close>

definition noop_reconciler :: "kmem NcletReconciler" where
  "noop_reconciler =
     \<lparr>ncr_Client = mem_client, ncr_WorkerName = ''worker1'', ncr_Driver = NoopProblemEnvironmentDriver\<rparr>"

interpretation noop_nclet: nclet_setting mem_client km_pes mem_ok NoopProblemEnvironmentDriver noop_reconciler
  by unfold_locales (simp_all add: noop_reconciler_def)

definition clab_reconciler ::
    "('f, 'x) ContainerLabDriver \<Rightarrow> 'w kube \<Rightarrow> string \<Rightarrow> time \<Rightarrow> time \<Rightarrow> ('w \<times> 'x host) NcletReconciler" where
  "clab_reconciler dr k name t0 t1 =
     \<lparr>ncr_Client = lift_kube k, ncr_WorkerName = name,
      ncr_Driver = ContainerLabProblemEnvironmentDriver dr k t0 t1\<rparr>"

interpretation clab_nclet: nclet_setting "lift_kube mem_client" "\<lambda>wh. km_pes (fst wh)" "\<lambda>wh. mem_ok (fst wh)"
    "ContainerLabProblemEnvironmentDriver dr mem_client t0 t1" "clab_reconciler dr mem_client name t0 t1"
  for dr :: "('f, 'x) ContainerLabDriver" and name t0 t1
proof (rule nclet_setting.intro)
  show "versioned_reads (lift_kube mem_client) (\<lambda>wh. km_pes (fst wh)) (\<lambda>wh. mem_ok (fst wh))"
    by (rule versioned_reads.lifted_versioned_reads [OF mem_versioned])
  show "problem_environment_driver (ContainerLabProblemEnvironmentDriver dr mem_client t0 t1)
      (\<lambda>wh. km_pes (fst wh)) (\<lambda>wh. mem_ok (fst wh))"
    by (rule mem.clab.problem_environment_driver_axioms)
  show "nclet_setting_axioms (lift_kube mem_client) (ContainerLabProblemEnvironmentDriver dr mem_client t0 t1)
      (clab_reconciler dr mem_client name t0 t1)"
    by unfold_locales (simp_all add: clab_reconciler_def)
qed

lemma nclet_settingI:
  "versioned_reads (ncr_Client r) contents ok \<Longrightarrow> problem_environment_driver (ncr_Driver r) contents ok \<Longrightarrow>
     nclet_setting (ncr_Client r) contents ok (ncr_Driver r) r"
  by (simp add: nclet_setting_def nclet_setting_axioms_def)

section \<open>Progress\<close>

lemma nclet_deploys:
  assumes "reliable_api (ncr_Client r) contents ok" "problem_environment_driver (ncr_Driver r) contents ok"
    and "ok w" "cur \<in> set (contents w)"
    and "ph_scheduled (phase_of cur) = ConditionTrue" "ph_worker (phase_of cur) = ncr_WorkerName r"
    and "\<not> ph_deleting (phase_of cur)" "ph_finalizer (phase_of cur)" "ph_deployed (phase_of cur) \<noteq> ConditionTrue"
    and "fst (dr_Check (ncr_Driver r) cur w) = StatusInit"
    and "\<forall>e. \<exists>x w1. dr_Deploy (ncr_Driver r) cur (recordEvent (ncr_Client r) e w) = Ret (x, w1) \<and>
      (\<forall>e pe. pe_key pe = pe_key cur \<longrightarrow> snd (dr_Check (ncr_Driver r) pe (recordEvent (ncr_Client r) e w1)) = Some cs)"
    and "pe_Containers cur \<noteq> Some cs"
  shows "\<exists>out w' new. nclet_Reconcile rt r (pe_key cur) w = Ret (out, w') \<and> ok w' \<and> new \<in> set (contents w') \<and>
    pe_key new = pe_key cur \<and>
    phase_of new = (phase_of cur)\<lparr>ph_deployed := ConditionTrue, ph_containers := omit_empty (Some cs)\<rparr>"
proof -
  let ?k = "ncr_Client r" and ?d = "ncr_Driver r"
  have api: "kube_api ?k contents ok"
    using assms(1) by (simp add: reliable_api_def consistent_reads_def)
  define e1 where "e1 = \<lparr>ev_Object = pe_Name cur, ev_Type = EventTypeNormal,
      ev_Reason = ProblemEnvironmentEventDeploying,
      ev_Message = ''Starting to deploy ProblemEnvironment on '' @ ncr_WorkerName r\<rparr>"
  obtain x w1 where dep: "dr_Deploy ?d cur (recordEvent ?k e1 w) = Ret (x, w1)"
    and cs: "\<And>e pe. pe_key pe = pe_key cur \<Longrightarrow> snd (dr_Check ?d pe (recordEvent ?k e w1)) = Some cs"
    using assms(11) by metis
  have w1: "ok w1" "contents w1 = contents w"
    using problem_environment_driver.deploy_frame [OF assms(2) _ dep] kube_api.event_frame [OF api assms(3), of e1]
    by auto
  define e2 where "e2 = \<lparr>ev_Object = pe_Name cur, ev_Type = EventTypeNormal,
      ev_Reason = ProblemEnvironmentEventDeployed,
      ev_Message = ''Deployed ProblemEnvironment in '' @ nrt_format_duration rt (nrt_now rt 1 - nrt_now rt 0)\<rparr>"
  define w2 where "w2 = recordEvent ?k e2 w1"
  have w2: "ok w2" "contents w2 = contents w"
    using kube_api.event_frame [OF api w1(1), of e2] w1(2) by (simp_all add: w2_def)
  define pe where "pe = SetProblemEnvironmentCondition (nrt_now rt 2) cur ProblemEnvironmentConditionDeployed
      ConditionTrue ''Deployed'' ''ProblemEnvironment is deployed''"
  define req where "req = pe\<lparr>pe_Status := (pe_Status pe)\<lparr>pest_Containers := Some cs\<rparr>\<rparr>"
  obtain w' v where up: "updateStatusProblemEnvironment ?k req w2 = (Inr (with_status req v cur), w')" "ok w'"
    "with_status req v cur \<in> set (contents w')"
    using reliable_api.status_written [OF assms(1) w2(1), of cur req] assms(4) w2(2) by (auto simp: req_def pe_def)
  have "snd (dr_Check ?d pe w2) = Some cs"
    unfolding w2_def by (rule cs) (simp add: pe_def)
  then have chk: "nclet_check r pe w2 = ((\<lparr>RequeueAfter = StatusRefreshInterval\<rparr>, None), w')"
    using up(1) assms(12) unfolding nclet_check_def nclet_updateContainerStatus_def nclet_updateStatus_def
    by (simp add: split_beta pe_def req_def)
  have "nclet_deploy rt r cur w = Ret (nclet_check r pe w2)"
    using assms(10) dep unfolding nclet_deploy_def Let_def e1_def w2_def e2_def pe_def by simp
  then have "nclet_Reconcile rt r (pe_key cur) w = Ret (nclet_check r pe w2)"
    using assms(5-9) consistent_reads.stored_get [OF reliable_api.axioms(1) [OF assms(1)] assms(3,4)]
    by (simp add: nclet_Reconcile_def ContainsFinalizer_def)
  moreover have "phase_of (with_status req v cur) =
      (phase_of cur)\<lparr>ph_deployed := ConditionTrue, ph_containers := omit_empty (Some cs)\<rparr>"
    unfolding req_def using phase_report [of pe cur "Some cs" v] pe_def by auto
  ultimately show ?thesis
    using up(2,3) chk by (intro exI [of _ w'] exI [of _ "with_status req v cur"] exI) auto
qed

section \<open>Properties\<close>

text \<open>
  C25. Whatever the server answers and the driver does, a call of nclet's \<^verbatim>\<open>Reconcile\<close> that
  returns changes at most one stored environment and that by one step of the protocol: it
  protects a scheduled environment, reports containers of a protected one, records a failed
  destruction, or releases one that is being deleted.
\<close>

theorem nclet_Reconcile_refines_lifecycle:
  assumes "versioned_reads (ncr_Client r) contents ok" "problem_environment_driver (ncr_Driver r) contents ok"
    and "ok w" "nclet_Reconcile rt r req w = Ret (out, w')"
  shows "ok w' \<and> store_step protocol_step (contents w) (contents w')"
  by (rule nclet_setting.nclet_Reconcile_refines [OF nclet_settingI [OF assms(1,2)] assms(3,4)])

definition sample_nclet_runtime :: nclet_runtime where
  "sample_nclet_runtime = \<lparr>nrt_now = int, nrt_format_duration = (\<lambda>d. dec_nat (nat d))\<rparr>"

text \<open>A driver that deploys at once; the clock of the server tells whether it did.\<close>

definition sample_nclet :: "kmem NcletReconciler" where
  "sample_nclet = \<lparr>ncr_Client = mem_client, ncr_WorkerName = ''worker1'',
     ncr_Driver = \<lparr>dr_Check = (\<lambda>pe w. if km_now w = 0 then (StatusInit, None) else (StatusDeployed, Some [sample_container])),
       dr_Deploy = (\<lambda>pe w. Ret (None, w\<lparr>km_now := 1\<rparr>)), dr_Destroy = (\<lambda>pe w. (None, w\<lparr>km_now := 0\<rparr>))\<rparr>\<rparr>"

lemma sample_nclet_driver: "problem_environment_driver (ncr_Driver sample_nclet) km_pes mem_ok"
  by unfold_locales (auto simp: sample_nclet_def mem_ok_def split: if_splits)

lemma sample_nclet_client: "ncr_Client sample_nclet = mem_client"
  by (simp add: sample_nclet_def)

definition sample_protected :: ProblemEnvironment where
  "sample_protected = (sample_deployed ConditionFalse ConditionFalse)\<lparr>pe_Status :=
     \<lparr>pest_Containers = None, pest_Password = replicate 24 CHR ''A'',
      pest_Conditions = [sample_condition ProblemEnvironmentConditionScheduled ConditionTrue]\<rparr>\<rparr>"

lemma sample_protected_facts:
  "mem_ok (sample_world [sample_protected])" "km_pes (sample_world [sample_protected]) = [sample_protected]"
  "pe_key sample_protected = (''netcon'', ''abc-1'')" "ph_scheduled (phase_of sample_protected) = ConditionTrue"
  "ph_worker (phase_of sample_protected) = ''worker1''" "\<not> ph_deleting (phase_of sample_protected)"
  "ph_finalizer (phase_of sample_protected)" "ph_deployed (phase_of sample_protected) \<noteq> ConditionTrue"
  "pe_Containers sample_protected = None"
  by (simp_all add: sample_protected_def sample_defs mem_ok_def GetProblemEnvironmentCondition_def
      ProblemEnvironmentFinalizer_def condition_type_defs)

lemma sample_nclet_run:
  "\<exists>out w'. nclet_Reconcile sample_nclet_runtime sample_nclet (''netcon'', ''abc-1'')
     (sample_world [sample_protected]) = Ret (out, w')"
  by (cases "nclet_Reconcile sample_nclet_runtime sample_nclet (''netcon'', ''abc-1'') (sample_world [sample_protected])")
    (auto simp: nclet_Reconcile_def nclet_deploy_def sample_nclet_def Let_def
      split: sum.splits if_splits DriverStatus.splits)

theorem nclet_Reconcile_refines_lifecycle_witness:
  "\<exists>out w'. nclet_Reconcile sample_nclet_runtime sample_nclet (''netcon'', ''abc-1'')
     (sample_world [sample_protected]) = Ret (out, w') \<and>
     store_step protocol_step [sample_protected] (km_pes w')"
proof -
  obtain out w' where run: "nclet_Reconcile sample_nclet_runtime sample_nclet (''netcon'', ''abc-1'')
      (sample_world [sample_protected]) = Ret (out, w')"
    using sample_nclet_run by blast
  then show ?thesis
    using nclet_Reconcile_refines_lifecycle [OF _ sample_nclet_driver sample_protected_facts(1) run]
      sample_protected_facts(2) mem_versioned sample_nclet_client by auto
qed

text \<open>
  C27. Nothing is released before it is destroyed: if a call of \<^verbatim>\<open>Reconcile\<close> takes the finalizer
  off a stored environment (or the environment out of the store), then the environment it read was
  bound to this worker and being deleted, and the driver's \<^verbatim>\<open>Destroy\<close> succeeded on it.
\<close>

theorem nclet_releases_only_destroyed:
  assumes "versioned_reads (ncr_Client r) contents ok" "problem_environment_driver (ncr_Driver r) contents ok"
    and "ok w" "nclet_Reconcile rt r req w = Ret (out, w')" "cur \<in> set (contents w)"
    and "ph_finalizer (phase_of cur)"
    and "\<not> (\<exists>q \<in> set (contents w'). pe_key q = pe_key cur \<and> ph_finalizer (phase_of q))"
  shows "\<exists>pe w1. getProblemEnvironment (ncr_Client r) w req = Inr pe \<and> pe_WorkerName pe = ncr_WorkerName r \<and>
    ph_deleting (phase_of pe) \<and> dr_Destroy (ncr_Driver r) pe w = (None, w1)"
  by (rule nclet_setting.nclet_finalizer_kept [OF nclet_settingI [OF assms(1,2)] assms(3-7)])

text \<open>
  Deployment: with a reliable server and a driver that deploys, one call of \<^verbatim>\<open>Reconcile\<close> of a
  protected environment on its worker stores the reported containers and Deployed = True.
\<close>

theorem nclet_Reconcile_deploys:
  assumes "reliable_api (ncr_Client r) contents ok" "problem_environment_driver (ncr_Driver r) contents ok"
    and "ok w" "cur \<in> set (contents w)"
    and "ph_scheduled (phase_of cur) = ConditionTrue" "ph_worker (phase_of cur) = ncr_WorkerName r"
    and "\<not> ph_deleting (phase_of cur)" "ph_finalizer (phase_of cur)" "ph_deployed (phase_of cur) \<noteq> ConditionTrue"
    and "fst (dr_Check (ncr_Driver r) cur w) = StatusInit"
    and "\<forall>e. \<exists>x w1. dr_Deploy (ncr_Driver r) cur (recordEvent (ncr_Client r) e w) = Ret (x, w1) \<and>
      (\<forall>e pe. pe_key pe = pe_key cur \<longrightarrow> snd (dr_Check (ncr_Driver r) pe (recordEvent (ncr_Client r) e w1)) = Some cs)"
    and "pe_Containers cur \<noteq> Some cs"
  shows "\<exists>out w' new. nclet_Reconcile rt r (pe_key cur) w = Ret (out, w') \<and> ok w' \<and> new \<in> set (contents w') \<and>
    pe_key new = pe_key cur \<and>
    phase_of new = (phase_of cur)\<lparr>ph_deployed := ConditionTrue, ph_containers := omit_empty (Some cs)\<rparr>"
  by (rule nclet_deploys [OF assms])

theorem nclet_Reconcile_deploys_witness:
  "\<exists>out w' new. nclet_Reconcile sample_nclet_runtime sample_nclet (''netcon'', ''abc-1'')
     (sample_world [sample_protected]) = Ret (out, w') \<and> new \<in> set (km_pes w') \<and>
     ph_deployed (phase_of new) = ConditionTrue \<and> ph_containers (phase_of new) = Some [sample_container]"
proof -
  note facts = sample_protected_facts
  have d: "fst (dr_Check (ncr_Driver sample_nclet) sample_protected (sample_world [sample_protected])) = StatusInit"
    "\<forall>e. \<exists>x w1. dr_Deploy (ncr_Driver sample_nclet) sample_protected
        (recordEvent mem_client e (sample_world [sample_protected])) = Ret (x, w1) \<and>
      (\<forall>e pe. pe_key pe = pe_key sample_protected \<longrightarrow>
         snd (dr_Check (ncr_Driver sample_nclet) pe (recordEvent mem_client e w1)) = Some [sample_container])"
    by (simp_all add: sample_nclet_def mem_client_def sample_world_def kmem0_def)
  obtain out w' new where "nclet_Reconcile sample_nclet_runtime sample_nclet (''netcon'', ''abc-1'')
      (sample_world [sample_protected]) = Ret (out, w')" "new \<in> set (km_pes w')"
    and ph: "phase_of new = (phase_of sample_protected)\<lparr>ph_deployed := ConditionTrue,
      ph_containers := omit_empty (Some [sample_container])\<rparr>"
    using nclet_Reconcile_deploys [OF _ sample_nclet_driver facts(1), of sample_protected "[sample_container]" sample_nclet_runtime]
      mem_reliable facts d by (auto simp: sample_nclet_client sample_nclet_def [THEN arg_cong, of ncr_WorkerName])
  then show ?thesis
    by (intro exI [of _ out] exI [of _ w'] exI [of _ new]) (simp add: ph omit_empty_def del: phase_of_simps)
qed

definition sample_terminating :: ProblemEnvironment where
  "sample_terminating = sample_protected\<lparr>pe_ObjectMeta :=
     (pe_ObjectMeta sample_protected)\<lparr>om_DeletionTimestamp := Some 9\<rparr>\<rparr>"

lemma sample_terminating_run:
  "nclet_Reconcile sample_nclet_runtime sample_nclet (''netcon'', ''abc-1'') (sample_world [sample_terminating]) =
     Ret ((Result0, None), (sample_world [])\<lparr>km_rev := 2\<rparr>)"
  by (simp add: nclet_Reconcile_def nclet_cleanup_def nclet_update_def sample_nclet_def mem_client_def lookup_obj_def
      mem_update_def mem_write_def store_find_def with_spec_def commit_def store_drop_def RemoveFinalizer_def
      ContainsFinalizer_def ProblemEnvironment_ValidateUpdate_def ProblemEnvironmentFinalizer_def
      GetProblemEnvironmentCondition_def sample_terminating_def sample_protected_def sample_defs condition_type_defs)

theorem nclet_releases_only_destroyed_witness:
  "\<exists>pe w1. getProblemEnvironment mem_client (sample_world [sample_terminating]) (''netcon'', ''abc-1'') = Inr pe \<and>
     dr_Destroy (ncr_Driver sample_nclet) pe (sample_world [sample_terminating]) = (None, w1)"
proof -
  have "mem_ok (sample_world [sample_terminating])" "sample_terminating \<in> set (km_pes (sample_world [sample_terminating]))"
    "ph_finalizer (phase_of sample_terminating)"
    "km_pes ((sample_world [])\<lparr>km_rev := 2\<rparr>) = []"
    by (simp_all add: sample_terminating_def sample_protected_def sample_defs mem_ok_def ProblemEnvironmentFinalizer_def)
  then show ?thesis
    using nclet_releases_only_destroyed [OF _ sample_nclet_driver _ sample_terminating_run, of sample_terminating]
      mem_versioned by (auto simp: sample_nclet_client)
qed

text \<open>
  A deployment that reports nothing is not recorded: when the driver's \<^verbatim>\<open>Check\<close> returns no
  containers after \<^verbatim>\<open>Deploy\<close> and none are stored, the Deployed condition set on the way is not
  written and the stored environments stay as they are; nclet only asks to be called again.
\<close>

theorem nclet_deploy_not_recorded:
  assumes "versioned_reads (ncr_Client r) contents ok" "problem_environment_driver (ncr_Driver r) contents ok"
    and "ok w" "dr_Check (ncr_Driver r) pe w = (StatusInit, cs)"
    and "\<forall>pe w. \<exists>x w'. dr_Deploy (ncr_Driver r) pe w = Ret (x, w')"
    and "\<forall>pe w. fst (dr_Check (ncr_Driver r) pe w) = StatusInit \<or> snd (dr_Check (ncr_Driver r) pe w) = None"
    and "pe_Containers pe = None"
  shows "\<exists>w'. nclet_deploy rt r pe w = Ret ((\<lparr>RequeueAfter = StatusRefreshInterval\<rparr>, None), w') \<and>
    contents w' = contents w"
  by (rule nclet_setting.nclet_deploy_silent [OF nclet_settingI [OF assms(1,2)] assms(3-7)])

definition failing_nclet :: "kmem NcletReconciler" where
  "failing_nclet = \<lparr>ncr_Client = mem_client, ncr_WorkerName = ''worker1'',
     ncr_Driver = \<lparr>dr_Check = (\<lambda>pe w. if km_now w = 0 then (StatusInit, None) else (StatusError, None)),
       dr_Deploy = (\<lambda>pe w. Ret (Some NotFound, w\<lparr>km_now := 1\<rparr>)), dr_Destroy = (\<lambda>pe w. (None, w\<lparr>km_now := 0\<rparr>))\<rparr>\<rparr>"

theorem nclet_deploy_not_recorded_witness:
  "\<exists>w'. nclet_deploy sample_nclet_runtime failing_nclet sample_protected (sample_world [sample_protected]) =
     Ret ((\<lparr>RequeueAfter = StatusRefreshInterval\<rparr>, None), w') \<and> km_pes w' = [sample_protected]"
proof -
  have "problem_environment_driver (ncr_Driver failing_nclet) km_pes mem_ok"
    by unfold_locales (auto simp: failing_nclet_def mem_ok_def split: if_splits)
  moreover have "dr_Check (ncr_Driver failing_nclet) sample_protected (sample_world [sample_protected]) = (StatusInit, None)"
    by (simp add: failing_nclet_def sample_world_def kmem0_def)
  moreover have "\<forall>pe w. \<exists>x w'. dr_Deploy (ncr_Driver failing_nclet) pe w = Ret (x, w')"
    "\<forall>pe w. fst (dr_Check (ncr_Driver failing_nclet) pe w) = StatusInit \<or> snd (dr_Check (ncr_Driver failing_nclet) pe w) = None"
    "ncr_Client failing_nclet = mem_client"
    by (simp_all add: failing_nclet_def)
  ultimately show ?thesis
    using nclet_deploy_not_recorded [of failing_nclet km_pes mem_ok "sample_world [sample_protected]" sample_protected None]
      mem_versioned sample_protected_facts(1,2,9) by simp
qed

end
