(* ===== verification/Clientset.thy ===== *)
theory Clientset
  imports Kube_Store
begin

text \<open>
  The typed clients of \<^verbatim>\<open>pkg/clientset\<close>, used by the command line tool: each method sends one
  REST request. The REST client of \<^verbatim>\<open>client-go\<close> is a parameter, a record of the calls it
  answers by the type of the answer; what the API server does with a request is stated by the
  locale \<open>rest_api\<close> in terms of the operations of \<open>kube\<close>, and \<open>rest_of\<close> is a REST
  client that does so. Of the options only those of a watch are modelled; the stream of events a
  watch returns belongs to the REST client and is known by a handle.
\<close>

section \<open>Requests\<close>

datatype verb = GET | POST | PUT | DELETE

record 'o rest_request =
  rr_Verb :: verb
  rr_Namespace :: "string option"
  rr_Resource :: string
  rr_Name :: "string option"
  rr_SubResource :: "string option"
  rr_Body :: "'o option"

abbreviation Get_req :: "'o rest_request" where
  "Get_req \<equiv> \<lparr>rr_Verb = GET, rr_Namespace = None, rr_Resource = '''', rr_Name = None, rr_SubResource = None, rr_Body = None\<rparr>"

text \<open>The fields of \<^verbatim>\<open>metav1.ListOptions\<close> that choose what is watched.\<close>

record WatchOptions =
  wo_LabelSelector :: string
  wo_FieldSelector :: string
  wo_Watch :: bool
  wo_ResourceVersion :: string

type_synonym watch_handle = nat

record 'w rest =
  into_pe :: "ProblemEnvironment rest_request \<Rightarrow> 'w \<Rightarrow> ProblemEnvironment or_error \<times> 'w"
  into_pe_list :: "ProblemEnvironment rest_request \<Rightarrow> 'w \<Rightarrow> ProblemEnvironment list or_error"
  into_problem :: "Problem rest_request \<Rightarrow> 'w \<Rightarrow> Problem or_error \<times> 'w"
  into_problem_list :: "Problem rest_request \<Rightarrow> 'w \<Rightarrow> Problem list or_error"
  into_worker :: "Worker rest_request \<Rightarrow> 'w \<Rightarrow> Worker or_error \<times> 'w"
  into_worker_list :: "Worker rest_request \<Rightarrow> 'w \<Rightarrow> Worker list or_error"
  do_delete :: "unit rest_request \<Rightarrow> 'w \<Rightarrow> error option \<times> 'w"
  do_watch :: "unit rest_request \<Rightarrow> WatchOptions \<Rightarrow> 'w \<Rightarrow> watch_handle or_error"

section \<open>Clients\<close>

record 'w problemEnvironmentClient =
  pc_restClient :: "'w rest"
  pc_namespace :: string

definition pec_Create ::
    "'w problemEnvironmentClient \<Rightarrow> ProblemEnvironment \<Rightarrow> 'w \<Rightarrow> ProblemEnvironment or_error \<times> 'w" where
  "pec_Create c pe = into_pe (pc_restClient c)
     (Get_req\<lparr>rr_Verb := POST, rr_Namespace := Some (pc_namespace c), rr_Resource := ''problemenvironments'',
       rr_Body := Some pe\<rparr>)"

definition pec_Update ::
    "'w problemEnvironmentClient \<Rightarrow> ProblemEnvironment \<Rightarrow> 'w \<Rightarrow> ProblemEnvironment or_error \<times> 'w" where
  "pec_Update c pe = into_pe (pc_restClient c)
     (Get_req\<lparr>rr_Verb := PUT, rr_Namespace := Some (pc_namespace c), rr_Resource := ''problemenvironments'',
       rr_Name := Some (pe_Name pe), rr_Body := Some pe\<rparr>)"

definition pec_UpdateStatus ::
    "'w problemEnvironmentClient \<Rightarrow> ProblemEnvironment \<Rightarrow> 'w \<Rightarrow> ProblemEnvironment or_error \<times> 'w" where
  "pec_UpdateStatus c pe = into_pe (pc_restClient c)
     (Get_req\<lparr>rr_Verb := PUT, rr_Namespace := Some (pc_namespace c), rr_Resource := ''problemenvironments'',
       rr_Name := Some (pe_Name pe), rr_SubResource := Some ''status'', rr_Body := Some pe\<rparr>)"

definition pec_Delete :: "'w problemEnvironmentClient \<Rightarrow> string \<Rightarrow> 'w \<Rightarrow> error option \<times> 'w" where
  "pec_Delete c name = do_delete (pc_restClient c)
     (Get_req\<lparr>rr_Verb := DELETE, rr_Namespace := Some (pc_namespace c), rr_Resource := ''problemenvironments'',
       rr_Name := Some name\<rparr>)"

definition pec_Get :: "'w problemEnvironmentClient \<Rightarrow> string \<Rightarrow> 'w \<Rightarrow> ProblemEnvironment or_error" where
  "pec_Get c name w = fst (into_pe (pc_restClient c)
     (Get_req\<lparr>rr_Namespace := Some (pc_namespace c), rr_Resource := ''problemenvironments'', rr_Name := Some name\<rparr>) w)"

definition pec_List :: "'w problemEnvironmentClient \<Rightarrow> 'w \<Rightarrow> ProblemEnvironment list or_error" where
  "pec_List c = into_pe_list (pc_restClient c)
     (Get_req\<lparr>rr_Namespace := Some (pc_namespace c), rr_Resource := ''problemenvironments''\<rparr>)"

definition pec_Watch :: "'w problemEnvironmentClient \<Rightarrow> WatchOptions \<Rightarrow> 'w \<Rightarrow> watch_handle or_error" where
  "pec_Watch c opts = do_watch (pc_restClient c)
     (Get_req\<lparr>rr_Namespace := Some (pc_namespace c), rr_Resource := ''problemenvironments''\<rparr>) (opts\<lparr>wo_Watch := True\<rparr>)"

record 'w problemClient =
  bc_restClient :: "'w rest"
  bc_namespace :: string

definition pbc_List :: "'w problemClient \<Rightarrow> 'w \<Rightarrow> Problem list or_error" where
  "pbc_List c = into_problem_list (bc_restClient c)
     (Get_req\<lparr>rr_Namespace := Some (bc_namespace c), rr_Resource := ''problems''\<rparr>)"

definition pbc_Get :: "'w problemClient \<Rightarrow> string \<Rightarrow> 'w \<Rightarrow> Problem or_error" where
  "pbc_Get c name w = fst (into_problem (bc_restClient c)
     (Get_req\<lparr>rr_Namespace := Some (bc_namespace c), rr_Resource := ''problems'', rr_Name := Some name\<rparr>) w)"

definition pbc_Create :: "'w problemClient \<Rightarrow> Problem \<Rightarrow> 'w \<Rightarrow> Problem or_error \<times> 'w" where
  "pbc_Create c p = into_problem (bc_restClient c)
     (Get_req\<lparr>rr_Verb := POST, rr_Namespace := Some (bc_namespace c), rr_Resource := ''problems'', rr_Body := Some p\<rparr>)"

definition pbc_Watch :: "'w problemClient \<Rightarrow> WatchOptions \<Rightarrow> 'w \<Rightarrow> watch_handle or_error" where
  "pbc_Watch c opts = do_watch (bc_restClient c)
     (Get_req\<lparr>rr_Namespace := Some (bc_namespace c), rr_Resource := ''problems''\<rparr>) (opts\<lparr>wo_Watch := True\<rparr>)"

record 'w workerClient =
  wc_restClient :: "'w rest"

definition wkc_Create :: "'w workerClient \<Rightarrow> Worker \<Rightarrow> 'w \<Rightarrow> Worker or_error \<times> 'w" where
  "wkc_Create c wk = into_worker (wc_restClient c)
     (Get_req\<lparr>rr_Verb := POST, rr_Resource := ''workers'', rr_Body := Some wk\<rparr>)"

definition wkc_Update :: "'w workerClient \<Rightarrow> Worker \<Rightarrow> 'w \<Rightarrow> Worker or_error \<times> 'w" where
  "wkc_Update c wk = into_worker (wc_restClient c)
     (Get_req\<lparr>rr_Verb := PUT, rr_Resource := ''workers'', rr_Name := Some (wk_Name wk), rr_Body := Some wk\<rparr>)"

definition wkc_UpdateStatus :: "'w workerClient \<Rightarrow> Worker \<Rightarrow> 'w \<Rightarrow> Worker or_error \<times> 'w" where
  "wkc_UpdateStatus c wk = into_worker (wc_restClient c)
     (Get_req\<lparr>rr_Verb := PUT, rr_Resource := ''workers'', rr_Name := Some (wk_Name wk),
       rr_SubResource := Some ''status'', rr_Body := Some wk\<rparr>)"

definition wkc_Delete :: "'w workerClient \<Rightarrow> string \<Rightarrow> 'w \<Rightarrow> error option \<times> 'w" where
  "wkc_Delete c name = do_delete (wc_restClient c)
     (Get_req\<lparr>rr_Verb := DELETE, rr_Resource := ''workers'', rr_Name := Some name\<rparr>)"

definition wkc_Get :: "'w workerClient \<Rightarrow> string \<Rightarrow> 'w \<Rightarrow> Worker or_error" where
  "wkc_Get c name w = fst (into_worker (wc_restClient c)
     (Get_req\<lparr>rr_Resource := ''workers'', rr_Name := Some name\<rparr>) w)"

definition wkc_List :: "'w workerClient \<Rightarrow> 'w \<Rightarrow> Worker list or_error" where
  "wkc_List c = into_worker_list (wc_restClient c) (Get_req\<lparr>rr_Resource := ''workers''\<rparr>)"

definition wkc_Watch :: "'w workerClient \<Rightarrow> WatchOptions \<Rightarrow> 'w \<Rightarrow> watch_handle or_error" where
  "wkc_Watch c opts = do_watch (wc_restClient c) (Get_req\<lparr>rr_Resource := ''workers''\<rparr>) (opts\<lparr>wo_Watch := True\<rparr>)"

record 'w clientset =
  cs_restClient :: "'w rest"

text \<open>
  The configuration of a REST client, as far as \<^verbatim>\<open>NewForConfig\<close> sets it; \<open>rc_Host\<close> stands for what it
  copies. \<open>RESTClientFor\<close> is \<^verbatim>\<open>rest.RESTClientFor\<close>.
\<close>

record rest_config =
  rc_Host :: string
  rc_GroupVersion :: "(string \<times> string) option"
  rc_APIPath :: string
  rc_NegotiatedSerializer :: string
  rc_UserAgent :: string

definition GroupVersion :: "string \<times> string" where
  "GroupVersion = (''netcon.janog.gr.jp'', ''v1alpha1'')"

definition NewForConfig :: "(rest_config \<Rightarrow> 'w rest or_error) \<Rightarrow> rest_config \<Rightarrow> 'w clientset or_error" where
  "NewForConfig RESTClientFor c =
     (let config = c\<lparr>rc_GroupVersion := Some GroupVersion, rc_APIPath := ''/apis'',
                     rc_NegotiatedSerializer := ''WithoutConversion'', rc_UserAgent := ''DefaultKubernetesUserAgent''\<rparr>
      in case RESTClientFor config of Inl e \<Rightarrow> Inl e | Inr client \<Rightarrow> Inr \<lparr>cs_restClient = client\<rparr>)"

definition cs_Problem :: "'w clientset \<Rightarrow> string \<Rightarrow> 'w problemClient" where
  "cs_Problem c namespace = \<lparr>bc_restClient = cs_restClient c, bc_namespace = namespace\<rparr>"

definition cs_ProblemEnvironment :: "'w clientset \<Rightarrow> string \<Rightarrow> 'w problemEnvironmentClient" where
  "cs_ProblemEnvironment c namespace = \<lparr>pc_restClient = cs_restClient c, pc_namespace = namespace\<rparr>"

definition cs_Worker :: "'w clientset \<Rightarrow> 'w workerClient" where
  "cs_Worker c = \<lparr>wc_restClient = cs_restClient c\<rparr>"

lemmas clientset_defs = pec_Create_def pec_Update_def pec_UpdateStatus_def pec_Delete_def pec_Get_def
  pec_List_def pbc_List_def pbc_Get_def pbc_Create_def wkc_Create_def wkc_Update_def wkc_UpdateStatus_def
  wkc_Delete_def wkc_Get_def wkc_List_def pec_Watch_def pbc_Watch_def wkc_Watch_def
  cs_Problem_def cs_ProblemEnvironment_def cs_Worker_def

text \<open>A watch asks for the collection that \<^verbatim>\<open>List\<close> reads, with the flag set whatever the caller chose.\<close>

lemma watches_collection:
  "\<exists>q. (\<forall>opts. pec_Watch c opts = do_watch (pc_restClient c) q (opts\<lparr>wo_Watch := True\<rparr>)) \<and>
     pec_List c = into_pe_list (pc_restClient c) (Get_req\<lparr>rr_Namespace := rr_Namespace q, rr_Resource := rr_Resource q\<rparr>)"
  "\<exists>q. (\<forall>opts. pbc_Watch b opts = do_watch (bc_restClient b) q (opts\<lparr>wo_Watch := True\<rparr>)) \<and>
     pbc_List b = into_problem_list (bc_restClient b) (Get_req\<lparr>rr_Namespace := rr_Namespace q, rr_Resource := rr_Resource q\<rparr>)"
  "\<exists>q. (\<forall>opts. wkc_Watch d opts = do_watch (wc_restClient d) q (opts\<lparr>wo_Watch := True\<rparr>)) \<and>
     wkc_List d = into_worker_list (wc_restClient d) (Get_req\<lparr>rr_Namespace := rr_Namespace q, rr_Resource := rr_Resource q\<rparr>)"
  by (simp_all add: clientset_defs) (rule exI conjI allI refl | simp)+

section \<open>What requests do\<close>

text \<open>
  The laws: a request to the collection or to an object of the API answers like the operation of
  the API client on the same object. A PUT names the object in its path; the laws are about
  bodies of that name and namespace.
\<close>

abbreviation in_namespace :: "string \<Rightarrow> ListOptions" where
  "in_namespace ns \<equiv> \<lparr>lo_InNamespace = Some ns, lo_MatchingLabels = []\<rparr>"

text \<open>\<open>connects RESTClientFor r\<close>: for the API group the library constructs the client \<open>r\<close>.\<close>

definition connects :: "(rest_config \<Rightarrow> 'w rest or_error) \<Rightarrow> 'w rest \<Rightarrow> bool" where
  "connects RESTClientFor r \<longleftrightarrow>
     (\<forall>config. rc_GroupVersion config = Some GroupVersion \<longrightarrow> rc_APIPath config = ''/apis'' \<longrightarrow> RESTClientFor config = Inr r)"

lemma NewForConfig_connects: "connects RESTClientFor r \<Longrightarrow> NewForConfig RESTClientFor c = Inr \<lparr>cs_restClient = r\<rparr>"
  by (simp add: connects_def NewForConfig_def)

locale rest_api =
  fixes r :: "'w rest" and k :: "'w kube"
  assumes get_pe: "into_pe r (Get_req\<lparr>rr_Namespace := Some ns, rr_Resource := ''problemenvironments'', rr_Name := Some n\<rparr>) w
      = (getProblemEnvironment k w (ns, n), w)"
    and list_pe: "into_pe_list r (Get_req\<lparr>rr_Namespace := Some ns, rr_Resource := ''problemenvironments''\<rparr>) w
      = listProblemEnvironment k w (in_namespace ns)"
    and put_pe: "pe_key pe = (ns, n) \<Longrightarrow>
      into_pe r (Get_req\<lparr>rr_Verb := PUT, rr_Namespace := Some ns, rr_Resource := ''problemenvironments'',
        rr_Name := Some n, rr_Body := Some pe\<rparr>) w = updateProblemEnvironment k pe w"
    and put_pe_status: "pe_key pe = (ns, n) \<Longrightarrow>
      into_pe r (Get_req\<lparr>rr_Verb := PUT, rr_Namespace := Some ns, rr_Resource := ''problemenvironments'',
        rr_Name := Some n, rr_SubResource := Some ''status'', rr_Body := Some pe\<rparr>) w = updateStatusProblemEnvironment k pe w"
    and delete_pe: "do_delete r (Get_req\<lparr>rr_Verb := DELETE, rr_Namespace := Some ns, rr_Resource := ''problemenvironments'',
        rr_Name := Some n\<rparr>) w = deleteProblemEnvironment k (ns, n) w"
    and get_worker: "into_worker r (Get_req\<lparr>rr_Resource := ''workers'', rr_Name := Some n\<rparr>) w = (getWorker k w n, w)"
    and put_worker: "wk_Name wk = n \<Longrightarrow>
      into_worker r (Get_req\<lparr>rr_Verb := PUT, rr_Resource := ''workers'', rr_Name := Some n, rr_Body := Some wk\<rparr>) w
      = updateWorker k wk w"
begin

lemma pec_simps:
  "pec_Get (cs_ProblemEnvironment \<lparr>cs_restClient = r\<rparr> ns) n w = getProblemEnvironment k w (ns, n)"
  "pec_List (cs_ProblemEnvironment \<lparr>cs_restClient = r\<rparr> ns) w = listProblemEnvironment k w (in_namespace ns)"
  "pe_Namespace pe = ns \<Longrightarrow> pec_Update (cs_ProblemEnvironment \<lparr>cs_restClient = r\<rparr> ns) pe w = updateProblemEnvironment k pe w"
  "pe_Namespace pe = ns \<Longrightarrow>
     pec_UpdateStatus (cs_ProblemEnvironment \<lparr>cs_restClient = r\<rparr> ns) pe w = updateStatusProblemEnvironment k pe w"
  "pec_Delete (cs_ProblemEnvironment \<lparr>cs_restClient = r\<rparr> ns) n w = deleteProblemEnvironment k (ns, n) w"
  using get_pe list_pe put_pe [of pe ns "pe_Name pe"] put_pe_status [of pe ns "pe_Name pe"] delete_pe
  by (simp_all add: clientset_defs)

lemma wkc_simps:
  "wkc_Get (cs_Worker \<lparr>cs_restClient = r\<rparr>) n w = getWorker k w n"
  "wkc_Update (cs_Worker \<lparr>cs_restClient = r\<rparr>) wk w = updateWorker k wk w"
  using get_worker put_worker [of wk "wk_Name wk"] by (simp_all add: clientset_defs)

end

text \<open>A REST client that answers from the API client; other requests are answered with an error.\<close>

definition bad_request :: "error" where
  "bad_request = Errorf ''the server could not find the requested resource''"

definition rest_of :: "'w kube \<Rightarrow> 'w rest" where
  "rest_of k =
     \<lparr>into_pe = (\<lambda>q w. case (rr_Verb q, rr_Namespace q, rr_Name q, rr_SubResource q, rr_Body q) of
          (GET, Some ns, Some n, None, None) \<Rightarrow> (getProblemEnvironment k w (ns, n), w)
        | (POST, Some ns, None, None, Some pe) \<Rightarrow> createProblemEnvironment k pe w
        | (PUT, Some ns, Some n, None, Some pe) \<Rightarrow>
            if pe_key pe = (ns, n) then updateProblemEnvironment k pe w else (Inl bad_request, w)
        | (PUT, Some ns, Some n, Some _, Some pe) \<Rightarrow>
            if pe_key pe = (ns, n) then updateStatusProblemEnvironment k pe w else (Inl bad_request, w)
        | _ \<Rightarrow> (Inl bad_request, w)),
      into_pe_list = (\<lambda>q w. case rr_Namespace q of
          Some ns \<Rightarrow> listProblemEnvironment k w (in_namespace ns)
        | None \<Rightarrow> Inl bad_request),
      into_problem = (\<lambda>q w. case (rr_Verb q, rr_Namespace q, rr_Name q) of
          (GET, Some ns, Some n) \<Rightarrow> (getProblem k w (ns, n), w)
        | _ \<Rightarrow> (Inl bad_request, w)),
      into_problem_list = (\<lambda>q w. case rr_Namespace q of
          Some ns \<Rightarrow> listProblem k w (in_namespace ns)
        | None \<Rightarrow> Inl bad_request),
      into_worker = (\<lambda>q w. case (rr_Verb q, rr_Name q, rr_SubResource q, rr_Body q) of
          (GET, Some n, None, None) \<Rightarrow> (getWorker k w n, w)
        | (POST, None, None, Some wk) \<Rightarrow> createWorker k wk w
        | (PUT, Some n, None, Some wk) \<Rightarrow> if wk_Name wk = n then updateWorker k wk w else (Inl bad_request, w)
        | (PUT, Some n, Some _, Some wk) \<Rightarrow> if wk_Name wk = n then updateStatusWorker k wk w else (Inl bad_request, w)
        | _ \<Rightarrow> (Inl bad_request, w)),
      into_worker_list = (\<lambda>q w. listWorker k w \<lparr>lo_InNamespace = None, lo_MatchingLabels = []\<rparr>),
      do_delete = (\<lambda>q w. case (rr_Namespace q, rr_Resource q = ''problemenvironments'', rr_Name q) of
          (Some ns, True, Some n) \<Rightarrow> deleteProblemEnvironment k (ns, n) w
        | _ \<Rightarrow> (Some bad_request, w)),
      do_watch = (\<lambda>q opts w. if wo_Watch opts then Inr 0 else Inl bad_request)\<rparr>"

interpretation kube_rest: rest_api "rest_of k" k
  by unfold_locales (simp_all add: rest_of_def)

end
