(* ===== verification/Printers.thy ===== *)
theory Printers
  imports Lifecycle "HOL-Library.Char_ord" "HOL-Library.List_Lexorder"
begin

text \<open>
  The tables the command line tool prints (\<^verbatim>\<open>pkg/printers\<close>). A column is its name and whether
  it is shown in wide output only (priority 1); the text of an age is a parameter.
\<close>

section \<open>Tables\<close>

datatype cell = CellString string | CellBool bool | CellNumber nat

record Table =
  tb_ColumnDefinitions :: "(string \<times> bool) list"
  tb_ResourceVersion :: nat
  tb_Rows :: "cell list list"

record GenerateOptions =
  go_Wide :: bool

definition generateTableBaseForProblemEnvironment :: Table where
  "generateTableBaseForProblemEnvironment =
     \<lparr>tb_ColumnDefinitions = [(''Name'', False), (''Ready'', False), (''Status'', False), (''Age'', False),
        (''Worker'', True), (''Containers'', True), (''Password'', True)],
      tb_ResourceVersion = 0, tb_Rows = []\<rparr>"

fun count_ready :: "ContainerStatus list \<Rightarrow> nat \<times> nat \<Rightarrow> nat \<times> nat" where
  "count_ready [] (rdy, tot) = (rdy, tot)"
| "count_ready (c # cs) (rdy, tot) = count_ready cs (if cs_Ready c then rdy + 1 else rdy, tot + 1)"

definition getReadyForProblemEnvironment :: "ProblemEnvironment \<Rightarrow> string" where
  "getReadyForProblemEnvironment pe =
     (case count_ready (slice (pe_Containers pe)) (0, 0) of (rdy, tot) \<Rightarrow> dec_nat rdy @ ''/'' @ dec_nat tot)"

definition getStatusForProblemEnvironment :: "ProblemEnvironment \<Rightarrow> string" where
  "getStatusForProblemEnvironment pe =
     (if pe_deleting pe then ''Deleting''
      else (let scheduled = GetProblemEnvironmentCondition pe ProblemEnvironmentConditionScheduled = ConditionTrue;
                deployed = GetProblemEnvironmentCondition pe ProblemEnvironmentConditionDeployed = ConditionTrue;
                ready = GetProblemEnvironmentCondition pe ProblemEnvironmentConditionReady = ConditionTrue;
                assigned = GetProblemEnvironmentCondition pe ProblemEnvironmentConditionAssigned = ConditionTrue
            in if \<not> scheduled then ''Scheduling''
               else if \<not> deployed then ''Deploying''
               else if \<not> ready then ''Deploying (NotReady)''
               else if \<not> assigned then ''Unassigned''
               else ''Assigned''))"

definition getContainersForProblemEnvironment :: "ProblemEnvironment \<Rightarrow> string" where
  "getContainersForProblemEnvironment pe =
     join '','' (sort (map (\<lambda>c. cs_Name c @ '':'' @ cs_ManagementIPAddress c) (slice (pe_Containers pe))))"

definition translateTimestampSince :: "(duration \<Rightarrow> string) \<Rightarrow> time \<Rightarrow> time option \<Rightarrow> string" where
  "translateTimestampSince human now timestamp =
     (case timestamp of None \<Rightarrow> ''<unknown>'' | Some t \<Rightarrow> human (now - t))"

definition generateTableRowForProblemEnvironment ::
    "(duration \<Rightarrow> string) \<Rightarrow> time \<Rightarrow> ProblemEnvironment \<Rightarrow> GenerateOptions \<Rightarrow> cell list" where
  "generateTableRowForProblemEnvironment human now pe options =
     map CellString
      ([pe_Name pe, getReadyForProblemEnvironment pe, getStatusForProblemEnvironment pe,
        translateTimestampSince human now (om_CreationTimestamp (pe_ObjectMeta pe))]
       @ (if go_Wide options
          then [pe_WorkerName pe, getContainersForProblemEnvironment pe, pe_Password pe] else []))"

definition generateTableForProblemEnvironment ::
    "(duration \<Rightarrow> string) \<Rightarrow> time \<Rightarrow> ProblemEnvironment \<Rightarrow> GenerateOptions \<Rightarrow> Table" where
  "generateTableForProblemEnvironment human now pe options =
     generateTableBaseForProblemEnvironment
       \<lparr>tb_ResourceVersion := pe_rv pe, tb_Rows := [generateTableRowForProblemEnvironment human now pe options]\<rparr>"

definition generateTableForProblemEnvironmentList ::
    "(duration \<Rightarrow> string) \<Rightarrow> time \<Rightarrow> nat \<Rightarrow> ProblemEnvironment list \<Rightarrow> GenerateOptions \<Rightarrow> Table" where
  "generateTableForProblemEnvironmentList human now rv pes options =
     generateTableBaseForProblemEnvironment
       \<lparr>tb_ResourceVersion := rv, tb_Rows := map (\<lambda>pe. generateTableRowForProblemEnvironment human now pe options) pes\<rparr>"

definition generateTableBaseForWorker :: Table where
  "generateTableBaseForWorker =
     \<lparr>tb_ColumnDefinitions = [(''Name'', False), (''Ready'', False), (''Enabled'', False), (''Age'', False),
        (''CPU'', True), (''Memory'', True), (''IPAddress'', True), (''Port'', True)],
      tb_ResourceVersion = 0, tb_Rows = []\<rparr>"

definition generateTableRowForWorker ::
    "(duration \<Rightarrow> string) \<Rightarrow> time \<Rightarrow> Worker \<Rightarrow> GenerateOptions \<Rightarrow> cell list" where
  "generateTableRowForWorker human now wk options =
     [CellString (wk_Name wk), CellBool (GetWorkerCondition wk WorkerConditionReady = ConditionTrue),
      CellBool (\<not> wk_DisableSchedule wk),
      CellString (translateTimestampSince human now (om_CreationTimestamp (wk_ObjectMeta wk)))]
     @ (if go_Wide options
        then [CellString (wi_CPUUsedPercent (wk_WorkerInfo wk)), CellString (wi_MemoryUsedPercent (wk_WorkerInfo wk)),
              CellString (wi_ExternalIPAddress (wk_WorkerInfo wk)), CellNumber (unat (wi_ExternalPort (wk_WorkerInfo wk)))]
        else [])"

definition generateTableForWorker :: "(duration \<Rightarrow> string) \<Rightarrow> time \<Rightarrow> Worker \<Rightarrow> GenerateOptions \<Rightarrow> Table" where
  "generateTableForWorker human now wk options =
     generateTableBaseForWorker
       \<lparr>tb_ResourceVersion := om_ResourceVersion (wk_ObjectMeta wk), tb_Rows := [generateTableRowForWorker human now wk options]\<rparr>"

definition generateTableForWorkerList ::
    "(duration \<Rightarrow> string) \<Rightarrow> time \<Rightarrow> nat \<Rightarrow> Worker list \<Rightarrow> GenerateOptions \<Rightarrow> Table" where
  "generateTableForWorkerList human now rv wks options =
     generateTableBaseForWorker
       \<lparr>tb_ResourceVersion := rv, tb_Rows := map (\<lambda>wk. generateTableRowForWorker human now wk options) wks\<rparr>"

datatype printable =
    AProblem Problem
  | AProblemList "Problem list"
  | AProblemEnvironment ProblemEnvironment
  | AProblemEnvironmentList nat "ProblemEnvironment list"
  | AWorker Worker
  | AWorkerList nat "Worker list"
  | OtherObject

definition ErrUnsupporedType :: error where
  "ErrUnsupporedType = Errorf ''unsupported type''"

text \<open>\<^verbatim>\<open>panic(nil)\<close> for what is not supported yet.\<close>

fun PrintObject_table :: "(duration \<Rightarrow> string) \<Rightarrow> time \<Rightarrow> printable \<Rightarrow> bool \<Rightarrow> Table or_error go" where
  "PrintObject_table human now (AProblem p) wide = Panic ''nil''"
| "PrintObject_table human now (AProblemList ps) wide = Panic ''nil''"
| "PrintObject_table human now (AProblemEnvironment pe) wide =
     Ret (Inr (generateTableForProblemEnvironment human now pe \<lparr>go_Wide = wide\<rparr>))"
| "PrintObject_table human now (AProblemEnvironmentList rv pes) wide =
     Ret (Inr (generateTableForProblemEnvironmentList human now rv pes \<lparr>go_Wide = wide\<rparr>))"
| "PrintObject_table human now (AWorker wk) wide = Ret (Inr (generateTableForWorker human now wk \<lparr>go_Wide = wide\<rparr>))"
| "PrintObject_table human now (AWorkerList rv wks) wide =
     Ret (Inr (generateTableForWorkerList human now rv wks \<lparr>go_Wide = wide\<rparr>))"
| "PrintObject_table human now OtherObject wide = Ret (Inl ErrUnsupporedType)"

fun GenerateTable :: "(duration \<Rightarrow> string) \<Rightarrow> time \<Rightarrow> printable \<Rightarrow> GenerateOptions \<Rightarrow> Table or_error go" where
  "GenerateTable human now (AProblemEnvironment pe) options =
     Ret (Inr (generateTableForProblemEnvironment human now pe options))"
| "GenerateTable human now (AProblemEnvironmentList rv pes) options =
     Ret (Inr (generateTableForProblemEnvironmentList human now rv pes options))"
| "GenerateTable human now OtherObject options = Ret (Inl ErrUnsupporedType)"
| "GenerateTable human now obj options = Panic ''nil''"

text \<open>\<^verbatim>\<open>PrintObject\<close>: \<open>render\<close> is the table printer of \<^verbatim>\<open>cli-runtime\<close>.\<close>

definition PrintObject ::
    "(duration \<Rightarrow> string) \<Rightarrow> time \<Rightarrow> (Table \<Rightarrow> bool \<Rightarrow> string) \<Rightarrow> printable \<Rightarrow> bool \<Rightarrow> (error option \<times> string) go" where
  "PrintObject human now render obj wide =
     (case PrintObject_table human now obj wide of
        Panic m \<Rightarrow> Panic m
      | Ret (Inl e) \<Rightarrow> Ret (Some e, '''')
      | Ret (Inr table) \<Rightarrow> Ret (None, render table wide))"

section \<open>Facts\<close>

text \<open>Every row has one cell for each column that is shown.\<close>

definition shown_columns :: "Table \<Rightarrow> bool \<Rightarrow> string list" where
  "shown_columns t wide = map fst (filter (\<lambda>(n, wideOnly). wide \<or> \<not> wideOnly) (tb_ColumnDefinitions t))"

lemma rows_fit:
  "PrintObject_table human now obj wide = Ret (Inr t) \<Longrightarrow> row \<in> set (tb_Rows t) \<Longrightarrow>
     length row = length (shown_columns t wide)"
  by (cases obj)
    (auto simp: generateTableForProblemEnvironment_def generateTableForProblemEnvironmentList_def
      generateTableForWorker_def generateTableForWorkerList_def generateTableRowForProblemEnvironment_def
      generateTableRowForWorker_def generateTableBaseForProblemEnvironment_def generateTableBaseForWorker_def
      shown_columns_def)

lemma count_ready_counts:
  "count_ready cs (r, t) = (r + length (filter cs_Ready cs), t + length cs)"
  by (induction cs arbitrary: r t) auto

text \<open>
  The status column and the protocol: on a stored environment that keeps the invariant of the
  protocol, only a scheduled one is shown as more than \<open>Scheduling\<close>, and \<open>Assigned\<close> means
  that it has a worker and a password.
\<close>

lemma status_Assigned:
  assumes "phase_inv (phase_of pe)" "getStatusForProblemEnvironment pe = ''Assigned''"
  shows "\<not> pe_deleting pe" "ph_ready (phase_of pe) = ConditionTrue" "ph_assigned (phase_of pe) = ConditionTrue"
    "pe_WorkerName pe \<noteq> ''''" "good_password (pe_Password pe)"
proof -
  have *: "\<not> pe_deleting pe" "ph_scheduled (phase_of pe) = ConditionTrue" "ph_ready (phase_of pe) = ConditionTrue"
    "ph_assigned (phase_of pe) = ConditionTrue"
    using assms(2) by (auto simp: getStatusForProblemEnvironment_def Let_def split: if_splits)
  then show "\<not> pe_deleting pe" "ph_ready (phase_of pe) = ConditionTrue" "ph_assigned (phase_of pe) = ConditionTrue"
    by simp_all
  show "pe_WorkerName pe \<noteq> ''''" "good_password (pe_Password pe)"
    using assms(1) * by (auto simp: phase_inv_def)
qed

section \<open>Properties\<close>

text \<open>
  Tables are well formed: every row of a table \<^verbatim>\<open>PrintObject\<close> makes for environments or workers
  has exactly one cell for each column that is shown, in the wide and in the narrow form, and it
  makes a row for each object.
\<close>

theorem printed_rows_fit:
  assumes "PrintObject_table human now obj wide = Ret (Inr t)"
  shows "list_all (\<lambda>row. length row = length (shown_columns t wide)) (tb_Rows t) \<and>
    length (tb_Rows t) = (case obj of AProblemEnvironmentList _ pes \<Rightarrow> length pes | AWorkerList _ wks \<Rightarrow> length wks | _ \<Rightarrow> 1)"
proof
  show "list_all (\<lambda>row. length row = length (shown_columns t wide)) (tb_Rows t)"
    using rows_fit [OF assms] by (simp add: list_all_iff)
  show "length (tb_Rows t) = (case obj of AProblemEnvironmentList _ pes \<Rightarrow> length pes | AWorkerList _ wks \<Rightarrow> length wks | _ \<Rightarrow> 1)"
    using assms by (cases obj) (auto simp: generateTableForProblemEnvironment_def generateTableForProblemEnvironmentList_def
        generateTableForWorker_def generateTableForWorkerList_def)
qed

theorem printed_rows_fit_witness:
  "\<exists>t. PrintObject_table (\<lambda>d. ''1d'') 0 (AProblemEnvironmentList 1 [ProblemEnvironment0, ProblemEnvironment0]) True = Ret (Inr t) \<and>
     length (tb_Rows t) = 2"
  using printed_rows_fit [of "\<lambda>d. ''1d''" 0 "AProblemEnvironmentList 1 [ProblemEnvironment0, ProblemEnvironment0]" True]
  by simp

end
