(* ===== verification/Deploy_Log.thy ===== *)
theory Deploy_Log
  imports Prelude
begin

text \<open>
  Parsing and printing of deployment logs (\<^verbatim>\<open>pkg/kubectl-netcon/deploylog\<close>). The decoding of a
  line (\<^verbatim>\<open>logfmt\<close>, \<^verbatim>\<open>time.Parse\<close>), the formatting of times and the terminal colours are
  parameters.
\<close>

section \<open>Records\<close>

type_synonym LogLevel = nat

definition LogLevelDebug :: LogLevel where "LogLevelDebug = 1"
definition LogLevelInfo :: LogLevel where "LogLevelInfo = 2"
definition LogLevelWarning :: LogLevel where "LogLevelWarning = 3"
definition LogLevelError :: LogLevel where "LogLevelError = 4"
definition LogLevelPanic :: LogLevel where "LogLevelPanic = 5"
definition LogLevelFatal :: LogLevel where "LogLevelFatal = 6"
definition LogLevelUnknown :: LogLevel where "LogLevelUnknown = 7"

lemmas log_levels = LogLevelDebug_def LogLevelInfo_def LogLevelWarning_def LogLevelError_def
  LogLevelPanic_def LogLevelFatal_def LogLevelUnknown_def

record DeployLogRecord =
  lr_timestamp :: "time option"
  lr_level :: LogLevel
  lr_message :: string

record DeployLog =
  dl_Record :: "DeployLogRecord list"

record log_line =
  ll_Time :: string
  ll_Level :: string
  ll_Msg :: string

section \<open>Parsing\<close>

record log_codec =
  lcd_logfmt :: "string \<Rightarrow> log_line or_error"
  lcd_time :: "string \<Rightarrow> time or_error"

definition parseLogLevel :: "string \<Rightarrow> LogLevel" where
  "parseLogLevel level =
     (if level = ''debug'' then LogLevelDebug
      else if level = ''info'' then LogLevelInfo
      else if level = ''warning'' then LogLevelWarning
      else if level = ''error'' then LogLevelError
      else if level = ''panic'' then LogLevelPanic
      else if level = ''fatal'' then LogLevelFatal
      else LogLevelUnknown)"

definition tryParseLogLine :: "log_codec \<Rightarrow> string \<Rightarrow> DeployLogRecord or_error" where
  "tryParseLogLine codec data =
     (case lcd_logfmt codec data of
        Inl e \<Rightarrow> Inl e
      | Inr line \<Rightarrow>
          (case lcd_time codec (ll_Time line) of
             Inl e \<Rightarrow> Inl e
           | Inr timestamp \<Rightarrow>
               Inr \<lparr>lr_timestamp = Some timestamp, lr_level = parseLogLevel (ll_Level line), lr_message = ll_Msg line\<rparr>))"

fun parse_lines :: "log_codec \<Rightarrow> string list \<Rightarrow> DeployLogRecord list" where
  "parse_lines codec [] = []"
| "parse_lines codec (line # lines) =
     (case tryParseLogLine codec line of
        Inl _ \<Rightarrow> \<lparr>lr_timestamp = None, lr_level = LogLevelUnknown, lr_message = line\<rparr>
      | Inr record \<Rightarrow> record) # parse_lines codec lines"

text \<open>\<^verbatim>\<open>Parse\<close> never fails.\<close>

definition Parse :: "log_codec \<Rightarrow> string \<Rightarrow> DeployLog or_error" where
  "Parse codec data = Inr \<lparr>dl_Record = parse_lines codec (split_on LF data)\<rparr>"

section \<open>Printing\<close>

record colors =
  co_timestamp :: "string \<Rightarrow> string"
  co_message :: "string \<Rightarrow> string"
  co_Blue :: "string \<Rightarrow> string"
  co_Green :: "string \<Rightarrow> string"
  co_Yellow :: "string \<Rightarrow> string"
  co_Red :: "string \<Rightarrow> string"
  co_HiRed :: "string \<Rightarrow> string"

text \<open>\<open>pp_format\<close> formats a time of the printer's location.\<close>

record PrettyDeployLogPrinter =
  pp_level :: LogLevel
  pp_format :: "time \<Rightarrow> string"

definition NewPrettyDeployLogPrinterWithLocation :: "(time \<Rightarrow> string) \<Rightarrow> PrettyDeployLogPrinter" where
  "NewPrettyDeployLogPrinterWithLocation fmt = \<lparr>pp_level = LogLevelInfo, pp_format = fmt\<rparr>"

definition NewPrettyDeployLogPrinter :: "(time \<Rightarrow> string) \<Rightarrow> PrettyDeployLogPrinter" where
  "NewPrettyDeployLogPrinter utc = \<lparr>pp_level = LogLevelInfo, pp_format = utc\<rparr>"

definition SetLevel :: "LogLevel \<Rightarrow> PrettyDeployLogPrinter \<Rightarrow> PrettyDeployLogPrinter" where
  "SetLevel level p = p\<lparr>pp_level := level\<rparr>"

definition formatLogLevel :: "colors \<Rightarrow> LogLevel \<Rightarrow> string" where
  "formatLogLevel co level =
     (if level = LogLevelDebug then co_Blue co ''DEBUG''
      else if level = LogLevelInfo then co_Green co '' INFO''
      else if level = LogLevelWarning then co_Yellow co '' WARN''
      else if level = LogLevelError then co_Red co ''ERROR''
      else if level = LogLevelPanic then co_Red co ''PANIC''
      else if level = LogLevelFatal then co_HiRed co ''FATAL''
      else ''     '')"

definition format_record :: "colors \<Rightarrow> PrettyDeployLogPrinter \<Rightarrow> DeployLogRecord \<Rightarrow> string" where
  "format_record co p line =
     (let timestamp = (case lr_timestamp line of None \<Rightarrow> replicate 25 CHR '' '' | Some t \<Rightarrow> pp_format p t);
          level = formatLogLevel co (lr_level line);
          message = replace_all [LF] (LF # replicate 33 CHR '' '') (lr_message line)
      in co_timestamp co timestamp @ ''  '' @ level @ '' '' @ co_message co message @ [LF])"

fun print_loop :: "colors \<Rightarrow> PrettyDeployLogPrinter \<Rightarrow> DeployLogRecord list \<Rightarrow> string list" where
  "print_loop co p [] = []"
| "print_loop co p (line # lines) =
     (if lr_level line < pp_level p then print_loop co p lines
      else format_record co p line # print_loop co p lines)"

definition Print :: "colors \<Rightarrow> PrettyDeployLogPrinter \<Rightarrow> DeployLog \<Rightarrow> string list" where
  "Print co p dlog = print_loop co p (dl_Record dlog)"

section \<open>Facts\<close>

lemma parse_lines_map:
  "parse_lines codec ls = map (\<lambda>l. case tryParseLogLine codec l of
     Inl _ \<Rightarrow> \<lparr>lr_timestamp = None, lr_level = LogLevelUnknown, lr_message = l\<rparr> | Inr record \<Rightarrow> record) ls"
  by (induction ls) auto

lemma print_loop_map:
  "print_loop co p rs = map (format_record co p) (filter (\<lambda>r. pp_level p \<le> lr_level r) rs)"
  by (induction rs) auto

lemma parseLogLevel_range: "LogLevelDebug \<le> parseLogLevel s \<and> parseLogLevel s \<le> LogLevelUnknown"
  by (simp add: parseLogLevel_def log_levels)

section \<open>Properties\<close>

text \<open>
  Deployment logs: parsing gives one record per line, in order, and never fails; a line that is
  not a log line becomes a record with that text. The printer writes the records of at least its
  level, in order, one entry each: lines that could not be parsed are always printed, and at debug
  level every line is.
\<close>

theorem deploy_log_complete:
  "\<exists>dlog. Parse codec data = Inr dlog \<and> length (dl_Record dlog) = Suc (count_list data LF) \<and>
     (\<forall>i < length (dl_Record dlog). \<forall>e. tryParseLogLine codec (split_on LF data ! i) = Inl e \<longrightarrow>
        dl_Record dlog ! i = \<lparr>lr_timestamp = None, lr_level = LogLevelUnknown, lr_message = split_on LF data ! i\<rparr>) \<and>
     Print co p dlog = map (format_record co p) (filter (\<lambda>r. pp_level p \<le> lr_level r) (dl_Record dlog)) \<and>
     Print co (SetLevel LogLevelDebug p) dlog = map (format_record co p) (dl_Record dlog)"
proof -
  let ?rs = "parse_lines codec (split_on LF data)"
  have "\<forall>r \<in> set ?rs. LogLevelDebug \<le> lr_level r"
    using parseLogLevel_range
    by (auto simp: parse_lines_map tryParseLogLine_def log_levels split: sum.splits)
  then have "filter (\<lambda>r. LogLevelDebug \<le> lr_level r) ?rs = ?rs"
    by (simp add: filter_id_conv)
  moreover have "format_record co (SetLevel LogLevelDebug p) r = format_record co p r" for r
    by (simp add: format_record_def SetLevel_def split: option.split)
  ultimately show ?thesis
    by (simp add: Parse_def Print_def print_loop_map SetLevel_def split_on_length [symmetric])
      (auto simp: parse_lines_map)
qed

end
