(* ===== verification/Gateway.thy ===== *)
theory Gateway
  imports Pe_Controller
begin

text \<open>
  The HTTP gateway (\<^verbatim>\<open>controllers/gateway\<close>): the score server acquires, reads and releases
  environments through it. \<^verbatim>\<open>usecases.go\<close> holds the operations, \<^verbatim>\<open>errors.go\<close> their errors,
  \<^verbatim>\<open>http.go\<close> the handlers that turn them into responses. JSON decoding and encoding are
  parameters of the handlers.
\<close>

section \<open>Operations\<close>

record Access =
  ac_Name :: string
  ac_Host :: string
  ac_Port :: "16 word"
  ac_User :: string
  ac_Password :: string

datatype gw_error =
    ErrProblemNotFound string
  | ErrProblemEnvironmentNotFound string
  | ErrWorkerNotFound string
  | ErrNoAvailableProblemEnvironment string
  | ApiError error

definition getProblemEnvironmentFor :: "ProblemEnvironment \<Rightarrow> Worker \<Rightarrow> Access" where
  "getProblemEnvironmentFor pe worker =
     \<lparr>ac_Name = pe_Name pe,
      ac_Host = wi_ExternalIPAddress (wk_WorkerInfo worker),
      ac_Port = wi_ExternalPort (wk_WorkerInfo worker),
      ac_User = ''nc_'' @ pe_Name pe,
      ac_Password = pe_Password pe\<rparr>"

definition gw_worker :: "'w kube \<Rightarrow> string \<Rightarrow> 'w \<Rightarrow> gw_error + Worker" where
  "gw_worker k name w =
     (case getWorker k w name of
        Inl e \<Rightarrow> if IsNotFound e then Inl (ErrWorkerNotFound name) else Inl (ApiError e)
      | Inr worker \<Rightarrow> Inr worker)"

definition GetProblemEnvironment :: "'w kube \<Rightarrow> string \<Rightarrow> 'w \<Rightarrow> gw_error + Access" where
  "GetProblemEnvironment k name w =
     (case getProblemEnvironment k w (''netcon'', name) of
        Inl e \<Rightarrow> if IsNotFound e then Inl (ErrProblemEnvironmentNotFound name) else Inl (ApiError e)
      | Inr pe \<Rightarrow>
          (case gw_worker k (pe_WorkerName pe) w of
             Inl e \<Rightarrow> Inl e
           | Inr worker \<Rightarrow> Inr (getProblemEnvironmentFor pe worker)))"

fun gw_select :: "ProblemEnvironment list \<Rightarrow> ProblemEnvironment option" where
  "gw_select [] = None"
| "gw_select (pe # pes) =
     (let isAssigned = GetProblemEnvironmentCondition pe ProblemEnvironmentConditionAssigned;
          isReady = GetProblemEnvironmentCondition pe ProblemEnvironmentConditionReady
      in if isAssigned = ConditionFalse \<and> isReady = ConditionTrue then Some pe else gw_select pes)"

definition AcquireProblemEnvironment ::
    "'w kube \<Rightarrow> time \<Rightarrow> string \<Rightarrow> 'w \<Rightarrow> (gw_error + Access) \<times> 'w" where
  "AcquireProblemEnvironment k now problemName w =
     (case getProblem k w (''netcon'', problemName) of
        Inl e \<Rightarrow>
          (if IsNotFound e then (Inl (ErrProblemNotFound problemName), w) else (Inl (ApiError e), w))
      | Inr _ \<Rightarrow>
          (case listProblemEnvironment k w
                  \<lparr>lo_InNamespace = None, lo_MatchingLabels = [(''problemName'', problemName)]\<rparr> of
             Inl e \<Rightarrow> (Inl (ApiError e), w)
           | Inr pes \<Rightarrow>
               (case gw_select pes of
                  None \<Rightarrow> (Inl (ErrNoAvailableProblemEnvironment problemName), w)
                | Some selected \<Rightarrow>
                    (case updateStatusProblemEnvironment k
                            (SetProblemEnvironmentCondition now selected
                               ProblemEnvironmentConditionAssigned ConditionTrue ''Assigned''
                               ''Assigned ProblemEnvironment'') w of
                       (Inl e, w') \<Rightarrow> (Inl (ApiError e), w')
                     | (Inr selected, w') \<Rightarrow>
                         (let w' = recordEvent k
                                \<lparr>ev_Object = pe_Name selected, ev_Type = EventTypeNormal,
                                 ev_Reason = ProblemEnvironmentEventAssigned,
                                 ev_Message = ''ProblemEnvironment assigned''\<rparr> w'
                          in case gw_worker k (pe_WorkerName selected) w' of
                               Inl e \<Rightarrow> (Inl e, w')
                             | Inr worker \<Rightarrow> (Inr (getProblemEnvironmentFor selected worker), w'))))))"

definition ReleaseProblemEnvironment :: "'w kube \<Rightarrow> string \<Rightarrow> 'w \<Rightarrow> gw_error option \<times> 'w" where
  "ReleaseProblemEnvironment k name w =
     (case getProblemEnvironment k w (''netcon'', name) of
        Inl e \<Rightarrow>
          (if IsNotFound e then (Some (ErrProblemEnvironmentNotFound name), w) else (Some (ApiError e), w))
      | Inr pe \<Rightarrow>
          (case deleteProblemEnvironment k (pe_key pe) w of
             (Some e, w') \<Rightarrow> (Some (ApiError e), w')
           | (None, w') \<Rightarrow> (None, w')))"

section \<open>HTTP handlers\<close>

record response =
  rs_Status :: nat
  rs_ContentType :: "string option"
  rs_Body :: string

definition AsErrProblemNotFound :: "gw_error \<Rightarrow> string option" where
  "AsErrProblemNotFound e = (case e of ErrProblemNotFound n \<Rightarrow> Some n | _ \<Rightarrow> None)"

definition AsErrProblemEnvironmentNotFound :: "gw_error \<Rightarrow> string option" where
  "AsErrProblemEnvironmentNotFound e = (case e of ErrProblemEnvironmentNotFound n \<Rightarrow> Some n | _ \<Rightarrow> None)"

definition AsErrWorkerNotFound :: "gw_error \<Rightarrow> string option" where
  "AsErrWorkerNotFound e = (case e of ErrWorkerNotFound n \<Rightarrow> Some n | _ \<Rightarrow> None)"

definition AsErrNoAvailableProblemEnvironment :: "gw_error \<Rightarrow> string option" where
  "AsErrNoAvailableProblemEnvironment e =
     (case e of ErrNoAvailableProblemEnvironment n \<Rightarrow> Some n | _ \<Rightarrow> None)"

text \<open>\<^verbatim>\<open>err.Error()\<close>; \<open>text\<close> renders the errors of the API client.\<close>

fun gw_Error :: "(error \<Rightarrow> string) \<Rightarrow> gw_error \<Rightarrow> string" where
  "gw_Error txt (ErrProblemNotFound name) = ''Problem not found: '' @ name"
| "gw_Error txt (ErrProblemEnvironmentNotFound name) = ''ProblemEnvironment not found: '' @ name"
| "gw_Error txt (ErrWorkerNotFound name) = ''Worker not found: '' @ name"
| "gw_Error txt (ErrNoAvailableProblemEnvironment name) =
     ''No available ProblemEnvironment for: '' @ name"
| "gw_Error txt (ApiError e) = txt e"

definition just_status :: "nat \<Rightarrow> response" where
  "just_status s = \<lparr>rs_Status = s, rs_ContentType = None, rs_Body = ''''\<rparr>"

definition with_body :: "nat \<Rightarrow> string \<Rightarrow> response" where
  "with_body s b = \<lparr>rs_Status = s, rs_ContentType = None, rs_Body = b\<rparr>"

text \<open>
  \<^verbatim>\<open>renderJSON\<close>: nothing is written when encoding fails; otherwise the first write sends
  status 200.
\<close>

definition renderJSON :: "(Access \<Rightarrow> string or_error) \<Rightarrow> Access \<Rightarrow> response or_error" where
  "renderJSON encode a =
     (case encode a of
        Inl e \<Rightarrow> Inl e
      | Inr buf \<Rightarrow> Inr \<lparr>rs_Status = 200, rs_ContentType = Some ''application/json'', rs_Body = buf\<rparr>)"

definition render_access :: "(Access \<Rightarrow> string or_error) \<Rightarrow> Access \<Rightarrow> response" where
  "render_access encode a = (case renderJSON encode a of Inl _ \<Rightarrow> just_status 500 | Inr r \<Rightarrow> r)"

definition GetProblemEnvironmentController ::
    "(error \<Rightarrow> string) \<Rightarrow> (Access \<Rightarrow> string or_error) \<Rightarrow> 'w kube \<Rightarrow> string \<Rightarrow> 'w \<Rightarrow> response" where
  "GetProblemEnvironmentController txt encode k name w =
     (case GetProblemEnvironment k name w of
        Inl err \<Rightarrow>
          if AsErrProblemEnvironmentNotFound err \<noteq> None then just_status 404
          else if AsErrWorkerNotFound err \<noteq> None then with_body 500 ''worker not found''
          else with_body 500 (gw_Error txt err)
      | Inr a \<Rightarrow> render_access encode a)"

definition AcquireProblemEnvironmentHandler ::
    "(error \<Rightarrow> string) \<Rightarrow> (string \<Rightarrow> string or_error) \<Rightarrow> (Access \<Rightarrow> string or_error) \<Rightarrow> 'w kube \<Rightarrow>
     time \<Rightarrow> string \<Rightarrow> 'w \<Rightarrow> response \<times> 'w" where
  "AcquireProblemEnvironmentHandler txt bindJSON encode k now body w =
     (case bindJSON body of
        Inl _ \<Rightarrow> (just_status 400, w)
      | Inr problemName \<Rightarrow>
          (case AcquireProblemEnvironment k now problemName w of
             (Inl err, w') \<Rightarrow>
               if AsErrProblemNotFound err \<noteq> None then (just_status 404, w')
               else if AsErrNoAvailableProblemEnvironment err \<noteq> None then (just_status 503, w')
               else if AsErrWorkerNotFound err \<noteq> None then (with_body 500 ''worker not found'', w')
               else (with_body 500 (gw_Error txt err), w')
           | (Inr a, w') \<Rightarrow> (render_access encode a, w')))"

definition ReleaseProblemEnvironmentHandler ::
    "(error \<Rightarrow> string) \<Rightarrow> 'w kube \<Rightarrow> string \<Rightarrow> 'w \<Rightarrow> response \<times> 'w" where
  "ReleaseProblemEnvironmentHandler txt k name w =
     (case ReleaseProblemEnvironment k name w of
        (Some err, w') \<Rightarrow>
          if AsErrProblemEnvironmentNotFound err \<noteq> None then (just_status 404, w')
          else (with_body 500 (gw_Error txt err), w')
      | (None, w') \<Rightarrow> (just_status 200, w'))"

text \<open>
  The router of \<^verbatim>\<open>Start\<close>: its middlewares in order, and its routes. Requests are dispatched by
  chi, a parameter: \<open>chi router method path\<close> is the handler with the URL parameters, or the status
  of an answer the router gives itself (no such route, no such method, the heartbeat).
\<close>

datatype middleware = Logger | RealIP | Heartbeat string | Recoverer

datatype gw_handler = HandleGet | HandleAcquire | HandleRelease

record 'h chi_router =
  cr_middlewares :: "middleware list"
  cr_routes :: "(string \<times> string \<times> 'h) list"

type_synonym 'h chi = "'h chi_router \<Rightarrow> string \<Rightarrow> string \<Rightarrow> nat + 'h \<times> (string \<rightharpoonup> string)"

definition gw_router :: "gw_handler chi_router" where
  "gw_router =
     \<lparr>cr_middlewares = [Logger, RealIP, Heartbeat ''/healthz'', Recoverer],
      cr_routes = [(''GET'', ''/problem/{name}'', HandleGet),
                   (''POST'', ''/problem'', HandleAcquire),
                   (''DELETE'', ''/problem/{name}'', HandleRelease)]\<rparr>"

definition gw_Addr :: string where
  "gw_Addr = '':8082''"

record gw_request =
  rq_Method :: string
  rq_Path :: string
  rq_Body :: string

text \<open>\<^verbatim>\<open>chi.URLParam\<close> is empty for a parameter the route does not have.\<close>

definition URLParam :: "(string \<rightharpoonup> string) \<Rightarrow> string \<Rightarrow> string" where
  "URLParam ps key = (case ps key of None \<Rightarrow> '''' | Some v \<Rightarrow> v)"

definition gw_serve ::
    "gw_handler chi \<Rightarrow> (error \<Rightarrow> string) \<Rightarrow> (string \<Rightarrow> string or_error) \<Rightarrow> (Access \<Rightarrow> string or_error) \<Rightarrow> 'w kube \<Rightarrow>
     time \<Rightarrow> gw_request \<Rightarrow> 'w \<Rightarrow> response \<times> 'w" where
  "gw_serve chi txt bindJSON encode k now req w =
     (case chi gw_router (rq_Method req) (rq_Path req) of
        Inl status \<Rightarrow> (just_status status, w)
      | Inr (HandleGet, ps) \<Rightarrow> (GetProblemEnvironmentController txt encode k (URLParam ps ''name'') w, w)
      | Inr (HandleAcquire, ps) \<Rightarrow> AcquireProblemEnvironmentHandler txt bindJSON encode k now (rq_Body req) w
      | Inr (HandleRelease, ps) \<Rightarrow> ReleaseProblemEnvironmentHandler txt k (URLParam ps ''name'') w)"

text \<open>
  \<^verbatim>\<open>Start\<close>: the goroutine forwards the error that \<^verbatim>\<open>ListenAndServe\<close> returns unless it is
  \<^verbatim>\<open>http.ErrServerClosed\<close> (\<open>isClosed\<close>); \<^verbatim>\<open>Start\<close> returns that error, or the outcome of
  \<^verbatim>\<open>Shutdown\<close> when the context ends first. Without an event it waits (\<open>None\<close>).
\<close>

datatype gw_event = ListenReturned error | ContextDone "error option"

fun gw_Start :: "(error \<Rightarrow> bool) \<Rightarrow> gw_event list \<Rightarrow> error option option" where
  "gw_Start isClosed [] = None"
| "gw_Start isClosed (ListenReturned err # evs) = (if \<not> isClosed err then Some (Some err) else gw_Start isClosed evs)"
| "gw_Start isClosed (ContextDone shutdown # evs) = Some shutdown"

text \<open>A closed server alone does not end \<^verbatim>\<open>Start\<close>, and no error of the listener before the end of the context is lost.\<close>

lemma gw_Start_waits: "gw_Start isClosed evs = None \<longleftrightarrow> list_all (\<lambda>ev. case ev of ListenReturned e \<Rightarrow> isClosed e | _ \<Rightarrow> False) evs"
  by (induction isClosed evs rule: gw_Start.induct) auto

lemma gw_Start_error:
  "\<not> isClosed err \<Longrightarrow> list_all (\<lambda>ev. case ev of ListenReturned e \<Rightarrow> isClosed e | _ \<Rightarrow> False) evs \<Longrightarrow>
   gw_Start isClosed (evs @ ListenReturned err # evs') = Some (Some err)"
  by (induction isClosed evs rule: gw_Start.induct) auto

section \<open>Acquiring\<close>

lemma gw_select_find:
  "gw_select pes = find (\<lambda>pe. GetProblemEnvironmentCondition pe ProblemEnvironmentConditionAssigned = ConditionFalse \<and>
     GetProblemEnvironmentCondition pe ProblemEnvironmentConditionReady = ConditionTrue) pes"
  by (induction pes) (auto simp: Let_def)

lemma gw_select_SomeD:
  "gw_select pes = Some pe \<Longrightarrow>
     pe \<in> set pes \<and> GetProblemEnvironmentCondition pe ProblemEnvironmentConditionAssigned = ConditionFalse \<and>
     GetProblemEnvironmentCondition pe ProblemEnvironmentConditionReady = ConditionTrue"
  by (auto simp: gw_select_find find_Some_iff)

lemma acquire_step:
  assumes "gw_select pes = Some pe"
  shows "protocol_step pe (with_status (SetProblemEnvironmentCondition now pe
    ProblemEnvironmentConditionAssigned ConditionTrue rs m) v pe)"
  using gw_select_SomeD [OF assms] by (auto simp: phase_writes intro!: lifecycle.assign)

context versioned_reads
begin

lemma Acquire_refines:
  assumes "ok w" "AcquireProblemEnvironment k now name w = (res, w')"
  shows "refines w w'"
proof (cases "\<exists>p pes pe. getProblem k w (''netcon'', name) = Inr p \<and>
    listProblemEnvironment k w \<lparr>lo_InNamespace = None, lo_MatchingLabels = [(''problemName'', name)]\<rparr> = Inr pes \<and>
    gw_select pes = Some pe")
  case False
  then have "w' = w"
    using assms(2) by (auto simp: AcquireProblemEnvironment_def split: sum.splits option.splits if_splits)
  then show ?thesis using assms(1) by simp
next
  case True
  then obtain p pes pe where sel: "getProblem k w (''netcon'', name) = Inr p"
    "listProblemEnvironment k w \<lparr>lo_InNamespace = None, lo_MatchingLabels = [(''problemName'', name)]\<rparr> = Inr pes"
    "gw_select pes = Some pe" by blast
  obtain x w1 where up: "updateStatusProblemEnvironment k (SetProblemEnvironmentCondition now pe
      ProblemEnvironmentConditionAssigned ConditionTrue ''Assigned'' ''Assigned ProblemEnvironment'') w = (x, w1)"
    by fastforce
  have "current pe (contents w)"
    using list_current [OF assms(1) sel(2)] gw_select_SomeD [OF sel(3)] by blast
  then have w1: "refines w w1"
    by (rule update_status_current [OF assms(1) up]) (use acquire_step [OF sel(3)] in simp_all)
  have "w' = w1 \<or> (\<exists>ev. w' = recordEvent k ev w1)"
    using assms(2) sel up by (auto simp: AcquireProblemEnvironment_def Let_def split: sum.splits)
  then show ?thesis
    using w1 event_frame [of w1] by auto
qed

lemma Acquire_assigns:
  assumes "ok w" "AcquireProblemEnvironment k now name w = (Inr acc, w')"
  shows "\<exists>cur \<in> set (contents w). \<exists>new \<in> set (contents w'). \<exists>wk. pe_key new = pe_key cur \<and>
    map_get (om_Labels (pe_ObjectMeta cur)) ''problemName'' = Some name \<and>
    ph_ready (phase_of cur) = ConditionTrue \<and> ph_assigned (phase_of cur) = ConditionFalse \<and>
    phase_of new = (phase_of cur)\<lparr>ph_assigned := ConditionTrue\<rparr> \<and>
    getWorker k w' (pe_WorkerName new) = Inr wk \<and> acc = getProblemEnvironmentFor new wk"
proof -
  let ?opts = "\<lparr>lo_InNamespace = None, lo_MatchingLabels = [(''problemName'', name)]\<rparr>"
  obtain pes pe where sel: "listProblemEnvironment k w ?opts = Inr pes" "gw_select pes = Some pe"
    and p: "\<exists>p. getProblem k w (''netcon'', name) = Inr p"
    using assms(2) by (auto simp: AcquireProblemEnvironment_def split: sum.splits option.splits if_splits)
  note pe = gw_select_SomeD [OF sel(2)]
  let ?req = "SetProblemEnvironmentCondition now pe
      ProblemEnvironmentConditionAssigned ConditionTrue ''Assigned'' ''Assigned ProblemEnvironment''"
  obtain pe' w1 ev where up: "updateStatusProblemEnvironment k ?req w = (Inr pe', w1)"
    "w' = recordEvent k ev w1"
    and wk: "\<exists>wk. getWorker k w' (pe_WorkerName pe') = Inr wk \<and> acc = getProblemEnvironmentFor pe' wk"
    using assms(2) sel p by (auto simp: AcquireProblemEnvironment_def gw_worker_def Let_def
        split: sum.splits if_splits prod.splits)
  from update_status [OF assms(1) up(1)] obtain cur v where
    st: "ok w1" "cur \<in> set (contents w)" "pe_key cur = pe_key pe" "pe_rv cur = pe_rv pe"
    "pe' = with_status ?req v cur" "contents w1 = store_put pe' (contents w)"
    by auto
  have "cur = pe"
    using list_current [OF assms(1) sel(1)] pe currentD [OF _ st(2-4)] by blast
  moreover have "pe' \<in> set (contents w')"
    using st event_frame [OF st(1), of ev] up(2) by (auto simp: set_store_put [of cur])
  moreover have "map_get (om_Labels (pe_ObjectMeta pe)) ''problemName'' = Some name"
    using list_matches [OF assms(1) sel(1)] pe by (simp add: matches_options_def)
  moreover have "phase_of (with_status ?req v pe) = (phase_of pe)\<lparr>ph_assigned := ConditionTrue\<rparr>"
    by (rule phase_set_assigned)
  ultimately show ?thesis
    using st(2,5) pe wk by (intro bexI [of _ cur] bexI [of _ pe']) auto
qed

end

lemma Acquire_none_iff:
  assumes "consistent_reads k contents ok" "ok w" "getProblem k w (''netcon'', name) = Inr p"
  shows "fst (AcquireProblemEnvironment k now name w) = Inl (ErrNoAvailableProblemEnvironment name) \<longleftrightarrow>
    \<not> (\<exists>pe \<in> set (contents w). map_get (om_Labels (pe_ObjectMeta pe)) ''problemName'' = Some name \<and>
         ph_ready (phase_of pe) = ConditionTrue \<and> ph_assigned (phase_of pe) = ConditionFalse)"
proof -
  let ?opts = "\<lparr>lo_InNamespace = None, lo_MatchingLabels = [(''problemName'', name)]\<rparr>"
  let ?pes = "filter (\<lambda>pe. matches_options ?opts (pe_ObjectMeta pe)) (contents w)"
  have ls: "listProblemEnvironment k w ?opts = Inr ?pes"
    by (rule consistent_reads.list_reads [OF assms(1,2)])
  have "fst (AcquireProblemEnvironment k now name w) = Inl (ErrNoAvailableProblemEnvironment name) \<longleftrightarrow>
      gw_select ?pes = None"
    using assms(3) ls by (auto simp: AcquireProblemEnvironment_def gw_worker_def Let_def
        split: sum.splits option.splits prod.splits)
  then show ?thesis
    by (auto simp: gw_select_find find_None_iff matches_options_def)
qed

lemma Release_refines:
  assumes "kube_api k contents ok" "ok w" "ReleaseProblemEnvironment k name w = (res, w')"
  shows "ok w' \<and> store_step protocol_step (contents w) (contents w')"
proof (cases "getProblemEnvironment k w (''netcon'', name)")
  case (Inl e)
  then show ?thesis
    using assms(2,3) by (auto simp: ReleaseProblemEnvironment_def split: if_splits)
next
  case (Inr pe)
  then obtain x where "deleteProblemEnvironment k (pe_key pe) w = (x, w')"
    using assms(3) by (auto simp: ReleaseProblemEnvironment_def split: prod.splits option.splits)
  then show ?thesis
    using kube_api.delete_step [OF assms(1,2), of "pe_key pe" x w' protocol_step] delete_refines by blast
qed

context reliable_api
begin

lemma Release_releases:
  assumes "ok w" "cur \<in> set (contents w)" "pe_key cur = (''netcon'', name)"
  shows "\<exists>w'. ReleaseProblemEnvironment k name w = (None, w') \<and> ok w' \<and>
    (\<forall>q \<in> set (contents w'). pe_key q = (''netcon'', name) \<longrightarrow> pe_deleting q)"
proof -
  obtain w' where del: "deleteProblemEnvironment k (pe_key cur) w = (None, w')"
    using delete_succeeds [OF assms(1,2)] by blast
  from delete_main [OF assms(1) del] obtain c now v where
    st: "ok w'" "c \<in> set (contents w)" "pe_key c = pe_key cur"
    "contents w' = commit (mark_deleted now v c) (contents w)" by blast
  obtain d where "om_DeletionTimestamp (pe_ObjectMeta (mark_deleted now v c)) = Some d"
    using mark_deleted_simps(7) [of now v c] by (auto simp del: mark_deleted_simps(7))
  then have "pe_deleting q" if "q \<in> set (contents w')" "pe_key q = pe_key (mark_deleted now v c)" for q
    using that unfolding st(4) commit_def store_put_def store_drop_def
    by (auto split: if_splits)
  moreover have "ReleaseProblemEnvironment k name w = (None, w')"
    using stored_get [OF assms(1,2)] del assms(3) by (simp add: ReleaseProblemEnvironment_def)
  ultimately show ?thesis
    using st(1,3) assms(3) by auto
qed

end

section \<open>Properties\<close>

text \<open>
  C19. Acquisition: a successful \<^verbatim>\<open>AcquireProblemEnvironment\<close> turned a stored environment of the
  problem that was ready and not assigned into an assigned one and changed nothing else of it;
  the answer holds its name, its password, the user \<^verbatim>\<open>nc_<name>\<close> and the address of its
  worker. This holds with stale reads: the update is refused unless what was read is still stored.
\<close>

theorem AcquireProblemEnvironment_assigns:
  assumes "versioned_reads k contents ok" "ok w"
    and "AcquireProblemEnvironment k now name w = (Inr acc, w')"
  shows "\<exists>cur \<in> set (contents w). \<exists>new \<in> set (contents w'). \<exists>wk. pe_key new = pe_key cur \<and>
    map_get (om_Labels (pe_ObjectMeta cur)) ''problemName'' = Some name \<and>
    ph_ready (phase_of cur) = ConditionTrue \<and> ph_assigned (phase_of cur) = ConditionFalse \<and>
    phase_of new = (phase_of cur)\<lparr>ph_assigned := ConditionTrue\<rparr> \<and>
    getWorker k w' (pe_WorkerName new) = Inr wk \<and> acc = getProblemEnvironmentFor new wk"
  by (rule versioned_reads.Acquire_assigns [OF assms])

definition sample_gateway_world :: kmem where
  "sample_gateway_world = (sample_world [sample_deployed ConditionTrue ConditionFalse])\<lparr>km_problems :=
     [\<lparr>pr_ObjectMeta = ObjectMeta0\<lparr>om_Name := ''abc'', om_Namespace := ''netcon''\<rparr>,
       pr_Spec = \<lparr>prs_Template = None, prs_AssignableReplicas = 1\<rparr>,
       pr_Replicas = \<lparr>rep_Total = 0, rep_Scheduled = 0, rep_Assignable = 0, rep_Assigned = 0\<rparr>\<rparr>]\<rparr>"

lemma sample_gateway_ok: "mem_ok sample_gateway_world"
  by (simp add: sample_gateway_world_def mem_ok_def sample_defs)

lemma sample_acquire:
  "\<exists>w'. AcquireProblemEnvironment mem_client 7 ''abc'' sample_gateway_world =
     (Inr \<lparr>ac_Name = ''abc-1'', ac_Host = '''', ac_Port = 0, ac_User = ''nc_abc-1'',
       ac_Password = replicate 24 CHR ''A''\<rparr>, w') \<and>
     map (\<lambda>pe. GetProblemEnvironmentCondition pe ProblemEnvironmentConditionAssigned) (km_pes w') = [ConditionTrue]"
  by (simp add: AcquireProblemEnvironment_def mem_client_def sample_gateway_world_def sample_defs
      lookup_obj_def matches_options_def map_get_def GetProblemEnvironmentCondition_def Let_def
      SetProblemEnvironmentCondition_def mem_update_status_def mem_write_def store_find_def
      with_status_def omit_empty_def commit_def store_put_def gw_worker_def getProblemEnvironmentFor_def
      condition_type_defs)

theorem AcquireProblemEnvironment_assigns_witness:
  "\<exists>w' acc. AcquireProblemEnvironment mem_client 7 ''abc'' sample_gateway_world = (Inr acc, w') \<and>
     (\<exists>new \<in> set (km_pes w'). ph_assigned (phase_of new) = ConditionTrue \<and> ac_Name acc = pe_Name new)"
proof -
  obtain w' acc where acq: "AcquireProblemEnvironment mem_client 7 ''abc'' sample_gateway_world = (Inr acc, w')"
    using sample_acquire by blast
  from AcquireProblemEnvironment_assigns [OF mem_versioned sample_gateway_ok acq] obtain cur new wk where
    "new \<in> set (km_pes w')" "acc = getProblemEnvironmentFor new wk"
    and ph: "phase_of new = (phase_of cur)\<lparr>ph_assigned := ConditionTrue\<rparr>"
    by blast
  moreover have "ph_assigned (phase_of new) = ConditionTrue"
    unfolding ph by simp
  ultimately show ?thesis
    using acq by (intro exI [of _ w'] exI [of _ acc] conjI bexI [of _ new])
      (simp_all add: getProblemEnvironmentFor_def del: phase_of_simps)
qed

text \<open>
  C20. No double assignment: two successful acquisitions, the second of them possibly deciding on
  stale reads, hand out two different environments, whatever protocol steps other components
  take in between, as long as the first environment is not unassigned by an operator.
\<close>

theorem Acquire_no_double_assignment:
  assumes "versioned_reads k contents ok" "ok w"
    and "AcquireProblemEnvironment k t1 name1 w = (Inr acc1, w1)"
    and "ok w2"
    and "\<forall>a \<in> set (contents w1). \<forall>b \<in> set (contents w2). pe_key a = pe_key b \<longrightarrow>
      ph_assigned (phase_of a) = ConditionTrue \<longrightarrow> ph_assigned (phase_of b) = ConditionTrue"
    and "AcquireProblemEnvironment k t2 name2 w2 = (Inr acc2, w3)"
  shows "\<exists>pe1 \<in> set (contents w1). \<exists>pe2 \<in> set (contents w3). \<exists>wk1 wk2. pe_key pe1 \<noteq> pe_key pe2 \<and>
    acc1 = getProblemEnvironmentFor pe1 wk1 \<and> acc2 = getProblemEnvironmentFor pe2 wk2"
proof -
  obtain cur1 new1 wk1 where a: "new1 \<in> set (contents w1)" "acc1 = getProblemEnvironmentFor new1 wk1"
    and ph: "phase_of new1 = (phase_of cur1)\<lparr>ph_assigned := ConditionTrue\<rparr>"
    using versioned_reads.Acquire_assigns [OF assms(1-3)] by blast
  obtain cur2 new2 wk2 where b: "cur2 \<in> set (contents w2)" "new2 \<in> set (contents w3)"
    "pe_key new2 = pe_key cur2" "ph_assigned (phase_of cur2) = ConditionFalse"
    "acc2 = getProblemEnvironmentFor new2 wk2"
    using versioned_reads.Acquire_assigns [OF assms(1,4,6)] by blast
  have "ph_assigned (phase_of new1) = ConditionTrue"
    unfolding ph by simp
  then have "pe_key new1 \<noteq> pe_key new2"
    using assms(5) a(1) b(1,3,4) by (metis ConditionStatus.distinct(1))
  then show ?thesis
    using a b by blast
qed

definition sample_two_world :: kmem where
  "sample_two_world = sample_gateway_world\<lparr>km_pes :=
     [sample_deployed ConditionTrue ConditionFalse,
      (sample_deployed ConditionTrue ConditionFalse)\<lparr>pe_ObjectMeta :=
        (pe_ObjectMeta (sample_deployed ConditionTrue ConditionFalse))\<lparr>om_Name := ''abc-2''\<rparr>\<rparr>]\<rparr>"

lemmas sample_acquire_simps = AcquireProblemEnvironment_def mem_client_def sample_two_world_def
  sample_gateway_world_def sample_defs lookup_obj_def matches_options_def map_get_def
  GetProblemEnvironmentCondition_def SetProblemEnvironmentCondition_def mem_update_status_def
  mem_write_def store_find_def with_status_def omit_empty_def commit_def store_put_def gw_worker_def
  condition_type_defs

lemma sample_acquire_two:
  "\<exists>a1 a2 w1 w2. AcquireProblemEnvironment mem_client 7 ''abc'' sample_two_world = (Inr a1, w1) \<and>
     AcquireProblemEnvironment mem_client 8 ''abc'' w1 = (Inr a2, w2)"
  by (simp add: sample_acquire_simps Let_def)

theorem Acquire_no_double_assignment_witness:
  "\<exists>w1 w2 pe1 pe2. pe1 \<in> set (km_pes w1) \<and> pe2 \<in> set (km_pes w2) \<and> pe_key pe1 \<noteq> pe_key pe2 \<and>
     (\<exists>wk1. AcquireProblemEnvironment mem_client 7 ''abc'' sample_two_world =
        (Inr (getProblemEnvironmentFor pe1 wk1), w1)) \<and>
     (\<exists>wk2. AcquireProblemEnvironment mem_client 8 ''abc'' w1 = (Inr (getProblemEnvironmentFor pe2 wk2), w2))"
proof -
  obtain a1 a2 w1 w2 where acq: "AcquireProblemEnvironment mem_client 7 ''abc'' sample_two_world = (Inr a1, w1)"
    "AcquireProblemEnvironment mem_client 8 ''abc'' w1 = (Inr a2, w2)"
    using sample_acquire_two by blast
  have ok: "mem_ok sample_two_world"
    by (simp add: sample_two_world_def sample_gateway_world_def mem_ok_def sample_defs)
  then have ok1: "mem_ok w1"
    using mem.Acquire_refines [OF _ acq(1)] by blast
  have "\<forall>a \<in> set (km_pes w1). \<forall>b \<in> set (km_pes w1). pe_key a = pe_key b \<longrightarrow>
      ph_assigned (phase_of a) = ConditionTrue \<longrightarrow> ph_assigned (phase_of b) = ConditionTrue"
    using distinct_keysD [OF mem.distinct_keys [OF ok1]] by blast
  from Acquire_no_double_assignment [OF mem_versioned ok acq(1) ok1 this acq(2)]
  obtain pe1 pe2 wk1 wk2 where "pe1 \<in> set (km_pes w1)" "pe2 \<in> set (km_pes w2)" "pe_key pe1 \<noteq> pe_key pe2"
    "a1 = getProblemEnvironmentFor pe1 wk1" "a2 = getProblemEnvironmentFor pe2 wk2"
    by blast
  then show ?thesis
    using acq by blast
qed

text \<open>
  Availability: with consistent reads, \<^verbatim>\<open>AcquireProblemEnvironment\<close> of an existing problem
  answers that no environment is available exactly when no stored environment of the problem is
  ready and not assigned.
\<close>

theorem Acquire_unavailable_iff:
  assumes "consistent_reads k contents ok" "ok w" "getProblem k w (''netcon'', name) = Inr p"
  shows "fst (AcquireProblemEnvironment k now name w) = Inl (ErrNoAvailableProblemEnvironment name) \<longleftrightarrow>
    \<not> (\<exists>pe \<in> set (contents w). map_get (om_Labels (pe_ObjectMeta pe)) ''problemName'' = Some name \<and>
         ph_ready (phase_of pe) = ConditionTrue \<and> ph_assigned (phase_of pe) = ConditionFalse)"
  by (rule Acquire_none_iff [OF assms])

theorem Acquire_unavailable_iff_witness:
  "fst (AcquireProblemEnvironment mem_client 7 ''abc'' (sample_gateway_world\<lparr>km_pes := []\<rparr>)) =
     Inl (ErrNoAvailableProblemEnvironment ''abc'')"
proof -
  let ?w = "sample_gateway_world\<lparr>km_pes := []\<rparr>"
  have "mem_ok ?w"
    by (simp add: mem_ok_def)
  moreover have "\<exists>p. getProblem mem_client ?w (''netcon'', ''abc'') = Inr p"
    by (simp add: mem_client_def lookup_obj_def sample_gateway_world_def ObjectMeta0_def)
  ultimately show ?thesis
    using Acquire_unavailable_iff [OF mem.consistent_reads_axioms, of ?w "''abc''" _ 7] by auto
qed

text \<open>
  Release: with a reliable server, releasing a stored environment succeeds and leaves none of
  that name that is not being deleted.
\<close>

theorem ReleaseProblemEnvironment_releases:
  assumes "reliable_api k contents ok" "ok w" "cur \<in> set (contents w)" "pe_key cur = (''netcon'', name)"
  shows "\<exists>w'. ReleaseProblemEnvironment k name w = (None, w') \<and> ok w' \<and>
    (\<forall>q \<in> set (contents w'). pe_key q = (''netcon'', name) \<longrightarrow> pe_deleting q)"
  by (rule reliable_api.Release_releases [OF assms])

theorem ReleaseProblemEnvironment_releases_witness:
  "\<exists>w'. ReleaseProblemEnvironment mem_client ''abc-1'' sample_gateway_world = (None, w') \<and>
     (\<forall>q \<in> set (km_pes w'). pe_key q = (''netcon'', ''abc-1'') \<longrightarrow> pe_deleting q)"
  using ReleaseProblemEnvironment_releases [OF mem_reliable sample_gateway_ok,
      of "sample_deployed ConditionTrue ConditionFalse" "''abc-1''"]
  by (auto simp: sample_gateway_world_def sample_defs)

section \<open>Routing\<close>

text \<open>
  What chi documents of its patterns: a pattern without parameters matches itself only; a pattern
  that ends in a parameter matches what follows its prefix, up to the next slash and not empty.
  A request goes to the route of its method whose pattern matches, if there is just one; if there
  is none, the router answers itself. The heartbeat answers with 200 on its own path, in upper or
  lower case.
\<close>

definition ascii_lower :: "char \<Rightarrow> char" where
  "ascii_lower c = (let n = of_char c :: nat in if 65 \<le> n \<and> n \<le> 90 then char_of (n + 32) else c)"

definition is_heartbeat :: "'h chi_router \<Rightarrow> string \<Rightarrow> bool" where
  "is_heartbeat r path \<longleftrightarrow>
     list_ex (\<lambda>mw. case mw of Heartbeat e \<Rightarrow> map ascii_lower path = map ascii_lower e | _ \<Rightarrow> False) (cr_middlewares r)"

definition param_matches :: "string \<Rightarrow> string \<Rightarrow> string \<Rightarrow> bool" where
  "param_matches prefix path v \<longleftrightarrow> path = prefix @ v \<and> v \<noteq> [] \<and> CHR ''/'' \<notin> set v"

locale router =
  fixes chi :: "'h chi" and match :: "string \<Rightarrow> string \<Rightarrow> (string \<rightharpoonup> string) option"
  assumes match_static: "CHR ''{'' \<notin> set pat \<Longrightarrow> match pat path = (if path = pat then Some Map.empty else None)"
    and match_param: "CHR ''{'' \<notin> set prefix \<Longrightarrow> param_matches prefix path v \<Longrightarrow>
      match (prefix @ ''{name}'') path = Some [''name'' \<mapsto> v]"
    and match_param_none: "CHR ''{'' \<notin> set prefix \<Longrightarrow> \<forall>v. \<not> param_matches prefix path v \<Longrightarrow>
      match (prefix @ ''{name}'') path = None"
    and dispatch: "(m, pat, h) \<in> set (cr_routes r) \<Longrightarrow> match pat path = Some ps \<Longrightarrow>
      \<forall>(m', pat', h') \<in> set (cr_routes r). m' = m \<longrightarrow> match pat' path \<noteq> None \<longrightarrow> h' = h \<and> pat' = pat \<Longrightarrow>
      \<not> is_heartbeat r path \<Longrightarrow> chi r m path = Inr (h, ps)"
    and no_route: "\<forall>(m', pat, h) \<in> set (cr_routes r). m' = m \<longrightarrow> match pat path = None \<Longrightarrow>
      \<not> is_heartbeat r path \<Longrightarrow> \<exists>s \<in> {404, 405}. chi r m path = Inl s"
    and heartbeat: "is_heartbeat r path \<Longrightarrow> chi r ''GET'' path = Inl 200"
begin

lemma match_name:
  "match ''/problem/{name}'' path = Some [''name'' \<mapsto> v] \<and> match ''/problem'' path = None"
  if "param_matches ''/problem/'' path v"
  using match_param [of "''/problem/''", OF _ that] match_static [of "''/problem''" path] that
  by (auto simp: param_matches_def)

lemma match_none:
  "match ''/problem/{name}'' path = None" if "\<forall>v. \<not> param_matches ''/problem/'' path v"
  using match_param_none [of "''/problem/''", OF _ that] by simp

lemma match_problem:
  "match ''/problem'' path = (if path = ''/problem'' then Some Map.empty else None)"
  "match ''/problem/{name}'' ''/problem'' = None"
  using match_static [of "''/problem''" path] match_none [of "''/problem''"] by (simp_all add: param_matches_def)

end

text \<open>No route of the gateway hides behind the heartbeat.\<close>

lemma not_heartbeat:
  "param_matches ''/problem/'' path v \<Longrightarrow> \<not> is_heartbeat gw_router path"
  "\<not> is_heartbeat gw_router ''/problem''"
  by (auto simp: is_heartbeat_def gw_router_def param_matches_def ascii_lower_def Let_def)

text \<open>The routes of the gateway, for a router with these laws.\<close>

lemma gw_routes_dispatch:
  assumes "router chi match"
  shows "param_matches ''/problem/'' path v \<Longrightarrow> chi gw_router ''GET'' path = Inr (HandleGet, [''name'' \<mapsto> v])"
    and "param_matches ''/problem/'' path v \<Longrightarrow> chi gw_router ''DELETE'' path = Inr (HandleRelease, [''name'' \<mapsto> v])"
    and "chi gw_router ''POST'' ''/problem'' = Inr (HandleAcquire, Map.empty)"
    and "\<not> (m \<in> {''GET'', ''DELETE''} \<and> (\<exists>v. param_matches ''/problem/'' path v)) \<Longrightarrow>
      \<not> (m = ''POST'' \<and> path = ''/problem'') \<Longrightarrow> \<not> is_heartbeat gw_router path \<Longrightarrow> \<exists>s \<in> {404, 405}. chi gw_router m path = Inl s"
proof -
  note d = router.dispatch [OF assms, of _ _ _ gw_router] and n = router.match_name [OF assms]
    and q = router.match_problem [OF assms] and z = router.match_none [OF assms]
  show "chi gw_router ''GET'' path = Inr (HandleGet, [''name'' \<mapsto> v])" if "param_matches ''/problem/'' path v"
    by (rule d [of _ "''/problem/{name}''"]) (use n [OF that] not_heartbeat(1) [OF that] in \<open>auto simp: gw_router_def\<close>)
  show "chi gw_router ''DELETE'' path = Inr (HandleRelease, [''name'' \<mapsto> v])" if "param_matches ''/problem/'' path v"
    by (rule d [of _ "''/problem/{name}''"]) (use n [OF that] not_heartbeat(1) [OF that] in \<open>auto simp: gw_router_def\<close>)
  show "chi gw_router ''POST'' ''/problem'' = Inr (HandleAcquire, Map.empty)"
    by (rule d [of _ "''/problem''"]) (use q not_heartbeat(2) in \<open>auto simp: gw_router_def\<close>)
  show "\<exists>s \<in> {404, 405}. chi gw_router m path = Inl s"
    if "\<not> (m \<in> {''GET'', ''DELETE''} \<and> (\<exists>v. param_matches ''/problem/'' path v))"
      "\<not> (m = ''POST'' \<and> path = ''/problem'')" "\<not> is_heartbeat gw_router path"
    by (rule router.no_route [OF assms]) (use that q z in \<open>auto simp: gw_router_def\<close>)
qed

lemma handler_statuses:
  "rs_Status (fst (AcquireProblemEnvironmentHandler txt bind enc k now body w)) =
     (case bind body of
        Inl _ \<Rightarrow> 400
      | Inr name \<Rightarrow>
          (case fst (AcquireProblemEnvironment k now name w) of
             Inl (ErrProblemNotFound _) \<Rightarrow> 404
           | Inl (ErrNoAvailableProblemEnvironment _) \<Rightarrow> 503
           | Inl _ \<Rightarrow> 500
           | Inr a \<Rightarrow> (case enc a of Inl _ \<Rightarrow> 500 | Inr _ \<Rightarrow> 200))) \<and>
   snd (AcquireProblemEnvironmentHandler txt bind enc k now body w) =
     (case bind body of Inl _ \<Rightarrow> w | Inr name \<Rightarrow> snd (AcquireProblemEnvironment k now name w)) \<and>
   rs_Status (GetProblemEnvironmentController txt enc k name w) =
     (case GetProblemEnvironment k name w of
        Inl (ErrProblemEnvironmentNotFound _) \<Rightarrow> 404
      | Inl _ \<Rightarrow> 500
      | Inr a \<Rightarrow> (case enc a of Inl _ \<Rightarrow> 500 | Inr _ \<Rightarrow> 200)) \<and>
   rs_Status (fst (ReleaseProblemEnvironmentHandler txt k name w)) =
     (case fst (ReleaseProblemEnvironment k name w) of
        Some (ErrProblemEnvironmentNotFound _) \<Rightarrow> 404
      | Some _ \<Rightarrow> 500
      | None \<Rightarrow> 200)"
  by (simp add: AcquireProblemEnvironmentHandler_def GetProblemEnvironmentController_def
      ReleaseProblemEnvironmentHandler_def render_access_def renderJSON_def just_status_def with_body_def
      AsErrProblemNotFound_def AsErrNoAvailableProblemEnvironment_def AsErrWorkerNotFound_def
      AsErrProblemEnvironmentNotFound_def split: sum.splits prod.splits gw_error.splits option.splits)

lemma handler_worlds:
  "snd (ReleaseProblemEnvironmentHandler txt k name w) = snd (ReleaseProblemEnvironment k name w)"
  by (simp add: ReleaseProblemEnvironmentHandler_def split: prod.splits option.splits)

text \<open>A router with these laws.\<close>

definition match_pattern :: "string \<Rightarrow> string \<Rightarrow> (string \<rightharpoonup> string) option" where
  "match_pattern pat path =
     (let prefix = takeWhile (\<lambda>c. c \<noteq> CHR ''{'') pat; v = drop (length prefix) path
      in if prefix = pat then (if path = pat then Some Map.empty else None)
         else if param_matches prefix path v then Some [''name'' \<mapsto> v] else None)"

definition serve_first :: "'h chi" where
  "serve_first r m path =
     (if is_heartbeat r path \<and> m = ''GET'' then Inl 200
      else case find (\<lambda>(m', pat, h). m' = m \<and> match_pattern pat path \<noteq> None) (cr_routes r) of
             Some (_, pat, h) \<Rightarrow> Inr (h, the (match_pattern pat path))
           | None \<Rightarrow> Inl 404)"

lemma match_pattern_param:
  assumes "CHR ''{'' \<notin> set prefix"
  shows "match_pattern (prefix @ ''{name}'') path =
    (if param_matches prefix path (drop (length prefix) path) then Some [''name'' \<mapsto> drop (length prefix) path] else None)"
proof -
  have "takeWhile (\<lambda>c. c \<noteq> CHR ''{'') (prefix @ ''{name}'') = prefix"
    using assms by (induction prefix) auto
  then show ?thesis
    by (simp add: match_pattern_def)
qed

lemma match_pattern_static:
  "CHR ''{'' \<notin> set pat \<Longrightarrow> match_pattern pat path = (if path = pat then Some Map.empty else None)"
proof -
  assume "CHR ''{'' \<notin> set pat"
  then have "takeWhile (\<lambda>c. c \<noteq> CHR ''{'') pat = pat"
    by (auto simp: takeWhile_eq_all_conv)
  then show ?thesis
    by (simp add: match_pattern_def)
qed

interpretation first_route: router serve_first match_pattern
proof unfold_locales
  fix m pat h path ps and r :: "'h chi_router"
  assume *: "(m, pat, h) \<in> set (cr_routes r)" "match_pattern pat path = Some ps" "\<not> is_heartbeat r path"
    "\<forall>(m', pat', h') \<in> set (cr_routes r). m' = m \<longrightarrow> match_pattern pat' path \<noteq> None \<longrightarrow> h' = h \<and> pat' = pat"
  let ?find = "find (\<lambda>(m', pat, h). m' = m \<and> match_pattern pat path \<noteq> None) (cr_routes r)"
  have "?find \<noteq> None"
    unfolding find_None_iff using *(1,2) by auto
  then obtain m' pat' h' where x: "?find = Some (m', pat', h')"
    by (metis not_None_eq prod_cases3)
  then have "(m', pat', h') \<in> set (cr_routes r)" "m' = m" "match_pattern pat' path \<noteq> None"
    by (auto simp: find_Some_iff in_set_conv_nth)
  with * x show "serve_first r m path = Inr (h, ps)"
    by (fastforce simp: serve_first_def)
next
  fix m path and r :: "'h chi_router"
  assume "\<forall>(m', pat, h) \<in> set (cr_routes r). m' = m \<longrightarrow> match_pattern pat path = None" "\<not> is_heartbeat r path"
  moreover from this(1) have "find (\<lambda>(m', pat, h). m' = m \<and> match_pattern pat path \<noteq> None) (cr_routes r) = None"
    unfolding find_None_iff by auto
  ultimately show "\<exists>s \<in> {404, 405}. serve_first r m path = Inl s"
    by (simp add: serve_first_def)
qed (auto simp: match_pattern_static match_pattern_param serve_first_def param_matches_def)

text \<open>
  C21. Every request. With a router that keeps what chi documents, a GET or DELETE of
  \<^verbatim>\<open>/problem/<name>\<close> reads or releases the environment of that name and a POST to
  \<^verbatim>\<open>/problem\<close> acquires one; every other request is answered with 404 or 405, the heartbeat with
  200, and changes nothing. An acquisition that does not decode is a 400 and changes nothing, an
  unknown problem a 404, an exhausted one a 503; reading or releasing an unknown environment is a
  404; any other failure is a 500 and a success a 200 (500 if it cannot be encoded).
\<close>

theorem gateway_statuses:
  assumes "router chi match"
  shows "(\<forall>path v. param_matches ''/problem/'' path v \<longrightarrow>
      rs_Status (fst (gw_serve chi txt bind enc k now \<lparr>rq_Method = ''GET'', rq_Path = path, rq_Body = body\<rparr> w)) =
        (case GetProblemEnvironment k v w of
           Inl (ErrProblemEnvironmentNotFound _) \<Rightarrow> 404
         | Inl _ \<Rightarrow> 500
         | Inr a \<Rightarrow> (case enc a of Inl _ \<Rightarrow> 500 | Inr _ \<Rightarrow> 200)) \<and>
      snd (gw_serve chi txt bind enc k now \<lparr>rq_Method = ''GET'', rq_Path = path, rq_Body = body\<rparr> w) = w \<and>
      rs_Status (fst (gw_serve chi txt bind enc k now \<lparr>rq_Method = ''DELETE'', rq_Path = path, rq_Body = body\<rparr> w)) =
        (case fst (ReleaseProblemEnvironment k v w) of
           Some (ErrProblemEnvironmentNotFound _) \<Rightarrow> 404
         | Some _ \<Rightarrow> 500
         | None \<Rightarrow> 200) \<and>
      snd (gw_serve chi txt bind enc k now \<lparr>rq_Method = ''DELETE'', rq_Path = path, rq_Body = body\<rparr> w) =
        snd (ReleaseProblemEnvironment k v w)) \<and>
    rs_Status (fst (gw_serve chi txt bind enc k now \<lparr>rq_Method = ''POST'', rq_Path = ''/problem'', rq_Body = body\<rparr> w)) =
      (case bind body of
         Inl _ \<Rightarrow> 400
       | Inr name \<Rightarrow>
           (case fst (AcquireProblemEnvironment k now name w) of
              Inl (ErrProblemNotFound _) \<Rightarrow> 404
            | Inl (ErrNoAvailableProblemEnvironment _) \<Rightarrow> 503
            | Inl _ \<Rightarrow> 500
            | Inr a \<Rightarrow> (case enc a of Inl _ \<Rightarrow> 500 | Inr _ \<Rightarrow> 200))) \<and>
    snd (gw_serve chi txt bind enc k now \<lparr>rq_Method = ''POST'', rq_Path = ''/problem'', rq_Body = body\<rparr> w) =
      (case bind body of Inl _ \<Rightarrow> w | Inr name \<Rightarrow> snd (AcquireProblemEnvironment k now name w)) \<and>
    (\<forall>m path. \<not> (m \<in> {''GET'', ''DELETE''} \<and> (\<exists>v. param_matches ''/problem/'' path v)) \<longrightarrow>
       \<not> (m = ''POST'' \<and> path = ''/problem'') \<longrightarrow> \<not> is_heartbeat gw_router path \<longrightarrow>
       (\<exists>s \<in> {404, 405}. gw_serve chi txt bind enc k now \<lparr>rq_Method = m, rq_Path = path, rq_Body = body\<rparr> w =
          (just_status s, w)))"
proof -
  note hs = gw_routes_dispatch [OF assms]
  have "gw_serve chi txt bind enc k now \<lparr>rq_Method = ''GET'', rq_Path = path, rq_Body = body\<rparr> w =
      (GetProblemEnvironmentController txt enc k v w, w)"
    "gw_serve chi txt bind enc k now \<lparr>rq_Method = ''DELETE'', rq_Path = path, rq_Body = body\<rparr> w =
      ReleaseProblemEnvironmentHandler txt k v w" if "param_matches ''/problem/'' path v" for path v
    by (simp_all add: gw_serve_def hs(1,2) [OF that] URLParam_def)
  moreover have "gw_serve chi txt bind enc k now \<lparr>rq_Method = ''POST'', rq_Path = ''/problem'', rq_Body = body\<rparr> w =
      AcquireProblemEnvironmentHandler txt bind enc k now body w"
    by (simp add: gw_serve_def hs(3))
  moreover have "\<exists>s \<in> {404, 405}. gw_serve chi txt bind enc k now \<lparr>rq_Method = m, rq_Path = path, rq_Body = body\<rparr> w =
      (just_status s, w)"
    if "\<not> (m \<in> {''GET'', ''DELETE''} \<and> (\<exists>v. param_matches ''/problem/'' path v))"
      "\<not> (m = ''POST'' \<and> path = ''/problem'')" "\<not> is_heartbeat gw_router path" for m path
    using hs(4) [OF that] by (auto simp: gw_serve_def)
  ultimately show ?thesis
    by (simp add: handler_statuses handler_worlds)
qed

theorem gateway_statuses_witness:
  "gw_serve serve_first (\<lambda>_. '''') (\<lambda>b. Inr b) (\<lambda>_. Inr ''{}'') mem_client 0
     \<lparr>rq_Method = ''PUT'', rq_Path = ''/problem'', rq_Body = ''''\<rparr> sample_gateway_world \<in>
     {(just_status 404, sample_gateway_world), (just_status 405, sample_gateway_world)}"
proof -
  have "\<not> is_heartbeat gw_router ''/problem''"
    by (rule not_heartbeat)
  then show ?thesis
    using gateway_statuses [OF first_route.router_axioms, of "\<lambda>_. ''''" "\<lambda>b. Inr b" "\<lambda>_. Inr ''{}''" mem_client 0 "''''"
        sample_gateway_world] by auto
qed

end
