(* ===== verification/Worker_Controller.thy ===== *)
theory Worker_Controller
  imports Samples
begin

text \<open>
  The worker monitor of the controller manager
  (\<^verbatim>\<open>controllers/controller-manager/worker_controller.go\<close>): a worker is ready while the
  lease nclet renews has not expired. \<open>clock i\<close> is the \<open>i\<close>-th reading of the clock; the
  \<open>n\<close>-th worker uses the readings \<open>2 * n\<close> (expiry) and \<open>2 * n + 1\<close> (transition time).
  The duration of the lease is an \<^verbatim>\<open>int32\<close> of seconds, multiplied as a 64-bit
  \<^verbatim>\<open>time.Duration\<close>.
\<close>

section \<open>The monitor\<close>

record 'w WorkerController =
  wc_Client :: "'w kube"
  wc_workerMonitorPeriod :: duration

definition NewWorkerController :: "'w kube \<Rightarrow> duration \<Rightarrow> 'w WorkerController" where
  "NewWorkerController c period = \<lparr>wc_Client = c, wc_workerMonitorPeriod = period\<rparr>"

text \<open>\<^verbatim>\<open>time.Duration(leaseDurationSeconds) * time.Second\<close> in 64 bits.\<close>

definition lease_duration :: "32 word \<Rightarrow> duration" where
  "lease_duration leaseDurationSeconds = sint ((scast leaseDurationSeconds :: 64 word) * 1000000000)"

definition lease_ready :: "time \<Rightarrow> Lease \<Rightarrow> bool" where
  "lease_ready now lease =
     (case le_RenewTime lease of
        None \<Rightarrow> False
      | Some renewTime \<Rightarrow>
          (let leaseDurationSeconds = (case le_LeaseDurationSeconds lease of None \<Rightarrow> 5 | Some s \<Rightarrow> s);
               expireTime = renewTime + lease_duration leaseDurationSeconds
           in expireTime > now))"

text \<open>One iteration of the loop: the errors it appends and the new world.\<close>

definition monitor_worker ::
    "'w WorkerController \<Rightarrow> time \<Rightarrow> time \<Rightarrow> Worker \<Rightarrow> 'w \<Rightarrow> error list \<times> 'w" where
  "monitor_worker wc t0 t1 worker w =
     (case getLease (wc_Client wc) w (''netcon'', wk_Name worker) of
        Inl e \<Rightarrow> ([e], w)
      | Inr lease \<Rightarrow>
          (let ready = lease_ready t0 lease;
               cur = GetWorkerCondition worker WorkerConditionReady;
               write = (\<lambda>worker w.
                 case updateStatusWorker (wc_Client wc) worker w of
                   (Inl e, w') \<Rightarrow> ([e], w')
                 | (Inr _, w') \<Rightarrow> ([], w'))
           in if cur = ConditionTrue \<and> \<not> ready
              then write
                     (SetWorkerCondition t1 worker WorkerConditionReady ConditionFalse
                        ''HealthCheckFail'' ''failed to check health'')
                     (recordEvent (wc_Client wc)
                        \<lparr>ev_Object = wk_Name worker, ev_Type = EventTypeNormal,
                         ev_Reason = WorkerEventNotReady, ev_Message = ''Worker went down''\<rparr> w)
              else if cur \<noteq> ConditionTrue \<and> ready
              then write
                     (SetWorkerCondition t1 worker WorkerConditionReady ConditionTrue
                        ''HealthCheck'' ''checked health'')
                     (recordEvent (wc_Client wc)
                        \<lparr>ev_Object = wk_Name worker, ev_Type = EventTypeNormal,
                         ev_Reason = WorkerEventReady, ev_Message = ''Worker is ready''\<rparr> w)
              else ([], w)))"

fun monitor_loop ::
    "'w WorkerController \<Rightarrow> (nat \<Rightarrow> time) \<Rightarrow> nat \<Rightarrow> error list \<Rightarrow> Worker list \<Rightarrow> 'w \<Rightarrow> error list \<times> 'w" where
  "monitor_loop wc clock i errList [] w = (errList, w)"
| "monitor_loop wc clock i errList (worker # workers) w =
     (case monitor_worker wc (clock (2 * i)) (clock (2 * i + 1)) worker w of
        (errs, w') \<Rightarrow> monitor_loop wc clock (i + 1) (errList @ errs) workers w')"

text \<open>The result is the list \<^verbatim>\<open>multierr.Combine\<close> combines; it is nil when the list is empty.\<close>

definition monitorWorkerHealth ::
    "'w WorkerController \<Rightarrow> (nat \<Rightarrow> time) \<Rightarrow> 'w \<Rightarrow> error list \<times> 'w" where
  "monitorWorkerHealth wc clock w =
     (case listWorker (wc_Client wc) w ListAll of
        Inl e \<Rightarrow> ([e], w)
      | Inr workers \<Rightarrow> monitor_loop wc clock 0 [] workers w)"

text \<open>
  \<^verbatim>\<open>Start\<close> over the events its \<^verbatim>\<open>select\<close> receives: a tick (with the clock of that round)
  runs the monitor, whose error is only logged; the end of the context returns nil. When the
  events end first the loop is still waiting.
\<close>

datatype monitor_event = Tick "nat \<Rightarrow> time" | ContextDone

fun wc_Start :: "'w WorkerController \<Rightarrow> monitor_event list \<Rightarrow> 'w \<Rightarrow> bool \<times> 'w" where
  "wc_Start wc [] w = (False, w)"
| "wc_Start wc (Tick clock # evs) w = wc_Start wc evs (snd (monitorWorkerHealth wc clock w))"
| "wc_Start wc (ContextDone # evs) w = (True, w)"

section \<open>The monitor leaves environments alone\<close>

context worker_writes
begin

lemma monitor_worker_frame:
  "ok w \<Longrightarrow> wc_Client wc = k \<Longrightarrow> monitor_worker wc t0 t1 worker w = (errs, w') \<Longrightarrow> ok w' \<and> contents w' = contents w"
  using worker_event_frame [of w] worker_status_frame
  by (auto simp: monitor_worker_def Let_def split: sum.splits if_splits prod.splits) metis+

lemma monitor_loop_frame:
  "ok w \<Longrightarrow> wc_Client wc = k \<Longrightarrow> monitor_loop wc clock i errs wks w = (res, w') \<Longrightarrow> ok w' \<and> contents w' = contents w"
proof (induction wks arbitrary: i errs w)
  case (Cons worker wks)
  obtain e w1 where m: "monitor_worker wc (clock (2 * i)) (clock (2 * i + 1)) worker w = (e, w1)"
    by fastforce
  with Cons.IH [of w1 "i + 1" "errs @ e"] monitor_worker_frame [OF Cons.prems(1,2) m] Cons.prems(2,3) show ?case
    by simp
qed simp

lemma monitor_frame:
  "ok w \<Longrightarrow> wc_Client wc = k \<Longrightarrow> monitorWorkerHealth wc clock w = (res, w') \<Longrightarrow> ok w' \<and> contents w' = contents w"
  using monitor_loop_frame by (auto simp: monitorWorkerHealth_def split: sum.splits)

end

section \<open>The lease\<close>

lemma lease_duration_exact: "lease_duration s = sint s * Second"
proof -
  have lo: "- (2 ^ 31) \<le> sint s" and hi: "sint s < 2 ^ 31"
    using sint_greater_eq [of s] sint_less [of s] by simp_all
  have "sint ((scast s :: 64 word) * 1000000000) = signed_take_bit 63 (sint s * 1000000000)"
    by (simp add: sint_word_ariths sint_up_scast is_up)
  also have "\<dots> = sint s * 1000000000"
    using lo hi by (intro signed_take_bit_int_eq_self) simp_all
  finally show ?thesis
    by (simp add: lease_duration_def)
qed

lemma lease_ready_iff:
  "lease_ready now lease \<longleftrightarrow>
     (\<exists>t. le_RenewTime lease = Some t \<and>
        now < t + sint (case le_LeaseDurationSeconds lease of None \<Rightarrow> 5 | Some s \<Rightarrow> s) * Second)"
  by (simp add: lease_ready_def lease_duration_exact Let_def split: option.splits)

section \<open>What the monitor achieves\<close>

text \<open>
  The contract of the server for Workers, their leases and events: a status update of a stored
  worker stores its conditions and changes no other worker and no lease.
\<close>

locale worker_api =
  fixes k :: "'w kube" and workers :: "'w \<Rightarrow> Worker list" and wok :: "'w \<Rightarrow> bool"
  assumes list_workers: "wok w \<Longrightarrow> listWorker k w ListAll = Inr (workers w)"
    and distinct_names: "wok w \<Longrightarrow> distinct (map wk_Name (workers w))"
    and write_status: "wok w \<Longrightarrow> wk_Name wk \<in> wk_Name ` set (workers w) \<Longrightarrow>
      \<exists>wk' w'. updateStatusWorker k wk w = (Inr wk', w') \<and> wok w' \<and>
        workers w' = put_obj (\<lambda>x. wk_Name x) wk' (workers w) \<and> wk_Name wk' = wk_Name wk \<and>
        wk_Conditions wk' = wk_Conditions wk \<and> getLease k w' = getLease k w"
    and worker_event: "wok w \<Longrightarrow> wok (recordEvent k ev w) \<and> workers (recordEvent k ev w) = workers w \<and>
      getLease k (recordEvent k ev w) = getLease k w"

lemma put_obj_others: "q \<in> set os \<Longrightarrow> key q \<noteq> key ob \<Longrightarrow> q \<in> set (put_obj key ob os)"
  by (auto simp: put_obj_def image_iff)

lemma put_obj_self: "q \<in> set os \<Longrightarrow> key q = key ob \<Longrightarrow> ob \<in> set (put_obj key ob os)"
  by (auto simp: put_obj_def image_iff)

context worker_api
begin

lemma monitor_worker_spec:
  assumes "wok w" "wc_Client wc = k" "wk \<in> set (workers w)"
    and "getLease k w (''netcon'', wk_Name wk) = Inr lease"
  shows "\<exists>w'. monitor_worker wc t0 t1 wk w = ([], w') \<and> wok w' \<and> getLease k w' = getLease k w \<and>
    (\<exists>wk' \<in> set (workers w'). wk_Name wk' = wk_Name wk \<and>
       (GetWorkerCondition wk' WorkerConditionReady = ConditionTrue) = lease_ready t0 lease) \<and>
    (\<forall>q \<in> set (workers w). wk_Name q \<noteq> wk_Name wk \<longrightarrow> q \<in> set (workers w'))"
proof -
  have written: "\<exists>w'. (case updateStatusWorker k (SetWorkerCondition t1 wk WorkerConditionReady s rs m)
        (recordEvent k ev w) of (Inl e, w') \<Rightarrow> ([e], w') | (Inr _, w') \<Rightarrow> ([], w')) = ([], w') \<and>
      wok w' \<and> getLease k w' = getLease k w \<and>
      (\<exists>wk' \<in> set (workers w'). wk_Name wk' = wk_Name wk \<and>
         (GetWorkerCondition wk' WorkerConditionReady = ConditionTrue) = (s = ConditionTrue)) \<and>
      (\<forall>q \<in> set (workers w). wk_Name q \<noteq> wk_Name wk \<longrightarrow> q \<in> set (workers w'))" for s rs m ev
  proof -
    let ?req = "SetWorkerCondition t1 wk WorkerConditionReady s rs m"
    note e = worker_event [OF assms(1), of ev]
    obtain wk' w' where up: "updateStatusWorker k ?req (recordEvent k ev w) = (Inr wk', w')" "wok w'"
      "workers w' = put_obj (\<lambda>x. wk_Name x) wk' (workers w)" "wk_Name wk' = wk_Name wk"
      "wk_Conditions wk' = wk_Conditions ?req" "getLease k w' = getLease k w"
      using write_status [of "recordEvent k ev w" ?req] e assms(3) by auto
    have "GetWorkerCondition wk' WorkerConditionReady = GetWorkerCondition ?req WorkerConditionReady"
      using up(5) by (simp add: GetWorkerCondition_def)
    then have s: "GetWorkerCondition wk' WorkerConditionReady = s" by simp
    have "wk' \<in> set (workers w')"
      unfolding up(3) by (rule put_obj_self [OF assms(3)]) (simp add: up(4))
    moreover have "q \<in> set (workers w')" if "q \<in> set (workers w)" "wk_Name q \<noteq> wk_Name wk" for q
      unfolding up(3) by (rule put_obj_others [OF that(1)]) (simp add: up(4) that(2))
    ultimately show ?thesis
      using up(1,2,4,6) s by (intro exI [of _ w']) auto
  qed
  let ?same = "(GetWorkerCondition wk WorkerConditionReady = ConditionTrue) = lease_ready t0 lease"
  consider "?same" | (down) "\<not> ?same" "\<not> lease_ready t0 lease" | (up) "\<not> ?same" "lease_ready t0 lease"
    by blast
  then show ?thesis
  proof cases
    case 1
    then have "monitor_worker wc t0 t1 wk w = ([], w)"
      using assms(2,4) by (auto simp: monitor_worker_def Let_def)
    then show ?thesis using 1 assms(1,3) by auto
  next
    case down
    then show ?thesis
      using assms(2,4) written [of ConditionFalse] by (simp add: monitor_worker_def Let_def)
  next
    case up
    then show ?thesis
      using assms(2,4) written [of ConditionTrue] by (simp add: monitor_worker_def Let_def)
  qed
qed

end

lemma monitor_loop_errs:
  "monitor_loop wc clock i errs wks w =
     (case monitor_loop wc clock i [] wks w of (es, w') \<Rightarrow> (errs @ es, w'))"
proof (induction wks arbitrary: i errs w)
  case (Cons wk wks)
  obtain es w1 where one: "monitor_worker wc (clock (2 * i)) (clock (2 * i + 1)) wk w = (es, w1)"
    by fastforce
  then show ?case
    using Cons.IH [of "i + 1" "errs @ es" w1] Cons.IH [of "i + 1" es w1]
    by (simp split: prod.splits)
qed simp

lemma monitor_loop_append:
  "monitor_loop wc clock i errs (xs @ ys) w =
     (case monitor_loop wc clock i errs xs w of
        (es, w') \<Rightarrow> monitor_loop wc clock (i + length xs) es ys w')"
  by (induction xs arbitrary: i errs w) (auto split: prod.splits)

context worker_api
begin

lemma monitor_worker_result:
  assumes "wok w" "wc_Client wc = k" "wk \<in> set (workers w)" "monitor_worker wc t0 t1 wk w = (es, w1)"
  shows "wok w1 \<and> getLease k w1 = getLease k w \<and>
    (\<forall>q \<in> set (workers w). wk_Name q \<noteq> wk_Name wk \<longrightarrow> q \<in> set (workers w1)) \<and>
    (\<forall>lease. getLease k w (''netcon'', wk_Name wk) = Inr lease \<longrightarrow>
       (\<exists>wk' \<in> set (workers w1). wk_Name wk' = wk_Name wk \<and>
          (GetWorkerCondition wk' WorkerConditionReady = ConditionTrue) = lease_ready t0 lease))"
proof (cases "getLease k w (''netcon'', wk_Name wk)")
  case (Inl e)
  then have "w1 = w"
    using assms(2,4) by (simp add: monitor_worker_def)
  then show ?thesis
    using Inl assms(1) by simp
next
  case (Inr lease)
  from monitor_worker_spec [OF assms(1-3) Inr, of t0 t1] show ?thesis
    unfolding assms(4) Inr by auto
qed

text \<open>The workers still to come are stored as they were listed.\<close>

lemma monitor_loop_spec:
  assumes "wok w" "wc_Client wc = k" "distinct (map wk_Name wks)" "set wks \<subseteq> set (workers w)"
    and "monitor_loop wc clock i errs wks w = (es, w')"
  shows "wok w' \<and> getLease k w' = getLease k w \<and>
    (\<forall>q \<in> set (workers w). wk_Name q \<notin> wk_Name ` set wks \<longrightarrow> q \<in> set (workers w')) \<and>
    (\<forall>n < length wks. \<forall>lease. getLease k w (''netcon'', wk_Name (wks ! n)) = Inr lease \<longrightarrow>
       (\<exists>wk' \<in> set (workers w'). wk_Name wk' = wk_Name (wks ! n) \<and>
          (GetWorkerCondition wk' WorkerConditionReady = ConditionTrue) =
            lease_ready (clock (2 * (i + n))) lease))"
  using assms
proof (induction wks arbitrary: i errs w)
  case Nil
  then show ?case by simp
next
  case (Cons wk wks)
  obtain e1 w1 where one: "monitor_worker wc (clock (2 * i)) (clock (2 * i + 1)) wk w = (e1, w1)"
    by fastforce
  then have rest: "monitor_loop wc clock (i + 1) (errs @ e1) wks w1 = (es, w')"
    using Cons.prems(5) by simp
  have wk: "wk \<in> set (workers w)" "wk_Name wk \<notin> wk_Name ` set wks"
    using Cons.prems(3,4) by auto
  have w1: "wok w1" "getLease k w1 = getLease k w"
    and others: "\<And>q. q \<in> set (workers w) \<Longrightarrow> wk_Name q \<noteq> wk_Name wk \<Longrightarrow> q \<in> set (workers w1)"
    and done_wk: "\<And>lease. getLease k w (''netcon'', wk_Name wk) = Inr lease \<Longrightarrow>
      \<exists>wk' \<in> set (workers w1). wk_Name wk' = wk_Name wk \<and>
        (GetWorkerCondition wk' WorkerConditionReady = ConditionTrue) = lease_ready (clock (2 * i)) lease"
    using monitor_worker_result [OF Cons.prems(1,2) wk(1) one] by blast+
  have "set wks \<subseteq> set (workers w1)"
  proof
    fix q assume q: "q \<in> set wks"
    have "wk_Name q \<in> wk_Name ` set wks" using q by (rule imageI)
    then have "wk_Name q \<noteq> wk_Name wk" using wk(2) by metis
    then show "q \<in> set (workers w1)" using others [of q] q Cons.prems(4) by auto
  qed
  note IH = Cons.IH [OF w1(1) Cons.prems(2) _ this rest]
  have kept: "q \<in> set (workers w')" if "q \<in> set (workers w1)" "wk_Name q \<notin> wk_Name ` set wks" for q
    using IH Cons.prems(3) that by simp
  show ?case
  proof (intro conjI ballI allI impI)
    fix n lease
    assume n: "n < length (wk # wks)" "getLease k w (''netcon'', wk_Name ((wk # wks) ! n)) = Inr lease"
    show "\<exists>wk' \<in> set (workers w'). wk_Name wk' = wk_Name ((wk # wks) ! n) \<and>
        (GetWorkerCondition wk' WorkerConditionReady = ConditionTrue) =
          lease_ready (clock (2 * (i + n))) lease"
    proof (cases n)
      case 0
      then show ?thesis
        using done_wk [of lease] n(2) kept wk(2) by auto
    next
      case (Suc m)
      then show ?thesis
        using IH Cons.prems(3) n w1(2) by simp
    qed
  qed (use IH Cons.prems(3) w1(2) others kept in auto)
qed

lemma monitorWorkerHealth_spec:
  assumes "wok w" "wc_Client wc = k" "monitorWorkerHealth wc clock w = (es, w')" "n < length (workers w)"
    and "getLease k w (''netcon'', wk_Name (workers w ! n)) = Inr lease"
  shows "\<exists>wk' \<in> set (workers w'). wk_Name wk' = wk_Name (workers w ! n) \<and>
    (GetWorkerCondition wk' WorkerConditionReady = ConditionTrue) = lease_ready (clock (2 * n)) lease"
proof -
  have "monitor_loop wc clock 0 [] (workers w) w = (es, w')"
    using assms(2,3) list_workers [OF assms(1)] by (simp add: monitorWorkerHealth_def)
  from monitor_loop_spec [OF assms(1,2) distinct_names [OF assms(1)] subset_refl this] show ?thesis
    using assms(4,5) by simp
qed

end

interpretation mem_workers: worker_api mem_client km_workers "\<lambda>w. distinct (map (\<lambda>x. wk_Name x) (km_workers w))"
proof (unfold_locales, goal_cases)
  case (3 w wk)
  have "map (\<lambda>x. wk_Name x) (put_obj (\<lambda>x. wk_Name x) wk os) = map (\<lambda>x. wk_Name x) os" for os
    by (induction os) (auto simp: put_obj_def)
  with 3 show ?case
    by (simp add: mem_client_def lookup_obj_def)
qed (auto simp: mem_client_def ListAll_def matches_options_def lookup_obj_def)

section \<open>Properties\<close>



end
