(* ===== verification/Kubectl.thy ===== *)
theory Kubectl
  imports Clientset Printers Deploy_Log Gateway Worker_Controller
begin

text \<open>
  The command line tool for operators (\<^verbatim>\<open>pkg/kubectl-netcon/cmd\<close>): the body of each command, on
  the typed clients. \<open>config\<close> is the result of \<^verbatim>\<open>ToRESTConfig\<close>, \<open>client\<close> is \<^verbatim>\<open>RESTClientFor\<close>,
  \<open>ns\<close> the configured namespace. A command returns its error,
  the lines it printed, and the world; the two that print tables may panic with the printer. The
  resource version of a list is not among what is printed, so it is 0 here.
\<close>

section \<open>Commands on environments\<close>

type_synonym 'w command = "(error option \<times> string list) \<times> 'w"

text \<open>A name in double quotes.\<close>

definition quoted :: "string \<Rightarrow> string" where
  "quoted name = CHR 0x22 # name @ [CHR 0x22]"

definition connect :: "rest_config or_error \<Rightarrow> (rest_config \<Rightarrow> 'w rest or_error) \<Rightarrow> 'w clientset or_error" where
  "connect config client = (case config of Inl e \<Rightarrow> Inl e | Inr c \<Rightarrow> NewForConfig client c)"

lemma connect_connects:
  "connects client r \<Longrightarrow> connect config client = (case config of Inl e \<Rightarrow> Inl e | Inr c \<Rightarrow> Inr \<lparr>cs_restClient = r\<rparr>)"
  by (simp add: connect_def NewForConfig_connects split: sum.split)

definition pe_list_cmd ::
    "(duration \<Rightarrow> string) \<Rightarrow> time \<Rightarrow> (Table \<Rightarrow> bool \<Rightarrow> string) \<Rightarrow> rest_config or_error \<Rightarrow> (rest_config \<Rightarrow> 'w rest or_error) \<Rightarrow> string \<Rightarrow> bool \<Rightarrow> 'w \<Rightarrow>
     'w command go" where
  "pe_list_cmd human now render config client ns verbose w =
     (case connect config client of
        Inl e \<Rightarrow> Ret ((Some e, []), w)
      | Inr cs \<Rightarrow>
          (case pec_List (cs_ProblemEnvironment cs ns) w of
             Inl e \<Rightarrow> Ret ((Some e, []), w)
           | Inr pes \<Rightarrow>
               (case PrintObject human now render (AProblemEnvironmentList 0 pes) verbose of
                  Panic m \<Rightarrow> Panic m
                | Ret (_, out) \<Rightarrow> Ret ((None, [out]), w))))"

definition pe_delete_cmd ::
    "rest_config or_error \<Rightarrow> (rest_config \<Rightarrow> 'w rest or_error) \<Rightarrow> string \<Rightarrow> bool \<Rightarrow> string \<Rightarrow> 'w \<Rightarrow> 'w command" where
  "pe_delete_cmd config client ns force name w =
     (case connect config client of
        Inl e \<Rightarrow> ((Some e, []), w)
      | Inr cs \<Rightarrow>
          (case pec_Get (cs_ProblemEnvironment cs ns) name w of
             Inl e \<Rightarrow> ((Some e, []), w)
           | Inr pe \<Rightarrow>
               if \<not> force \<and> GetProblemEnvironmentCondition pe ProblemEnvironmentConditionAssigned = ConditionTrue
               then ((Some (Errorf ''failed to delete: ProblemEnvironment is already assigned, please unassign before deleting''), []), w)
               else (case pec_Delete (cs_ProblemEnvironment cs ns) name w of
                       (Some e, w) \<Rightarrow> ((Some e, []), w)
                     | (None, w) \<Rightarrow> ((None, [''ProblemEnvironment '' @ quoted name @ '' deleted'']), w))))"

definition pe_assign_cmd ::
    "time \<Rightarrow> rest_config or_error \<Rightarrow> (rest_config \<Rightarrow> 'w rest or_error) \<Rightarrow> string \<Rightarrow> string \<Rightarrow> 'w \<Rightarrow> 'w command" where
  "pe_assign_cmd now config client ns name w =
     (case connect config client of
        Inl e \<Rightarrow> ((Some e, []), w)
      | Inr cs \<Rightarrow>
          (case pec_Get (cs_ProblemEnvironment cs ns) name w of
             Inl e \<Rightarrow> ((Some e, []), w)
           | Inr pe \<Rightarrow>
               if GetProblemEnvironmentCondition pe ProblemEnvironmentConditionReady \<noteq> ConditionTrue
               then ((Some (Errorf ''failed to update status: ProblemEnvironment is not ready''), []), w)
               else if GetProblemEnvironmentCondition pe ProblemEnvironmentConditionAssigned \<noteq> ConditionFalse
               then ((Some (Errorf ''failed to update status: ProblemEnvironment is already assigned''), []), w)
               else (let pe = SetProblemEnvironmentCondition now pe ProblemEnvironmentConditionAssigned ConditionTrue
                            ''AdminUpdated'' ''assigned by admin forcibly''
                     in case pec_UpdateStatus (cs_ProblemEnvironment cs ns) pe w of
                          (Inl e, w) \<Rightarrow> ((Some e, []), w)
                        | (Inr _, w) \<Rightarrow> ((None, [''ProblemEnvironment '' @ quoted name @ '' assigned'']), w))))"

definition pe_unassign_cmd ::
    "time \<Rightarrow> rest_config or_error \<Rightarrow> (rest_config \<Rightarrow> 'w rest or_error) \<Rightarrow> string \<Rightarrow> string \<Rightarrow> 'w \<Rightarrow> 'w command" where
  "pe_unassign_cmd now config client ns name w =
     (case connect config client of
        Inl e \<Rightarrow> ((Some e, []), w)
      | Inr cs \<Rightarrow>
          (case pec_Get (cs_ProblemEnvironment cs ns) name w of
             Inl e \<Rightarrow> ((Some e, []), w)
           | Inr pe \<Rightarrow>
               if GetProblemEnvironmentCondition pe ProblemEnvironmentConditionAssigned \<noteq> ConditionTrue
               then ((Some (Errorf ''failed to update status: ProblemEnvironment is not assigned''), []), w)
               else (let pe = SetProblemEnvironmentCondition now pe ProblemEnvironmentConditionAssigned ConditionFalse
                            ''AdminUpdated'' ''assigned by admin forcibly''
                     in case pec_UpdateStatus (cs_ProblemEnvironment cs ns) pe w of
                          (Inl e, w) \<Rightarrow> ((Some e, []), w)
                        | (Inr _, w) \<Rightarrow> ((None, [''ProblemEnvironment '' @ quoted name @ '' unassigned'']), w))))"

text \<open>
  \<^verbatim>\<open>show-deploy-log\<close>: \<open>kubernetes\<close> constructs the client for ConfigMaps, \<open>jst\<close> is the format of
  times in the time zone or the error of loading it.
\<close>

fun deploy_log_loop :: "log_codec \<Rightarrow> colors \<Rightarrow> PrettyDeployLogPrinter \<Rightarrow> string \<Rightarrow> ConfigMap list \<Rightarrow> error option \<times> string list" where
  "deploy_log_loop codec co printer peName [] = (None, [])"
| "deploy_log_loop codec co printer peName (configMap # cms) =
     (if \<not> has_prefix (''deploy-'' @ peName) (cm_Name configMap) then deploy_log_loop codec co printer peName cms
      else (case cm_Data configMap ''stderr'' of
              None \<Rightarrow> deploy_log_loop codec co printer peName cms
            | Some stderr \<Rightarrow>
                (case Parse codec stderr of
                   Inl e \<Rightarrow> (Some e, [])
                 | Inr dlog \<Rightarrow> (None, Print co printer dlog))))"

definition newConfigMapClientForConfig ::
    "(rest_config \<Rightarrow> 'w kube or_error) \<Rightarrow> rest_config \<Rightarrow> string \<Rightarrow> ('w kube \<times> string) or_error" where
  "newConfigMapClientForConfig kubernetes c namespace = (case kubernetes c of Inl e \<Rightarrow> Inl e | Inr k \<Rightarrow> Inr (k, namespace))"

definition newProblemEnvironmentClientForConfig ::
    "(rest_config \<Rightarrow> 'w rest or_error) \<Rightarrow> rest_config \<Rightarrow> string \<Rightarrow> 'w problemEnvironmentClient or_error" where
  "newProblemEnvironmentClientForConfig client c namespace =
     (case NewForConfig client c of Inl e \<Rightarrow> Inl e | Inr cs \<Rightarrow> Inr (cs_ProblemEnvironment cs namespace))"

definition pe_show_deploy_log_cmd ::
    "log_codec \<Rightarrow> colors \<Rightarrow> (time \<Rightarrow> string) or_error \<Rightarrow> (rest_config \<Rightarrow> 'w kube or_error) \<Rightarrow> rest_config or_error \<Rightarrow>
     (rest_config \<Rightarrow> 'w rest or_error) \<Rightarrow> string \<Rightarrow> bool \<Rightarrow> string \<Rightarrow> 'w \<Rightarrow> 'w command" where
  "pe_show_deploy_log_cmd codec co jst kubernetes config client ns verbose name w =
     (case config of
        Inl e \<Rightarrow> ((Some e, []), w)
      | Inr c \<Rightarrow>
     (case newConfigMapClientForConfig kubernetes c ns of
        Inl e \<Rightarrow> ((Some e, []), w)
      | Inr (k, cmNamespace) \<Rightarrow>
     (case newProblemEnvironmentClientForConfig client c ns of
        Inl e \<Rightarrow> ((Some e, []), w)
      | Inr peClient \<Rightarrow>
     (case jst of
        Inl e \<Rightarrow> ((Some e, []), w)
      | Inr fmt \<Rightarrow>
          (let printer = NewPrettyDeployLogPrinterWithLocation fmt;
               printer = (if verbose then SetLevel LogLevelDebug printer else printer)
           in case listConfigMap k w (in_namespace cmNamespace) of
                Inl e \<Rightarrow> ((Some e, []), w)
              | Inr cms \<Rightarrow>
                  (case pec_Get peClient name w of
                     Inl e \<Rightarrow> ((Some e, []), w)
                   | Inr pe \<Rightarrow> (deploy_log_loop codec co printer (pe_Name pe) cms, w)))))))"

text \<open>\<open>run\<close> is the error of running a command on the terminal.\<close>

definition pe_ssh_cmd ::
    "(string list \<Rightarrow> error option) \<Rightarrow> rest_config or_error \<Rightarrow> (rest_config \<Rightarrow> 'w rest or_error) \<Rightarrow> string \<Rightarrow> bool \<Rightarrow> string \<Rightarrow> 'w \<Rightarrow>
     (error option \<times> string list) \<times> string list option" where
  "pe_ssh_cmd run config client ns admin name w =
     (case connect config client of
        Inl e \<Rightarrow> ((Some e, []), None)
      | Inr cs \<Rightarrow>
          (case pec_Get (cs_ProblemEnvironment cs ns) name w of
             Inl e \<Rightarrow> ((Some e, []), None)
           | Inr pe \<Rightarrow>
               if pe_WorkerName pe = '''' then ((Some (Errorf ''ProblemEnvironment is not scheduled yet''), []), None)
               else (case wkc_Get (cs_Worker cs) (pe_WorkerName pe) w of
                       Inl e \<Rightarrow> ((Some e, []), None)
                     | Inr worker \<Rightarrow>
                         (let externalIP = wi_ExternalIPAddress (wk_WorkerInfo worker);
                              externalPort = wi_ExternalPort (wk_WorkerInfo worker)
                          in if externalIP = '''' \<or> externalPort = 0
                             then ((Some (Errorf ''Worker is not ready yet''), []), None)
                             else (let user = (if admin then ''ncadmin_'' @ pe_Name pe else ''nc_'' @ pe_Name pe);
                                       out = (if admin then [] else [''Password: '' @ pe_Password pe]);
                                       argv = [''ssh'', ''-p'', dec_nat (unat externalPort), user @ ''@'' @ externalIP]
                                   in ((run argv, out), Some argv))))))"

section \<open>Commands on workers\<close>

definition worker_list_cmd ::
    "(duration \<Rightarrow> string) \<Rightarrow> time \<Rightarrow> (Table \<Rightarrow> bool \<Rightarrow> string) \<Rightarrow> rest_config or_error \<Rightarrow> (rest_config \<Rightarrow> 'w rest or_error) \<Rightarrow> bool \<Rightarrow> 'w \<Rightarrow> 'w command go" where
  "worker_list_cmd human now render config client verbose w =
     (case connect config client of
        Inl e \<Rightarrow> Ret ((Some e, []), w)
      | Inr cs \<Rightarrow>
          (case wkc_List (cs_Worker cs) w of
             Inl e \<Rightarrow> Ret ((Some e, []), w)
           | Inr wks \<Rightarrow>
               (case PrintObject human now render (AWorkerList 0 wks) verbose of
                  Panic m \<Rightarrow> Panic m
                | Ret (_, out) \<Rightarrow> Ret ((None, [out]), w))))"

definition worker_enable_cmd :: "rest_config or_error \<Rightarrow> (rest_config \<Rightarrow> 'w rest or_error) \<Rightarrow> string \<Rightarrow> 'w \<Rightarrow> 'w command" where
  "worker_enable_cmd config client name w =
     (case connect config client of
        Inl e \<Rightarrow> ((Some e, []), w)
      | Inr cs \<Rightarrow>
          (case wkc_Get (cs_Worker cs) name w of
             Inl e \<Rightarrow> ((Some e, []), w)
           | Inr worker \<Rightarrow>
               if \<not> wk_DisableSchedule worker
               then ((Some (Errorf ''failed to enable Worker: Worker is already enabled''), []), w)
               else (case wkc_Update (cs_Worker cs) (worker\<lparr>wk_DisableSchedule := False\<rparr>) w of
                       (Inl e, w) \<Rightarrow> ((Some e, []), w)
                     | (Inr _, w) \<Rightarrow> ((None, [''Worker '' @ quoted name @ '' enabled'']), w))))"

definition worker_disable_cmd :: "rest_config or_error \<Rightarrow> (rest_config \<Rightarrow> 'w rest or_error) \<Rightarrow> string \<Rightarrow> 'w \<Rightarrow> 'w command" where
  "worker_disable_cmd config client name w =
     (case connect config client of
        Inl e \<Rightarrow> ((Some e, []), w)
      | Inr cs \<Rightarrow>
          (case wkc_Get (cs_Worker cs) name w of
             Inl e \<Rightarrow> ((Some e, []), w)
           | Inr worker \<Rightarrow>
               if wk_DisableSchedule worker
               then ((Some (Errorf ''failed to disable Worker: Worker is already disabled''), []), w)
               else (case wkc_Update (cs_Worker cs) (worker\<lparr>wk_DisableSchedule := True\<rparr>) w of
                       (Inl e, w) \<Rightarrow> ((Some e, []), w)
                     | (Inr _, w) \<Rightarrow> ((None, [''Worker '' @ quoted name @ '' disabled'']), w))))"

section \<open>Operators and the protocol\<close>

text \<open>The client of an operator: a REST client of the API whose reads are versions of its objects.\<close>

locale operator_api = rest_api r k + versioned_reads k contents ok
  for r :: "'w rest" and k :: "'w kube" and contents ok
begin

lemma set_assigned_refines:
  assumes "ok w" "getProblemEnvironment k w (ns, name) = Inr pe"
    and "pec_UpdateStatus (cs_ProblemEnvironment \<lparr>cs_restClient = r\<rparr> ns)
      (SetProblemEnvironmentCondition now pe ProblemEnvironmentConditionAssigned s rs m) w = (x, w')"
    and "lifecycle (phase_of pe) ((phase_of pe)\<lparr>ph_assigned := s\<rparr>)"
  shows "ok w' \<and> store_step protocol_step (contents w) (contents w')"
proof -
  have "pe_Namespace pe = ns"
    using get_key [OF assms(1,2)] by simp
  then have up: "updateStatusProblemEnvironment k
      (SetProblemEnvironmentCondition now pe ProblemEnvironmentConditionAssigned s rs m) w = (x, w')"
    using assms(3) by (simp add: pec_simps)
  show ?thesis
    by (rule update_status_current [OF assms(1) up get_current [OF assms(1,2)]])
      (simp_all add: phase_set_assigned assms(4))
qed

lemma pe_assign_refines:
  assumes "connects client r" "ok w" "pe_assign_cmd now config client ns name w = (res, w')"
  shows "ok w' \<and> store_step protocol_step (contents w) (contents w')"
proof -
  have "w' = w \<or> (\<exists>pe x. getProblemEnvironment k w (ns, name) = Inr pe \<and> ph_ready (phase_of pe) = ConditionTrue \<and> ph_assigned (phase_of pe) = ConditionFalse \<and>
      pec_UpdateStatus (cs_ProblemEnvironment \<lparr>cs_restClient = r\<rparr> ns)
        (SetProblemEnvironmentCondition now pe ProblemEnvironmentConditionAssigned ConditionTrue
          ''AdminUpdated'' ''assigned by admin forcibly'') w = (x, w'))"
    using assms(3)
    by (auto simp: pe_assign_cmd_def connect_connects [OF assms(1)] pec_simps Let_def
        split: option.splits sum.splits if_splits prod.splits)
  then show ?thesis
    using assms(2) set_assigned_refines [OF assms(2)] lifecycle.assign by auto
qed

lemma pe_unassign_refines:
  assumes "connects client r" "ok w" "pe_unassign_cmd now config client ns name w = (res, w')"
  shows "ok w' \<and> store_step protocol_step (contents w) (contents w')"
proof -
  have "w' = w \<or> (\<exists>pe x. getProblemEnvironment k w (ns, name) = Inr pe \<and> ph_assigned (phase_of pe) = ConditionTrue \<and>
      pec_UpdateStatus (cs_ProblemEnvironment \<lparr>cs_restClient = r\<rparr> ns)
        (SetProblemEnvironmentCondition now pe ProblemEnvironmentConditionAssigned ConditionFalse
          ''AdminUpdated'' ''assigned by admin forcibly'') w = (x, w'))"
    using assms(3)
    by (auto simp: pe_unassign_cmd_def connect_connects [OF assms(1)] pec_simps Let_def
        split: option.splits sum.splits if_splits prod.splits)
  then show ?thesis
    using assms(2) set_assigned_refines [OF assms(2)] lifecycle.unassign by auto
qed

lemma pe_delete_refines:
  assumes "connects client r" "ok w" "pe_delete_cmd config client ns force name w = (res, w')"
  shows "ok w' \<and> store_step protocol_step (contents w) (contents w')"
proof -
  have "w' = w \<or> (\<exists>x. deleteProblemEnvironment k (ns, name) w = (x, w'))"
    using assms(3)
    by (auto simp: pe_delete_cmd_def connect_connects [OF assms(1)] pec_simps
        split: option.splits sum.splits if_splits prod.splits)
  then show ?thesis
    using assms(2) delete_step [OF assms(2)] delete_refines by auto
qed

end

interpretation mem_operator: operator_api "rest_of mem_client" mem_client km_pes mem_ok
  by (intro operator_api.intro kube_rest.rest_api_axioms mem_versioned)

section \<open>Properties\<close>

text \<open>What operators need of workers: reads and updates of the stored ones.\<close>

locale worker_admin_api = rest_api r k + worker_api k workers wok
  for r :: "'w rest" and k :: "'w kube" and workers wok +
  assumes get_stored: "wok w \<Longrightarrow> getWorker k w n = Inr wk \<Longrightarrow> wk \<in> set (workers w) \<and> wk_Name wk = n"
    and update_stored: "wok w \<Longrightarrow> updateWorker k wk w = (Inr wk', w') \<Longrightarrow>
      wok w' \<and> wk_Name wk' = wk_Name wk \<and> wk_DisableSchedule wk' = wk_DisableSchedule wk \<and>
      workers w' = put_obj (\<lambda>x. wk_Name x) wk' (workers w)"
begin

lemma disable_stores:
  assumes "connects client r" "wok w" "worker_disable_cmd config client name w = ((None, out), w')"
  shows "wok w'" "wk \<in> set (workers w') \<Longrightarrow> wk_Name wk = name \<Longrightarrow> wk_DisableSchedule wk"
proof -
  obtain wk0 wk' where g: "getWorker k w name = Inr wk0"
    and u: "updateWorker k (wk0\<lparr>wk_DisableSchedule := True\<rparr>) w = (Inr wk', w')"
    using assms(3)
    by (auto simp: worker_disable_cmd_def connect_connects [OF assms(1)] wkc_simps
        split: option.splits sum.splits if_splits prod.splits)
  note st = update_stored [OF assms(2) u] get_stored [OF assms(2) g]
  then show "wok w'"
    by simp
  have "wk = wk'" if "wk \<in> set (put_obj (\<lambda>x. wk_Name x) wk' (workers w))" "wk_Name wk = wk_Name wk'"
    using that by (auto simp: put_obj_def split: if_splits)
  with st show "wk \<in> set (workers w') \<Longrightarrow> wk_Name wk = name \<Longrightarrow> wk_DisableSchedule wk"
    by simp
qed

end

interpretation mem_worker_admin: worker_admin_api "rest_of mem_client" mem_client km_workers
  "\<lambda>w. distinct (map (\<lambda>x. wk_Name x) (km_workers w))"
proof (unfold_locales, goal_cases)
  case (1 w n wk)
  then show ?case
    by (auto simp: mem_client_def lookup_obj_def find_Some_iff split: option.splits)
next
  case (2 w wk wk' w')
  have "map (\<lambda>x. wk_Name x) (put_obj (\<lambda>x. wk_Name x) wk os) = map (\<lambda>x. wk_Name x) os" for os
    by (induction os) (auto simp: put_obj_def)
  with 2 show ?case
    by (auto simp: mem_client_def)
qed

text \<open>
  C36. A disabled worker gets no new environments. Once \<^verbatim>\<open>worker disable\<close> has succeeded, an election
  among the stored workers -- whatever the selectors, the parameters and the drawn number -- never
  elects that worker.
\<close>

theorem disabled_worker_not_elected:
  assumes "worker_admin_api r k workers wok" "connects client r" "wok w"
    and "worker_disable_cmd config client name w = ((None, out), w')"
    and "name \<noteq> ''''"
  shows "electWorker F sel par u (workers w') selectors \<noteq> name"
proof
  assume "electWorker F sel par u (workers w') selectors = name"
  then obtain wk where "wk \<in> set (workers w')" "wk_Name wk = name" "\<not> wk_DisableSchedule wk"
    using electWorker_eligible [of F sel par u "workers w'" selectors] assms(5) by (auto simp: eligible_def)
  then show False
    using worker_admin_api.disable_stores(2) [OF assms(1-4)] by blast
qed

definition sample_config :: rest_config where
  "sample_config = \<lparr>rc_Host = ''127.0.0.1'', rc_GroupVersion = None, rc_APIPath = '''', rc_NegotiatedSerializer = '''', rc_UserAgent = ''''\<rparr>"

lemma sample_connects: "connects (\<lambda>_. Inr r) r"
  by (simp add: connects_def)

theorem disabled_worker_not_elected_witness:
  "\<exists>out w'. worker_disable_cmd (Inr sample_config) (\<lambda>_. Inr (rest_of mem_client)) ''worker1'' (sample_world []) = ((None, out), w') \<and>
     electWorker (real_float (\<lambda>_. Inr 10) (\<lambda>_. '''')) (\<lambda>_. Inr (\<lambda>_. True))
       \<lparr>CPUWeight = 1, MemoryWeight = 1, MemoryThreshold = 80, Temperature = 1\<rparr> (1 / 2) (km_workers w') [] \<noteq> ''worker1''"
proof -
  obtain out w' where d: "worker_disable_cmd (Inr sample_config) (\<lambda>_. Inr (rest_of mem_client)) ''worker1'' (sample_world []) = ((None, out), w')"
    by (simp add: worker_disable_cmd_def connect_connects [OF sample_connects] kube_rest.wkc_simps mem_client_def
        lookup_obj_def sample_defs)
  have "distinct (map (\<lambda>x. wk_Name x) (km_workers (sample_world [])))"
    by (simp add: sample_defs)
  from disabled_worker_not_elected [OF mem_worker_admin.worker_admin_api_axioms sample_connects this d, of "real_float (\<lambda>_. Inr 10) (\<lambda>_. '''')"]
  show ?thesis
    using d by auto
qed

text \<open>
  The log that is shown is chosen by a name prefix without a separator, so for \<open>abc-1\<close> it can be
  the log of \<open>abc-10\<close>.
\<close>

lemma deploy_log_of_other_environment:
  "deploy_log_loop codec co p ''abc-1''
     [\<lparr>cm_Namespace = ''netcon'', cm_Name = ''deploy-abc-10-1'', cm_Data = [''stderr'' \<mapsto> other], cm_OwnerReferences = []\<rparr>,
      \<lparr>cm_Namespace = ''netcon'', cm_Name = ''deploy-abc-1-1'', cm_Data = [''stderr'' \<mapsto> own], cm_OwnerReferences = []\<rparr>]
   = (None, Print co p \<lparr>dl_Record = parse_lines codec (split_on LF other)\<rparr>)"
  by (simp add: has_prefix_def Parse_def)

end
