(* ===== verification/Kubectl_Cli.thy ===== *)
theory Kubectl_Cli
  imports Kubectl
begin

text \<open>
  The command line of the operators' tool: the tree of commands that \<^verbatim>\<open>NewRootCmd\<close> builds
  (\<^verbatim>\<open>pkg/kubectl-netcon/cmd/root.go\<close>, \<^verbatim>\<open>problemenvironment.go\<close>, \<^verbatim>\<open>worker.go\<close>) and the
  program (\<^verbatim>\<open>cmd/kubectl-netcon/main.go\<close>). Command lines are parsed by cobra, a parameter; what
  the program relies on is \<open>cobra_contract\<close>. Help texts are left out.
\<close>

section \<open>The tree of commands\<close>

datatype args_check = ArbitraryArgs | ExactArgs nat

fun args_ok :: "args_check \<Rightarrow> string list \<Rightarrow> bool" where
  "args_ok ArbitraryArgs args = True"
| "args_ok (ExactArgs n) args = (length args = n)"

text \<open>The bodies of the runnable commands.\<close>

datatype action =
    PeList | PeDelete | PeAssign | PeUnassign | PeShowDeployLog | PeSSH
  | WorkerList | WorkerEnable | WorkerDisable

datatype cobra_command =
  Command (Use: string) (Aliases: "string list") (Args: args_check) (BoolFlags: "(string \<times> string) list")
    (RunE: "action option") (Commands: "cobra_command list")

definition newProblemEnvironmentListCmd :: cobra_command where
  "newProblemEnvironmentListCmd = Command ''list'' [] ArbitraryArgs [(''verbose'', ''v'')] (Some PeList) []"

definition newProblemEnvironmentDeleteCmd :: cobra_command where
  "newProblemEnvironmentDeleteCmd = Command ''delete'' [] (ExactArgs 1) [(''force'', ''f'')] (Some PeDelete) []"

definition newProblemEnvironmentAssignCmd :: cobra_command where
  "newProblemEnvironmentAssignCmd = Command ''assign'' [] (ExactArgs 1) [] (Some PeAssign) []"

definition newProblemEnvironmentUnassignCmd :: cobra_command where
  "newProblemEnvironmentUnassignCmd = Command ''unassign'' [] (ExactArgs 1) [] (Some PeUnassign) []"

definition newProblemEnvironmentShowDeployLogCmd :: cobra_command where
  "newProblemEnvironmentShowDeployLogCmd =
     Command ''show-deploy-log'' [] (ExactArgs 1) [(''verbose'', ''v'')] (Some PeShowDeployLog) []"

definition newProblemEnvironmentSSHCmd :: cobra_command where
  "newProblemEnvironmentSSHCmd = Command ''ssh'' [] (ExactArgs 1) [(''admin'', '''')] (Some PeSSH) []"

definition newProblemEnvironmentCmd :: cobra_command where
  "newProblemEnvironmentCmd =
     Command ''problem-environment'' [''pe'', ''probenv''] ArbitraryArgs [] None
       [newProblemEnvironmentListCmd, newProblemEnvironmentDeleteCmd, newProblemEnvironmentAssignCmd,
        newProblemEnvironmentUnassignCmd, newProblemEnvironmentShowDeployLogCmd, newProblemEnvironmentSSHCmd]"

definition newWorkerListCmd :: cobra_command where
  "newWorkerListCmd = Command ''list'' [] ArbitraryArgs [(''verbose'', ''v'')] (Some WorkerList) []"

definition newWorkerEnableCmd :: cobra_command where
  "newWorkerEnableCmd = Command ''enable'' [] (ExactArgs 1) [] (Some WorkerEnable) []"

definition newWorkerDisableCmd :: cobra_command where
  "newWorkerDisableCmd = Command ''disable'' [] (ExactArgs 1) [] (Some WorkerDisable) []"

definition newWorkerCmd :: cobra_command where
  "newWorkerCmd = Command ''worker'' [''w''] ArbitraryArgs [] None
     [newWorkerListCmd, newWorkerEnableCmd, newWorkerDisableCmd]"

definition NewRootCmd :: cobra_command where
  "NewRootCmd = Command '''' [] ArbitraryArgs [] None [newProblemEnvironmentCmd, newWorkerCmd]"

section \<open>Running a command\<close>

text \<open>
  The flags: without \<^verbatim>\<open>--namespace\<close> the namespace is the default that \<^verbatim>\<open>NewRootCmd\<close> sets.
\<close>

record kubectl_flags =
  kf_namespace :: "string option"
  kf_verbose :: bool
  kf_force :: bool
  kf_admin :: bool

definition kubectl_namespace :: "kubectl_flags \<Rightarrow> string" where
  "kubectl_namespace fl = (case kf_namespace fl of None \<Rightarrow> ''netcon'' | Some ns \<Rightarrow> ns)"

record 'w kubectl_env =
  ke_now :: time
  ke_human :: "duration \<Rightarrow> string"
  ke_render :: "Table \<Rightarrow> bool \<Rightarrow> string"
  ke_codec :: log_codec
  ke_colors :: colors
  ke_jst :: "(time \<Rightarrow> string) or_error"
  ke_kube :: "rest_config \<Rightarrow> 'w kube or_error"
  ke_ToRESTConfig :: "rest_config or_error"
  ke_client :: "rest_config \<Rightarrow> 'w rest or_error"
  ke_run :: "string list \<Rightarrow> error option"

text \<open>\<^verbatim>\<open>name := args[0]\<close>.\<close>

definition with_arg0 :: "string list \<Rightarrow> (string \<Rightarrow> 'a go) \<Rightarrow> 'a go" where
  "with_arg0 args f = (case args of [] \<Rightarrow> Panic ''index out of range'' | name # _ \<Rightarrow> f name)"

fun run_action :: "'w kubectl_env \<Rightarrow> kubectl_flags \<Rightarrow> action \<Rightarrow> string list \<Rightarrow> 'w \<Rightarrow> 'w command go" where
  "run_action env fl PeList args w =
     pe_list_cmd (ke_human env) (ke_now env) (ke_render env) (ke_ToRESTConfig env) (ke_client env)
       (kubectl_namespace fl) (kf_verbose fl) w"
| "run_action env fl PeDelete args w = with_arg0 args (\<lambda>name.
     Ret (pe_delete_cmd (ke_ToRESTConfig env) (ke_client env) (kubectl_namespace fl) (kf_force fl) name w))"
| "run_action env fl PeAssign args w = with_arg0 args (\<lambda>name.
     Ret (pe_assign_cmd (ke_now env) (ke_ToRESTConfig env) (ke_client env) (kubectl_namespace fl) name w))"
| "run_action env fl PeUnassign args w = with_arg0 args (\<lambda>name.
     Ret (pe_unassign_cmd (ke_now env) (ke_ToRESTConfig env) (ke_client env) (kubectl_namespace fl) name w))"
| "run_action env fl PeShowDeployLog args w = with_arg0 args (\<lambda>name.
     Ret (pe_show_deploy_log_cmd (ke_codec env) (ke_colors env) (ke_jst env) (ke_kube env) (ke_ToRESTConfig env)
            (ke_client env) (kubectl_namespace fl) (kf_verbose fl) name w))"
| "run_action env fl PeSSH args w = with_arg0 args (\<lambda>name.
     Ret (fst (pe_ssh_cmd (ke_run env) (ke_ToRESTConfig env) (ke_client env) (kubectl_namespace fl) (kf_admin fl) name w), w))"
| "run_action env fl WorkerList args w =
     worker_list_cmd (ke_human env) (ke_now env) (ke_render env) (ke_ToRESTConfig env) (ke_client env) (kf_verbose fl) w"
| "run_action env fl WorkerEnable args w = with_arg0 args (\<lambda>name.
     Ret (worker_enable_cmd (ke_ToRESTConfig env) (ke_client env) name w))"
| "run_action env fl WorkerDisable args w = with_arg0 args (\<lambda>name.
     Ret (worker_disable_cmd (ke_ToRESTConfig env) (ke_client env) name w))"

text \<open>
  \<^verbatim>\<open>Execute\<close>: cobra either fails, or has nothing to run (it prints a help text), or runs the body of a
  command with its arguments. The result of \<^verbatim>\<open>main\<close> is the exit code.
\<close>

type_synonym cobra = "cobra_command \<Rightarrow> string list \<Rightarrow> ((kubectl_flags \<times> action \<times> string list) option) or_error"

definition kubectl_main :: "cobra \<Rightarrow> 'w kubectl_env \<Rightarrow> string list \<Rightarrow> 'w \<Rightarrow> (int \<times> string list \<times> 'w) go" where
  "kubectl_main cobra env argv w =
     (case cobra NewRootCmd argv of
        Inl _ \<Rightarrow> Ret (1, [], w)
      | Inr None \<Rightarrow> Ret (0, [], w)
      | Inr (Some (fl, act, args)) \<Rightarrow>
          (case run_action env fl act args w of
             Panic m \<Rightarrow> Panic m
           | Ret ((err, out), w') \<Rightarrow> Ret (if err \<noteq> None then 1 else 0, out, w')))"

section \<open>What cobra promises\<close>

text \<open>The commands of a tree, and the names by which the children of a command are found.\<close>

fun subtree :: "cobra_command \<Rightarrow> cobra_command list" where
  "subtree (Command u al ar fl run cmds) = Command u al ar fl run cmds # concat (map subtree cmds)"

definition child_names :: "cobra_command \<Rightarrow> string list" where
  "child_names c = concat (map (\<lambda>d. Use d # Aliases d) (Commands c))"

text \<open>
  Cobra runs only bodies of commands of the tree, with arguments that passed the check of that
  command.
\<close>

definition cobra_contract :: "cobra \<Rightarrow> bool" where
  "cobra_contract cobra \<longleftrightarrow>
     (\<forall>cmd argv fl act args. cobra cmd argv = Inr (Some (fl, act, args)) \<longrightarrow>
        (\<exists>c \<in> set (subtree cmd). RunE c = Some act \<and> args_ok (Args c) args))"

lemmas command_defs = NewRootCmd_def newWorkerCmd_def newWorkerListCmd_def newWorkerEnableCmd_def
  newWorkerDisableCmd_def newProblemEnvironmentCmd_def newProblemEnvironmentListCmd_def
  newProblemEnvironmentDeleteCmd_def newProblemEnvironmentAssignCmd_def newProblemEnvironmentUnassignCmd_def
  newProblemEnvironmentShowDeployLogCmd_def newProblemEnvironmentSSHCmd_def

lemma tables_print:
  "\<exists>out. PrintObject human now render (AProblemEnvironmentList rv pes) wide = Ret (None, out)"
  "\<exists>out. PrintObject human now render (AWorkerList rv wks) wide = Ret (None, out)"
  by (simp_all add: PrintObject_def)

lemma list_cmds_return:
  "\<exists>r. pe_list_cmd human now render cfg client ns verbose w = Ret r"
  "\<exists>r. worker_list_cmd human now render cfg client verbose w = Ret r"
  using tables_print(1) [of human now render 0 _ verbose] tables_print(2) [of human now render 0 _ verbose]
  by (auto simp: pe_list_cmd_def worker_list_cmd_def split: sum.splits go.splits prod.splits) (metis go.distinct(1))+

text \<open>Only the two list commands take any number of arguments; the other bodies read the first one.\<close>

lemma run_action_returns:
  assumes "c \<in> set (subtree NewRootCmd)" "RunE c = Some act" "args_ok (Args c) args"
  shows "\<exists>r. run_action env fl act args w = Ret r"
proof -
  have "act \<in> {PeList, WorkerList} \<or> length args = 1"
    using assms by (auto simp: command_defs)
  then show ?thesis
    using list_cmds_return by (cases act; cases args) (auto simp: with_arg0_def)
qed

lemma kubectl_main_returns:
  assumes "cobra_contract cobra"
  shows "\<exists>code out w'. kubectl_main cobra env argv w = Ret (code, out, w') \<and> code \<in> {0, 1}"
proof (cases "cobra NewRootCmd argv")
  case (Inr x)
  then show ?thesis
  proof (cases x)
    case (Some y)
    obtain fl act args where y: "y = (fl, act, args)"
      by (cases y)
    with assms Inr Some obtain r where "run_action env fl act args w = Ret r"
      using run_action_returns unfolding cobra_contract_def by metis
    with Inr Some y show ?thesis
      by (cases r) (auto simp: kubectl_main_def)
  qed (simp add: kubectl_main_def)
qed (simp add: kubectl_main_def)

text \<open>The names and aliases of the commands of each level are distinct, so every command can be called.\<close>

lemma names_distinct: "\<forall>c \<in> set (subtree NewRootCmd). distinct (child_names c)"
  by (simp add: command_defs child_names_def)

section \<open>The program and the protocol\<close>

text \<open>The client of the tool: an operator's client that also writes Workers.\<close>

locale tool_api = operator_api r k contents ok + worker_writes k contents ok
  for r :: "'w rest" and k :: "'w kube" and contents ok
begin

lemma worker_cmds_frame:
  "connects client r \<Longrightarrow> ok w \<Longrightarrow> worker_enable_cmd config client name w = (res, w') \<Longrightarrow> ok w' \<and> contents w' = contents w"
  "connects client r \<Longrightarrow> ok w \<Longrightarrow> worker_disable_cmd config client name w = (res, w') \<Longrightarrow> ok w' \<and> contents w' = contents w"
  using update_worker_frame
  by (auto simp: worker_enable_cmd_def worker_disable_cmd_def connect_connects wkc_simps
      split: option.splits sum.splits if_splits prod.splits)

lemma reads_frame:
  "pe_list_cmd human now render config client ns verbose w = Ret (res, w') \<Longrightarrow> w' = w"
  "worker_list_cmd human now render config client verbose w = Ret (res, w') \<Longrightarrow> w' = w"
  "pe_show_deploy_log_cmd codec co jst kc config client ns verbose name w = (res, w') \<Longrightarrow> w' = w"
  by (auto simp: pe_list_cmd_def worker_list_cmd_def pe_show_deploy_log_cmd_def Let_def
      split: option.splits sum.splits go.splits prod.splits)

lemma run_action_refines:
  assumes "ok w" "connects (ke_client env) r" "run_action env fl act args w = Ret (res, w')"
  shows "ok w' \<and> store_step protocol_step (contents w) (contents w')"
proof (cases act)
  case PeDelete
  with assms obtain name where "pe_delete_cmd (ke_ToRESTConfig env) (ke_client env) (kubectl_namespace fl) (kf_force fl) name w = (res, w')"
    by (auto simp: with_arg0_def split: list.splits)
  then show ?thesis
    by (rule pe_delete_refines [OF assms(2,1)])
next
  case PeAssign
  with assms obtain name where "pe_assign_cmd (ke_now env) (ke_ToRESTConfig env) (ke_client env) (kubectl_namespace fl) name w = (res, w')"
    by (auto simp: with_arg0_def split: list.splits)
  then show ?thesis
    by (rule pe_assign_refines [OF assms(2,1)])
next
  case PeUnassign
  with assms obtain name where "pe_unassign_cmd (ke_now env) (ke_ToRESTConfig env) (ke_client env) (kubectl_namespace fl) name w = (res, w')"
    by (auto simp: with_arg0_def split: list.splits)
  then show ?thesis
    by (rule pe_unassign_refines [OF assms(2,1)])
qed (use assms in \<open>auto simp: with_arg0_def store_step_def split: list.splits dest: reads_frame worker_cmds_frame\<close>)

lemma kubectl_main_refines:
  assumes "ok w" "connects (ke_client env) r" "kubectl_main cobra env argv w = Ret (code, out, w')"
  shows "ok w' \<and> store_step protocol_step (contents w) (contents w')"
  using assms run_action_refines [OF assms(1,2)]
  by (auto simp: kubectl_main_def store_step_def split: sum.splits option.splits go.splits prod.splits)

end

interpretation mem_tool: tool_api "rest_of mem_client" mem_client km_pes mem_ok
  by (intro tool_api.intro mem_operator.operator_api_axioms mem_worker_writes.worker_writes_axioms)

section \<open>Properties\<close>

text \<open>
  C26. The operators' tool as a whole program. Whatever the command line, it does not crash: cobra
  hands every body the arguments it reads, and the program ends with exit code 0, or with 1 when
  the command line was wrong or the command failed. Whatever command ran, and however stale its
  reads, it made at most one step of the lifecycle protocol on one stored environment; \<^verbatim>\<open>delete\<close>
  of an environment that reads as assigned fails without \<^verbatim>\<open>--force\<close> and changes nothing.
\<close>

theorem kubectl_refines_lifecycle:
  assumes "cobra_contract cobra" "rest_api r k" "versioned_reads k contents ok" "worker_writes k contents ok" "ok w"
    and "connects (ke_client env) r"
  shows "\<exists>code out w'. kubectl_main cobra env argv w = Ret (code, out, w') \<and> code \<in> {0, 1} \<and>
    ok w' \<and> store_step protocol_step (contents w) (contents w') \<and>
    (\<forall>fl name pe. cobra NewRootCmd argv = Inr (Some (fl, PeDelete, [name])) \<longrightarrow> \<not> kf_force fl \<longrightarrow>
       getProblemEnvironment k w (kubectl_namespace fl, name) = Inr pe \<longrightarrow> ph_assigned (phase_of pe) = ConditionTrue \<longrightarrow>
       code = 1 \<and> w' = w)"
proof -
  have tool: "tool_api r k contents ok"
    using assms(2-4) by (intro tool_api.intro operator_api.intro)
  obtain code out w' where m: "kubectl_main cobra env argv w = Ret (code, out, w')" "code \<in> {0, 1}"
    using kubectl_main_returns [OF assms(1), of env argv w] by (elim exE conjE)
  moreover have "code = 1 \<and> w' = w"
    if "cobra NewRootCmd argv = Inr (Some (fl, PeDelete, [name]))" "\<not> kf_force fl"
      "getProblemEnvironment k w (kubectl_namespace fl, name) = Inr pe" "ph_assigned (phase_of pe) = ConditionTrue" for fl name pe
    using m(1) that rest_api.pec_simps(1) [OF assms(2)]
    by (auto simp: kubectl_main_def with_arg0_def pe_delete_cmd_def connect_connects [OF assms(6)] split: sum.splits)
  ultimately show ?thesis
    using tool_api.kubectl_main_refines [OF tool assms(5,6) m(1)] by blast
qed

text \<open>A cobra that finds commands by their names.\<close>

fun find_command :: "nat \<Rightarrow> cobra_command \<Rightarrow> string list \<Rightarrow> cobra_command \<times> string list" where
  "find_command 0 c args = (c, args)"
| "find_command (Suc n) c args =
     (case args of
        [] \<Rightarrow> (c, [])
      | a # as \<Rightarrow>
          (case find (\<lambda>d. a \<in> set (Use d # Aliases d)) (Commands c) of
             None \<Rightarrow> (c, args)
           | Some d \<Rightarrow> find_command n d as))"

definition simple_cobra :: cobra where
  "simple_cobra cmd argv =
     (case find_command 2 cmd argv of
        (c, args) \<Rightarrow>
          (case RunE c of
             None \<Rightarrow> Inr None
           | Some act \<Rightarrow>
               if args_ok (Args c) args
               then Inr (Some (\<lparr>kf_namespace = None, kf_verbose = False, kf_force = False, kf_admin = False\<rparr>, act, args))
               else Inl (Errorf ''wrong number of arguments'')))"

lemma find_command_subtree: "find_command n c args = (d, args') \<Longrightarrow> d \<in> set (subtree c)"
proof (induction n arbitrary: c args)
  case 0
  then show ?case
    by (cases c) auto
next
  case (Suc n)
  then show ?case
    by (cases c) (fastforce split: list.splits option.splits simp: find_Some_iff in_set_conv_nth)
qed

lemma simple_cobra_contract: "cobra_contract simple_cobra"
  using find_command_subtree
  by (fastforce simp: cobra_contract_def simple_cobra_def split: prod.splits option.splits if_splits)

definition sample_kubectl_env :: "kmem kubectl_env" where
  "sample_kubectl_env = \<lparr>ke_now = 0, ke_human = (\<lambda>_. ''''), ke_render = (\<lambda>_ _. ''''),
     ke_codec = \<lparr>lcd_logfmt = (\<lambda>_. Inl NotFound), lcd_time = (\<lambda>_. Inl NotFound)\<rparr>,
     ke_colors = \<lparr>co_timestamp = id, co_message = id, co_Blue = id, co_Green = id, co_Yellow = id, co_Red = id, co_HiRed = id\<rparr>,
     ke_jst = Inr (\<lambda>_. ''''),
     ke_kube = (\<lambda>_. Inr mem_client), ke_ToRESTConfig = Inr sample_config, ke_client = (\<lambda>_. Inr (rest_of mem_client)), ke_run = (\<lambda>_. None)\<rparr>"

theorem kubectl_refines_lifecycle_witness:
  "\<exists>code out w'. kubectl_main simple_cobra sample_kubectl_env [''pe'', ''assign'', ''abc-1''] sample_gateway_world = Ret (code, out, w') \<and>
     mem_ok w' \<and> store_step protocol_step (km_pes sample_gateway_world) (km_pes w')"
proof -
  have "connects (ke_client sample_kubectl_env) (rest_of mem_client)"
    by (simp add: sample_kubectl_env_def sample_connects)
  from kubectl_refines_lifecycle [OF simple_cobra_contract kube_rest.rest_api_axioms mem_versioned
      mem_worker_writes.worker_writes_axioms sample_gateway_ok this]
  show ?thesis
    by blast
qed

end
