(* ===== verification/Ssh_Wire.thy ===== *)
theory Ssh_Wire
  imports Prelude
begin

text \<open>
  The payloads of SSH channel requests (\<^verbatim>\<open>internal/ssh/util.go\<close>, \<^verbatim>\<open>internal/ssh/ssh.go\<close>): the
  parsers of \<^verbatim>\<open>pty-req\<close> and \<^verbatim>\<open>window-change\<close> with their 32-bit arithmetic, and the encoding
  of RFC 4251 they are compared with. A result \<open>None\<close> is \<^verbatim>\<open>ok == false\<close>.
\<close>

section \<open>Parsers\<close>

record Window =
  win_Width :: int
  win_Height :: int

record Pty =
  pty_Term :: string
  pty_Window :: Window

text \<open>\<^verbatim>\<open>binary.BigEndian.Uint32\<close> of the first four bytes.\<close>

definition be_nat :: "string \<Rightarrow> nat" where
  "be_nat b = foldl (\<lambda>a c. 256 * a + of_char c) 0 (take 4 b)"

definition Uint32 :: "string \<Rightarrow> 32 word" where
  "Uint32 b = word_of_nat (be_nat b)"

text \<open>
  \<^verbatim>\<open>parseString\<close> adds 4 to the announced length in 32 bits; a sum below 4 is a slice whose end
  is before its start.
\<close>

definition parseString :: "string \<Rightarrow> (string \<times> string) option go" where
  "parseString inp =
     (if length inp < 4 then Ret None
      else (let len = Uint32 inp
            in if (word_of_nat (length inp) :: 32 word) < 4 + len then Ret None
               else (let e = unat (4 + len)
                     in if e < 4 then Panic ''slice bounds out of range''
                        else Ret (Some (drop 4 (take e inp), drop e inp)))))"

definition parseUint32 :: "string \<Rightarrow> (32 word \<times> string) option" where
  "parseUint32 inp = (if length inp < 4 then None else Some (Uint32 inp, drop 4 inp))"

definition parsePtyRequest :: "string \<Rightarrow> Pty option go" where
  "parsePtyRequest s =
     (case parseString s of
        Panic m \<Rightarrow> Panic m
      | Ret None \<Rightarrow> Ret None
      | Ret (Some (trm, s)) \<Rightarrow>
          (case parseUint32 s of
             None \<Rightarrow> Ret None
           | Some (width32, s) \<Rightarrow>
               (case parseUint32 s of
                  None \<Rightarrow> Ret None
                | Some (height32, _) \<Rightarrow>
                    Ret (Some \<lparr>pty_Term = trm,
                      pty_Window = \<lparr>win_Width = uint width32, win_Height = uint height32\<rparr>\<rparr>))))"

text \<open>A failed \<^verbatim>\<open>parseUint32\<close> returns the number 0, which is refused as well.\<close>

definition parseWinchRequest :: "string \<Rightarrow> Window option" where
  "parseWinchRequest s =
     (case parseUint32 s of
        None \<Rightarrow> None
      | Some (width32, s) \<Rightarrow>
          if width32 < 1 then None
          else (case parseUint32 s of
                  None \<Rightarrow> None
                | Some (height32, _) \<Rightarrow>
                    if height32 < 1 then None
                    else Some \<lparr>win_Width = uint width32, win_Height = uint height32\<rparr>))"

section \<open>The encoding of RFC 4251\<close>

definition put_uint32 :: "nat \<Rightarrow> string" where
  "put_uint32 n = [char_of (n div 16777216), char_of (n div 65536), char_of (n div 256), char_of n]"

definition put_string :: "string \<Rightarrow> string" where
  "put_string s = put_uint32 (length s) @ s"

lemma length_put_uint32 [simp]: "length (put_uint32 n) = 4"
  by (simp add: put_uint32_def)

lemma be_nat_explicit:
  "be_nat (a # b # c # d # r) =
     16777216 * of_char a + 65536 * of_char b + 256 * of_char c + of_char d"
  by (simp add: be_nat_def)

lemma base256: "(n::nat) = 256 * (256 * (256 * (n div 16777216) + n div 65536 mod 256) + n div 256 mod 256) + n mod 256"
proof -
  have "n div 65536 = n div 256 div 256" "n div 16777216 = n div 256 div 256 div 256"
    by (simp_all flip: div_mult2_eq)
  then show ?thesis
    by (simp only: mult_div_mod_eq)
qed

lemma be_nat_put [simp]:
  assumes "n < 2 ^ 32"
  shows "be_nat (put_uint32 n @ r) = n"
proof -
  have "n div 16777216 < 256"
    using assms by (simp add: less_mult_imp_div_less)
  then have "be_nat (put_uint32 n @ r) =
      256 * (256 * (256 * (n div 16777216) + n div 65536 mod 256) + n div 256 mod 256) + n mod 256"
    by (simp add: put_uint32_def be_nat_def)
  then show ?thesis
    by (simp only: base256 [symmetric])
qed

lemma Uint32_put [simp]: "n < 2 ^ 32 \<Longrightarrow> Uint32 (put_uint32 n @ r) = word_of_nat n"
  by (simp add: Uint32_def)

lemma foldl_256: "foldl (\<lambda>a c. 256 * a + of_char c) x cs < (x + 1) * 256 ^ length cs" for x :: nat
proof (induction cs arbitrary: x)
  case (Cons c cs)
  have "256 * x + d + 1 \<le> 256 * (x + 1)" if "d < 256" for d :: nat
    using that by simp
  from this [OF nat_of_char_less_256, of c] have "(256 * x + of_char c + 1) * 256 ^ length cs \<le> (256 * (x + 1)) * 256 ^ length cs"
    by (rule mult_le_mono1)
  with Cons [of "256 * x + of_char c"]
  have "foldl (\<lambda>a c. 256 * a + of_char c) x (c # cs) < (256 * (x + 1)) * 256 ^ length cs"
    by (simp only: foldl_Cons)
  moreover have "(256 * (x + 1)) * 256 ^ length cs = (x + 1) * 256 ^ length (c # cs)"
    by (simp add: algebra_simps)
  ultimately show ?case
    by simp
qed simp

lemma be_nat_less: "be_nat b < 2 ^ 32"
proof -
  have "(256 :: nat) ^ length (take 4 b) \<le> 256 ^ 4"
    by (rule power_increasing) auto
  with foldl_256 [of 0 "take 4 b"] show ?thesis
    by (simp add: be_nat_def)
qed

lemma unat_Uint32 [simp]: "unat (Uint32 b) = be_nat b"
  using be_nat_less [of b] by (simp add: Uint32_def unat_of_nat take_bit_nat_eq_self)

lemma put_be_nat:
  assumes "4 \<le> length b"
  shows "put_uint32 (be_nat b) @ drop 4 b = b"
proof -
  obtain c0 c1 c2 c3 r where b: "b = c0 # c1 # c2 # c3 # r"
    using assms by (auto simp: numeral_eq_Suc Suc_le_length_iff)
  have "(256 * n + d) div 256 = n" "(256 * n + d) mod 256 = d" if "d < 256" for n d :: nat
    using that by simp_all
  note step = this [OF nat_of_char_less_256]
  have n: "be_nat b = 256 * (256 * (256 * of_char c0 + of_char c1) + of_char c2) + of_char c3"
    by (simp add: b be_nat_def)
  have d: "be_nat b div 65536 = be_nat b div 256 div 256" "be_nat b div 16777216 = be_nat b div 256 div 256 div 256"
    by (simp_all flip: div_mult2_eq)
  have "be_nat b mod 256 = of_char c3" "be_nat b div 256 mod 256 = of_char c2" 
    "be_nat b div 65536 mod 256 = of_char c1" "be_nat b div 16777216 = of_char c0"
    unfolding d unfolding n step by (simp_all only: step)
  then have "char_of (be_nat b div 16777216) = c0" "char_of (be_nat b div 65536) = c1"
    "char_of (be_nat b div 256) = c2" "char_of (be_nat b) = c3"
    by (metis char_of_char char_of_mod_256)+
  then show ?thesis
    by (simp add: put_uint32_def b)
qed

text \<open>\<open>parseString\<close>, by cases on the announced length.\<close>

lemma parseString_cases:
  assumes "length inp < 2 ^ 32"
  shows "parseString inp =
    (if length inp < 4 then Ret None
     else if 2 ^ 32 - 4 \<le> be_nat inp then Panic ''slice bounds out of range''
     else if length inp < 4 + be_nat inp then Ret None
     else Ret (Some (drop 4 (take (4 + be_nat inp) inp), drop (4 + be_nat inp) inp)))"
proof -
  have len: "unat (word_of_nat (length inp) :: 32 word) = length inp"
    using assms by (simp add: unat_of_nat take_bit_nat_eq_self)
  have sum: "unat (4 + Uint32 inp) = (4 + be_nat inp) mod 2 ^ 32"
    by (simp add: unat_word_ariths)
  have "unat (4 + Uint32 inp) = (if 2 ^ 32 - 4 \<le> be_nat inp then be_nat inp - (2 ^ 32 - 4) else 4 + be_nat inp)"
    using be_nat_less [of inp] unfolding sum by (auto simp: mod_if)
  then show ?thesis
    using be_nat_less [of inp] by (auto simp: parseString_def Let_def word_less_nat_alt len)
qed

lemma parseString_put:
  assumes "4 + length s + length rest < 2 ^ 32" "length s < 2 ^ 32 - 4"
  shows "parseString (put_string s @ rest) = Ret (Some (s, rest))"
proof -
  have "be_nat (put_string s @ rest) = length s"
    using assms by (simp add: put_string_def)
  then show ?thesis
    using assms by (simp add: parseString_cases put_string_def)
qed

lemma parseUint32_put [simp]:
  "n < 2 ^ 32 \<Longrightarrow> parseUint32 (put_uint32 n @ rest) = Some (word_of_nat n, rest)"
  by (simp add: parseUint32_def)

lemma uint_of_nat_small: "n < 2 ^ 32 \<Longrightarrow> uint (word_of_nat n :: 32 word) = int n"
  by transfer (simp add: take_bit_int_eq_self)

lemma put_string_split:
  assumes "4 \<le> length inp" "4 + be_nat inp \<le> length inp"
  shows "inp = put_string (drop 4 (take (4 + be_nat inp) inp)) @ drop (4 + be_nat inp) inp"
proof -
  have "length (drop 4 (take (4 + be_nat inp) inp)) = be_nat inp"
    using assms by simp
  moreover have "drop 4 (take (4 + be_nat inp) inp) @ drop (4 + be_nat inp) inp = drop 4 inp"
    by (simp add: drop_take add.commute [of 4] flip: drop_drop)
  ultimately show ?thesis
    using put_be_nat [OF assms(1)] by (simp add: put_string_def)
qed

lemma parsePtyRequest_put:
  assumes "4 + length trm + 8 + length modes < 2 ^ 32" "width < 2 ^ 32" "height < 2 ^ 32"
  shows "parsePtyRequest (put_string trm @ put_uint32 width @ put_uint32 height @ modes) =
    Ret (Some \<lparr>pty_Term = trm, pty_Window = \<lparr>win_Width = int width, win_Height = int height\<rparr>\<rparr>)"
proof -
  have "parseString (put_string trm @ put_uint32 width @ put_uint32 height @ modes) =
      Ret (Some (trm, put_uint32 width @ put_uint32 height @ modes))"
    using assms by (intro parseString_put) auto
  then show ?thesis
    using assms by (simp add: parsePtyRequest_def uint_of_nat_small)
qed

lemma parseWinchRequest_put:
  assumes "width < 2 ^ 32" "height < 2 ^ 32"
  shows "parseWinchRequest (put_uint32 width @ put_uint32 height @ rest) =
    (if width = 0 \<or> height = 0 then None else Some \<lparr>win_Width = int width, win_Height = int height\<rparr>)"
  using assms by (auto simp: parseWinchRequest_def uint_of_nat_small word_less_def)

section \<open>Properties\<close>

text \<open>
  C34. The string parser against the encoding of RFC 4251, for payloads shorter than 4 GiB. It
  returns exactly the string and the rest the payload encodes, it refuses a payload that is too
  short for the announced length, and it crashes exactly when the announced length is one of the
  four largest 32-bit numbers, where adding 4 wraps around.
\<close>

theorem parseString_exact:
  assumes "length inp < 2 ^ 32"
  shows "(parseString inp = Ret (Some (s, rest)) \<longleftrightarrow> inp = put_string s @ rest) \<and>
    (parseString inp = Panic ''slice bounds out of range'' \<longleftrightarrow> 4 \<le> length inp \<and> 2 ^ 32 - 4 \<le> be_nat inp)"
proof
  show "parseString inp = Ret (Some (s, rest)) \<longleftrightarrow> inp = put_string s @ rest"
  proof
    assume "parseString inp = Ret (Some (s, rest))"
    then show "inp = put_string s @ rest"
      using put_string_split [of inp]
      by (auto simp: parseString_cases [OF assms] not_less split: if_splits)
  next
    assume "inp = put_string s @ rest"
    then show "parseString inp = Ret (Some (s, rest))"
      using assms parseString_put [of s rest] by (simp add: put_string_def)
  qed
  show "parseString inp = Panic ''slice bounds out of range'' \<longleftrightarrow> 4 \<le> length inp \<and> 2 ^ 32 - 4 \<le> be_nat inp"
    by (simp add: parseString_cases [OF assms])
qed

theorem parseString_exact_witness:
  "parseString (put_string ''xterm'' @ ''ab'') = Ret (Some (''xterm'', ''ab'')) \<and>
   parseString (map char_of [255, 255, 255, 252 :: nat]) = Panic ''slice bounds out of range''"
proof
  have "length (put_string ''xterm'' @ ''ab'') < 2 ^ 32"
    by (simp add: put_string_def)
  from parseString_exact [OF this, of "''xterm''" "''ab''"]
  show "parseString (put_string ''xterm'' @ ''ab'') = Ret (Some (''xterm'', ''ab''))"
    by simp
  have "length (map char_of [255, 255, 255, 252 :: nat]) < 2 ^ 32"
    by simp
  from parseString_exact [OF this]
  show "parseString (map char_of [255, 255, 255, 252 :: nat]) = Panic ''slice bounds out of range''"
    by (simp add: be_nat_def)
qed

text \<open>
  The parsers of \<^verbatim>\<open>pty-req\<close> and \<^verbatim>\<open>window-change\<close> read back what a client encodes by
  RFC 4254: terminal name, width and height (the pixel sizes and terminal modes that follow are
  ignored); a window with a zero side is refused by the second only.
\<close>

theorem pty_requests_roundtrip:
  assumes "4 + length trm + 8 + length modes < 2 ^ 32" "width < 2 ^ 32" "height < 2 ^ 32"
  shows "parsePtyRequest (put_string trm @ put_uint32 width @ put_uint32 height @ modes) =
      Ret (Some \<lparr>pty_Term = trm, pty_Window = \<lparr>win_Width = int width, win_Height = int height\<rparr>\<rparr>)"
    and "parseWinchRequest (put_uint32 width @ put_uint32 height @ modes) =
      (if width = 0 \<or> height = 0 then None else Some \<lparr>win_Width = int width, win_Height = int height\<rparr>)"
  by (rule parsePtyRequest_put [OF assms], rule parseWinchRequest_put [OF assms(2,3)])

theorem pty_requests_roundtrip_witness:
  "parsePtyRequest (put_string ''vt100'' @ put_uint32 80 @ put_uint32 24 @ '''') =
     Ret (Some \<lparr>pty_Term = ''vt100'', pty_Window = \<lparr>win_Width = 80, win_Height = 24\<rparr>\<rparr>) \<and>
   parseWinchRequest (put_uint32 0 @ put_uint32 24 @ '''') = None"
  using pty_requests_roundtrip(1) [of "''vt100''" "''''" 80 24] pty_requests_roundtrip(2) [of "''''" "''''" 0 24]
  by simp

end
