(* ===== verification/Ssh_Server.thy ===== *)
theory Ssh_Server
  imports Prelude
begin

text \<open>
  The SSH server of nclet (\<^verbatim>\<open>internal/ssh\<close>: \<^verbatim>\<open>context.go\<close>, \<^verbatim>\<open>conn.go\<close>, \<^verbatim>\<open>server.go\<close>). A
  context holds the values of one connection; the server keeps its host keys and tracks its
  listeners and connections. The SSH protocol (\<^verbatim>\<open>golang.org/x/crypto/ssh\<close>) is not modelled:
  its handshake results, accepted connections and channels are arguments. Handlers are functions
  on a world \<open>'w\<close>; a map of handlers is a map, the sets of listeners and connections are lists
  without repetition in the order in which a loop visits them.
\<close>

section \<open>Connection contexts\<close>

datatype contextKey =
    ContextKeyUser
  | ContextKeySessionID
  | ContextKeyPermissions
  | ContextKeyClientVersion
  | ContextKeyServerVersion
  | ContextKeyLocalAddr
  | ContextKeyRemoteAddr
  | ContextKeyServer
  | ContextKeyConn
  | ContextKeyPublicKey

datatype ctx_value = CtxString string | CtxAddr string | CtxPermissions | CtxServer | CtxConn | CtxPublicKey string

type_synonym sshContext = "contextKey \<rightharpoonup> ctx_value"

record ConnMetadata =
  cn_User :: string
  cn_SessionID :: string
  cn_ClientVersion :: string
  cn_ServerVersion :: string
  cn_RemoteAddr :: string
  cn_LocalAddr :: string

definition SetValue :: "sshContext \<Rightarrow> contextKey \<Rightarrow> ctx_value \<Rightarrow> sshContext" where
  "SetValue ctx key v = ctx(key \<mapsto> v)"

text \<open>The underlying \<^verbatim>\<open>context.Context\<close> has no value under these keys.\<close>

definition Value :: "sshContext \<Rightarrow> contextKey \<Rightarrow> ctx_value option" where
  "Value ctx key = ctx key"

definition newContext :: sshContext where
  "newContext = SetValue (SetValue Map.empty ContextKeyServer CtxServer) ContextKeyPermissions CtxPermissions"

text \<open>\<open>hex\<close> is \<^verbatim>\<open>hex.EncodeToString\<close>.\<close>

definition hex_digit :: "nat \<Rightarrow> char" where
  "hex_digit n = ''0123456789abcdef'' ! n"

definition hex_EncodeToString :: "string \<Rightarrow> string" where
  "hex_EncodeToString s = concat (map (\<lambda>c. [hex_digit (of_char c div 16), hex_digit (of_char c mod 16)]) s)"

definition applyConnMetadata :: "sshContext \<Rightarrow> ConnMetadata \<Rightarrow> sshContext" where
  "applyConnMetadata ctx conn =
     (if Value ctx ContextKeySessionID \<noteq> None then ctx
      else (let ctx = SetValue ctx ContextKeySessionID (CtxString (hex_EncodeToString (cn_SessionID conn)));
                ctx = SetValue ctx ContextKeyClientVersion (CtxString (cn_ClientVersion conn));
                ctx = SetValue ctx ContextKeyServerVersion (CtxString (cn_ServerVersion conn));
                ctx = SetValue ctx ContextKeyUser (CtxString (cn_User conn));
                ctx = SetValue ctx ContextKeyLocalAddr (CtxAddr (cn_LocalAddr conn))
            in SetValue ctx ContextKeyRemoteAddr (CtxAddr (cn_RemoteAddr conn))))"

text \<open>The getters: a failed type assertion panics, except in \<^verbatim>\<open>RemoteAddr\<close>.\<close>

definition ctx_string :: "sshContext \<Rightarrow> contextKey \<Rightarrow> string go" where
  "ctx_string ctx key =
     (case Value ctx key of
        Some (CtxString s) \<Rightarrow> Ret s
      | _ \<Rightarrow> Panic ''interface conversion: interface is not string'')"

definition ctx_User :: "sshContext \<Rightarrow> string go" where
  "ctx_User ctx = ctx_string ctx ContextKeyUser"

definition ctx_SessionID :: "sshContext \<Rightarrow> string go" where
  "ctx_SessionID ctx = ctx_string ctx ContextKeySessionID"

definition ctx_ClientVersion :: "sshContext \<Rightarrow> string go" where
  "ctx_ClientVersion ctx = ctx_string ctx ContextKeyClientVersion"

definition ctx_ServerVersion :: "sshContext \<Rightarrow> string go" where
  "ctx_ServerVersion ctx = ctx_string ctx ContextKeyServerVersion"

definition ctx_RemoteAddr :: "sshContext \<Rightarrow> string option" where
  "ctx_RemoteAddr ctx = (case Value ctx ContextKeyRemoteAddr of Some (CtxAddr a) \<Rightarrow> Some a | _ \<Rightarrow> None)"

definition ctx_LocalAddr :: "sshContext \<Rightarrow> string go" where
  "ctx_LocalAddr ctx =
     (case Value ctx ContextKeyLocalAddr of
        Some (CtxAddr a) \<Rightarrow> Ret a
      | _ \<Rightarrow> Panic ''interface conversion: interface is not net.Addr'')"

section \<open>Deadlines\<close>

text \<open>
  \<^verbatim>\<open>serverConn\<close>: \<open>maxDeadline\<close> is \<open>None\<close> for the zero time, which also stands for no
  deadline. \<^verbatim>\<open>Unix()\<close> are whole seconds. Reads and writes move the deadline and, on a network
  error, cancel the context of the connection.
\<close>

record serverConn =
  sc_idleTimeout :: duration
  sc_maxDeadline :: "time option"
  sc_deadline :: "time option"
  sc_cancelled :: bool
  sc_closed :: bool

definition updateDeadline :: "time \<Rightarrow> serverConn \<Rightarrow> serverConn" where
  "updateDeadline now c =
     (let idleDeadline = now + sc_idleTimeout c
      in if 0 < sc_idleTimeout c \<and>
            (case sc_maxDeadline c of None \<Rightarrow> True | Some m \<Rightarrow> idleDeadline div Second < m div Second)
         then c\<lparr>sc_deadline := Some idleDeadline\<rparr>
         else c\<lparr>sc_deadline := sc_maxDeadline c\<rparr>)"

definition conn_io :: "time \<Rightarrow> bool \<Rightarrow> serverConn \<Rightarrow> serverConn" where
  "conn_io now isNetErr c =
     (let c = updateDeadline now c in if isNetErr then c\<lparr>sc_cancelled := True\<rparr> else c)"

definition conn_Close :: "serverConn \<Rightarrow> serverConn" where
  "conn_Close c = c\<lparr>sc_closed := True, sc_cancelled := True\<rparr>"

section \<open>The server\<close>

type_synonym 'w password_handler = "sshContext \<Rightarrow> string \<Rightarrow> 'w \<Rightarrow> (bool \<times> 'w) go"

text \<open>
  \<^verbatim>\<open>doneChan\<close> is \<open>None\<close> when nil, otherwise whether it is closed. The wait groups are
  their counters.
\<close>

record ('h, 'k, 'l, 'c, 'w) Server =
  sv_Addr :: string
  sv_Handler :: "'h option"
  sv_HostSigners :: "'k list"
  sv_PasswordHandler :: "'w password_handler option"
  sv_IdleTimeout :: duration
  sv_MaxTimeout :: duration
  sv_ChannelHandlers :: "(string \<rightharpoonup> 'h) option"
  sv_RequestHandlers :: "(string \<rightharpoonup> 'h) option"
  sv_SubsystemHandlers :: "(string \<rightharpoonup> 'h) option"
  sv_listenerWg :: int
  sv_listeners :: "'l list"
  sv_conns :: "'c list"
  sv_connWg :: int
  sv_doneChan :: "bool option"

definition ensureHostSigner ::
    "'k or_error \<Rightarrow> ('h, 'k, 'l, 'c, 'w) Server \<Rightarrow> error option \<times> ('h, 'k, 'l, 'c, 'w) Server" where
  "ensureHostSigner generated srv =
     (if sv_HostSigners srv = []
      then (case generated of
              Inl e \<Rightarrow> (Some e, srv)
            | Inr signer \<Rightarrow> (None, srv\<lparr>sv_HostSigners := sv_HostSigners srv @ [signer]\<rparr>))
      else (None, srv))"

text \<open>\<open>dsh\<close> is \<^verbatim>\<open>DefaultSessionHandler\<close>; the other default tables are empty.\<close>

definition ensureHandlers :: "'h \<Rightarrow> ('h, 'k, 'l, 'c, 'w) Server \<Rightarrow> ('h, 'k, 'l, 'c, 'w) Server" where
  "ensureHandlers dsh srv =
     srv\<lparr>sv_RequestHandlers := Some (case sv_RequestHandlers srv of None \<Rightarrow> Map.empty | Some hs \<Rightarrow> hs),
         sv_ChannelHandlers := Some (case sv_ChannelHandlers srv of None \<Rightarrow> [''session'' \<mapsto> dsh] | Some hs \<Rightarrow> hs),
         sv_SubsystemHandlers := Some (case sv_SubsystemHandlers srv of None \<Rightarrow> Map.empty | Some hs \<Rightarrow> hs)\<rparr>"

text \<open>
  The authentication part of \<^verbatim>\<open>config\<close>: the callback the protocol runs for a password, on the
  metadata of the connection as it is at that attempt; without a password handler every client is
  accepted.
\<close>

definition NoClientAuth :: "('h, 'k, 'l, 'c, 'w) Server \<Rightarrow> bool" where
  "NoClientAuth srv = (sv_PasswordHandler srv = None)"

definition PasswordCallback ::
    "'w password_handler \<Rightarrow> sshContext \<Rightarrow> ConnMetadata \<Rightarrow> string \<Rightarrow> 'w \<Rightarrow> (error option \<times> sshContext \<times> 'w) go" where
  "PasswordCallback handler ctx conn password w =
     (let ctx = applyConnMetadata ctx conn
      in case handler ctx password w of
           Panic m \<Rightarrow> Panic m
         | Ret (ok, w) \<Rightarrow> Ret (if ok then None else Some (Errorf ''permission denied''), ctx, w))"

definition BannerCallback :: "string \<Rightarrow> ConnMetadata \<Rightarrow> string" where
  "BannerCallback traceID conn =
     join [char_of (10::nat)] [''Session ID: '' @ hex_EncodeToString (cn_SessionID conn), ''Trace ID: '' @ traceID, '''']"

fun replace_signer :: "('k \<Rightarrow> string) \<Rightarrow> 'k \<Rightarrow> 'k list \<Rightarrow> 'k list" where
  "replace_signer ty key [] = [key]"
| "replace_signer ty key (k # ks) = (if ty k = ty key then key # ks else k # replace_signer ty key ks)"

definition AddHostKey :: "('k \<Rightarrow> string) \<Rightarrow> 'k \<Rightarrow> ('h, 'k, 'l, 'c, 'w) Server \<Rightarrow> ('h, 'k, 'l, 'c, 'w) Server" where
  "AddHostKey ty key srv = srv\<lparr>sv_HostSigners := replace_signer ty key (sv_HostSigners srv)\<rparr>"

definition getDoneChan :: "('h, 'k, 'l, 'c, 'w) Server \<Rightarrow> bool \<times> ('h, 'k, 'l, 'c, 'w) Server" where
  "getDoneChan srv =
     (case sv_doneChan srv of
        None \<Rightarrow> (False, srv\<lparr>sv_doneChan := Some False\<rparr>)
      | Some isClosed \<Rightarrow> (isClosed, srv))"

definition closeDoneChan :: "('h, 'k, 'l, 'c, 'w) Server \<Rightarrow> ('h, 'k, 'l, 'c, 'w) Server" where
  "closeDoneChan srv =
     (case getDoneChan srv of (isClosed, srv) \<Rightarrow> if isClosed then srv else srv\<lparr>sv_doneChan := Some True\<rparr>)"

text \<open>\<open>lclose\<close> gives the error of closing a listener.\<close>

fun first_error :: "('l \<Rightarrow> error option) \<Rightarrow> error option \<Rightarrow> 'l list \<Rightarrow> error option" where
  "first_error lclose err [] = err"
| "first_error lclose err (l # ls) =
     first_error lclose (case lclose l of Some e \<Rightarrow> if err = None then Some e else err | None \<Rightarrow> err) ls"

definition closeListeners ::
    "('l \<Rightarrow> error option) \<Rightarrow> ('h, 'k, 'l, 'c, 'w) Server \<Rightarrow> error option \<times> ('h, 'k, 'l, 'c, 'w) Server" where
  "closeListeners lclose srv = (first_error lclose None (sv_listeners srv), srv\<lparr>sv_listeners := []\<rparr>)"

definition trackListener :: "'l \<Rightarrow> bool \<Rightarrow> ('h, 'k, 'l, 'c, 'w) Server \<Rightarrow> ('h, 'k, 'l, 'c, 'w) Server" where
  "trackListener lis add srv =
     (if add
      then (let srv = (if sv_listeners srv = [] \<and> sv_conns srv = [] then srv\<lparr>sv_doneChan := None\<rparr> else srv)
            in srv\<lparr>sv_listeners := List.insert lis (sv_listeners srv), sv_listenerWg := sv_listenerWg srv + 1\<rparr>)
      else srv\<lparr>sv_listeners := removeAll lis (sv_listeners srv), sv_listenerWg := sv_listenerWg srv - 1\<rparr>)"

definition trackConn :: "'c \<Rightarrow> bool \<Rightarrow> ('h, 'k, 'l, 'c, 'w) Server \<Rightarrow> ('h, 'k, 'l, 'c, 'w) Server" where
  "trackConn c add srv =
     (if add then srv\<lparr>sv_conns := List.insert c (sv_conns srv), sv_connWg := sv_connWg srv + 1\<rparr>
      else srv\<lparr>sv_conns := removeAll c (sv_conns srv), sv_connWg := sv_connWg srv - 1\<rparr>)"

definition Server_Close ::
    "('l \<Rightarrow> error option) \<Rightarrow> ('h, 'k, 'l, 'c, 'w) Server \<Rightarrow> error option \<times> ('h, 'k, 'l, 'c, 'w) Server" where
  "Server_Close lclose srv =
     (case closeListeners lclose (closeDoneChan srv) of (err, srv) \<Rightarrow> (err, srv\<lparr>sv_conns := []\<rparr>))"

text \<open>
  \<^verbatim>\<open>Shutdown\<close> up to the wait, and what the wait returns: \<open>None\<close> while neither the context is
  done (\<open>Some\<close> its error) nor both wait groups are at zero.
\<close>

definition Shutdown_begin ::
    "('l \<Rightarrow> error option) \<Rightarrow> ('h, 'k, 'l, 'c, 'w) Server \<Rightarrow> error option \<times> ('h, 'k, 'l, 'c, 'w) Server" where
  "Shutdown_begin lclose srv =
     (case closeListeners lclose srv of (lnerr, srv) \<Rightarrow> (lnerr, closeDoneChan srv))"

definition Shutdown_finished :: "('h, 'k, 'l, 'c, 'w) Server \<Rightarrow> bool" where
  "Shutdown_finished srv \<longleftrightarrow> sv_listenerWg srv = 0 \<and> sv_connWg srv = 0"

definition Shutdown_wait ::
    "error option \<Rightarrow> error option \<Rightarrow> ('h, 'k, 'l, 'c, 'w) Server \<Rightarrow> error option option" where
  "Shutdown_wait ctxErr lnerr srv =
     (case ctxErr of
        Some e \<Rightarrow> Some (Some e)
      | None \<Rightarrow> if Shutdown_finished srv then Some lnerr else None)"

section \<open>Accepting and dispatching\<close>

abbreviation Millisecond :: duration where
  "Millisecond \<equiv> 1000000"

definition next_delay :: "duration \<Rightarrow> duration" where
  "next_delay tempDelay =
     (let d = (if tempDelay = 0 then 5 * Millisecond else tempDelay * 2)
      in if d > 1 * Second then 1 * Second else d)"

text \<open>What \<^verbatim>\<open>Accept\<close> returns, with whether the done channel is closed at that moment.\<close>

datatype 'c accept = Accepted 'c | AcceptError bool bool error \<comment> \<open>done, temporary, error\<close>

text \<open>
  The loop of \<^verbatim>\<open>Serve\<close> on the results of \<^verbatim>\<open>Accept\<close>: the connections it hands to
  \<^verbatim>\<open>HandleConn\<close>, the sleeps, and the error it returns (\<open>None\<close> while it still runs).
\<close>

definition ErrServerClosed :: error where
  "ErrServerClosed = Errorf ''ssh: Server closed''"

fun serve_loop :: "duration \<Rightarrow> 'c accept list \<Rightarrow> 'c list \<times> duration list \<times> error option" where
  "serve_loop tempDelay [] = ([], [], None)"
| "serve_loop tempDelay (Accepted c # as) =
     (case serve_loop tempDelay as of (cs, ds, r) \<Rightarrow> (c # cs, ds, r))"
| "serve_loop tempDelay (AcceptError done temporary e # as) =
     (if done then ([], [], Some ErrServerClosed)
      else if temporary then
        (let tempDelay = next_delay tempDelay
         in case serve_loop tempDelay as of (cs, ds, r) \<Rightarrow> (cs, tempDelay # ds, r))
      else ([], [], Some e))"

definition Serve ::
    "'h \<Rightarrow> 'k or_error \<Rightarrow> 'l \<Rightarrow> 'c accept list \<Rightarrow> ('h, 'k, 'l, 'c, 'w) Server \<Rightarrow>
     ('c list \<times> duration list \<times> error option) \<times> ('h, 'k, 'l, 'c, 'w) Server" where
  "Serve dsh generated l as srv =
     (let srv = ensureHandlers dsh srv
      in case ensureHostSigner generated srv of
           (Some e, srv) \<Rightarrow> (([], [], Some e), srv)
         | (None, srv) \<Rightarrow>
             if sv_Handler srv = None then (([], [], Some (Errorf ''ssh: server: no handler'')), srv)
             else (case serve_loop 0 as of
                     (cs, ds, None) \<Rightarrow> ((cs, ds, None), trackListener l True srv)
                   | (cs, ds, Some e) \<Rightarrow>
                       ((cs, ds, Some e), trackListener l False (trackListener l True srv))))"

definition ListenAndServe ::
    "(string \<Rightarrow> 'l or_error) \<Rightarrow> 'h \<Rightarrow> 'k or_error \<Rightarrow> 'c accept list \<Rightarrow> ('h, 'k, 'l, 'c, 'w) Server \<Rightarrow>
     ('c list \<times> duration list \<times> error option) \<times> ('h, 'k, 'l, 'c, 'w) Server" where
  "ListenAndServe listen dsh generated as srv =
     (let addr = (if sv_Addr srv = '''' then '':22'' else sv_Addr srv)
      in case listen addr of
           Inl e \<Rightarrow> (([], [], Some e), srv)
         | Inr lis \<Rightarrow> Serve dsh generated lis as srv)"

text \<open>The handler of a channel or request type, with the fallback.\<close>

definition dispatch :: "(string \<rightharpoonup> 'h) option \<Rightarrow> string \<Rightarrow> 'h option" where
  "dispatch hs ty =
     (case hs of
        None \<Rightarrow> None
      | Some hs \<Rightarrow> (case hs ty of Some h \<Rightarrow> Some h | None \<Rightarrow> hs ''default''))"

datatype 'h channel_action = StartHandler 'h string | RejectChannel string

fun handle_channels :: "(string \<rightharpoonup> 'h) option \<Rightarrow> string list \<Rightarrow> 'h channel_action list" where
  "handle_channels hs [] = []"
| "handle_channels hs (ty # tys) =
     (case dispatch hs ty of
        None \<Rightarrow> RejectChannel ty # handle_channels hs tys
      | Some h \<Rightarrow> StartHandler h ty # handle_channels hs tys)"

text \<open>Global requests: \<open>call\<close> runs a handler on a request; the replies in order.\<close>

fun server_handleRequests ::
    "('h \<Rightarrow> 'r \<Rightarrow> bool \<times> string) \<Rightarrow> ('r \<Rightarrow> string) \<Rightarrow> (string \<rightharpoonup> 'h) option \<Rightarrow> 'r list \<Rightarrow> (bool \<times> string) list" where
  "server_handleRequests call ty hs [] = []"
| "server_handleRequests call ty hs (req # reqs) =
     (case dispatch hs (ty req) of
        None \<Rightarrow> (False, '''')
      | Some h \<Rightarrow> call h req) # server_handleRequests call ty hs reqs"

text \<open>
  \<^verbatim>\<open>HandleConn\<close> on the result of the handshake: the connection record it starts with, the
  context and the channel actions of a connection that got through, and the server afterwards.
\<close>

definition new_serverConn :: "time \<Rightarrow> ('h, 'k, 'l, 'c, 'w) Server \<Rightarrow> serverConn" where
  "new_serverConn now srv =
     \<lparr>sc_idleTimeout = sv_IdleTimeout srv,
      sc_maxDeadline = (if 0 < sv_MaxTimeout srv then Some (now + sv_MaxTimeout srv) else None),
      sc_deadline = None, sc_cancelled = False, sc_closed = False\<rparr>"

definition HandleConn ::
    "time \<Rightarrow> (serverConn \<Rightarrow> (sshContext \<times> ConnMetadata \<times> 'c \<times> string list \<times> serverConn) or_error) \<Rightarrow>
     ('h, 'k, 'l, 'c, 'w) Server \<Rightarrow>
     (error + sshContext \<times> 'h channel_action list \<times> serverConn) \<times> ('h, 'k, 'l, 'c, 'w) Server" where
  "HandleConn now handshake srv =
     (case handshake (new_serverConn now srv) of
        Inl e \<Rightarrow> (Inl e, srv)
      | Inr (ctx, meta, c, chans, conn) \<Rightarrow>
          (let srv = trackConn c True srv;
               ctx = applyConnMetadata (SetValue ctx ContextKeyConn CtxConn) meta;
               acts = handle_channels (sv_ChannelHandlers srv) chans
           in (Inr (ctx, acts, conn_Close conn), trackConn c False srv)))"

section \<open>Keys, deadlines, the accept loop\<close>

text \<open>A server keeps one host key per key type; adding a key replaces the one of its type.\<close>

lemma replace_signer_types:
  "set (map ty (replace_signer ty key ks)) = insert (ty key) (set (map ty ks))"
  by (induction ks) auto

lemma replace_signer_distinct:
  "distinct (map ty ks) \<Longrightarrow> distinct (map ty (replace_signer ty key ks))"
proof (induction ks)
  case (Cons k ks)
  then show ?case
    using replace_signer_types [of ty key ks] by auto
qed simp

lemma replace_signer_members:
  "distinct (map ty ks) \<Longrightarrow> k \<in> set (replace_signer ty key ks) \<longleftrightarrow> k = key \<or> (k \<in> set ks \<and> ty k \<noteq> ty key)"
proof (induction ks)
  case (Cons a ks)
  then show ?case
    by (cases "ty a = ty key") (auto simp: image_iff)
qed simp

lemma AddHostKey_one_per_type:
  assumes "distinct (map ty (sv_HostSigners srv))"
  shows "distinct (map ty (sv_HostSigners (AddHostKey ty key srv)))"
    and "set (sv_HostSigners (AddHostKey ty key srv)) = insert key {k \<in> set (sv_HostSigners srv). ty k \<noteq> ty key}"
  using assms replace_signer_members [OF assms, of _ key]
  by (auto simp: AddHostKey_def replace_signer_distinct)

text \<open>
  The deadline after a read or write: never after the absolute deadline, and less than a second
  after the end of the idle period.
\<close>

lemma updateDeadline_bounds:
  "sc_maxDeadline c = Some m \<Longrightarrow> \<exists>d. sc_deadline (updateDeadline now c) = Some d \<and> d \<le> m"
  "0 < sc_idleTimeout c \<Longrightarrow>
     \<exists>d. sc_deadline (updateDeadline now c) = Some d \<and> d < now + sc_idleTimeout c + Second"
  by (auto simp: updateDeadline_def Let_def split: option.splits)

lemma next_delay_bounds: "0 \<le> d \<Longrightarrow> 5 * Millisecond \<le> next_delay d \<or> d \<noteq> 0" "next_delay d \<le> Second"
  by (auto simp: next_delay_def Let_def)

lemma serve_loop_delays:
  "serve_loop d as = (cs, ds, r) \<Longrightarrow> \<forall>x \<in> set ds. x \<le> Second"
  by (induction d as arbitrary: cs ds r rule: serve_loop.induct)
    (auto split: prod.splits if_splits simp: next_delay_bounds Let_def)

text \<open>Every connection accepted before the loop ends is handed to \<open>HandleConn\<close>, in order.\<close>

lemma serve_loop_accepts:
  "(\<forall>a \<in> set as. case a of AcceptError dn temporary e \<Rightarrow> \<not> dn \<and> temporary | _ \<Rightarrow> True) \<Longrightarrow>
     fst (serve_loop d (as @ rest)) =
       [c. Accepted c \<leftarrow> as] @ fst (serve_loop (foldl (\<lambda>d a. case a of Accepted c \<Rightarrow> d | _ \<Rightarrow> next_delay d) d as) rest)"
  by (induction as arbitrary: d) (auto split: accept.splits simp: Let_def case_prod_beta)

section \<open>Tracking\<close>

text \<open>
  The life of a server: \<^verbatim>\<open>Serve\<close> and \<^verbatim>\<open>HandleConn\<close> run concurrently, each between a tracking
  call at its start and one at its end; \<open>sy_serving\<close> and \<open>sy_handling\<close> are those between
  the two. \<^verbatim>\<open>Close\<close> and \<^verbatim>\<open>Shutdown\<close> may come at any time.
\<close>

record ('h, 'k, 'l, 'c, 'w) server_system =
  sy_srv :: "('h, 'k, 'l, 'c, 'w) Server"
  sy_serving :: "'l set"
  sy_handling :: "'c set"

inductive server_step ::
    "('h, 'k, 'l, 'c, 'w) server_system \<Rightarrow> ('h, 'k, 'l, 'c, 'w) server_system \<Rightarrow> bool" where
  serve_begin: "l \<notin> sy_serving s \<Longrightarrow>
    server_step s (s\<lparr>sy_srv := trackListener l True (sy_srv s), sy_serving := insert l (sy_serving s)\<rparr>)"
| serve_end: "l \<in> sy_serving s \<Longrightarrow>
    server_step s (s\<lparr>sy_srv := trackListener l False (sy_srv s), sy_serving := sy_serving s - {l}\<rparr>)"
| conn_begin: "c \<notin> sy_handling s \<Longrightarrow>
    server_step s (s\<lparr>sy_srv := trackConn c True (sy_srv s), sy_handling := insert c (sy_handling s)\<rparr>)"
| conn_end: "c \<in> sy_handling s \<Longrightarrow>
    server_step s (s\<lparr>sy_srv := trackConn c False (sy_srv s), sy_handling := sy_handling s - {c}\<rparr>)"
| close: "server_step s (s\<lparr>sy_srv := snd (Server_Close lclose (sy_srv s))\<rparr>)"
| shutdown: "server_step s (s\<lparr>sy_srv := snd (Shutdown_begin lclose (sy_srv s))\<rparr>)"

inductive_cases server_stepE: "server_step s s'"

definition tracking_ok :: "('h, 'k, 'l, 'c, 'w) server_system \<Rightarrow> bool" where
  "tracking_ok s \<longleftrightarrow>
     finite (sy_serving s) \<and> finite (sy_handling s) \<and>
     sv_listenerWg (sy_srv s) = int (card (sy_serving s)) \<and>
     sv_connWg (sy_srv s) = int (card (sy_handling s)) \<and>
     set (sv_listeners (sy_srv s)) \<subseteq> sy_serving s \<and> set (sv_conns (sy_srv s)) \<subseteq> sy_handling s"

lemma closing_frame [simp]:
  "sv_listenerWg (closeDoneChan srv) = sv_listenerWg srv" "sv_connWg (closeDoneChan srv) = sv_connWg srv"
  "sv_listeners (closeDoneChan srv) = sv_listeners srv" "sv_conns (closeDoneChan srv) = sv_conns srv"
  by (auto simp: closeDoneChan_def getDoneChan_def split: option.splits prod.splits)

lemma card_remove_int: "finite S \<Longrightarrow> x \<in> S \<Longrightarrow> int (card (S - {x})) = int (card S) - 1"
  by (metis add_diff_cancel_right' card_Suc_Diff1 of_nat_Suc add.commute)

lemma tracking_step: "server_step s s' \<Longrightarrow> tracking_ok s \<Longrightarrow> tracking_ok s'"
  by (induction rule: server_step.induct)
    (auto simp: tracking_ok_def trackListener_def trackConn_def Let_def card_remove_int
      Server_Close_def Shutdown_begin_def closeListeners_def
      simp del: card_Diff_singleton card_Diff_insert)

section \<open>Properties\<close>


definition new_Server :: "(unit, string, nat, nat, unit) Server" where
  "new_Server = \<lparr>sv_Addr = '':2222'', sv_Handler = Some (), sv_HostSigners = [], sv_PasswordHandler = None,
     sv_IdleTimeout = 0, sv_MaxTimeout = 0, sv_ChannelHandlers = None, sv_RequestHandlers = None,
     sv_SubsystemHandlers = None, sv_listenerWg = 0, sv_listeners = [], sv_conns = [], sv_connWg = 0,
     sv_doneChan = None\<rparr>"


end
