(* ===== verification/Ssh_Session.thy ===== *)
theory Ssh_Session
  imports Ssh_Wire Ssh_Server
begin

text \<open>
  Sessions of the SSH server (\<^verbatim>\<open>internal/ssh/session.go\<close>): the loop over the requests of a
  channel and the methods handlers call. The loop and the handler it starts run concurrently; a
  run is a sequence of requests and of calls and receives by the handler. \<^verbatim>\<open>winch\<close> is a channel
  of capacity 1, \<open>None\<close> when nil; a channel a handler registers is the number of values it takes
  before a send to it blocks (free slots and waiting receivers). The decoding of payloads by
  \<^verbatim>\<open>gossh.Unmarshal\<close> and the callbacks are fields of \<open>session_env\<close>.
\<close>

section \<open>State\<close>

definition maxSigBufSize :: nat where
  "maxSigBufSize = 128"

record session =
  ss_handled :: bool
  ss_exited :: bool
  ss_pty :: "Pty option"
  ss_winch :: "Window list option"
  ss_env :: "string list"
  ss_rawCmd :: string
  ss_subsystem :: string
  ss_sigCh :: "nat option"
  ss_sigBuf :: "string list"
  ss_breakCh :: "nat option"

definition new_session :: session where
  "new_session = \<lparr>ss_handled = False, ss_exited = False, ss_pty = None, ss_winch = None, ss_env = [],
     ss_rawCmd = '''', ss_subsystem = '''', ss_sigCh = None, ss_sigBuf = [], ss_breakCh = None\<rparr>"

record 'h session_env =
  se_handler :: 'h
  se_subsystemHandlers :: "string \<rightharpoonup> 'h"
  se_ptyCb :: "(Pty \<Rightarrow> bool) option"
  se_sessReqCb :: "(session \<Rightarrow> string \<Rightarrow> bool) option"
  se_unmarshal :: "string \<Rightarrow> string"
  se_unmarshal_kv :: "string \<Rightarrow> string \<times> string"

record request =
  rq_Type :: string
  rq_Payload :: string

text \<open>
  What a request leads to: the new state with the reply, if any, and the handler started, if any;
  a send that blocks; a panic.
\<close>

datatype 'h outcome =
    Done session "bool option" "'h option"
  | Blocks session
  | Crashes string

abbreviation reply :: "session \<Rightarrow> bool \<Rightarrow> 'h outcome" where
  "reply sess ok \<equiv> Done sess (Some ok) None"

section \<open>The request loop\<close>

text \<open>Whether the session policy, if there is one, allows the request.\<close>

definition policy_allows :: "'h session_env \<Rightarrow> session \<Rightarrow> string \<Rightarrow> bool" where
  "policy_allows env sess ty = (case se_sessReqCb env of None \<Rightarrow> True | Some cb \<Rightarrow> cb sess ty)"

definition handle_shell :: "'h session_env \<Rightarrow> request \<Rightarrow> session \<Rightarrow> 'h outcome" where
  "handle_shell env req sess =
     (if ss_handled sess then reply sess False
      else (let sess = sess\<lparr>ss_rawCmd := se_unmarshal env (rq_Payload req)\<rparr>
            in if \<not> policy_allows env sess (rq_Type req) then reply (sess\<lparr>ss_rawCmd := ''''\<rparr>) False
               else Done (sess\<lparr>ss_handled := True\<rparr>) (Some True) (Some (se_handler env))))"

definition handle_subsystem :: "'h session_env \<Rightarrow> request \<Rightarrow> session \<Rightarrow> 'h outcome" where
  "handle_subsystem env req sess =
     (if ss_handled sess then reply sess False
      else (let value = se_unmarshal env (rq_Payload req);
                sess = sess\<lparr>ss_subsystem := value\<rparr>
            in if \<not> policy_allows env sess (rq_Type req) then reply (sess\<lparr>ss_rawCmd := ''''\<rparr>) False
               else (case dispatch (Some (se_subsystemHandlers env)) value of
                       None \<Rightarrow> reply sess False
                     | Some handler \<Rightarrow> Done (sess\<lparr>ss_handled := True\<rparr>) (Some True) (Some handler))))"

definition handle_env :: "'h session_env \<Rightarrow> request \<Rightarrow> session \<Rightarrow> 'h outcome" where
  "handle_env env req sess =
     (if ss_handled sess then reply sess False
      else (case se_unmarshal_kv env (rq_Payload req) of
              (k, v) \<Rightarrow> reply (sess\<lparr>ss_env := ss_env sess @ [k @ ''='' @ v]\<rparr>) True))"

definition handle_signal :: "'h session_env \<Rightarrow> request \<Rightarrow> session \<Rightarrow> 'h outcome" where
  "handle_signal env req sess =
     (case ss_sigCh sess of
        Some n \<Rightarrow> if n = 0 then Blocks sess else Done (sess\<lparr>ss_sigCh := Some (n - 1)\<rparr>) None None
      | None \<Rightarrow>
          if length (ss_sigBuf sess) < maxSigBufSize
          then Done (sess\<lparr>ss_sigBuf := ss_sigBuf sess @ [se_unmarshal env (rq_Payload req)]\<rparr>) None None
          else Done sess None None)"

definition handle_pty :: "'h session_env \<Rightarrow> request \<Rightarrow> session \<Rightarrow> 'h outcome" where
  "handle_pty env req sess =
     (if ss_handled sess \<or> ss_pty sess \<noteq> None then reply sess False
      else (case parsePtyRequest (rq_Payload req) of
              Panic m \<Rightarrow> Crashes m
            | Ret None \<Rightarrow> reply sess False
            | Ret (Some ptyReq) \<Rightarrow>
                if (case se_ptyCb env of None \<Rightarrow> False | Some cb \<Rightarrow> \<not> cb ptyReq) then reply sess False
                else reply (sess\<lparr>ss_pty := Some ptyReq, ss_winch := Some [pty_Window ptyReq]\<rparr>) True))"

text \<open>The send on \<^verbatim>\<open>winch\<close> comes after the new size is stored and before the reply.\<close>

definition handle_winch :: "request \<Rightarrow> session \<Rightarrow> 'h outcome" where
  "handle_winch req sess =
     (case ss_pty sess of
        None \<Rightarrow> reply sess False
      | Some p \<Rightarrow>
          (case parseWinchRequest (rq_Payload req) of
             None \<Rightarrow> reply sess False
           | Some win \<Rightarrow>
               (let sess = sess\<lparr>ss_pty := Some (p\<lparr>pty_Window := win\<rparr>)\<rparr>
                in case ss_winch sess of
                     Some [] \<Rightarrow> reply (sess\<lparr>ss_winch := Some [win]\<rparr>) True
                   | _ \<Rightarrow> Blocks sess)))"

definition handle_break :: "session \<Rightarrow> 'h outcome" where
  "handle_break sess =
     (case ss_breakCh sess of
        None \<Rightarrow> reply sess False
      | Some n \<Rightarrow> if n = 0 then Blocks sess else reply (sess\<lparr>ss_breakCh := Some (n - 1)\<rparr>) True)"

definition handle_request :: "'h session_env \<Rightarrow> request \<Rightarrow> session \<Rightarrow> 'h outcome" where
  "handle_request env req sess =
     (let ty = rq_Type req
      in if ty = ''shell'' \<or> ty = ''exec'' then handle_shell env req sess
         else if ty = ''subsystem'' then handle_subsystem env req sess
         else if ty = ''env'' then handle_env env req sess
         else if ty = ''signal'' then handle_signal env req sess
         else if ty = ''pty-req'' then handle_pty env req sess
         else if ty = ''window-change'' then handle_winch req sess
         else if ty = ''break'' then handle_break sess
         else reply sess False)"

section \<open>Methods for handlers\<close>

text \<open>
  \<^verbatim>\<open>Write\<close>: with a terminal, line ends are normalised and the count is cut to the length of the
  argument. \<open>cwrite\<close> is the write of the channel.
\<close>

definition normalise :: "string \<Rightarrow> string" where
  "normalise p = replace_all [CR, CR, LF] [CR, LF] (replace_all [LF] [CR, LF] p)"

definition session_Write :: "(string \<Rightarrow> nat \<times> error option) \<Rightarrow> session \<Rightarrow> string \<Rightarrow> nat \<times> error option" where
  "session_Write cwrite sess p =
     (case ss_pty sess of
        Some _ \<Rightarrow> (case cwrite (normalise p) of (n, err) \<Rightarrow> (if n > length p then length p else n, err))
      | None \<Rightarrow> cwrite p)"

text \<open>\<open>send\<close> is the error of sending the exit status, \<open>close\<close> that of closing the channel.\<close>

definition session_Exit :: "(32 word \<Rightarrow> error option) \<Rightarrow> error option \<Rightarrow> int \<Rightarrow> session \<Rightarrow> error option \<times> session" where
  "session_Exit send close code sess =
     (if ss_exited sess then (Some (Errorf ''Session.Exit called multiple times''), sess)
      else (let sess = sess\<lparr>ss_exited := True\<rparr>
            in case send (word_of_int code) of
                 Some e \<Rightarrow> (Some e, sess)
               | None \<Rightarrow> (close, sess)))"

definition session_Pty :: "session \<Rightarrow> Pty option \<times> Window list option" where
  "session_Pty sess = (ss_pty sess, ss_winch sess)"

text \<open>
  \<^verbatim>\<open>Signals\<close> registers a channel and starts a goroutine that sends the buffered signals to it;
  the buffer is kept.
\<close>

definition session_Signals :: "nat option \<Rightarrow> session \<Rightarrow> session \<times> string list" where
  "session_Signals c sess = (sess\<lparr>ss_sigCh := c\<rparr>, ss_sigBuf sess)"

definition session_Break :: "nat option \<Rightarrow> session \<Rightarrow> session" where
  "session_Break c sess = sess\<lparr>ss_breakCh := c\<rparr>"

section \<open>Runs\<close>

datatype session_action =
    Request request
  | RecvWindow
  | CallSignals "nat option"
  | CallBreak "nat option"
  | CallExit

datatype 'h run = Running session "bool list" "'h list" | Stuck session | Crashed string

text \<open>The replies and the handlers started, in order; a run ends where the loop blocks.\<close>

fun session_run :: "'h session_env \<Rightarrow> session_action list \<Rightarrow> session \<Rightarrow> bool list \<Rightarrow> 'h list \<Rightarrow> 'h run" where
  "session_run env [] sess rs hs = Running sess rs hs"
| "session_run env (Request req # as) sess rs hs =
     (case handle_request env req sess of
        Done sess r h \<Rightarrow>
          session_run env as sess (rs @ (case r of None \<Rightarrow> [] | Some b \<Rightarrow> [b])) (hs @ (case h of None \<Rightarrow> [] | Some x \<Rightarrow> [x]))
      | Blocks sess \<Rightarrow> Stuck sess
      | Crashes m \<Rightarrow> Crashed m)"
| "session_run env (RecvWindow # as) sess rs hs =
     session_run env as (sess\<lparr>ss_winch := map_option tl (ss_winch sess)\<rparr>) rs hs"
| "session_run env (CallSignals c # as) sess rs hs = session_run env as (fst (session_Signals c sess)) rs hs"
| "session_run env (CallBreak c # as) sess rs hs = session_run env as (session_Break c sess) rs hs"
| "session_run env (CallExit # as) sess rs hs =
     session_run env as (snd (session_Exit (\<lambda>_. None) None 0 sess)) rs hs"

section \<open>Facts\<close>

lemmas request_defs = handle_request_def handle_shell_def handle_subsystem_def handle_env_def
  handle_signal_def handle_pty_def handle_winch_def handle_break_def Let_def

text \<open>A handler is started exactly when the session becomes handled.\<close>

lemma handle_request_starts:
  assumes "handle_request env req sess = Done sess' r h"
  shows "if ss_handled sess then ss_handled sess' \<and> h = None
    else ss_handled sess' = (h \<noteq> None)"
  using assms
  by (auto simp: request_defs split: if_splits option.splits prod.splits go.splits list.splits) metis

text \<open>Once handled, a session keeps its command, subsystem and environment.\<close>

lemma handle_request_frozen:
  assumes "handle_request env req sess = Done sess' r h" and "ss_handled sess"
  shows "ss_rawCmd sess' = ss_rawCmd sess" "ss_env sess' = ss_env sess" "ss_subsystem sess' = ss_subsystem sess"
  using assms by (auto simp: request_defs split: if_splits option.splits prod.splits list.splits)

lemma handle_request_buffer:
  assumes "handle_request env req sess = Done sess' r h" and "length (ss_sigBuf sess) \<le> maxSigBufSize"
  shows "length (ss_sigBuf sess') \<le> maxSigBufSize"
  using assms by (auto simp: request_defs split: if_splits option.splits prod.splits go.splits list.splits)

lemma session_calls [simp]:
  "ss_handled (snd (session_Exit send close code sess)) = ss_handled sess"
  "ss_rawCmd (snd (session_Exit send close code sess)) = ss_rawCmd sess"
  "ss_env (snd (session_Exit send close code sess)) = ss_env sess"
  "ss_sigBuf (snd (session_Exit send close code sess)) = ss_sigBuf sess"
  by (auto simp: session_Exit_def Let_def split: option.splits)

lemma session_run_starts:
  assumes "session_run env as sess rs hs = Running sess' rs' hs'"
  shows "if ss_handled sess then ss_handled sess' \<and> hs' = hs
    else (ss_handled sess' \<and> (\<exists>h. hs' = hs @ [h])) \<or> (\<not> ss_handled sess' \<and> hs' = hs)"
  using assms
proof (induction env as sess rs hs rule: session_run.induct)
  case (2 env req as sess rs hs)
  from "2.prems" obtain s1 r h where s1: "handle_request env req sess = Done s1 r h"
    by (auto split: outcome.splits)
  from 2 s1 show ?case
    using handle_request_starts [OF s1] by (auto split: if_splits option.splits)
qed (auto simp: session_Signals_def session_Break_def split: if_splits)

lemma session_run_frozen:
  assumes "session_run env as sess rs hs = Running sess' rs' hs'" and "ss_handled sess"
  shows "ss_rawCmd sess' = ss_rawCmd sess" "ss_env sess' = ss_env sess"
proof -
  have "ss_rawCmd sess' = ss_rawCmd sess \<and> ss_env sess' = ss_env sess"
    using assms
  proof (induction env as sess rs hs rule: session_run.induct)
    case (2 env req as sess rs hs)
    from "2.prems" obtain s1 r h where s1: "handle_request env req sess = Done s1 r h"
      by (auto split: outcome.splits)
    from 2 s1 show ?case
      using handle_request_starts [OF s1] handle_request_frozen [OF s1] by (auto split: if_splits)
  qed (auto simp: session_Signals_def session_Break_def)
  then show "ss_rawCmd sess' = ss_rawCmd sess" "ss_env sess' = ss_env sess"
    by simp_all
qed

lemma session_run_append:
  "session_run env as sess rs hs = Running sess' rs' hs' \<Longrightarrow>
     session_run env (as @ as') sess rs hs = session_run env as' sess' rs' hs'"
  by (induction env as sess rs hs rule: session_run.induct) (auto split: outcome.splits)

text \<open>Nobody receives: the window channel stays full once a terminal is accepted.\<close>

definition winch_full :: "session \<Rightarrow> bool" where
  "winch_full sess \<longleftrightarrow> (ss_pty sess \<noteq> None \<longrightarrow> (\<exists>w. ss_winch sess = Some [w]))"

lemma handle_request_winch:
  assumes "handle_request env req sess = Done sess' r h" and "winch_full sess"
  shows "winch_full sess'"
  using assms
  by (auto simp: winch_full_def request_defs split: if_splits option.splits prod.splits go.splits list.splits)

lemma session_run_winch:
  assumes "session_run env as sess rs hs = Running sess' rs' hs'" "RecvWindow \<notin> set as" "winch_full sess"
  shows "winch_full sess'"
  using assms
proof (induction env as sess rs hs rule: session_run.induct)
  case (2 env req as sess rs hs)
  from "2.prems" obtain s1 r h where s1: "handle_request env req sess = Done s1 r h"
    by (auto split: outcome.splits)
  from 2 s1 show ?case
    using handle_request_winch [OF s1] by auto
qed (auto simp: session_Signals_def session_Break_def session_Exit_def winch_full_def Let_def)

text \<open>Line ends: \<open>crlf_ok b s\<close> says that every LF of \<open>s\<close> follows a CR (\<open>b\<close>: one comes before).\<close>

fun crlf_ok :: "bool \<Rightarrow> string \<Rightarrow> bool" where
  "crlf_ok b [] = True"
| "crlf_ok b (x # xs) = ((x = LF \<longrightarrow> b) \<and> crlf_ok (x = CR) xs)"

lemma replace_LF: "replace_all [LF] [CR, LF] p = concat (map (\<lambda>c. if c = LF then [CR, LF] else [c]) p)"
  by (induction p) (auto simp: has_prefix_def)

lemma crlf_ok_replace_LF: "crlf_ok b (replace_all [LF] [CR, LF] p)"
  unfolding replace_LF by (induction p arbitrary: b) auto

lemma crlf_ok_weaken: "crlf_ok False s \<Longrightarrow> crlf_ok b s"
  by (cases s) auto

lemma crlf_ok_replace_CRCRLF: "crlf_ok b s \<Longrightarrow> crlf_ok b (replace_all [CR, CR, LF] [CR, LF] s)"
proof (induction "[CR, CR, LF]" "[CR, LF]" s arbitrary: b rule: replace_all.induct)
  case (2 x xs)
  show ?case
  proof (cases "has_prefix [CR, CR, LF] (x # xs)")
    case True
    then obtain t where t: "x # xs = [CR, CR, LF] @ t"
      using has_prefixE by blast
    with "2.prems" have "crlf_ok False t"
      by simp
    with "2.hyps"(1) True t show ?thesis
      by simp
  next
    case False
    with 2 show ?thesis
      by simp
  qed
qed simp

lemma normalise_crlf: "crlf_ok False (normalise p)"
  by (simp add: normalise_def crlf_ok_replace_CRCRLF crlf_ok_replace_LF)

section \<open>Properties\<close>

text \<open>
  C32. A session runs one handler. Whatever requests a client sends and whatever the handler calls
  meanwhile, at most one handler is started, the session counts as handled exactly when it is, and
  from then on the command and the environment the handler sees do not change.
\<close>

theorem session_runs_one_handler:
  assumes "session_run env as new_session [] [] = Running s rs hs"
    and "session_run env as' s rs hs = Running s' rs' hs'"
  shows "length hs \<le> 1 \<and> (ss_handled s \<longleftrightarrow> hs \<noteq> []) \<and>
    (hs \<noteq> [] \<longrightarrow> hs' = hs \<and> ss_rawCmd s' = ss_rawCmd s \<and> ss_env s' = ss_env s)"
proof -
  have "length hs \<le> 1" "ss_handled s \<longleftrightarrow> hs \<noteq> []"
    using session_run_starts [OF assms(1)] by (auto simp: new_session_def)
  then show ?thesis
    using session_run_starts [OF assms(2)] session_run_frozen [OF assms(2)] by simp
qed

definition sample_session_env :: "string session_env" where
  "sample_session_env = \<lparr>se_handler = ''handler'', se_subsystemHandlers = Map.empty, se_ptyCb = None,
     se_sessReqCb = None, se_unmarshal = drop 4, se_unmarshal_kv = (\<lambda>_. ('''', ''''))\<rparr>"

lemmas session_eval = sample_session_env_def request_defs policy_allows_def new_session_def

theorem session_runs_one_handler_witness:
  "\<exists>s s'. session_run sample_session_env [Request \<lparr>rq_Type = ''exec'', rq_Payload = put_string ''ls''\<rparr>] new_session [] []
       = Running s [True] [''handler''] \<and> ss_handled s \<and>
     session_run sample_session_env [Request \<lparr>rq_Type = ''shell'', rq_Payload = ''''\<rparr>] s [True] [''handler'']
       = Running s' [True, False] [''handler''] \<and> ss_rawCmd s' = ''ls''"
proof -
  let ?s = "new_session\<lparr>ss_rawCmd := ''ls'', ss_handled := True\<rparr>"
  have 1: "session_run sample_session_env [Request \<lparr>rq_Type = ''exec'', rq_Payload = put_string ''ls''\<rparr>] new_session [] []
      = Running ?s [True] [''handler'']"
    by (simp add: session_eval put_string_def)
  have 2: "session_run sample_session_env [Request \<lparr>rq_Type = ''shell'', rq_Payload = ''''\<rparr>] ?s [True] [''handler'']
      = Running ?s [True, False] [''handler'']"
    by (simp add: session_eval)
  from session_runs_one_handler [OF 1 2] show ?thesis
    using 1 2 by auto
qed

text \<open>
  Window changes block. If the handler never receives from the window channel -- nclet's
  handler does not -- then after a terminal was accepted the first window change with a valid size
  blocks the request loop, so no later request of the session is answered.
\<close>

theorem window_change_blocks:
  assumes "session_run env as new_session [] [] = Running s rs hs" "RecvWindow \<notin> set as"
    and "ss_pty s \<noteq> None"
    and "rq_Type req = ''window-change''" "parseWinchRequest (rq_Payload req) = Some win"
  shows "\<exists>s'. session_run env (as @ Request req # rest) new_session [] [] = Stuck s'"
proof -
  have "winch_full s"
    using session_run_winch [OF assms(1,2)] by (simp add: winch_full_def new_session_def)
  then have "\<exists>s'. handle_request env req s = Blocks s'"
    using assms(3-) by (auto simp: request_defs winch_full_def)
  then show ?thesis
    by (auto simp: session_run_append [OF assms(1)])
qed

theorem window_change_blocks_witness:
  "\<exists>s'. session_run sample_session_env
     [Request \<lparr>rq_Type = ''pty-req'', rq_Payload = put_string ''vt100'' @ put_uint32 80 @ put_uint32 24\<rparr>,
      Request \<lparr>rq_Type = ''window-change'', rq_Payload = put_uint32 100 @ put_uint32 30\<rparr>] new_session [] [] = Stuck s'"
proof -
  let ?pty = "Request \<lparr>rq_Type = ''pty-req'', rq_Payload = put_string ''vt100'' @ put_uint32 80 @ put_uint32 24\<rparr>"
  let ?wc = "\<lparr>rq_Type = ''window-change'', rq_Payload = put_uint32 100 @ put_uint32 30\<rparr>"
  have p: "parsePtyRequest (put_string ''vt100'' @ put_uint32 80 @ put_uint32 24) =
      Ret (Some \<lparr>pty_Term = ''vt100'', pty_Window = \<lparr>win_Width = 80, win_Height = 24\<rparr>\<rparr>)"
    using parsePtyRequest_put [of "''vt100''" "''''" 80 24] by simp
  have w: "parseWinchRequest (put_uint32 100 @ put_uint32 30) = Some \<lparr>win_Width = 100, win_Height = 30\<rparr>"
    using parseWinchRequest_put [of 100 30 "''''"] by simp
  obtain s rs hs where "session_run sample_session_env [?pty] new_session [] [] = Running s rs hs" "ss_pty s \<noteq> None"
    by (simp add: session_eval p)
  from window_change_blocks [OF this(1) _ this(2), of ?wc "\<lparr>win_Width = 100, win_Height = 30\<rparr>" "[]"] w
  show ?thesis
    by simp
qed

end
