(* ===== verification/Tracing.thy ===== *)
theory Tracing
  imports Prelude
begin

text \<open>
  The carrier that hands a trace context to a child process through environment variables and the
  error helpers (\<^verbatim>\<open>internal/tracing\<close>), with what they use of \<^verbatim>\<open>os\<close> and \<^verbatim>\<open>os/exec\<close>. An
  environment is a list of \<^verbatim>\<open>key=value\<close> strings. The set-up of OpenTelemetry
  (\<^verbatim>\<open>provider.go\<close>) is modelled over the calls of its SDK: resources \<open>'r\<close>, exporters \<open>'x\<close>, and a
  span as the errors recorded in it with its status.
\<close>

section \<open>Environments\<close>

definition env_key :: "string \<Rightarrow> string" where
  "env_key e = takeWhile (\<lambda>c. c \<noteq> CHR ''='') e"

definition is_binding :: "string \<Rightarrow> string \<Rightarrow> bool" where
  "is_binding key e \<longleftrightarrow> CHR ''='' \<in> set e \<and> env_key e = key"

text \<open>\<^verbatim>\<open>os.Getenv\<close> returns the first binding of a key, or the empty string.\<close>

fun Getenv :: "string list \<Rightarrow> string \<Rightarrow> string" where
  "Getenv [] key = ''''"
| "Getenv (e # es) key = (if is_binding key e then drop (Suc (length key)) e else Getenv es key)"

text \<open>\<^verbatim>\<open>os/exec\<close> starts a command with the last binding of each key only.\<close>

fun exec_environ :: "string list \<Rightarrow> string list" where
  "exec_environ [] = []"
| "exec_environ (e # es) =
     (if CHR ''='' \<in> set e \<and> (\<exists>e' \<in> set es. is_binding (env_key e) e') then exec_environ es
      else e # exec_environ es)"

section \<open>The carrier\<close>

definition OTLPEndpointKey :: string where
  "OTLPEndpointKey = ''OTEL_EXPORTER_OTLP_ENDPOINT''"

definition envCarrierPrefix :: string where
  "envCarrierPrefix = ''OTEL_ENV_CARRIER_''"

type_synonym EnvCarrier = "(string \<times> string) list"

definition EnvCarrier_Get :: "string list \<Rightarrow> string \<Rightarrow> string" where
  "EnvCarrier_Get environ key = Getenv environ (envCarrierPrefix @ key)"

definition EnvCarrier_Keys :: "string list \<Rightarrow> string list" where
  "EnvCarrier_Keys environ =
     map (drop (length envCarrierPrefix)) (filter (has_prefix envCarrierPrefix) environ)"

definition EnvCarrier_Set :: "EnvCarrier \<Rightarrow> string \<Rightarrow> string \<Rightarrow> EnvCarrier" where
  "EnvCarrier_Set c key value = filter (\<lambda>(k, _). k \<noteq> key) c @ [(key, value)]"

definition carrier_entry :: "string \<times> string \<Rightarrow> string" where
  "carrier_entry = (\<lambda>(key, value). envCarrierPrefix @ key @ ''='' @ value)"

definition InjectToCmd :: "EnvCarrier \<Rightarrow> string list \<Rightarrow> string list" where
  "InjectToCmd c cmdEnv = cmdEnv @ map carrier_entry c"

section \<open>Errors\<close>

definition GenerateError :: "string \<Rightarrow> error" where
  "GenerateError msg = Errorf msg"

definition WrapError :: "error \<Rightarrow> string \<Rightarrow> error" where
  "WrapError err msg = Wrap (msg @ '': '') err"

record span =
  sp_errors :: "error list"
  sp_status :: "string option"

text \<open>\<open>txt\<close> is \<^verbatim>\<open>err.Error()\<close>. \<^verbatim>\<open>WrapError\<close> records the error before it is wrapped.\<close>

definition RecordError :: "error \<Rightarrow> string \<Rightarrow> span \<Rightarrow> span" where
  "RecordError err msg sp = sp\<lparr>sp_errors := sp_errors sp @ [err], sp_status := Some msg\<rparr>"

definition SetError :: "(error \<Rightarrow> string) \<Rightarrow> error \<Rightarrow> span \<Rightarrow> span" where
  "SetError txt err sp = RecordError err (txt err) sp"

definition span_GenerateError :: "(error \<Rightarrow> string) \<Rightarrow> string \<Rightarrow> span \<Rightarrow> error \<times> span" where
  "span_GenerateError txt msg sp =
     (let err = GenerateError msg in (err, RecordError err (txt err) sp))"

definition span_WrapError :: "error \<Rightarrow> string \<Rightarrow> span \<Rightarrow> error \<times> span" where
  "span_WrapError err msg sp = (WrapError err msg, RecordError err msg sp)"

section \<open>The provider\<close>

record ('r, 'x) TracerProvider =
  tp_resource :: 'r
  tp_exporter :: 'x

text \<open>The SDK, and the process-wide state: the tracer (none is the no-op tracer) and the propagators.\<close>

record ('r, 'x) otel_sdk =
  os_resource_New :: "string \<Rightarrow> string list \<Rightarrow> 'r or_error"
  os_otlptracegrpc_New :: "'x or_error"

record ('r, 'x) otel_state =
  ot_Tracer :: "('r, 'x) TracerProvider option"
  ot_propagators :: "string list"

definition initTracerProvider ::
    "('r, 'x) otel_sdk \<Rightarrow> string list \<Rightarrow> 'r \<Rightarrow> ('r, 'x) TracerProvider option or_error" where
  "initTracerProvider sdk environ res =
     (if Getenv environ OTLPEndpointKey = '''' then Inr None
      else (case os_otlptracegrpc_New sdk of
              Inl e \<Rightarrow> Inl (Wrap ''failed to initialize OTLP trace exporter: '' e)
            | Inr traceExporter \<Rightarrow> Inr (Some \<lparr>tp_resource = res, tp_exporter = traceExporter\<rparr>)))"

definition initTracer :: "('r, 'x) TracerProvider \<Rightarrow> ('r, 'x) otel_state \<Rightarrow> ('r, 'x) otel_state" where
  "initTracer tp st = st\<lparr>ot_Tracer := Some tp\<rparr>"

text \<open>
  The result is the variable \<^verbatim>\<open>shutdownFuncs\<close> that the returned closure \<^verbatim>\<open>shutdown\<close> captures, as
  the list of the providers to shut down.
\<close>

definition SetupOpenTelemetry ::
    "('r, 'x) otel_sdk \<Rightarrow> string list \<Rightarrow> string \<Rightarrow> ('r, 'x) otel_state \<Rightarrow>
     ('r, 'x) TracerProvider list or_error \<times> ('r, 'x) otel_state" where
  "SetupOpenTelemetry sdk environ serviceName st =
     (case os_resource_New sdk serviceName environ of
        Inl e \<Rightarrow> (Inl (Wrap ''failed to initialize resource: '' e), st)
      | Inr res \<Rightarrow>
          (case initTracerProvider sdk environ res of
             Inl e \<Rightarrow> (Inl (Wrap ''failed to initialize tracer provider: '' e), st)
           | Inr traceProvider \<Rightarrow>
               (let (shutdownFuncs, st) =
                      (case traceProvider of None \<Rightarrow> ([], st) | Some tp \<Rightarrow> ([tp], initTracer tp st))
                in (Inr shutdownFuncs, st\<lparr>ot_propagators := [''TraceContext'', ''Baggage'']\<rparr>))))"

text \<open>
  The closure: every function is called, the errors are joined (\<^verbatim>\<open>errors.Join\<close> is nil for no
  errors), and the captured list is cleared. \<open>stop\<close> is \<^verbatim>\<open>Shutdown\<close> of a provider.
\<close>

fun shutdown_loop ::
    "(('r, 'x) TracerProvider \<Rightarrow> 'w \<Rightarrow> error option \<times> 'w) \<Rightarrow> error list \<Rightarrow> ('r, 'x) TracerProvider list \<Rightarrow> 'w \<Rightarrow> error list \<times> 'w" where
  "shutdown_loop stop err [] w = (err, w)"
| "shutdown_loop stop err (fn # fns) w =
     (case stop fn w of (e, w) \<Rightarrow> shutdown_loop stop (err @ (case e of None \<Rightarrow> [] | Some e \<Rightarrow> [e])) fns w)"

definition otel_shutdown ::
    "(('r, 'x) TracerProvider \<Rightarrow> 'w \<Rightarrow> error option \<times> 'w) \<Rightarrow> ('r, 'x) TracerProvider list \<Rightarrow> 'w \<Rightarrow>
     (error list \<times> 'w) \<times> ('r, 'x) TracerProvider list" where
  "otel_shutdown stop shutdownFuncs w = (shutdown_loop stop [] shutdownFuncs w, [])"

section \<open>Facts\<close>

lemma env_key_append [simp]: "CHR ''='' \<notin> set k \<Longrightarrow> env_key (k @ CHR ''='' # v) = k"
  by (induction k) (auto simp: env_key_def)

lemma is_binding_append [simp]:
  "CHR ''='' \<notin> set k \<Longrightarrow> is_binding key (k @ CHR ''='' # v) \<longleftrightarrow> key = k"
  by (auto simp: is_binding_def)

lemma is_binding_iff: "is_binding key e \<longleftrightarrow> (\<exists>v. e = key @ CHR ''='' # v) \<and> CHR ''='' \<notin> set key"
proof
  assume "is_binding key e"
  then have *: "CHR ''='' \<in> set e" "key = takeWhile (\<lambda>c. c \<noteq> CHR ''='') e"
    by (auto simp: is_binding_def env_key_def)
  then have "\<exists>v. dropWhile (\<lambda>c. c \<noteq> CHR ''='') e = CHR ''='' # v"
    by (induction e arbitrary: key) auto
  then show "(\<exists>v. e = key @ CHR ''='' # v) \<and> CHR ''='' \<notin> set key"
    using * by (metis takeWhile_dropWhile_id set_takeWhileD)
qed auto

lemma Getenv_bound:
  "(\<forall>e \<in> set es. is_binding key e \<longrightarrow> e = key @ ''='' @ v) \<Longrightarrow> \<exists>e \<in> set es. is_binding key e \<Longrightarrow>
     Getenv es key = v"
  by (induction es) auto

lemma exec_environ_subset: "set (exec_environ es) \<subseteq> set es"
  by (induction es) auto

lemma exec_environ_key:
  "\<exists>e \<in> set es. is_binding key e \<Longrightarrow> \<exists>e \<in> set (exec_environ es). is_binding key e"
  by (induction es) (auto simp: is_binding_def)

text \<open>The child sees the last binding.\<close>

lemma exec_environ_last:
  assumes "is_binding key e" "\<forall>e' \<in> set after. is_binding key e' \<longrightarrow> e' = e" "e' \<in> set (exec_environ (before @ e # after))"
    "is_binding key e'"
  shows "e' = e"
  using assms(3)
proof (induction before)
  case Nil
  then show ?case
    using assms exec_environ_subset [of after] by (auto split: if_splits)
next
  case (Cons b bs)
  have "is_binding (env_key b) e" if "e' = b"
    using that assms(1,4) by (auto simp: is_binding_def)
  with Cons assms(4) show ?case
    by (auto simp: is_binding_def split: if_splits)
qed

lemma Getenv_exec:
  assumes "CHR ''='' \<notin> set key" "\<forall>e' \<in> set after. \<not> is_binding key e'"
  shows "Getenv (exec_environ (before @ (key @ ''='' @ v) # after)) key = v"
proof (rule Getenv_bound)
  show "\<forall>e \<in> set (exec_environ (before @ (key @ ''='' @ v) # after)). is_binding key e \<longrightarrow> e = key @ ''='' @ v"
    using exec_environ_last [of key "key @ ''='' @ v" after _ before] assms by (auto simp: Ball_def)
  show "\<exists>e \<in> set (exec_environ (before @ (key @ ''='' @ v) # after)). is_binding key e"
    by (rule exec_environ_key) (use assms in auto)
qed

section \<open>Properties\<close>

text \<open>
  The trace context reaches the child. For a carrier with distinct keys without \<^verbatim>\<open>=\<close>, the
  child process started with the environment \<^verbatim>\<open>InjectToCmd\<close> prepared reads back every value by
  its key, whatever the inherited environment holds. \<^verbatim>\<open>Keys\<close> however lists whole bindings
  \<^verbatim>\<open>key=value\<close> and not keys.
\<close>

theorem carrier_roundtrip:
  assumes "(k, v) \<in> set c" "distinct (map fst c)" "\<forall>(k, v) \<in> set c. CHR ''='' \<notin> set k"
  shows "EnvCarrier_Get (exec_environ (InjectToCmd c environ)) k = v"
    and "k @ ''='' @ v \<in> set (EnvCarrier_Keys (InjectToCmd c environ))"
proof -
  obtain c1 c2 where c: "c = c1 @ (k, v) # c2"
    using assms(1) by (meson split_list)
  have "\<not> is_binding (envCarrierPrefix @ k) (carrier_entry p)" if "p \<in> set c2" for p
  proof (cases p)
    case (Pair k' v')
    have "k' \<noteq> k" "CHR ''='' \<notin> set k'"
      using that assms(2,3) Pair by (auto simp: c rev_image_eqI)
    then have "CHR ''='' \<notin> set (envCarrierPrefix @ k')"
      by (auto simp: envCarrierPrefix_def)
    from is_binding_append [OF this] \<open>k' \<noteq> k\<close> show ?thesis
      by (simp add: Pair carrier_entry_def)
  qed
  then show "EnvCarrier_Get (exec_environ (InjectToCmd c environ)) k = v"
    using Getenv_exec [of "envCarrierPrefix @ k" "map carrier_entry c2" "environ @ map carrier_entry c1" v] assms(3) c
    by (simp add: EnvCarrier_Get_def InjectToCmd_def carrier_entry_def) (auto simp: envCarrierPrefix_def)
  have "envCarrierPrefix @ k @ ''='' @ v \<in> set (InjectToCmd c environ)"
    by (simp add: InjectToCmd_def c carrier_entry_def)
  then show "k @ ''='' @ v \<in> set (EnvCarrier_Keys (InjectToCmd c environ))"
    by (force simp: EnvCarrier_Keys_def)
qed

theorem carrier_roundtrip_witness:
  "EnvCarrier_Get (exec_environ (InjectToCmd [(''traceparent'', ''00-ab=c'')] [''PATH=/bin''])) ''traceparent'' = ''00-ab=c'' \<and>
   ''traceparent=00-ab=c'' \<in> set (EnvCarrier_Keys (InjectToCmd [(''traceparent'', ''00-ab=c'')] [''PATH=/bin'']))"
  using carrier_roundtrip [of "''traceparent''" "''00-ab=c''" "[(''traceparent'', ''00-ab=c'')]" "[''PATH=/bin'']"] by simp

text \<open>
  Setting up tracing. Without an endpoint in the environment nothing is exported, the no-op
  tracer stays and the shutdown function has nothing to stop. With one, the tracer is that of a
  provider with the resource of the service; shutting down stops exactly this provider, once: a
  second call does nothing. A failed set-up leaves the process as it was.
\<close>

theorem telemetry_setup:
  "case SetupOpenTelemetry sdk environ name st of
     (Inl _, st') \<Rightarrow> st' = st
   | (Inr fns, st') \<Rightarrow>
       ot_propagators st' = [''TraceContext'', ''Baggage''] \<and>
       (if Getenv environ OTLPEndpointKey = '''' then fns = [] \<and> ot_Tracer st' = ot_Tracer st
        else \<exists>tp. fns = [tp] \<and> ot_Tracer st' = Some tp \<and> os_resource_New sdk name environ = Inr (tp_resource tp) \<and>
          otel_shutdown stop fns w = (case stop tp w of (e, w') \<Rightarrow> ((case e of None \<Rightarrow> [] | Some e \<Rightarrow> [e], w'), []))) \<and>
       otel_shutdown stop (snd (otel_shutdown stop fns w)) w = (([], w), [])"
  by (auto simp: SetupOpenTelemetry_def initTracerProvider_def initTracer_def otel_shutdown_def Let_def
      split: sum.splits option.splits prod.splits if_splits)

end
