(* ===== verification/Nclet_Ssh.thy ===== *)
theory Nclet_Ssh
  imports Driver Ssh_Session Tracing
begin

text \<open>
  The SSH front end of nclet (\<^verbatim>\<open>controllers/nclet/ssh_server.go\<close>, \<^verbatim>\<open>metrics.go\<close>): user names, the
  host key, password authentication against the stored environments, and the session handler that
  starts \<^verbatim>\<open>access-helper\<close>. Key generation, PEM and key parsing, the pseudo terminal and the
  outcome of running the command are parameters.
\<close>

section \<open>User names\<close>

record User =
  us_ProblemEnvironmentName :: string
  us_NodeName :: string
  us_Admin :: bool

definition parseUser :: "string \<Rightarrow> User or_error" where
  "parseUser user =
     (let parts = split_on CHR ''_'' user
      in if \<not> (length parts = 2 \<or> length parts = 3) then Inl (Errorf ''invalid format'')
         else if \<not> (parts ! 0 = ''nc'' \<or> parts ! 0 = ''ncadmin'') then Inl (Errorf ''invalid format'')
         else Inr \<lparr>us_ProblemEnvironmentName = parts ! 1,
                   us_NodeName = (if length parts = 3 then parts ! 2 else ''''),
                   us_Admin = (parts ! 0 = ''ncadmin'')\<rparr>)"

section \<open>Host keys\<close>

record 'w SSHServer =
  sr_Client :: "'w kube"
  sr_sshAddr :: string
  sr_adminPassword :: string

definition NewSSHServer :: "'w kube \<Rightarrow> string \<Rightarrow> string \<Rightarrow> 'w SSHServer" where
  "NewSSHServer client sshAddr adminPassword =
     \<lparr>sr_Client = client, sr_sshAddr = sshAddr, sr_adminPassword = adminPassword\<rparr>"

definition rsaHostKeyPath :: string where
  "rsaHostKeyPath = path_join [''data'', ''ssh_host_rsa_key'']"

text \<open>
  \<open>ko_pem_Encode\<close>: the bytes that reach the file and the error of the last write.
\<close>

record ('k, 's) key_ops =
  ko_GenerateKey :: "'k or_error"
  ko_pem_Encode :: "'k \<Rightarrow> string \<times> error option"
  ko_ParsePrivateKey :: "string \<Rightarrow> 's or_error"
  ko_Type :: "'s \<Rightarrow> string"

definition ssh_fileExists :: "('f, 'x) host_ops \<Rightarrow> string \<Rightarrow> 'x host \<Rightarrow> bool" where
  "ssh_fileExists ho path h = (case os_Stat ho h path of Inl _ \<Rightarrow> False | Inr _ \<Rightarrow> True)"

definition ensureRSAHostKey ::
    "('f, 'x) host_ops \<Rightarrow> ('k, 's) key_ops \<Rightarrow> 'x host \<Rightarrow> error option \<times> 'x host" where
  "ensureRSAHostKey ho ko h =
     (if ssh_fileExists ho rsaHostKeyPath h then (None, h)
      else (case os_WriteFile ho rsaHostKeyPath '''' h of
              (Some e, h) \<Rightarrow> (Some (Wrap ''failed to create file for RSA host key: '' e), h)
            | (None, h) \<Rightarrow>
                (case ko_GenerateKey ko of
                   Inl e \<Rightarrow> (Some (Wrap ''failed to generate RSA host key: '' e), h)
                 | Inr key \<Rightarrow>
                     (case ko_pem_Encode ko key of
                        (bytes, err) \<Rightarrow>
                          (let h = h\<lparr>h_fs := (h_fs h)(rsaHostKeyPath \<mapsto> File bytes)\<rparr>
                           in case err of
                                Some e \<Rightarrow> (Some (Wrap ''failed to encode RSA host key: '' e), h)
                              | None \<Rightarrow> (None, h))))))"

definition ensureHostKeys ::
    "('f, 'x) host_ops \<Rightarrow> ('k, 's) key_ops \<Rightarrow> 'x host \<Rightarrow> error option \<times> 'x host" where
  "ensureHostKeys ho ko h =
     (case ensureRSAHostKey ho ko h of
        (Some e, h) \<Rightarrow> (Some (Wrap ''failed to ensure RSA host key: '' e), h)
      | (None, h) \<Rightarrow> (None, h))"

definition injectHostKeys ::
    "('f, 'x) host_ops \<Rightarrow> ('k, 's) key_ops \<Rightarrow> ('h, 's, 'l, 'c, 'w) Server \<Rightarrow> 'x host \<Rightarrow>
     (error + ('h, 's, 'l, 'c, 'w) Server) \<times> 'x host" where
  "injectHostKeys ho ko server h =
     (case ensureHostKeys ho ko h of
        (Some e, h) \<Rightarrow> (Inl (Wrap ''failed to ensure host keys: '' e), h)
      | (None, h) \<Rightarrow>
          (case os_ReadFile ho h rsaHostKeyPath of
             Inl e \<Rightarrow> (Inl (Wrap ''failed to read RSA host key: '' e), h)
           | Inr rsaHostKeyData \<Rightarrow>
               (case ko_ParsePrivateKey ko rsaHostKeyData of
                  Inl e \<Rightarrow> (Inl (Wrap ''failed to parse RSA host key: '' e), h)
                | Inr rsaHostKey \<Rightarrow> (Inr (AddHostKey (ko_Type ko) rsaHostKey server), h))))"

section \<open>Authentication\<close>

definition handlePasswordAuthentication :: "'w SSHServer \<Rightarrow> string \<Rightarrow> string \<Rightarrow> 'w \<Rightarrow> error option" where
  "handlePasswordAuthentication r sctxUser password w =
     (case parseUser sctxUser of
        Inl _ \<Rightarrow> Some (Errorf ''invalid user format'')
      | Inr user \<Rightarrow>
          if us_Admin user
          then (if password \<noteq> sr_adminPassword r then Some (Errorf ''invalid password'') else None)
          else (case getProblemEnvironment (sr_Client r) w (''netcon'', us_ProblemEnvironmentName user) of
                  Inl _ \<Rightarrow> Some (Errorf ''problem environment not found'')
                | Inr pe \<Rightarrow>
                    if GetProblemEnvironmentCondition pe ProblemEnvironmentConditionAssigned \<noteq> ConditionTrue
                    then Some (Errorf ''problem environment not assigned'')
                    else if password \<noteq> pe_Password pe then Some (Errorf ''invalid password'')
                    else None))"

text \<open>The counters of \<^verbatim>\<open>metrics.go\<close>; the histogram by its observations.\<close>

record ssh_metrics =
  sm_sshAuthTotalSucceeded :: nat
  sm_sshAuthTotalFailed :: nat
  sm_sshSessionsInFlight :: int
  sm_sshSessionDuration :: "duration list"

definition PasswordHandler :: "'w SSHServer \<Rightarrow> ('w \<times> ssh_metrics) password_handler" where
  "PasswordHandler r sctx password = (\<lambda>(w, m).
     case ctx_User sctx of
       Panic msg \<Rightarrow> Panic msg
     | Ret user \<Rightarrow>
         (case handlePasswordAuthentication r user password w of
            Some _ \<Rightarrow> Ret (False, w, m\<lparr>sm_sshAuthTotalFailed := sm_sshAuthTotalFailed m + 1\<rparr>)
          | None \<Rightarrow> Ret (True, w, m\<lparr>sm_sshAuthTotalSucceeded := sm_sshAuthTotalSucceeded m + 1\<rparr>)))"

section \<open>Sessions\<close>

record Cmd =
  cmd_Name :: string
  cmd_Args :: "string list"
  cmd_Env :: "string list option" \<comment> \<open>\<open>None\<close>: the environment of the process\<close>

definition helper_args :: "string \<Rightarrow> User \<Rightarrow> string list" where
  "helper_args otlpEndpoint user =
     [''-t'', path_join [''data'', us_ProblemEnvironmentName user, ''manifest.yml'']]
     @ (if us_Admin user then [''--admin''] else [])
     @ (if otlpEndpoint \<noteq> '''' then [''--enable-otel''] else [])
     @ (if us_NodeName user \<noteq> '''' then [us_NodeName user] else [])"

datatype session_effect = PtyStart Cmd | CmdWait | SessionClose | PtyClose | SessionPrint string

text \<open>
  \<open>environ\<close> is the environment of nclet, \<open>carrier\<close> what the propagator injects for the
  span of the session, \<open>start\<close> the error of starting a command on a pseudo terminal.
\<close>

definition handle ::
    "string list \<Rightarrow> EnvCarrier \<Rightarrow> (Cmd \<Rightarrow> error option) \<Rightarrow> string \<Rightarrow> string \<Rightarrow> error option \<times> session_effect list" where
  "handle environ carrier start rawCommand suser =
     (if rawCommand \<noteq> '''' then (Some (GenerateError ''command execution is not supported''), [])
      else (let otlpEndpoint = Getenv environ OTLPEndpointKey
            in case parseUser suser of
                 Inl _ \<Rightarrow> (Some (GenerateError ''invalid user format''), [])
               | Inr user \<Rightarrow>
                   (let cmd = \<lparr>cmd_Name = ''access-helper'', cmd_Args = helper_args otlpEndpoint user,
                               cmd_Env = (if otlpEndpoint \<noteq> ''''
                                 then Some (InjectToCmd carrier (environ @ [OTLPEndpointKey @ ''='' @ otlpEndpoint]))
                                 else None)\<rparr>
                    in case start cmd of
                         Some e \<Rightarrow> (Some (WrapError e ''failed to start pty''), [])
                       | None \<Rightarrow> (None, [PtyStart cmd, CmdWait, SessionClose, PtyClose]))))"

definition SessionHandler ::
    "string list \<Rightarrow> EnvCarrier \<Rightarrow> (Cmd \<Rightarrow> error option) \<Rightarrow> duration \<Rightarrow> string \<Rightarrow> string \<Rightarrow> ssh_metrics \<Rightarrow>
     session_effect list \<times> ssh_metrics" where
  "SessionHandler environ carrier start duration rawCommand suser m =
     (let m = m\<lparr>sm_sshSessionsInFlight := sm_sshSessionsInFlight m + 1\<rparr>;
          finish = (\<lambda>m. m\<lparr>sm_sshSessionDuration := sm_sshSessionDuration m @ [duration],
                          sm_sshSessionsInFlight := sm_sshSessionsInFlight m - 1\<rparr>)
      in case handle environ carrier start rawCommand suser of
           (Some _, effs) \<Rightarrow>
             (effs @ [SessionPrint (''Internal error occured. Please contact NETCON members with Session ID and Trace ID.'' @ [LF]),
                      SessionClose], finish m)
         | (None, effs) \<Rightarrow> (effs @ [SessionClose], finish m))"

definition ssh_Start ::
    "('f, 'x) host_ops \<Rightarrow> ('k, 's) key_ops \<Rightarrow> 'h \<Rightarrow> (('h, 's, 'l, 'c, 'w \<times> ssh_metrics) Server \<Rightarrow> error option) \<Rightarrow>
     'w SSHServer \<Rightarrow> 'x host \<Rightarrow> error option \<times> 'x host" where
  "ssh_Start ho ko handler listenAndServe r h =
     (let server = \<lparr>sv_Addr = sr_sshAddr r, sv_Handler = Some handler, sv_HostSigners = [],
            sv_PasswordHandler = Some (PasswordHandler r), sv_IdleTimeout = 20 * 60 * Second,
            sv_MaxTimeout = 0, sv_ChannelHandlers = None, sv_RequestHandlers = None,
            sv_SubsystemHandlers = None, sv_listenerWg = 0, sv_listeners = [], sv_conns = [],
            sv_connWg = 0, sv_doneChan = None\<rparr>
      in case injectHostKeys ho ko server h of
           (Inl e, h) \<Rightarrow> (Some e, h)
         | (Inr server, h) \<Rightarrow> (listenAndServe server, h))"

section \<open>Facts\<close>

definition user_name :: "User \<Rightarrow> string" where
  "user_name u =
     (if us_Admin u then ''ncadmin'' else ''nc'') @ ''_'' @ us_ProblemEnvironmentName u
     @ (if us_NodeName u = '''' then '''' else ''_'' @ us_NodeName u)"

lemma parseUser_user_name:
  assumes "CHR ''_'' \<notin> set (us_ProblemEnvironmentName u)" "CHR ''_'' \<notin> set (us_NodeName u)"
  shows "parseUser (user_name u) = Inr u"
proof -
  have "split_on CHR ''_'' (user_name u) =
      (if us_Admin u then ''ncadmin'' else ''nc'') # us_ProblemEnvironmentName u
      # (if us_NodeName u = '''' then [] else [us_NodeName u])"
    using assms by (simp add: user_name_def split_on_append split_on_single)
  then show ?thesis
    by (simp add: parseUser_def)
qed

lemma parseUser_Inr:
  assumes "parseUser s = Inr u"
  shows "CHR ''_'' \<notin> set (us_ProblemEnvironmentName u)" "CHR ''_'' \<notin> set (us_NodeName u)"
    and "s = user_name u \<or> us_NodeName u = '''' \<and> s = user_name u @ ''_''"
proof -
  obtain ps where ps: "split_on CHR ''_'' s = ps"
    by simp
  have s: "s = join ''_'' ps"
    using join_split_on [of "CHR ''_''" s] ps by simp
  have mem: "\<forall>p \<in> set ps. CHR ''_'' \<notin> set p"
    using split_on_members ps by blast
  have "length ps = Suc (Suc 0) \<or> length ps = Suc (Suc (Suc 0))"
    using assms ps by (auto simp: parseUser_def Let_def split: if_splits)
  then consider a b where "ps = [a, b]" | a b c where "ps = [a, b, c]"
    by (auto simp: length_Suc_conv)
  then have "CHR ''_'' \<notin> set (us_ProblemEnvironmentName u) \<and> CHR ''_'' \<notin> set (us_NodeName u) \<and>
    (s = user_name u \<or> us_NodeName u = '''' \<and> s = user_name u @ ''_'')"
  proof cases
    case 1
    with assms ps have "a = ''nc'' \<or> a = ''ncadmin''"
      "u = \<lparr>us_ProblemEnvironmentName = b, us_NodeName = '''', us_Admin = (a = ''ncadmin'')\<rparr>"
      by (simp_all add: parseUser_def Let_def split: if_splits)
    with mem s 1 show ?thesis
      by (elim disjE) (simp_all add: user_name_def)
  next
    case 2
    with assms ps have "a = ''nc'' \<or> a = ''ncadmin''"
      "u = \<lparr>us_ProblemEnvironmentName = b, us_NodeName = c, us_Admin = (a = ''ncadmin'')\<rparr>"
      by (simp_all add: parseUser_def Let_def split: if_splits)
    with mem s 2 show ?thesis
      by (elim disjE) (simp_all add: user_name_def)
  qed
  then show "CHR ''_'' \<notin> set (us_ProblemEnvironmentName u)" "CHR ''_'' \<notin> set (us_NodeName u)"
    "s = user_name u \<or> us_NodeName u = '''' \<and> s = user_name u @ ''_''"
    by simp_all
qed

lemma parseUser_trailing:
  assumes "CHR ''_'' \<notin> set (us_ProblemEnvironmentName u)" "us_NodeName u = ''''"
  shows "parseUser (user_name u @ ''_'') = Inr u"
proof -
  have "split_on CHR ''_'' (user_name u @ ''_'') =
      [if us_Admin u then ''ncadmin'' else ''nc'', us_ProblemEnvironmentName u, '''']"
    using assms by (simp add: user_name_def split_on_append split_on_single)
  then show ?thesis
    using assms(2) by (simp add: parseUser_def)
qed

lemma handlePasswordAuthentication_iff:
  "handlePasswordAuthentication r user password w = None \<longleftrightarrow>
     (\<exists>u. parseUser user = Inr u \<and>
        (if us_Admin u then password = sr_adminPassword r
         else \<exists>pe. getProblemEnvironment (sr_Client r) w (''netcon'', us_ProblemEnvironmentName u) = Inr pe \<and>
           GetProblemEnvironmentCondition pe ProblemEnvironmentConditionAssigned = ConditionTrue \<and>
           password = pe_Password pe))"
  by (auto simp: handlePasswordAuthentication_def split: sum.splits)

lemma ctx_User_apply:
  "ctx ContextKeySessionID = None \<Longrightarrow> ctx_User (applyConnMetadata ctx conn) = Ret (cn_User conn)"
  by (simp add: applyConnMetadata_def SetValue_def Value_def ctx_User_def ctx_string_def Let_def)

lemma applyConnMetadata_again [simp]:
  "applyConnMetadata (applyConnMetadata ctx conn) conn' = applyConnMetadata ctx conn"
  by (simp add: applyConnMetadata_def SetValue_def Value_def Let_def)

lemma PasswordHandler_result:
  assumes "ctx_User sctx = Ret user"
  shows "PasswordHandler r sctx password (w, m) =
    (if handlePasswordAuthentication r user password w = None
     then Ret (True, w, m\<lparr>sm_sshAuthTotalSucceeded := sm_sshAuthTotalSucceeded m + 1\<rparr>)
     else Ret (False, w, m\<lparr>sm_sshAuthTotalFailed := sm_sshAuthTotalFailed m + 1\<rparr>))"
  using assms by (auto simp: PasswordHandler_def split: option.splits)

lemma PasswordCallback_result:
  assumes "ctx_User (applyConnMetadata ctx conn) = Ret user"
  shows "\<exists>m'. PasswordCallback (PasswordHandler r) ctx conn p (w, m) =
    Ret (if handlePasswordAuthentication r user p w = None then None else Some (Errorf ''permission denied''),
         applyConnMetadata ctx conn, w, m')"
  by (simp add: PasswordCallback_def Let_def PasswordHandler_result [OF assms])

lemma newContext_no_session [simp]: "newContext ContextKeySessionID = None"
  by (simp add: newContext_def SetValue_def)

text \<open>A user name of a participant with the node name \<open>n\<close>.\<close>

lemma parseUser_participant:
  "CHR ''_'' \<notin> set name \<Longrightarrow> CHR ''_'' \<notin> set n \<Longrightarrow> n \<noteq> '''' \<Longrightarrow> parseUser (''nc_'' @ name @ ''_'' @ n) =
     Inr \<lparr>us_ProblemEnvironmentName = name, us_NodeName = n, us_Admin = False\<rparr>"
  using parseUser_user_name [of "\<lparr>us_ProblemEnvironmentName = name, us_NodeName = n, us_Admin = False\<rparr>"]
  by (simp add: user_name_def)

lemma parseUser_plain:
  "CHR ''_'' \<notin> set name \<Longrightarrow> parseUser (''nc_'' @ name) =
     Inr \<lparr>us_ProblemEnvironmentName = name, us_NodeName = '''', us_Admin = False\<rparr>"
  "CHR ''_'' \<notin> set name \<Longrightarrow> parseUser (''ncadmin_'' @ name) =
     Inr \<lparr>us_ProblemEnvironmentName = name, us_NodeName = '''', us_Admin = True\<rparr>"
  using parseUser_user_name [of "\<lparr>us_ProblemEnvironmentName = name, us_NodeName = '''', us_Admin = False\<rparr>"]
    parseUser_user_name [of "\<lparr>us_ProblemEnvironmentName = name, us_NodeName = '''', us_Admin = True\<rparr>"]
  by (simp_all add: user_name_def)

section \<open>Properties\<close>

text \<open>
  C28. Password authentication. The handler of a connection whose user is \<open>user\<close> accepts a
  password exactly when the user name has one of the documented forms and either it is an
  administrator's and the password is the administrator password, or the environment it names is
  stored in namespace \<^verbatim>\<open>netcon\<close>, is assigned and has that password; it changes nothing but the
  counter of its outcome.
\<close>

theorem password_accepted_iff:
  assumes "ctx_User sctx = Ret user"
  shows "PasswordHandler r sctx password (w, m) =
    (if \<exists>u. CHR ''_'' \<notin> set (us_ProblemEnvironmentName u) \<and> CHR ''_'' \<notin> set (us_NodeName u) \<and>
          (user = user_name u \<or> us_NodeName u = '''' \<and> user = user_name u @ ''_'') \<and>
          (if us_Admin u then password = sr_adminPassword r
           else \<exists>pe. getProblemEnvironment (sr_Client r) w (''netcon'', us_ProblemEnvironmentName u) = Inr pe \<and>
             GetProblemEnvironmentCondition pe ProblemEnvironmentConditionAssigned = ConditionTrue \<and>
             password = pe_Password pe)
     then Ret (True, w, m\<lparr>sm_sshAuthTotalSucceeded := sm_sshAuthTotalSucceeded m + 1\<rparr>)
     else Ret (False, w, m\<lparr>sm_sshAuthTotalFailed := sm_sshAuthTotalFailed m + 1\<rparr>))"
    (is "_ = (if \<exists>u. ?form u \<and> ?name u \<and> ?shape u \<and> ?auth u then _ else _)")
proof -
  have parse: "parseUser user = Inr u \<longleftrightarrow> ?form u \<and> ?name u \<and> ?shape u" for u
    using parseUser_Inr [of user u] parseUser_user_name [of u] parseUser_trailing [of u] by blast
  show ?thesis
    unfolding PasswordHandler_result [OF assms] handlePasswordAuthentication_iff parse
    by (simp only: conj_assoc)
qed

abbreviation no_metrics :: ssh_metrics where
  "no_metrics \<equiv> \<lparr>sm_sshAuthTotalSucceeded = 0, sm_sshAuthTotalFailed = 0, sm_sshSessionsInFlight = 0, sm_sshSessionDuration = []\<rparr>"

definition sample_ssh :: "kmem SSHServer" where
  "sample_ssh = NewSSHServer mem_client '':2222'' ''secret''"

definition sample_conn :: "string \<Rightarrow> ConnMetadata" where
  "sample_conn user = \<lparr>cn_User = user, cn_SessionID = ''s'', cn_ClientVersion = ''SSH-2.0'', cn_ServerVersion = ''SSH-2.0-nclet'',
     cn_RemoteAddr = ''198.51.100.7:50000'', cn_LocalAddr = ''192.0.2.1:2222''\<rparr>"

abbreviation sample_assigned_world :: kmem where
  "sample_assigned_world \<equiv> sample_world [sample_deployed ConditionTrue ConditionTrue]"

lemma sample_authentication:
  "getProblemEnvironment (sr_Client sample_ssh) sample_assigned_world (''netcon'', ''abc-1'') =
     Inr (sample_deployed ConditionTrue ConditionTrue)"
  "GetProblemEnvironmentCondition (sample_deployed ConditionTrue ConditionTrue) ProblemEnvironmentConditionAssigned = ConditionTrue"
  "pe_Password (sample_deployed ConditionTrue ConditionTrue) = replicate 24 CHR ''A''"
  by (simp_all add: sample_ssh_def NewSSHServer_def mem_client_def lookup_obj_def sample_defs
      GetProblemEnvironmentCondition_def condition_type_defs)

theorem password_accepted_iff_witness:
  "\<exists>m'. PasswordHandler sample_ssh (applyConnMetadata newContext (sample_conn ''nc_abc-1'')) (replicate 24 CHR ''A'')
     (sample_assigned_world, no_metrics) = Ret (True, sample_assigned_world, m')"
proof -
  let ?u = "\<lparr>us_ProblemEnvironmentName = ''abc-1'', us_NodeName = '''', us_Admin = False\<rparr>"
  have "ctx_User (applyConnMetadata newContext (sample_conn ''nc_abc-1'')) = Ret ''nc_abc-1''"
    by (simp add: ctx_User_apply sample_conn_def)
  from password_accepted_iff [OF this, of sample_ssh "replicate 24 CHR ''A''" sample_assigned_world no_metrics]
  show ?thesis
    using sample_authentication by (auto simp: user_name_def intro!: exI [of _ ?u])
qed

text \<open>
  C30. The user of a connection is fixed by the first password attempt. Later attempts on the same
  connection are checked against the user name of the first one, whatever user name they carry,
  while the session handler runs with the user name of the accepted attempt: a participant who
  first fails as \<^verbatim>\<open>nc_<own environment>\<close> is then let in under any other name with the password of
  that environment.
\<close>

theorem later_attempts_use_first_user:
  assumes "PasswordCallback (PasswordHandler r) newContext conn p (w, m) = Ret (err, ctx, w', m')"
  shows "\<exists>m''. PasswordCallback (PasswordHandler r) ctx conn' p' (w'', m') =
    Ret (if handlePasswordAuthentication r (cn_User conn) p' w'' = None then None
         else Some (Errorf ''permission denied''), ctx, w'', m'')"
proof -
  have "ctx_User (applyConnMetadata newContext conn) = Ret (cn_User conn)"
    by (simp add: ctx_User_apply)
  moreover from PasswordCallback_result [OF this, of r p w m] assms have "ctx = applyConnMetadata newContext conn"
    by auto
  ultimately show ?thesis
    using PasswordCallback_result [of ctx conn' "cn_User conn" r p' w'' m'] by simp
qed

theorem later_attempts_use_first_user_witness:
  "\<exists>ctx m1 m2 cmd. PasswordCallback (PasswordHandler sample_ssh) newContext (sample_conn ''nc_abc-1'') ''wrong''
       (sample_assigned_world, no_metrics) = Ret (Some (Errorf ''permission denied''), ctx, sample_assigned_world, m1) \<and>
     PasswordCallback (PasswordHandler sample_ssh) ctx (sample_conn ''ncadmin_abc-1'') (replicate 24 CHR ''A'')
       (sample_assigned_world, m1) = Ret (None, ctx, sample_assigned_world, m2) \<and>
     handle [] [] (\<lambda>_. None) '''' (cn_User (sample_conn ''ncadmin_abc-1'')) = (None, [PtyStart cmd, CmdWait, SessionClose, PtyClose]) \<and>
     ''--admin'' \<in> set (cmd_Args cmd)"
proof -
  have u: "ctx_User (applyConnMetadata newContext (sample_conn ''nc_abc-1'')) = Ret ''nc_abc-1''"
    by (simp add: ctx_User_apply sample_conn_def)
  have a: "handlePasswordAuthentication sample_ssh ''nc_abc-1'' p sample_assigned_world =
      (if p = replicate 24 CHR ''A'' then None else Some (Errorf ''invalid password''))" for p
    using parseUser_plain(1) [of "''abc-1''"] sample_authentication by (simp add: handlePasswordAuthentication_def)
  have "''wrong'' \<noteq> replicate 24 CHR ''A''"
    by (auto dest: arg_cong [where f = length])
  then obtain m1 where 1: "PasswordCallback (PasswordHandler sample_ssh) newContext (sample_conn ''nc_abc-1'') ''wrong''
       (sample_assigned_world, no_metrics) = Ret (Some (Errorf ''permission denied''),
         applyConnMetadata newContext (sample_conn ''nc_abc-1''), sample_assigned_world, m1)"
    using PasswordCallback_result [OF u, of sample_ssh "''wrong''" sample_assigned_world no_metrics] by (auto simp: a)
  obtain m2 where 2: "PasswordCallback (PasswordHandler sample_ssh) (applyConnMetadata newContext (sample_conn ''nc_abc-1''))
       (sample_conn ''ncadmin_abc-1'') (replicate 24 CHR ''A'') (sample_assigned_world, m1) =
       Ret (None, applyConnMetadata newContext (sample_conn ''nc_abc-1''), sample_assigned_world, m2)"
    using later_attempts_use_first_user [OF 1, of "sample_conn ''ncadmin_abc-1''" "replicate 24 CHR ''A''" sample_assigned_world]
    by (auto simp: a sample_conn_def)
  have "\<exists>cmd. handle [] [] (\<lambda>_. None) '''' (cn_User (sample_conn ''ncadmin_abc-1'')) =
      (None, [PtyStart cmd, CmdWait, SessionClose, PtyClose]) \<and> ''--admin'' \<in> set (cmd_Args cmd)"
    using parseUser_plain(2) [of "''abc-1''"] by (simp add: handle_def sample_conn_def helper_args_def Let_def)
  with 1 2 show ?thesis
    by metis
qed

text \<open>
  A participant can name a node that is an option. For an environment name without an
  underscore, the user \<^verbatim>\<open>nc_<name>_--admin\<close> is authenticated like the participant \<^verbatim>\<open>nc_<name>\<close>,
  but nclet starts \<^verbatim>\<open>access-helper\<close> for it with exactly the command line it uses for the
  administrator \<^verbatim>\<open>ncadmin_<name>\<close> (without telemetry; with it, with the same options).
\<close>

theorem node_name_grants_admin:
  assumes "CHR ''_'' \<notin> set name"
  shows "handlePasswordAuthentication r (''nc_'' @ name @ ''_--admin'') p w =
      handlePasswordAuthentication r (''nc_'' @ name) p w \<and>
    (Getenv environ OTLPEndpointKey = '''' \<longrightarrow>
      handle environ carrier start '''' (''nc_'' @ name @ ''_--admin'') =
      handle environ carrier start '''' (''ncadmin_'' @ name))"
proof -
  have u: "parseUser (''nc_'' @ name @ ''_--admin'') =
      Inr \<lparr>us_ProblemEnvironmentName = name, us_NodeName = ''--admin'', us_Admin = False\<rparr>"
    using parseUser_participant [of name "''--admin''"] assms by simp
  have "handlePasswordAuthentication r (''nc_'' @ name @ ''_--admin'') p w =
      handlePasswordAuthentication r (''nc_'' @ name) p w"
    unfolding handlePasswordAuthentication_def u parseUser_plain(1) [OF assms] by simp
  moreover have "handle environ carrier start '''' (''nc_'' @ name @ ''_--admin'') =
      handle environ carrier start '''' (''ncadmin_'' @ name)" if "Getenv environ OTLPEndpointKey = ''''"
    using that unfolding handle_def u parseUser_plain(2) [OF assms] by (simp add: helper_args_def Let_def split: option.split)
  ultimately show ?thesis
    by blast
qed

theorem node_name_grants_admin_witness:
  "handle [] [] (\<lambda>_. None) '''' ''nc_abc-1_--admin'' = handle [] [] (\<lambda>_. None) '''' ''ncadmin_abc-1'' \<and>
   handlePasswordAuthentication sample_ssh ''nc_abc-1_--admin'' (replicate 24 CHR ''A'') sample_assigned_world = None"
  using node_name_grants_admin [of "''abc-1''" sample_ssh "replicate 24 CHR ''A''" sample_assigned_world
      "[]" "[]" "\<lambda>_. None"]
    parseUser_plain(1) [of "''abc-1''"] sample_authentication
  by (simp add: handlePasswordAuthentication_def)

section \<open>Host keys\<close>

text \<open>What is parsed is what was written: the key pair a fresh host is given, or the stored one.\<close>

lemma injectHostKeys_stored:
  assumes "h_fs h rsaHostKeyPath = Some (File pem)" "ho_fault ho h ''stat'' rsaHostKeyPath = None"
    "ho_fault ho h ''read'' rsaHostKeyPath = None" "ko_ParsePrivateKey ko pem = Inr key"
  shows "injectHostKeys ho ko server h = (Inr (AddHostKey (ko_Type ko) key server), h)"
  using assms
  by (simp add: injectHostKeys_def ensureHostKeys_def ensureRSAHostKey_def ssh_fileExists_def os_Stat_def os_ReadFile_def)

lemma ensureRSAHostKey_empty:
  assumes "ensureRSAHostKey ho ko h = (Some e, h')" "ko_GenerateKey ko = Inl g"
    and "\<not> ssh_fileExists ho rsaHostKeyPath h"
  shows "h' = h \<or> h_fs h' rsaHostKeyPath = Some (File '''')"
  using assms by (auto simp: ensureRSAHostKey_def os_WriteFile_def split: option.splits if_splits)

text \<open>
  Host keys. A key file that parses gives the server that key and is left alone. But when the
  generation of a key fails, the file it was to go to is already there, empty, and from then on
  every start fails while parsing it (\<^verbatim>\<open>ParsePrivateKey\<close> refuses empty data), also when keys can
  be generated again.
\<close>

theorem host_key_failure_sticks:
  assumes "\<not> ssh_fileExists ho rsaHostKeyPath h" "ko_GenerateKey ko = Inl g"
    and "ensureRSAHostKey ho ko h = (Some e, h')" "h' \<noteq> h"
    and "ho_fault ho h' ''stat'' rsaHostKeyPath = None" "ho_fault ho h' ''read'' rsaHostKeyPath = None"
    and "ko_ParsePrivateKey ko' '''' = Inl pe"
  shows "injectHostKeys ho ko' server h' = (Inl (Wrap ''failed to parse RSA host key: '' pe), h')"
proof -
  have "h_fs h' rsaHostKeyPath = Some (File '''')"
    using ensureRSAHostKey_empty [OF assms(3,2,1)] assms(4) by simp
  with assms(5-) show ?thesis
    by (simp add: injectHostKeys_def ensureHostKeys_def ensureRSAHostKey_def ssh_fileExists_def os_Stat_def os_ReadFile_def)
qed

definition sample_key_ops :: "string or_error \<Rightarrow> (string, string) key_ops" where
  "sample_key_ops gen = \<lparr>ko_GenerateKey = gen, ko_pem_Encode = (\<lambda>k. (k, None)),
     ko_ParsePrivateKey = (\<lambda>pem. if pem = '''' then Inl (Errorf ''ssh: no key found'') else Inr pem),
     ko_Type = (\<lambda>_. ''ssh-rsa'')\<rparr>"

theorem host_key_failure_sticks_witness:
  "\<exists>e e' h'. ensureRSAHostKey sample_ops (sample_key_ops (Inl (Errorf ''no entropy''))) sample_host = (Some e, h') \<and>
     injectHostKeys sample_ops (sample_key_ops (Inr ''key'')) new_Server h' = (Inl e', h')"
proof -
  let ?h = "sample_host\<lparr>h_fs := (h_fs sample_host)(rsaHostKeyPath \<mapsto> File '''')\<rparr>"
  have p: "rsaHostKeyPath = ''data/ssh_host_rsa_key''" "filepath_Dir ''data/ssh_host_rsa_key'' = ''data''"
    by (simp_all add: rsaHostKeyPath_def path_join_def path_clean_def filepath_Dir_def Let_def has_prefix_def)
  have ex: "\<not> ssh_fileExists sample_ops rsaHostKeyPath sample_host"
    by (simp add: ssh_fileExists_def os_Stat_def sample_host_defs p)
  then obtain e where e: "ensureRSAHostKey sample_ops (sample_key_ops (Inl (Errorf ''no entropy''))) sample_host = (Some e, ?h)"
    by (simp add: ensureRSAHostKey_def os_WriteFile_def sample_key_ops_def sample_host_defs p)
  have "h_fs ?h rsaHostKeyPath \<noteq> h_fs sample_host rsaHostKeyPath"
    by (simp add: sample_host_defs p)
  then have ne: "?h \<noteq> sample_host"
    by metis
  have "injectHostKeys sample_ops (sample_key_ops (Inr ''key'')) new_Server ?h =
      (Inl (Wrap ''failed to parse RSA host key: '' (Errorf ''ssh: no key found'')), ?h)"
    by (rule host_key_failure_sticks [OF ex _ e ne]) (simp_all add: sample_key_ops_def sample_ops_def)
  with e show ?thesis
    by blast
qed

end
