(* ===== verification/Heartbeat.thy ===== *)
theory Heartbeat
  imports Worker_Controller
begin

text \<open>
  The heartbeat agent of nclet (\<^verbatim>\<open>controllers/nclet/heartbeat.go\<close>): it registers the worker,
  renews its lease, samples CPU and memory usage and reports their averages. The readings of
  \<^verbatim>\<open>gopsutil\<close> come with the events; \<^verbatim>\<open>ctrl.CreateOrUpdate\<close> is a function of
  controller-runtime and a parameter: it gets an object and a function that changes it, and
  returns the object as it is afterwards, the error and the world.
\<close>

section \<open>The agent\<close>

definition CPU_USED_HISTORY_SIZE :: nat where
  "CPU_USED_HISTORY_SIZE = 20"

definition MEM_USED_HISTORY_SIZE :: nat where
  "MEM_USED_HISTORY_SIZE = 20"

type_synonym ('o, 'w) create_or_update = "'o \<Rightarrow> ('o \<Rightarrow> 'o) \<Rightarrow> 'w \<Rightarrow> ('o \<times> error option) \<times> 'w"

record ('f, 'w) HeartbeatAgent =
  ha_Client :: "'w kube"
  ha_workerName :: string
  ha_workerClass :: string
  ha_externalIPAddr :: string
  ha_externalPort :: "16 word"
  ha_heartbeatTicker :: duration \<comment> \<open>a ticker by its interval\<close>
  ha_statusUpdateTicker :: duration
  ha_cpuUsedHistory :: "'f list"
  ha_memUsedHistory :: "'f list"

text \<open>\<^verbatim>\<open>time.NewTicker\<close> panics if the interval is not positive.\<close>

definition NewTicker :: "duration \<Rightarrow> duration go" where
  "NewTicker d = (if d \<le> 0 then Panic ''non-positive interval for NewTicker'' else Ret d)"

definition NewHeartbeatAgent ::
    "'f float_ops \<Rightarrow> 'w kube \<Rightarrow> string \<Rightarrow> string \<Rightarrow> string \<Rightarrow> 16 word \<Rightarrow> duration \<Rightarrow> duration \<Rightarrow>
     ('f, 'w) HeartbeatAgent go" where
  "NewHeartbeatAgent F k name cls ip port heartbeatInterval statusUpdateInterval =
     (case NewTicker heartbeatInterval of
        Panic m \<Rightarrow> Panic m
      | Ret heartbeatTicker \<Rightarrow>
          (case NewTicker statusUpdateInterval of
             Panic m \<Rightarrow> Panic m
           | Ret statusUpdateTicker \<Rightarrow>
               Ret \<lparr>ha_Client = k, ha_workerName = name, ha_workerClass = cls, ha_externalIPAddr = ip,
                    ha_externalPort = port,
                    ha_heartbeatTicker = heartbeatTicker, ha_statusUpdateTicker = statusUpdateTicker,
                    ha_cpuUsedHistory = replicate CPU_USED_HISTORY_SIZE (f_of_int F 0),
                    ha_memUsedHistory = replicate MEM_USED_HISTORY_SIZE (f_of_int F 0)\<rparr>))"

definition initMetricsCollector ::
    "'f float_ops \<Rightarrow> 'f list or_error \<Rightarrow> ('f, 'w) HeartbeatAgent \<Rightarrow> error option \<times> ('f, 'w) HeartbeatAgent" where
  "initMetricsCollector F cpu a =
     (case cpu of
        Inl e \<Rightarrow> (Some (Wrap ''failed to collect metrics: '' e), a)
      | Inr _ \<Rightarrow>
          (None, a\<lparr>ha_cpuUsedHistory := map (\<lambda>_. f_of_int F 0) (ha_cpuUsedHistory a),
                   ha_memUsedHistory := map (\<lambda>_. f_of_int F 0) (ha_memUsedHistory a)\<rparr>))"

text \<open>The loop \<^verbatim>\<open>for i := 0; i < n-1; i++ { h[i+1] = h[i] }\<close>, in this order.\<close>

fun shift_loop :: "nat \<Rightarrow> nat \<Rightarrow> 'f list \<Rightarrow> 'f list" where
  "shift_loop i 0 h = h"
| "shift_loop i (Suc n) h = shift_loop (Suc i) n (h[i + 1 := h ! i])"

text \<open>\<^verbatim>\<open>cpuUsed[0]\<close> of an empty result panics.\<close>

definition collectMetrics ::
    "'f list or_error \<Rightarrow> 'f or_error \<Rightarrow> ('f, 'w) HeartbeatAgent \<Rightarrow> (error option \<times> ('f, 'w) HeartbeatAgent) go" where
  "collectMetrics cpu mem a =
     (case cpu of
        Inl e \<Rightarrow> Ret (Some e, a)
      | Inr cpuUsed \<Rightarrow>
          (case mem of
             Inl e \<Rightarrow> Ret (Some e, a)
           | Inr usedPercent \<Rightarrow>
               (let cpuH = shift_loop 0 (CPU_USED_HISTORY_SIZE - 1) (ha_cpuUsedHistory a);
                    memH = shift_loop 0 (MEM_USED_HISTORY_SIZE - 1) (ha_memUsedHistory a)
                in case cpuUsed of
                     [] \<Rightarrow> Panic ''index out of range [0] with length 0''
                   | c # _ \<Rightarrow>
                       Ret (None, a\<lparr>ha_cpuUsedHistory := cpuH[0 := c], ha_memUsedHistory := memH[0 := usedPercent]\<rparr>))))"

fun sum_loop :: "'f float_ops \<Rightarrow> 'f \<Rightarrow> 'f list \<Rightarrow> 'f" where
  "sum_loop F s [] = s"
| "sum_loop F s (x # xs) = sum_loop F (f_add F s x) xs"

definition history_average :: "'f float_ops \<Rightarrow> 'f list \<Rightarrow> 'f" where
  "history_average F h =
     (if \<not> f_eq F (h ! (MEM_USED_HISTORY_SIZE - 1)) (f_of_int F 0)
      then f_div F (sum_loop F (f_of_int F 0) (take MEM_USED_HISTORY_SIZE h))
             (f_of_int F (int MEM_USED_HISTORY_SIZE))
      else f_of_int F 0)"

definition getMetrics :: "'f float_ops \<Rightarrow> ('f, 'w) HeartbeatAgent \<Rightarrow> 'f \<times> 'f" where
  "getMetrics F a = (history_average F (ha_cpuUsedHistory a), history_average F (ha_memUsedHistory a))"

section \<open>The loop\<close>

definition set_worker_labels :: "('f, 'w) HeartbeatAgent \<Rightarrow> Worker \<Rightarrow> Worker" where
  "set_worker_labels a wk =
     (let labels = (case om_Labels (wk_ObjectMeta wk) of None \<Rightarrow> Map.empty | Some ls \<Rightarrow> ls)
      in wk\<lparr>wk_ObjectMeta := (wk_ObjectMeta wk)\<lparr>om_Labels := Some (labels
           (''netcon.janog.gr.jp/workerName'' \<mapsto> ha_workerName a,
            ''netcon.janog.gr.jp/workerClass'' \<mapsto> ha_workerClass a))\<rparr>\<rparr>)"

definition renew_lease :: "time \<Rightarrow> string \<Rightarrow> Lease \<Rightarrow> Lease" where
  "renew_lease now holder lease =
     lease\<lparr>le_HolderIdentity := Some holder, le_RenewTime := Some now, le_LeaseDurationSeconds := Some 5\<rparr>"

definition update_worker_status ::
    "'f float_ops \<Rightarrow> ('f, 'w) HeartbeatAgent \<Rightarrow> string or_error \<Rightarrow> 'w \<Rightarrow> error option \<times> 'w" where
  "update_worker_status F a hostname w =
     (case getWorker (ha_Client a) w (ha_workerName a) of
        Inl e \<Rightarrow> (Some e, w)
      | Inr worker \<Rightarrow>
          (case hostname of
             Inl e \<Rightarrow> (Some e, w)
           | Inr hn \<Rightarrow>
               (let (cpuUsed, memUsed) = getMetrics F a;
                    worker = worker\<lparr>wk_WorkerInfo :=
                      \<lparr>wi_ExternalIPAddress = ha_externalIPAddr a, wi_ExternalPort = ha_externalPort a,
                       wi_Hostname = hn, wi_MemoryUsedPercent = f_format F memUsed,
                       wi_CPUUsedPercent = f_format F cpuUsed\<rparr>\<rparr>
                in case updateStatusWorker (ha_Client a) worker w of
                     (Inl e, w') \<Rightarrow> (Some e, w')
                   | (Inr _, w') \<Rightarrow> (None, w'))))"

datatype 'f heartbeat_event =
    MetricsTick "'f list or_error" "'f or_error"
  | HeartbeatTick time
  | StatusTick "string or_error"
  | HeartbeatDone

text \<open>The state the loop keeps: the histories, the lease object and the world.\<close>

fun heartbeat_loop ::
    "'f float_ops \<Rightarrow> (Lease, 'w) create_or_update \<Rightarrow> string \<Rightarrow> 'f heartbeat_event list \<Rightarrow>
     ('f, 'w) HeartbeatAgent \<Rightarrow> Lease \<Rightarrow> 'w \<Rightarrow> (bool \<times> ('f, 'w) HeartbeatAgent \<times> Lease \<times> 'w) go" where
  "heartbeat_loop F cu wname [] a lease w = Ret (False, a, lease, w)"
| "heartbeat_loop F cu wname (MetricsTick cpu mem # evs) a lease w =
     (case collectMetrics cpu mem a of
        Panic m \<Rightarrow> Panic m
      | Ret (_, a') \<Rightarrow> heartbeat_loop F cu wname evs a' lease w)"
| "heartbeat_loop F cu wname (HeartbeatTick now # evs) a lease w =
     (case cu lease (renew_lease now wname) w of
        ((lease', _), w') \<Rightarrow> heartbeat_loop F cu wname evs a lease' w')"
| "heartbeat_loop F cu wname (StatusTick hostname # evs) a lease w =
     heartbeat_loop F cu wname evs a lease (snd (update_worker_status F a hostname w))"
| "heartbeat_loop F cu wname (HeartbeatDone # evs) a lease w = Ret (True, a, lease, w)"

definition heartbeat_Start ::
    "'f float_ops \<Rightarrow> (Worker, 'w) create_or_update \<Rightarrow> (Lease, 'w) create_or_update \<Rightarrow> 'f list or_error \<Rightarrow> time \<Rightarrow>
     'f heartbeat_event list \<Rightarrow> ('f, 'w) HeartbeatAgent \<Rightarrow> 'w \<Rightarrow> (error option \<times> 'w) go" where
  "heartbeat_Start F cuW cuL cpu0 t0 evs a w =
     (case initMetricsCollector F cpu0 a of
        (Some e, _) \<Rightarrow> Ret (Some (Wrap ''failed to collect metrics: '' e), w)
      | (None, a) \<Rightarrow>
     (case cuW (Worker0\<lparr>wk_ObjectMeta := ObjectMeta0\<lparr>om_Name := ha_workerName a\<rparr>\<rparr>) (set_worker_labels a) w of
        ((worker, Some e), w) \<Rightarrow> Ret (Some e, w)
      | ((worker, None), w) \<Rightarrow>
     (case cuL \<lparr>le_Namespace = ''netcon'', le_Name = ha_workerName a, le_HolderIdentity = None,
                le_RenewTime = None, le_LeaseDurationSeconds = None\<rparr> (renew_lease t0 (wk_Name worker)) w of
        ((lease, Some e), w) \<Rightarrow> Ret (Some e, w)
      | ((lease, None), w) \<Rightarrow>
          (case heartbeat_loop F cuL (wk_Name worker) evs a lease w of
             Panic m \<Rightarrow> Panic m
           | Ret (_, _, _, w) \<Rightarrow> Ret (None, w)))))"

section \<open>Heartbeats leave environments alone\<close>

text \<open>A create-or-update of objects of another kind.\<close>

definition quiet :: "('w \<Rightarrow> ProblemEnvironment list) \<Rightarrow> ('w \<Rightarrow> bool) \<Rightarrow> ('o, 'w) create_or_update \<Rightarrow> bool" where
  "quiet contents ok cu \<longleftrightarrow>
     (\<forall>ob f w r w'. ok w \<longrightarrow> cu ob f w = (r, w') \<longrightarrow> ok w' \<and> contents w' = contents w)"

context worker_writes
begin

lemma update_worker_status_frame:
  "ok w \<Longrightarrow> ha_Client a = k \<Longrightarrow> update_worker_status F a hn w = (r, w') \<Longrightarrow> ok w' \<and> contents w' = contents w"
  by (auto simp: update_worker_status_def Let_def split: sum.splits prod.splits dest: worker_status_frame)

lemma heartbeat_frame:
  "quiet contents ok cu \<Longrightarrow> ok w \<Longrightarrow> ha_Client a = k \<Longrightarrow>
   heartbeat_loop F cu wname [ev] a lease w = Ret (b, a', lease', w') \<Longrightarrow> ok w' \<and> contents w' = contents w"
proof (cases ev)
  case (StatusTick hn)
  assume *: "ok w" "ha_Client a = k" "heartbeat_loop F cu wname [ev] a lease w = Ret (b, a', lease', w')"
  then show ?thesis
    using update_worker_status_frame [OF *(1,2), of F hn] StatusTick by (metis go.inject(1) heartbeat_loop.simps(1,4) prod.collapse prod.inject)
qed (auto simp: quiet_def split: go.splits prod.splits)

end

section \<open>The histories\<close>

definition histories_wf :: "('f, 'w) HeartbeatAgent \<Rightarrow> bool" where
  "histories_wf a \<longleftrightarrow> length (ha_cpuUsedHistory a) = 20 \<and> length (ha_memUsedHistory a) = 20"

lemma length_shift_loop [simp]: "length (shift_loop i n h) = length h"
  by (induction n arbitrary: i h) simp_all

text \<open>Copying forward from index \<open>i\<close> spreads the value at \<open>i\<close>.\<close>

lemma shift_loop_nth:
  "i + n < length h \<Longrightarrow> j < length h \<Longrightarrow>
     shift_loop i n h ! j = (if i \<le> j \<and> j \<le> i + n then h ! i else h ! j)"
proof (induction n arbitrary: i h)
  case (Suc n)
  then show ?case
    by (cases "j = i") (auto simp: nth_list_update)
qed auto

lemma shift_loop_spreads: "length h = 20 \<Longrightarrow> shift_loop 0 19 h = replicate 20 (h ! 0)"
  by (rule nth_equalityI) (auto simp: shift_loop_nth)

lemma collectMetrics_history:
  assumes "histories_wf a"
  shows "collectMetrics (Inr (c # cs)) (Inr m) a =
    Ret (None, a\<lparr>ha_cpuUsedHistory := c # replicate 19 (ha_cpuUsedHistory a ! 0),
                ha_memUsedHistory := m # replicate 19 (ha_memUsedHistory a ! 0)\<rparr>)"
proof -
  have "(replicate 20 x)[0 := y] = y # replicate 19 x" for x y :: 'a
    by (simp add: numeral_eq_Suc)
  then show ?thesis
    using assms by (simp add: collectMetrics_def histories_wf_def CPU_USED_HISTORY_SIZE_def
        MEM_USED_HISTORY_SIZE_def shift_loop_spreads)
qed

lemma history_average_two:
  "history_average (real_float p s) (c # replicate 19 d) = (if d = 0 then 0 else (c + 19 * d) / 20)"
proof -
  have "sum_loop (real_float p s) s0 xs = s0 + sum_list xs" for s0 xs
    by (induction xs arbitrary: s0) auto
  then show ?thesis
    by (simp add: history_average_def MEM_USED_HISTORY_SIZE_def sum_list_replicate)
qed

section \<open>Properties\<close>

text \<open>
  C35. The reported usage: the histories always hold 20 values, but a sample overwrites all older
  ones with the previous sample, so what is reported is the latest sample \<open>c\<close> averaged with 19
  copies of the one before it (exact arithmetic), and 0 while the one before is 0 -- not the
  average of the last 20 samples.
\<close>

theorem reported_usage:
  assumes "histories_wf a"
  shows "\<exists>a'. collectMetrics (Inr (c # cs)) (Inr m) a = Ret (None, a') \<and> histories_wf a' \<and>
    getMetrics (real_float p s) a' =
      (let avg = (\<lambda>new prev. if prev = 0 then 0 else (new + 19 * prev) / 20)
       in (avg c (ha_cpuUsedHistory a ! 0), avg m (ha_memUsedHistory a ! 0)))"
  unfolding collectMetrics_history [OF assms]
  by (simp add: histories_wf_def getMetrics_def history_average_two)

theorem reported_usage_witness:
  "\<exists>a a'. NewHeartbeatAgent (real_float (\<lambda>_. Inr 0) (\<lambda>_. '''')) mem_client ''worker1'' ''small'' ''192.0.2.1'' 2222
       Second (10 * Second) = Ret a \<and>
     collectMetrics (Inr [50]) (Inr 10) a = Ret (None, a') \<and>
     getMetrics (real_float (\<lambda>_. Inr 0) (\<lambda>_. '''')) a' = (0, 0)"
proof -
  obtain a where new: "NewHeartbeatAgent (real_float (\<lambda>_. Inr 0) (\<lambda>_. '''')) mem_client ''worker1'' ''small'' ''192.0.2.1'' 2222
      Second (10 * Second) = Ret a"
    and "ha_cpuUsedHistory a = replicate 20 0" "ha_memUsedHistory a = replicate 20 0"
    by (simp add: NewHeartbeatAgent_def NewTicker_def CPU_USED_HISTORY_SIZE_def MEM_USED_HISTORY_SIZE_def)
  then have "histories_wf a" "ha_cpuUsedHistory a ! 0 = 0" "ha_memUsedHistory a ! 0 = 0"
    by (simp_all add: histories_wf_def)
  then show ?thesis
    using reported_usage [of a 50 "[]" 10 "\<lambda>_. Inr 0" "\<lambda>_. ''''"] new by (auto simp: Let_def)
qed

end
