(* ===== verification/System.thy ===== *)
theory System
  imports Problem_Controller Nclet_Controller Kubectl_Cli Nclet_Ssh Heartbeat
begin

text \<open>
  The programs put together: the two reconcilers and the worker monitor of the controller manager,
  the reconciler and the heartbeat of the nclets of the workers, the gateway answering any HTTP
  request, and the operators' tool with any command line. They share one API server and run
  concurrently; since each handler is a sequence of requests whose effects are steps of the
  protocol, a run of the system is a sequence of handler calls in any order, each deciding on
  possibly stale reads.
\<close>

record ('f, 'w) system =
  sy_Client :: "'w kube"
  sy_restClient :: "'w rest"
  sy_pe :: "('f, 'w) ProblemEnvironmentReconciler"
  sy_problem :: "'w ProblemReconciler"
  sy_monitor :: "'w WorkerController"
  sy_nclets :: "'w NcletReconciler list"
  sy_cuWorker :: "(Worker, 'w) create_or_update"
  sy_cuLease :: "(Lease, 'w) create_or_update"

text \<open>All components talk to the same server; its laws and those of the drivers are assumed.\<close>

definition connected :: "('f, 'w) system \<Rightarrow> ('w \<Rightarrow> ProblemEnvironment list) \<Rightarrow> ('w \<Rightarrow> bool) \<Rightarrow> bool" where
  "connected s contents ok \<longleftrightarrow>
     versioned_reads (sy_Client s) contents ok \<and> rest_api (sy_restClient s) (sy_Client s) \<and>
     worker_writes (sy_Client s) contents ok \<and>
     per_Client (sy_pe s) = sy_Client s \<and>
     prr_Client (sy_problem s) = sy_Client s \<and> sets_controller_reference (prr_SetControllerReference (sy_problem s)) \<and>
     wc_Client (sy_monitor s) = sy_Client s \<and> quiet contents ok (sy_cuWorker s) \<and> quiet contents ok (sy_cuLease s) \<and>
     (\<forall>r \<in> set (sy_nclets s). ncr_Client r = sy_Client s \<and> problem_environment_driver (ncr_Driver r) contents ok)"

inductive system_step :: "('f, 'w) system \<Rightarrow> 'w \<Rightarrow> 'w \<Rightarrow> bool" for s where
  schedule: "rand_in_range (rt_rand_Int rt) \<Longrightarrow> cm_Reconcile rt (sy_pe s) req w = (out, w') \<Longrightarrow> system_step s w w'"
| replicate: "problem_Reconcile (sy_problem s) req w = Ret (out, w') \<Longrightarrow> system_step s w w'"
| monitor: "monitorWorkerHealth (sy_monitor s) clock w = (errs, w') \<Longrightarrow> system_step s w w'"
| deploy: "r \<in> set (sy_nclets s) \<Longrightarrow> nclet_Reconcile nrt r req w = Ret (out, w') \<Longrightarrow> system_step s w w'"
| register: "sy_cuWorker s worker (set_worker_labels (a :: ('f, 'w) HeartbeatAgent)) w = (res, w') \<Longrightarrow> system_step s w w'"
| beat: "ha_Client (a :: ('f, 'w) HeartbeatAgent) = sy_Client s \<Longrightarrow>
    heartbeat_loop F (sy_cuLease s) wname [ev] a lease w = Ret (stopped, a', lease', w') \<Longrightarrow> system_step s w w'"
| request: "gw_serve chi txt bind enc (sy_Client s) now http w = (response, w') \<Longrightarrow> system_step s w w'"
| operate: "connects (ke_client env) (sy_restClient s) \<Longrightarrow> kubectl_main cobra env argv w = Ret (code, out, w') \<Longrightarrow> system_step s w w'"

text \<open>Any request to the gateway: a read, an acquisition or a release.\<close>

lemma gw_serve_refines:
  assumes "versioned_reads k contents ok" "ok w" "gw_serve chi txt bind enc k now req w = (response, w')"
  shows "ok w' \<and> store_step protocol_step (contents w) (contents w')"
proof -
  note acq = versioned_reads.Acquire_refines [OF assms(1,2)]
    and rel = Release_refines [OF versioned_reads.axioms(1) [OF assms(1)] assms(2)]
  consider "w' = w" | res name where "AcquireProblemEnvironment k now name w = (res, w')"
    | err name where "ReleaseProblemEnvironment k name w = (err, w')"
    using assms(3)
    by (auto simp: gw_serve_def AcquireProblemEnvironmentHandler_def ReleaseProblemEnvironmentHandler_def
        split: sum.splits gw_handler.splits prod.splits option.splits if_splits)
  then show ?thesis
    by cases (use assms(2) acq rel in \<open>auto simp: store_step_def\<close>)
qed

text \<open>Every step of the system is a sequence of steps of the protocol and creations.\<close>

lemma system_step_world:
  assumes "system_step s w w'" "connected s contents ok" "ok w"
  shows "ok w' \<and> world_step\<^sup>*\<^sup>* (contents w) (contents w')"
proof -
  have vr: "versioned_reads (sy_Client s) contents ok" and ww: "worker_writes (sy_Client s) contents ok"
    and tool: "tool_api (sy_restClient s) (sy_Client s) contents ok"
    using assms(2) by (auto simp: connected_def intro: operator_api.intro tool_api.intro)
  note ka = versioned_reads.axioms(1) [OF vr]
  have one: ?thesis if "ok w' \<and> store_step protocol_step (contents w) (contents w')"
    using that store_step_world by (blast intro: r_into_rtranclp)
  have none: ?thesis if "ok w' \<and> contents w' = contents w"
    using that by simp
  from assms(1) show ?thesis
  proof cases
    case (schedule rt req out)
    have "per_Client (sy_pe s) = sy_Client s"
      using assms(2) by (simp add: connected_def)
    from versioned_reads.cm_Reconcile_refines [OF vr assms(3) this schedule] show ?thesis
      by (rule one)
  next
    case (replicate req out)
    have "prr_Client (sy_problem s) = sy_Client s"
      "sets_controller_reference (prr_SetControllerReference (sy_problem s))"
      using assms(2) by (simp_all add: connected_def)
    from kube_api.problem_Reconcile_steps [OF ka assms(3) this replicate] show ?thesis
      by blast
  next
    case (monitor clock errs)
    have "wc_Client (sy_monitor s) = sy_Client s"
      using assms(2) by (simp add: connected_def)
    from worker_writes.monitor_frame [OF ww assms(3) this monitor] show ?thesis
      by (rule none)
  next
    case (deploy r nrt req out)
    then have "nclet_setting (ncr_Client r) contents ok (ncr_Driver r) r"
      using assms(2) by (intro nclet_settingI) (auto simp: connected_def)
    from nclet_setting.nclet_Reconcile_refines [OF this assms(3) deploy(2)] show ?thesis
      by (rule one)
  next
    case (register worker a res)
    have "quiet contents ok (sy_cuWorker s)"
      using assms(2) by (simp add: connected_def)
    with assms(3) register have "ok w' \<and> contents w' = contents w"
      unfolding quiet_def by blast
    then show ?thesis
      by (rule none)
  next
    case beat
    have "quiet contents ok (sy_cuLease s)"
      using assms(2) by (simp add: connected_def)
    from worker_writes.heartbeat_frame [OF ww this assms(3) beat] show ?thesis
      by (rule none)
  next
    case request
    from gw_serve_refines [OF vr assms(3) request] show ?thesis
      by (rule one)
  next
    case operate
    from tool_api.kubectl_main_refines [OF tool assms(3) operate] show ?thesis
      by (rule one)
  qed
qed

lemma system_run_world:
  assumes "(system_step s)\<^sup>*\<^sup>* w w'" "connected s contents ok" "ok w"
  shows "ok w' \<and> world_step\<^sup>*\<^sup>* (contents w) (contents w')"
  using assms(1)
proof (induction rule: rtranclp_induct)
  case base
  then show ?case using assms(3) by simp
next
  case (step y z)
  then show ?case
    using system_step_world [OF step(2) assms(2)] by (meson rtranclp_trans)
qed

text \<open>The phases a store may hold: those the protocol reaches from fresh environments.\<close>

definition store_reachable :: "ProblemEnvironment list \<Rightarrow> bool" where
  "store_reachable pes \<longleftrightarrow> (\<forall>pe \<in> set pes. reachable_phase (phase_of pe))"

lemma store_reachable_step:
  assumes "world_step pes pes'" "store_reachable pes"
  shows "store_reachable pes'"
proof -
  have "reachable_phase (phase_of pe)" if "store_step protocol_step pes pes'" "pe \<in> set pes'" for pe
    using store_step_set [OF that] assms(2) reachable_phase.step unfolding store_reachable_def by blast
  then show ?thesis
    using assms reachable_phase.fresh unfolding world_step_def store_reachable_def by fastforce
qed

lemma store_reachable_steps: "world_step\<^sup>*\<^sup>* pes pes' \<Longrightarrow> store_reachable pes \<Longrightarrow> store_reachable pes'"
  by (induction rule: rtranclp_induct) (auto intro: store_reachable_step)

section \<open>A small system\<close>

text \<open>Create-or-update of Workers and leases on the server in memory.\<close>

definition mem_cuWorker :: "(Worker, kmem) create_or_update" where
  "mem_cuWorker wk f w =
     (case getWorker mem_client w (wk_Name wk) of
        Inl _ \<Rightarrow> (case createWorker mem_client (f wk) w of (r, w') \<Rightarrow> ((f wk, case r of Inl e \<Rightarrow> Some e | Inr _ \<Rightarrow> None), w'))
      | Inr cur \<Rightarrow> (case updateWorker mem_client (f cur) w of (r, w') \<Rightarrow> ((f cur, case r of Inl e \<Rightarrow> Some e | Inr _ \<Rightarrow> None), w')))"

definition mem_cuLease :: "(Lease, kmem) create_or_update" where
  "mem_cuLease lease f w =
     (case getLease mem_client w (le_Namespace lease, le_Name lease) of
        Inl _ \<Rightarrow> (case createLease mem_client (f lease) w of (r, w') \<Rightarrow> ((f lease, case r of Inl e \<Rightarrow> Some e | Inr _ \<Rightarrow> None), w'))
      | Inr cur \<Rightarrow> (case updateLease mem_client (f cur) w of (r, w') \<Rightarrow> ((f cur, case r of Inl e \<Rightarrow> Some e | Inr _ \<Rightarrow> None), w')))"

lemma mem_cu_quiet: "quiet km_pes mem_ok mem_cuWorker" "quiet km_pes mem_ok mem_cuLease"
  by (auto simp: quiet_def mem_cuWorker_def mem_cuLease_def mem_client_def mem_ok_def split: sum.splits if_splits)

definition sample_system :: "(real, kmem) system" where
  "sample_system = \<lparr>sy_Client = mem_client, sy_restClient = rest_of mem_client, sy_pe = sample_reconciler,
     sy_problem = sample_problem_reconciler, sy_monitor = NewWorkerController mem_client (3 * Second),
     sy_nclets = [sample_nclet], sy_cuWorker = mem_cuWorker, sy_cuLease = mem_cuLease\<rparr>"

lemma sample_system_connected: "connected sample_system km_pes mem_ok"
  by (simp add: connected_def sample_system_def mem_versioned kube_rest.rest_api_axioms sample_nclet_driver
      sample_nclet_client sample_problem_reconciler_def sample_set_reference_ok NewWorkerController_def mem_cu_quiet
      mem_worker_writes.worker_writes_axioms)

end
