(* ===== verification/Progress.thy ===== *)
theory Progress
  imports Pe_Controller Nclet_Controller
begin

text \<open>
  The way of a new environment to readiness: what the reconciler of the controller manager and the
  nclet of the elected worker do in turn, with a server that accepts valid requests and a driver
  that deploys.
\<close>

section \<open>What reconciliation leaves alone\<close>

text \<open>A part of the world that no write of environments and no event changes is not changed by \<^verbatim>\<open>Reconcile\<close>.\<close>

lemma cm_Reconcile_frame:
  assumes "\<And>pe w x w'. updateProblemEnvironment (per_Client r) pe w = (x, w') \<Longrightarrow> f w' = f w"
    and "\<And>pe w x w'. updateStatusProblemEnvironment (per_Client r) pe w = (x, w') \<Longrightarrow> f w' = f w"
    and "\<And>ev w. f (recordEvent (per_Client r) ev w) = f w"
    and "cm_Reconcile rt r req w = (out, w')"
  shows "f w' = f w"
proof -
  have st: "f w2 = f w1" if "cm_updateStatus r pe res w1 = (out, w2)" for pe res w1 w2
    using that assms(2) by (auto simp: cm_updateStatus_def split: prod.splits sum.splits)
  have up: "f w2 = f w1" if "cm_update r pe res w1 = (out, w2)" for pe res w1 w2
    using that assms(1) by (auto simp: cm_update_def split: prod.splits sum.splits)
  have "f w2 = f w" if "cm_schedule rt r pe w = (out, w2)" for pe w2
    using that st up by (auto simp: cm_schedule_def Let_def split: sum.splits if_splits)
  moreover have "f w2 = f w" if "cm_confirmSchedule rt r pe w = (out, w2)" for pe w2
    using that st assms(3) by (auto simp: cm_confirmSchedule_def Let_def split: sum.splits)
  moreover have "f w2 = f w" if "cm_checkStatus rt r pe w = (out, w2)" for pe w2
    using that st assms(3)
    by (auto simp: checkStatus_branches cm_markNotReadyInit_def cm_markNotReady_def cm_markReady_def Let_def
        split: if_splits)
  ultimately show ?thesis
    using assms(4) by (auto simp: cm_Reconcile_def split: sum.splits if_splits)
qed

section \<open>Protection\<close>

lemma nclet_protects:
  assumes "reliable_api (ncr_Client r) contents ok" "ok w" "cur \<in> set (contents w)"
    and "ph_scheduled (phase_of cur) = ConditionTrue" "ph_worker (phase_of cur) = ncr_WorkerName r"
    and "\<not> ph_deleting (phase_of cur)" "\<not> ph_finalizer (phase_of cur)"
  shows "\<exists>w' new x pe. nclet_Reconcile rt r (pe_key cur) w = Ret ((Result0, None), w') \<and> ok w' \<and>
    new \<in> set (contents w') \<and> pe_key new = pe_key cur \<and> phase_of new = (phase_of cur)\<lparr>ph_finalizer := True\<rparr> \<and>
    updateProblemEnvironment (ncr_Client r) pe w = (x, w')"
proof -
  define req where "req = AddFinalizer cur ProblemEnvironmentFinalizer"
  have "ProblemEnvironment_ValidateUpdate req cur = None"
    by (simp add: ValidateUpdate_None_iff req_def)
  then obtain w' v where up: "updateProblemEnvironment (ncr_Client r) req w = (Inr (with_spec req v cur), w')"
    "ok w'" "with_spec req v cur \<in> set (contents w')"
    using reliable_api.spec_written [OF assms(1-3), of req] assms(6) by (auto simp: req_def)
  have "nclet_Reconcile rt r (pe_key cur) w = Ret ((Result0, None), w')"
    using assms(4-7) up(1) consistent_reads.stored_get [OF reliable_api.axioms(1) [OF assms(1)] assms(2,3)]
    by (simp add: nclet_Reconcile_def nclet_update_def ContainsFinalizer_def req_def)
  then show ?thesis
    using up phase_add_finalizer [of cur v]
    by (intro exI [of _ w'] exI [of _ "with_spec req v cur"] exI [of _ "Inr (with_spec req v cur)"] exI [of _ req])
      (simp add: req_def)
qed

section \<open>A working cluster\<close>

text \<open>
  \<open>nclet n\<close> is the reconciler on worker \<open>n\<close>; \<open>up n w\<close> says that the lab of the environment
  \<open>key\<close> runs there. Deploying brings it up with the containers \<open>cs\<close>; writes of environments and
  events change neither labs nor workers.
\<close>

locale working_cluster = reliable_api k contents ok
  for k :: "'w kube" and contents :: "'w \<Rightarrow> ProblemEnvironment list" and ok :: "'w \<Rightarrow> bool" +
  fixes nclet :: "string \<Rightarrow> 'w NcletReconciler" and up :: "string \<Rightarrow> 'w \<Rightarrow> bool"
    and cs :: "ContainerStatus list" and key :: NamespacedName
  assumes clients: "ncr_Client (nclet n) = k" "ncr_WorkerName (nclet n) = n"
    and drivers: "problem_environment_driver (ncr_Driver (nclet n)) contents ok"
    and check_down: "pe_key pe = key \<Longrightarrow> \<not> up n w \<Longrightarrow> fst (dr_Check (ncr_Driver (nclet n)) pe w) = StatusInit"
    and check_up: "pe_key pe = key \<Longrightarrow> up n w \<Longrightarrow> snd (dr_Check (ncr_Driver (nclet n)) pe w) = Some cs"
    and deploy_up: "pe_key pe = key \<Longrightarrow> \<exists>x w'. dr_Deploy (ncr_Driver (nclet n)) pe w = Ret (x, w') \<and> up n w'"
    and update_frame: "updateProblemEnvironment k pe w = (x, w') \<Longrightarrow>
      up n w' = up n w \<and> listWorker k w' = listWorker k w \<and> getWorker k w' = getWorker k w"
    and status_frame: "updateStatusProblemEnvironment k pe w = (x', w') \<Longrightarrow>
      up n w' = up n w \<and> listWorker k w' = listWorker k w \<and> getWorker k w' = getWorker k w"
    and events_frame: "up n (recordEvent k ev w) = up n w \<and> listWorker k (recordEvent k ev w) = listWorker k w \<and>
      getWorker k (recordEvent k ev w) = getWorker k w"
begin

lemma cm_Reconcile_keeps:
  assumes "per_Client r = k" "cm_Reconcile rt r req w = (out, w')"
  shows "up n w' = up n w" "getWorker k w' = getWorker k w"
proof -
  let ?f = "\<lambda>w. (up n w, getWorker k w)"
  have "?f w' = ?f w"
    by (rule cm_Reconcile_frame [OF _ _ _ assms(2)]) (use assms(1) update_frame status_frame events_frame in auto)
  then show "up n w' = up n w" "getWorker k w' = getWorker k w"
    by simp_all
qed

text \<open>The lab is brought up by the second call of nclet.\<close>

lemma nclet_brings_up:
  assumes "ok w" "cur \<in> set (contents w)" "pe_key cur = key" "\<not> up n w" "ph_containers (phase_of cur) = None" "cs \<noteq> []"
    and "ph_scheduled (phase_of cur) = ConditionTrue" "ph_worker (phase_of cur) = n"
    and "\<not> ph_deleting (phase_of cur)" "ph_finalizer (phase_of cur)" "ph_deployed (phase_of cur) \<noteq> ConditionTrue"
  shows "\<exists>out w' new. nclet_Reconcile rt (nclet n) key w = Ret (out, w') \<and> ok w' \<and> new \<in> set (contents w') \<and>
    pe_key new = key \<and> phase_of new = (phase_of cur)\<lparr>ph_deployed := ConditionTrue, ph_containers := omit_empty (Some cs)\<rparr>"
proof -
  have "\<forall>e. \<exists>x w1. dr_Deploy (ncr_Driver (nclet n)) cur (recordEvent k e w) = Ret (x, w1) \<and>
      (\<forall>e pe. pe_key pe = pe_key cur \<longrightarrow> snd (dr_Check (ncr_Driver (nclet n)) pe (recordEvent k e w1)) = Some cs)"
    using deploy_up [OF assms(3)] check_up events_frame assms(3) by metis
  moreover have "pe_Containers cur \<noteq> Some cs"
    using assms(5,6) by (auto simp: omit_empty_def split: if_splits)
  ultimately show ?thesis
    using nclet_deploys [of "nclet n" contents ok w cur cs rt] reliable_api_axioms drivers [of n] assms check_down [OF assms(3,4)]
    by (simp add: clients)
qed

text \<open>Two calls of the controller manager schedule a fresh environment.\<close>

lemma manager_schedules:
  assumes "per_Client r = k" "rand_in_range (rt_rand_Int rt)" "\<forall>i n. 0 < n \<longrightarrow> (\<exists>v. rt_rand_Int rt i n = Inr v)"
    and "ok w" "cur \<in> set (contents w)" "fresh_phase (phase_of cur)" "pe_WorkerName cur = ''''"
    and "listWorker k w ListAll = Inr workers"
    and "\<forall>wk \<in> set workers. wk_Name wk \<noteq> '''' \<and> getWorker k w (wk_Name wk) = Inr wk"
    and "\<exists>wk \<in> set workers. eligible (rt_float rt) (rt_selector rt) (per_Parameters r)
            (slice (pes_WorkerSelectors (pe_Spec cur))) wk"
  obtains wk w1 w2 new pw where "cm_Reconcile rt r (pe_key cur) w = ((Result0, None), w1)"
    "cm_Reconcile rt r (pe_key cur) w1 = ((Result0, None), w2)" "wk \<in> set workers"
    "eligible (rt_float rt) (rt_selector rt) (per_Parameters r) (slice (pes_WorkerSelectors (pe_Spec cur))) wk"
    "ok w2" "new \<in> set (contents w2)" "pe_key new = pe_key cur" "good_password pw"
    "phase_of new = (phase_of cur)\<lparr>ph_worker := wk_Name wk, ph_scheduled := ConditionTrue, ph_deployed := ConditionFalse,
       ph_ready := ConditionFalse, ph_assigned := ConditionFalse, ph_password := pw\<rparr>"
    "\<And>n. up n w2 = up n w"
proof -
  have fresh: "ph_scheduled (phase_of cur) \<noteq> ConditionTrue" "\<not> ph_deleting (phase_of cur)"
    using assms(6) by (simp_all add: fresh_phase_def)
  obtain w1 p1 wk where s1: "cm_Reconcile rt r (pe_key cur) w = ((Result0, None), w1)" "ok w1" "p1 \<in> set (contents w1)"
    "pe_key p1 = pe_key cur" "phase_of p1 = (phase_of cur)\<lparr>ph_worker := wk_Name wk\<rparr>" "wk_Name wk = pe_WorkerName p1"
    and wk: "wk \<in> set workers" "eligible (rt_float rt) (rt_selector rt) (per_Parameters r)
      (slice (pes_WorkerSelectors (pe_Spec cur))) wk"
    using cm_Reconcile_binds [OF assms(4,1,5) _ _ assms(7,8,10)] fresh assms(9) by auto
  have "getWorker k w1 (pe_WorkerName p1) = Inr wk" "pe_WorkerName p1 \<noteq> ''''"
    using cm_Reconcile_keeps [OF assms(1) s1(1)] assms(9) wk(1) s1(6) by auto
  moreover have "ph_scheduled (phase_of p1) \<noteq> ConditionTrue" "\<not> ph_deleting (phase_of p1)"
    unfolding s1(5) using fresh by (simp_all del: phase_of_simps)
  ultimately obtain w2 p2 pw where s2: "cm_Reconcile rt r (pe_key cur) w1 = ((Result0, None), w2)" "ok w2"
    "p2 \<in> set (contents w2)" "pe_key p2 = pe_key cur" "good_password pw"
    "phase_of p2 = (phase_of p1)\<lparr>ph_scheduled := ConditionTrue, ph_deployed := ConditionFalse,
       ph_ready := ConditionFalse, ph_assigned := ConditionFalse, ph_password := pw\<rparr>"
    using cm_Reconcile_confirms [OF s1(2) assms(1) s1(3), of wk rt] s1(4) assms(2,3) by auto
  show ?thesis
    using that [OF s1(1) s2(1) wk s2(2-5)] s2(6) s1(5) cm_Reconcile_keeps(1) [OF assms(1)] s1(1) s2(1) by simp
qed

text \<open>Two calls of the nclet protect a scheduled environment and bring it up.\<close>

lemma nclet_deploys_protected:
  assumes "ok w" "cur \<in> set (contents w)" "pe_key cur = key" "\<not> up n w" "cs \<noteq> []"
    and "ph_containers (phase_of cur) = None" "ph_scheduled (phase_of cur) = ConditionTrue" "ph_worker (phase_of cur) = n"
    and "\<not> ph_deleting (phase_of cur)" "\<not> ph_finalizer (phase_of cur)" "ph_deployed (phase_of cur) \<noteq> ConditionTrue"
  obtains o1 w1 o2 w2 new where "nclet_Reconcile rt (nclet n) key w = Ret (o1, w1)"
    "nclet_Reconcile rt (nclet n) key w1 = Ret (o2, w2)" "ok w2" "new \<in> set (contents w2)" "pe_key new = key"
    "phase_of new = (phase_of cur)\<lparr>ph_finalizer := True, ph_deployed := ConditionTrue, ph_containers := omit_empty (Some cs)\<rparr>"
proof -
  obtain w1 p1 x pe where s1: "nclet_Reconcile rt (nclet n) key w = Ret ((Result0, None), w1)" "ok w1"
    "p1 \<in> set (contents w1)" "pe_key p1 = key" "phase_of p1 = (phase_of cur)\<lparr>ph_finalizer := True\<rparr>"
    "updateProblemEnvironment k pe w = (x, w1)"
    using nclet_protects [of "nclet n" contents ok w cur rt] reliable_api_axioms clients assms by auto
  have "\<not> up n w1"
    using update_frame [OF s1(6)] assms(4) by simp
  moreover have "ph_containers (phase_of p1) = None" "ph_scheduled (phase_of p1) = ConditionTrue"
    "ph_worker (phase_of p1) = n" "\<not> ph_deleting (phase_of p1)" "ph_finalizer (phase_of p1)"
    "ph_deployed (phase_of p1) \<noteq> ConditionTrue"
    unfolding s1(5) using assms(6-11) by (simp_all del: phase_of_simps)
  ultimately obtain o2 w2 p2 where s2: "nclet_Reconcile rt (nclet n) key w1 = Ret (o2, w2)" "ok w2" "p2 \<in> set (contents w2)"
    "pe_key p2 = key" "phase_of p2 = (phase_of p1)\<lparr>ph_deployed := ConditionTrue, ph_containers := omit_empty (Some cs)\<rparr>"
    using nclet_brings_up [OF s1(2-4), of n rt] assms(5) by blast
  show ?thesis
    using that [OF s1(1) s2(1-4)] s2(5) s1(5) by simp
qed

end

section \<open>Property\<close>


text \<open>One worker and a driver whose lab is up when the clock of the server runs.\<close>

interpretation mem_cluster: working_cluster mem_client km_pes mem_ok "\<lambda>n. sample_nclet\<lparr>ncr_WorkerName := n\<rparr>"
  "\<lambda>n w. km_now w \<noteq> 0" "[sample_container]" key for key
proof (unfold_locales, goal_cases)
  case (3 n pe w)
  then show ?case by (simp add: sample_nclet_def split: if_splits)
qed (auto simp: sample_nclet_def mem_client_def mem_update_def mem_update_status_def mem_write_def mem_ok_def
    split: option.splits if_splits sum.splits)


end
