(* ===== verification/Startup.thy ===== *)
theory Startup
  imports Pe_Controller Problem_Controller Worker_Controller Metrics_Exporter Gateway
begin

text \<open>
  The start of the controller manager and of the gateway (\<^verbatim>\<open>cmd/controller-manager/main.go\<close>,
  \<^verbatim>\<open>cmd/gateway/main.go\<close>) with the \<^verbatim>\<open>SetupWithManager\<close> methods of their parts. The manager of
  controller-runtime is a parameter: \<open>manager_env\<close> says which of its calls fail. Flag parsing
  and logging are library code; the values of the flags are an argument, with the defaults of
  the source in \<open>default_flags\<close>.
\<close>

section \<open>What is registered with a manager\<close>

datatype kind = KindProblem | KindProblemEnvironment | KindWorker

text \<open>The builder of a controller: the kind it is for, the kinds it owns, its options.\<close>

record controller_builder =
  cb_For :: kind
  cb_Owns :: "kind list"
  cb_MaxConcurrentReconciles :: "int option"

datatype ('f, 'w) component =
    ProblemController controller_builder "'w ProblemReconciler"
  | ProblemEnvironmentController controller_builder "('f, 'w) ProblemEnvironmentReconciler"
  | WorkerMonitor "'w WorkerController"
  | MetricsExporter "'w kube" duration
  | WebhookFor kind
  | GatewayServer "'w kube"
  | HealthzCheck string
  | ReadyzCheck string

definition problem_SetupWithManager :: "'w ProblemReconciler \<Rightarrow> ('f, 'w) component" where
  "problem_SetupWithManager r =
     ProblemController \<lparr>cb_For = KindProblem, cb_Owns = [KindProblemEnvironment], cb_MaxConcurrentReconciles = None\<rparr> r"

definition pe_SetupWithManager :: "('f, 'w) ProblemEnvironmentReconciler \<Rightarrow> ('f, 'w) component" where
  "pe_SetupWithManager r =
     ProblemEnvironmentController \<lparr>cb_For = KindProblemEnvironment, cb_Owns = [], cb_MaxConcurrentReconciles = None\<rparr> r"

definition Problem_SetupWebhookWithManager :: "('f, 'w) component" where
  "Problem_SetupWebhookWithManager = WebhookFor KindProblem"

definition ProblemEnvironment_SetupWebhookWithManager :: "('f, 'w) component" where
  "ProblemEnvironment_SetupWebhookWithManager = WebhookFor KindProblemEnvironment"

record manager_options =
  mo_MetricsBindAddress :: string
  mo_WebhookPort :: "int option"
  mo_HealthProbeBindAddress :: string
  mo_LeaderElection :: bool
  mo_LeaderElectionID :: string

text \<open>
  The calls of the manager. \<^verbatim>\<open>GetConfigOrDie\<close> ends the program itself when there is no
  configuration.
\<close>

record ('f, 'w) manager_env =
  mv_GetConfigOrDie :: bool
  mv_NewManager :: "manager_options \<Rightarrow> error option"
  mv_GetClient :: "'w kube"
  mv_SetControllerReference :: "Problem \<Rightarrow> ProblemEnvironment \<Rightarrow> ProblemEnvironment or_error"
  mv_register :: "('f, 'w) component \<Rightarrow> error option"
  mv_Start :: "('f, 'w) component list \<Rightarrow> error option"

text \<open>
  How a program ended: \<^verbatim>\<open>os.Exit(1)\<close> with the message that was logged and the components that
  were running (none unless \<^verbatim>\<open>mgr.Start\<close> was reached), or a return of \<^verbatim>\<open>main\<close> after the manager
  had run them.
\<close>

datatype ('f, 'w) ended = Exited string "('f, 'w) component list" | Returned "('f, 'w) component list"

text \<open>
  The body of both programs after the flags are parsed: every component is set up in turn, the
  first error is logged and ends the program; then the manager is started with all of them.
\<close>

fun setup_all ::
    "('f, 'w) manager_env \<Rightarrow> (('f, 'w) component \<times> string) list \<Rightarrow> ('f, 'w) component list \<Rightarrow> ('f, 'w) ended" where
  "setup_all env [] mgr =
     (case mv_Start env mgr of Some _ \<Rightarrow> Exited ''problem running manager'' mgr | None \<Rightarrow> Returned mgr)"
| "setup_all env ((c, msg) # cs) mgr =
     (case mv_register env c of Some _ \<Rightarrow> Exited msg [] | None \<Rightarrow> setup_all env cs (mgr @ [c]))"

section \<open>The controller manager\<close>

record 'f manager_flags =
  mf_metricsAddr :: string
  mf_enableLeaderElection :: bool
  mf_probeAddr :: string
  mf_cpuWeight :: 'f
  mf_memoryWeight :: 'f
  mf_memoryThreshold :: 'f
  mf_temperature :: 'f

definition default_flags :: "'f float_ops \<Rightarrow> 'f manager_flags" where
  "default_flags F =
     \<lparr>mf_metricsAddr = '':8080'', mf_enableLeaderElection = False, mf_probeAddr = '':8081'',
      mf_cpuWeight = f_of_int F 1, mf_memoryWeight = f_of_int F 3, mf_memoryThreshold = f_of_int F 90,
      mf_temperature = f_div F (f_of_int F 1) (f_of_int F 10)\<rparr>"

definition manager_parameters :: "'f manager_flags \<Rightarrow> 'f SchedulerParameters" where
  "manager_parameters fl =
     \<lparr>CPUWeight = mf_cpuWeight fl, MemoryWeight = mf_memoryWeight fl, MemoryThreshold = mf_memoryThreshold fl,
      Temperature = mf_temperature fl\<rparr>"

definition controller_manager_components ::
    "('f, 'w) manager_env \<Rightarrow> 'f manager_flags \<Rightarrow> (('f, 'w) component \<times> string) list" where
  "controller_manager_components env fl =
     [(problem_SetupWithManager
         \<lparr>prr_Client = mv_GetClient env, prr_SetControllerReference = mv_SetControllerReference env\<rparr>,
       ''unable to create controller''),
      (pe_SetupWithManager \<lparr>per_Client = mv_GetClient env, per_Parameters = manager_parameters fl\<rparr>,
       ''unable to create controller''),
      (WorkerMonitor (NewWorkerController (mv_GetClient env) (3 * Second)), ''unable to create controller''),
      (MetricsExporter (mv_GetClient env) (3 * Second), ''unable to create metrics exporter''),
      (Problem_SetupWebhookWithManager, ''unable to create webhook''),
      (ProblemEnvironment_SetupWebhookWithManager, ''unable to create webhook''),
      (HealthzCheck ''healthz'', ''unable to set up health check''),
      (ReadyzCheck ''readyz'', ''unable to set up ready check'')]"

definition controller_manager_options :: "'f manager_flags \<Rightarrow> manager_options" where
  "controller_manager_options fl =
     \<lparr>mo_MetricsBindAddress = mf_metricsAddr fl, mo_WebhookPort = Some 9443,
      mo_HealthProbeBindAddress = mf_probeAddr fl, mo_LeaderElection = mf_enableLeaderElection fl,
      mo_LeaderElectionID = ''862885bd.janog.gr.jp''\<rparr>"

definition controller_manager_main :: "('f, 'w) manager_env \<Rightarrow> 'f manager_flags \<Rightarrow> ('f, 'w) ended" where
  "controller_manager_main env fl =
     (if \<not> mv_GetConfigOrDie env then Exited ''unable to get kubeconfig'' []
      else if mv_NewManager env (controller_manager_options fl) \<noteq> None then Exited ''unable to start manager'' []
      else setup_all env (controller_manager_components env fl) [])"

section \<open>The gateway\<close>

record gateway_flags =
  gf_metricsAddr :: string
  gf_enableLeaderElection :: bool
  gf_probeAddr :: string

definition gateway_default_flags :: gateway_flags where
  "gateway_default_flags = \<lparr>gf_metricsAddr = '':8080'', gf_enableLeaderElection = False, gf_probeAddr = '':8081''\<rparr>"

definition gateway_options :: "gateway_flags \<Rightarrow> manager_options" where
  "gateway_options fl =
     \<lparr>mo_MetricsBindAddress = gf_metricsAddr fl, mo_WebhookPort = None, mo_HealthProbeBindAddress = gf_probeAddr fl,
      mo_LeaderElection = gf_enableLeaderElection fl, mo_LeaderElectionID = ''f298ab2d.janog.gr.jp''\<rparr>"

definition gateway_components :: "('f, 'w) manager_env \<Rightarrow> (('f, 'w) component \<times> string) list" where
  "gateway_components env =
     [(GatewayServer (mv_GetClient env), ''unable to create ssh server''),
      (HealthzCheck ''healthz'', ''unable to set up health check''),
      (ReadyzCheck ''readyz'', ''unable to set up ready check'')]"

definition gateway_main :: "('f, 'w) manager_env \<Rightarrow> gateway_flags \<Rightarrow> ('f, 'w) ended" where
  "gateway_main env fl =
     (if \<not> mv_GetConfigOrDie env then Exited ''unable to get kubeconfig'' []
      else if mv_NewManager env (gateway_options fl) \<noteq> None then Exited ''unable to start manager'' []
      else setup_all env (gateway_components env) [])"

section \<open>Facts\<close>

lemma setup_all_ok:
  "\<forall>(c, _) \<in> set cs. mv_register env c = None \<Longrightarrow>
   setup_all env cs mgr =
     (case mv_Start env (mgr @ map fst cs) of
        Some _ \<Rightarrow> Exited ''problem running manager'' (mgr @ map fst cs)
      | None \<Rightarrow> Returned (mgr @ map fst cs))"
  by (induction cs arbitrary: mgr) (auto split: option.splits)

lemma setup_all_fails:
  "(c, msg) \<in> set cs \<Longrightarrow> mv_register env c \<noteq> None \<Longrightarrow> \<exists>m. setup_all env cs mgr = Exited m []"
  by (induction cs arbitrary: mgr) (auto split: option.splits)

text \<open>The components that ran.\<close>

fun ran :: "('f, 'w) ended \<Rightarrow> ('f, 'w) component list" where
  "ran (Exited msg cs) = cs"
| "ran (Returned cs) = cs"

lemma ran_setup_all:
  "ran (setup_all env cs []) = (if \<forall>(c, _) \<in> set cs. mv_register env c = None then map fst cs else [])"
proof (cases "\<forall>(c, _) \<in> set cs. mv_register env c = None")
  case False
  then obtain c msg where "(c, msg) \<in> set cs" "mv_register env c \<noteq> None"
    by auto
  from setup_all_fails [OF this, of "[]"] show ?thesis
    using False by auto
qed (auto simp: setup_all_ok split: option.splits)

lemma ran_controller_manager:
  "ran (controller_manager_main env fl) =
     (if mv_GetConfigOrDie env \<and> mv_NewManager env (controller_manager_options fl) = None \<and>
         (\<forall>(c, _) \<in> set (controller_manager_components env fl). mv_register env c = None)
      then map fst (controller_manager_components env fl) else [])"
  by (auto simp: controller_manager_main_def ran_setup_all)

lemmas component_defs = controller_manager_components_def gateway_components_def problem_SetupWithManager_def
  pe_SetupWithManager_def Problem_SetupWebhookWithManager_def ProblemEnvironment_SetupWebhookWithManager_def

lemma running_reconciler:
  assumes "ProblemEnvironmentController b r \<in> set (ran (controller_manager_main env fl))"
  shows "per_Parameters r = manager_parameters fl" "per_Client r = mv_GetClient env"
  using assms by (auto simp: ran_controller_manager component_defs split: if_splits)

text \<open>The load of a worker that the default weights measure, and the chances it gives.\<close>

definition load :: "real float_ops \<Rightarrow> Worker \<Rightarrow> real" where
  "load F wk = used_percent F (wi_CPUUsedPercent (wk_WorkerInfo wk)) +
     3 * used_percent F (wi_MemoryUsedPercent (wk_WorkerInfo wk))"

lemma default_candidate:
  assumes "candidate_of (real_float p fmt) sel (manager_parameters (default_flags (real_float p fmt))) ss wk = Some c"
  shows "cw_Score c = 1 - load (real_float p fmt) wk / 400"
    and "used_percent (real_float p fmt) (wi_MemoryUsedPercent (wk_WorkerInfo wk)) \<le> 90"
  using assms
  by (auto simp: candidate_of_def manager_parameters_def default_flags_def worker_score_def load_def Let_def
      add_divide_distrib split: if_splits)

lemma boltzmann_ratio:
  "boltzmann par cs i = exp ((cw_Score (cs ! i) - cw_Score (cs ! j)) / Temperature par) * boltzmann par cs j"
  by (simp add: boltzmann_def diff_divide_distrib exp_diff)

section \<open>Properties\<close>

text \<open>
  Starting the controller manager and the gateway is all or nothing. The manager runs all
  components, the reconcilers and the monitor with the client of the manager, the scheduler with
  the parameters of the flags, both periodic tasks every 3 seconds; or a set-up call failed, the
  program exited and nothing ran.
\<close>

theorem startup_all_or_nothing:
  "ran (controller_manager_main env fl) =
     (if mv_GetConfigOrDie env \<and> mv_NewManager env (controller_manager_options fl) = None \<and>
         list_all (\<lambda>(c, _). mv_register env c = None) (controller_manager_components env fl)
      then map fst (controller_manager_components env fl) else []) \<and>
   ran (gateway_main env gfl) =
     (if mv_GetConfigOrDie env \<and> mv_NewManager env (gateway_options gfl) = None \<and>
         list_all (\<lambda>(c, _). mv_register env c = None) (gateway_components env)
      then map fst (gateway_components env) else [])"
  by (auto simp: controller_manager_main_def gateway_main_def ran_setup_all list_all_iff)


definition sample_env :: "(real, kmem) manager_env" where
  "sample_env = \<lparr>mv_GetConfigOrDie = True, mv_NewManager = (\<lambda>_. None), mv_GetClient = mem_client,
     mv_SetControllerReference = (\<lambda>p pe. Inr pe), mv_register = (\<lambda>_. None), mv_Start = (\<lambda>_. None)\<rparr>"

definition sample_usage :: "string \<Rightarrow> Worker" where
  "sample_usage mem = Worker0\<lparr>wk_ObjectMeta := ObjectMeta0\<lparr>om_Name := ''worker1''\<rparr>,
     wk_WorkerInfo := (wk_WorkerInfo Worker0)\<lparr>wi_MemoryUsedPercent := mem, wi_CPUUsedPercent := ''40''\<rparr>,
     wk_Conditions := [\<lparr>c_Type = WorkerConditionReady, c_Status = ConditionTrue,
         c_ObservedGeneration = 1, c_LastTransitionTime = 0, c_Reason = '''', c_Message = ''''\<rparr>]\<rparr>"


end
