(* ===== verification/Nclet_Main.thy ===== *)
theory Nclet_Main
  imports Nclet_Ssh Heartbeat Password Startup
begin

text \<open>
  The start of nclet (\<^verbatim>\<open>cmd/nclet/main.go\<close>): how the flags become the configuration of its
  components. Errors of the set-up calls come with \<open>main_env\<close>; some of them end the program,
  others are only logged.
\<close>

section \<open>The program\<close>

record nclet_flags =
  fl_sshAddr :: string
  fl_externalIPAddr :: string
  fl_configDir :: string
  fl_adminPass :: string
  fl_heartbeatInterval :: string
  fl_statusUpdateInterval :: string
  fl_workerClass :: string
  fl_maxWorkers :: int

definition nclet_default_flags :: nclet_flags where
  "nclet_default_flags =
     \<lparr>fl_sshAddr = '':2222'', fl_externalIPAddr = ''127.0.0.1'', fl_configDir = ''/data'', fl_adminPass = '''',
      fl_heartbeatInterval = ''1s'', fl_statusUpdateInterval = ''10s'', fl_workerClass = '''', fl_maxWorkers = 0\<rparr>"

text \<open>\<^verbatim>\<open>time.ParseDuration\<close> and \<^verbatim>\<open>cpu.Counts\<close> return a value beside the error.\<close>

record main_env =
  me_MustRegister :: "string \<Rightarrow> error option"
  me_SetupOpenTelemetry :: "error option"
  me_NewManager :: "error option"
  me_NewDockerClient :: "error option"
  me_Hostname :: "string or_error"
  me_rand_Int :: "nat \<Rightarrow> nat \<Rightarrow> nat or_error"
  me_ParseDuration :: "string \<Rightarrow> duration \<times> error option"
  me_cpu_Counts :: "int \<times> error option"
  me_SetupWithManager :: "error option"
  me_AddSSHServer :: "error option"
  me_AddHeartbeatAgent :: "error option"
  me_AddHealthzCheck :: "error option"
  me_AddReadyzCheck :: "error option"
  me_Start :: "error option"

text \<open>The running components, or the message with which the program exits.\<close>

record ('f, 'w) nclet_running =
  nr_WorkerName :: string
  nr_controller :: controller_builder
  nr_configDir :: string
  nr_hasDocker :: bool
  nr_ssh :: "'w SSHServer"
  nr_heartbeat :: "('f, 'w) HeartbeatAgent option"

datatype ('f, 'w) nclet_outcome = Exit1 string | Running "('f, 'w) nclet_running" "error option"

text \<open>\<^verbatim>\<open>strconv.ParseUint\<close> returns 0 with a syntax error and the largest value with a range error.\<close>

definition ParseUint_value :: "nat \<Rightarrow> string \<Rightarrow> nat" where
  "ParseUint_value bits s =
     (if s = [] \<or> \<not> list_all is_digit s then 0
      else if digits_val s < 2 ^ bits then digits_val s else 2 ^ bits - 1)"

text \<open>\<^verbatim>\<open>sshAddr[idx+1:]\<close> for the last colon; without one \<open>idx\<close> is -1 and it is the whole string.\<close>

definition after_last_colon :: "string \<Rightarrow> string" where
  "after_last_colon s = rev (takeWhile (\<lambda>c. c \<noteq> CHR '':'') (rev s))"

definition main_adminPass :: "main_env \<Rightarrow> nclet_flags \<Rightarrow> string" where
  "main_adminPass env fl =
     (if fl_adminPass fl = '''' then
        (case GeneratePassword (me_rand_Int env) 64 of Inl _ \<Rightarrow> '''' | Inr password \<Rightarrow> password)
      else fl_adminPass fl)"

definition main_maxWorkers :: "main_env \<Rightarrow> nclet_flags \<Rightarrow> int" where
  "main_maxWorkers env fl =
     (if fl_maxWorkers fl = 0 then
        (let workers = fst (me_cpu_Counts env) div 8 in if workers \<noteq> 0 then workers else fl_maxWorkers fl)
      else fl_maxWorkers fl)"

text \<open>\<^verbatim>\<open>SetupWithManager\<close> of the reconciler of nclet, by its \<^verbatim>\<open>MaxConcurrentReconciles\<close>.\<close>

definition nclet_SetupWithManager :: "int \<Rightarrow> controller_builder" where
  "nclet_SetupWithManager n =
     \<lparr>cb_For = KindProblemEnvironment, cb_Owns = [], cb_MaxConcurrentReconciles = Some (if n = 0 then 1 else n)\<rparr>"

text \<open>\<^verbatim>\<open>RegisterMetrics\<close> of \<^verbatim>\<open>metrics.go\<close>: a collector that cannot be registered is a panic.\<close>

fun RegisterMetrics :: "main_env \<Rightarrow> string list \<Rightarrow> unit go" where
  "RegisterMetrics env [] = Ret ()"
| "RegisterMetrics env (c # cs) = (if me_MustRegister env c \<noteq> None then Panic c else RegisterMetrics env cs)"

definition ssh_collectors :: "string list" where
  "ssh_collectors =
     [''netcon_nclet_ssh_auth_total'', ''netcon_nclet_ssh_session_duration_seconds'', ''netcon_nclet_ssh_sessions_in_flight'']"

definition nclet_main :: "'f float_ops \<Rightarrow> 'w kube \<Rightarrow> main_env \<Rightarrow> nclet_flags \<Rightarrow> ('f, 'w) nclet_outcome go" where
  "nclet_main F k env fl =
     (case RegisterMetrics env ssh_collectors of Panic m \<Rightarrow> Panic m | Ret _ \<Rightarrow>
      if fl_workerClass fl = '''' then Ret (Exit1 ''worker-class is required'')
      else if me_SetupOpenTelemetry env \<noteq> None then Ret (Exit1 ''failed to setup OpenTelemetry'')
      else if me_NewManager env \<noteq> None then Ret (Exit1 ''unable to start manager'')
      else (case me_Hostname env of
              Inl _ \<Rightarrow> Ret (Exit1 ''failed to get hostname'')
            | Inr workerName \<Rightarrow>
                (let adminPass = main_adminPass env fl;
                     heartbeatInterval = fst (me_ParseDuration env (fl_heartbeatInterval fl));
                     statusUpdateInterval = fst (me_ParseDuration env (fl_statusUpdateInterval fl));
                     sshPort = ParseUint_value 16 (after_last_colon (fl_sshAddr fl));
                     maxWorkers = main_maxWorkers env fl
                 in if me_SetupWithManager env \<noteq> None then Ret (Exit1 ''unable to create controller'')
                    else if me_AddSSHServer env \<noteq> None then Ret (Exit1 ''unable to create ssh server'')
                    else (case NewHeartbeatAgent F k workerName (fl_workerClass fl) (fl_externalIPAddr fl) (word_of_nat sshPort)
                                 heartbeatInterval statusUpdateInterval of
                            Panic m \<Rightarrow> Panic m
                          | Ret agent \<Rightarrow>
                              (let running = \<lparr>nr_WorkerName = workerName, nr_controller = nclet_SetupWithManager maxWorkers,
                                     nr_configDir = fl_configDir fl, nr_hasDocker = (me_NewDockerClient env = None),
                                     nr_ssh = NewSSHServer k (fl_sshAddr fl) adminPass,
                                     nr_heartbeat = (if me_AddHeartbeatAgent env = None then Some agent else None)\<rparr>
                               in if me_AddHealthzCheck env \<noteq> None then Ret (Exit1 ''unable to set up health check'')
                                  else if me_AddReadyzCheck env \<noteq> None then Ret (Exit1 ''unable to set up ready check'')
                                  else Ret (Running running (me_Start env)))))))"

section \<open>Facts\<close>

lemma RegisterMetrics_ok [simp]: "\<forall>c. me_MustRegister env c = None \<Longrightarrow> RegisterMetrics env cs = Ret ()"
  by (induction cs) auto

lemma after_last_colon_append:
  assumes "CHR '':'' \<notin> set p"
  shows "after_last_colon (h @ '':'' @ p) = p"
proof -
  have "takeWhile (\<lambda>c. c \<noteq> CHR '':'') (rev p) = rev p"
    using assms by (auto simp: takeWhile_eq_all_conv)
  then show ?thesis
    using assms by (simp add: after_last_colon_def takeWhile_append)
qed

lemma no_colon_dec_nat: "CHR '':'' \<notin> set (dec_nat n)"
  using list_all_digits_dec_nat [of n] by (auto simp: list_all_iff is_digit_def)

lemma ParseUint_value_dec_nat: "n < 2 ^ bits \<Longrightarrow> ParseUint_value bits (dec_nat n) = n"
  by (simp add: ParseUint_value_def digits_val_dec_nat list_all_digits_dec_nat)


section \<open>Properties\<close>

text \<open>
  The start of nclet. With a listening address \<^verbatim>\<open>host:port\<close>, valid intervals and no failing
  set-up call, nclet runs; the heartbeat announces the port on which the SSH server listens, the
  worker is named after the host, and the administrator password is the one given or, without
  one, 64 random alphanumeric characters. At least one environment is reconciled at a time.
\<close>

theorem nclet_main_runs:
  assumes "fl_sshAddr fl = host @ '':'' @ dec_nat port" "port < 65536" "fl_workerClass fl \<noteq> ''''"
    and "me_SetupOpenTelemetry env = None" "me_NewManager env = None" "me_Hostname env = Inr name"
    and "me_SetupWithManager env = None" "me_AddSSHServer env = None" "me_AddHeartbeatAgent env = None"
    and "me_AddHealthzCheck env = None" "me_AddReadyzCheck env = None"
    and "fst (me_ParseDuration env (fl_heartbeatInterval fl)) > 0" "fst (me_ParseDuration env (fl_statusUpdateInterval fl)) > 0"
    and "rand_in_range (me_rand_Int env)" "GeneratePassword (me_rand_Int env) 64 = Inr pw"
    and "fl_maxWorkers fl \<ge> 0" "fst (me_cpu_Counts env) \<ge> 0" "\<forall>c. me_MustRegister env c = None"
  shows "\<exists>run agent n. nclet_main F k env fl = Ret (Running run (me_Start env)) \<and> nr_WorkerName run = name \<and>
    cb_MaxConcurrentReconciles (nr_controller run) = Some n \<and> 1 \<le> n \<and>
    nr_heartbeat run = Some agent \<and> ha_workerName agent = name \<and> unat (ha_externalPort agent) = port \<and>
    sr_sshAddr (nr_ssh run) = fl_sshAddr fl \<and>
    (if fl_adminPass fl \<noteq> '''' then sr_adminPassword (nr_ssh run) = fl_adminPass fl
     else length (sr_adminPassword (nr_ssh run)) = 64 \<and> alnum_string (sr_adminPassword (nr_ssh run)))"
proof -
  have "ParseUint_value 16 (after_last_colon (fl_sshAddr fl)) = port"
    using assms(1,2) by (simp add: after_last_colon_append no_colon_dec_nat ParseUint_value_dec_nat del: append.simps)
  moreover have "unat (word_of_nat port :: 16 word) = port"
    using assms(2) by (simp add: unat_of_nat)
  moreover have "main_adminPass env fl = (if fl_adminPass fl \<noteq> '''' then fl_adminPass fl else pw)"
    using assms(15) by (simp add: main_adminPass_def)
  moreover have "length pw = 64 \<and> alnum_string pw"
    using GeneratePassword_sound [OF assms(14,15)] by simp
  moreover have "0 \<le> main_maxWorkers env fl"
    using assms(16,17) by (simp add: main_maxWorkers_def Let_def pos_imp_zdiv_nonneg_iff)
  ultimately show ?thesis
    using assms(3-13,18)
    by (simp add: nclet_main_def NewHeartbeatAgent_def NewTicker_def NewSSHServer_def nclet_SetupWithManager_def Let_def)
qed

definition sample_flags :: nclet_flags where
  "sample_flags = \<lparr>fl_sshAddr = '':'' @ dec_nat 2222, fl_externalIPAddr = ''127.0.0.1'', fl_configDir = ''/data'',
     fl_adminPass = '''', fl_heartbeatInterval = ''1s'', fl_statusUpdateInterval = ''10s'', fl_workerClass = ''small'',
     fl_maxWorkers = 0\<rparr>"

definition sample_main_env :: "(nat \<Rightarrow> nat \<Rightarrow> nat or_error) \<Rightarrow> main_env" where
  "sample_main_env rnd = \<lparr>me_MustRegister = (\<lambda>_. None), me_SetupOpenTelemetry = None, me_NewManager = None, me_NewDockerClient = None,
     me_Hostname = Inr ''worker1'', me_rand_Int = rnd, me_ParseDuration = (\<lambda>s. (Second, None)), me_cpu_Counts = (16, None),
     me_SetupWithManager = None, me_AddSSHServer = None, me_AddHeartbeatAgent = None, me_AddHealthzCheck = None,
     me_AddReadyzCheck = None, me_Start = None\<rparr>"

theorem nclet_main_runs_witness:
  "\<exists>run agent. nclet_main (real_float (\<lambda>_. Inr 0) (\<lambda>_. '''')) mem_client (sample_main_env sample_random) sample_flags =
       Ret (Running run None) \<and> nr_heartbeat run = Some agent \<and> unat (ha_externalPort agent) = 2222 \<and>
     length (sr_adminPassword (nr_ssh run)) = 64"
proof -
  let ?env = "sample_main_env sample_random"
  obtain pw where pw: "GeneratePassword (me_rand_Int ?env) 64 = Inr pw"
    using GeneratePassword_total [of sample_random 64] by (auto simp: sample_main_env_def sample_random_def)
  have "fl_sshAddr sample_flags = '''' @ '':'' @ dec_nat 2222" "fl_workerClass sample_flags \<noteq> ''''" "fl_adminPass sample_flags = ''''"
    "fl_maxWorkers sample_flags = 0"
    by (simp_all add: sample_flags_def)
  with nclet_main_runs [of sample_flags "''''" 2222 ?env "''worker1''" pw "real_float (\<lambda>_. Inr 0) (\<lambda>_. '''')" mem_client] pw
  show ?thesis
    by (auto simp: sample_main_env_def)
qed



text \<open>An interval that does not parse is 0, and the ticker of the heartbeat panics.\<close>

lemma nclet_main_bad_interval:
  assumes "\<forall>c. me_MustRegister env c = None" "fl_workerClass fl \<noteq> ''''" "me_SetupOpenTelemetry env = None" "me_NewManager env = None" "me_Hostname env = Inr name"
    "me_SetupWithManager env = None" "me_AddSSHServer env = None"
    and "fst (me_ParseDuration env (fl_heartbeatInterval fl)) = 0"
  shows "nclet_main F k env fl = Panic ''non-positive interval for NewTicker''"
  using assms by (simp add: nclet_main_def NewHeartbeatAgent_def NewTicker_def Let_def)

text \<open>The announced port of an address without a valid one.\<close>

lemma announced_port_invalid:
  "ParseUint_value 16 (after_last_colon '':ssh'') = 0"
  "70000 \<le> n \<Longrightarrow> ParseUint_value 16 (after_last_colon ('':'' @ dec_nat n)) = 65535"
  using after_last_colon_append [OF no_colon_dec_nat, of "''''" n]
  by (simp_all add: ParseUint_value_def after_last_colon_def is_digit_def digits_val_dec_nat list_all_digits_dec_nat)

end
