(* ===== verification/Ssh_Access.thy ===== *)
theory Ssh_Access
  imports Ssh_Session
begin

text \<open>
  The rest of \<^verbatim>\<open>internal/ssh\<close>: the configuration a connection is authenticated with
  (\<^verbatim>\<open>config\<close> of \<^verbatim>\<open>server.go\<close>), the handler of session channels and the accessors of a session
  (\<^verbatim>\<open>session.go\<close>), and the helpers on keys (\<^verbatim>\<open>util.go\<close>, \<^verbatim>\<open>ssh.go\<close>). Key formats and key
  generation are parameters; the span attributes that \<^verbatim>\<open>config\<close> sets are left out.
\<close>

unbundle bit_operations_syntax

section \<open>Keys\<close>

text \<open>\<open>rsa\<close> is \<^verbatim>\<open>rsa.GenerateKey\<close> by key size, \<open>signer\<close> is \<^verbatim>\<open>NewSignerFromKey\<close>.\<close>

definition generateSigner :: "(nat \<Rightarrow> 'r or_error) \<Rightarrow> ('r \<Rightarrow> 'k or_error) \<Rightarrow> 'k or_error" where
  "generateSigner rsa signer = (case rsa 2048 of Inl e \<Rightarrow> Inl e | Inr key \<Rightarrow> signer key)"

text \<open>\<^verbatim>\<open>subtle.ConstantTimeCompare\<close>, as \<^verbatim>\<open>crypto/subtle\<close> computes it.\<close>

fun ct_loop :: "8 word \<Rightarrow> 8 word list \<Rightarrow> 8 word list \<Rightarrow> 8 word" where
  "ct_loop v (x # xs) (y # ys) = ct_loop (v OR (x XOR y)) xs ys"
| "ct_loop v _ _ = v"

definition ConstantTimeByteEq :: "8 word \<Rightarrow> 8 word \<Rightarrow> int" where
  "ConstantTimeByteEq x y = uint (drop_bit 31 ((ucast (x XOR y) :: 32 word) - 1))"

definition ConstantTimeCompare :: "8 word list \<Rightarrow> 8 word list \<Rightarrow> int" where
  "ConstantTimeCompare x y = (if length x \<noteq> length y then 0 else ConstantTimeByteEq (ct_loop 0 x y) 0)"

text \<open>\<open>marshal\<close> is the wire format of a key; \<open>None\<close> is nil.\<close>

definition KeysEqual :: "('k \<Rightarrow> 8 word list) \<Rightarrow> 'k option \<Rightarrow> 'k option \<Rightarrow> bool" where
  "KeysEqual marshal ak bk =
     (case (ak, bk) of
        (Some ka, Some kb) \<Rightarrow>
          (let a = marshal ka; b = marshal kb
           in length a = length b \<and> ConstantTimeCompare a b = 1)
      | _ \<Rightarrow> False)"

lemma xor_zero: "(x :: 8 word) XOR y = 0 \<longleftrightarrow> x = y"
  by (metis xor.assoc xor.left_neutral xor.right_neutral xor_self_eq)

lemma ct_loop_zero: "length xs = length ys \<Longrightarrow> ct_loop v xs ys = 0 \<longleftrightarrow> v = 0 \<and> xs = ys"
  by (induction v xs ys rule: ct_loop.induct) (auto simp: or_eq_0_iff xor_zero)

lemma ConstantTimeByteEq_iff: "ConstantTimeByteEq x y = (if x = y then 1 else 0)"
proof (cases "x = y")
  case True
  then show ?thesis
    by (simp add: ConstantTimeByteEq_def)
next
  case False
  define z where "z = x XOR y"
  have z: "z \<noteq> 0"
    using False by (simp add: z_def xor_zero)
  have "uint z < 256" "0 < uint z"
    using unsigned_less [of z, where ?'a = int] z by (simp_all add: word_neq_0_conv word_less_def)
  then have "uint ((ucast z :: 32 word) - 1) < 2 ^ 31"
    by (simp add: uint_sub_if' unsigned_ucast_eq take_bit_int_eq_self)
  then have "uint (drop_bit 31 ((ucast z :: 32 word) - 1)) = 0"
    by (simp add: drop_bit_eq_div uint_div_distrib div_pos_pos_trivial)
  with False show ?thesis
    by (simp add: ConstantTimeByteEq_def z_def)
qed

lemma ConstantTimeCompare_iff: "ConstantTimeCompare x y = (if x = y then 1 else 0)"
  by (auto simp: ConstantTimeCompare_def ConstantTimeByteEq_iff ct_loop_zero)

section \<open>The configuration of a connection\<close>

definition ctx_Permissions :: "sshContext \<Rightarrow> ctx_value go" where
  "ctx_Permissions ctx =
     (case Value ctx ContextKeyPermissions of
        Some CtxPermissions \<Rightarrow> Ret CtxPermissions
      | _ \<Rightarrow> Panic ''interface conversion: interface is not *Permissions'')"

text \<open>
  The callbacks of the protocol, on the context of the connection: the password callback checks
  the password, the one without authentication only fills the context. Both return the permissions
  of the context.
\<close>

definition config_PasswordCallback ::
    "'w password_handler \<Rightarrow> sshContext \<Rightarrow> ConnMetadata \<Rightarrow> string \<Rightarrow> 'w \<Rightarrow> (ctx_value \<times> error option \<times> sshContext \<times> 'w) go" where
  "config_PasswordCallback handler ctx conn password w =
     (case PasswordCallback handler ctx conn password w of
        Panic m \<Rightarrow> Panic m
      | Ret (err, ctx, w) \<Rightarrow>
          (case ctx_Permissions ctx of Panic m \<Rightarrow> Panic m | Ret perms \<Rightarrow> Ret (perms, err, ctx, w)))"

definition NoClientAuthCallback :: "sshContext \<Rightarrow> ConnMetadata \<Rightarrow> (ctx_value \<times> sshContext) go" where
  "NoClientAuthCallback ctx conn =
     (let ctx = applyConnMetadata ctx conn
      in case ctx_Permissions ctx of Panic m \<Rightarrow> Panic m | Ret perms \<Rightarrow> Ret (perms, ctx))"

record ('k, 'w) ServerConfig =
  cf_ServerVersion :: string
  cf_BannerCallback :: "ConnMetadata \<Rightarrow> string"
  cf_PasswordCallback ::
    "(sshContext \<Rightarrow> ConnMetadata \<Rightarrow> string \<Rightarrow> 'w \<Rightarrow> (ctx_value \<times> error option \<times> sshContext \<times> 'w) go) option"
  cf_NoClientAuth :: bool
  cf_NoClientAuthCallback :: "(sshContext \<Rightarrow> ConnMetadata \<Rightarrow> (ctx_value \<times> sshContext) go) option"
  cf_hostKeys :: "'k list"

text \<open>\<open>add\<close> is \<^verbatim>\<open>AddHostKey\<close> of the protocol's configuration.\<close>

definition server_config ::
    "('k list \<Rightarrow> 'k \<Rightarrow> 'k list) \<Rightarrow> string \<Rightarrow> ('h, 'k, 'l, 'c, 'w) Server \<Rightarrow> ('k, 'w) ServerConfig" where
  "server_config add traceID srv =
     \<lparr>cf_ServerVersion = ''SSH-2.0-nclet'',
      cf_BannerCallback = BannerCallback traceID,
      cf_PasswordCallback = map_option config_PasswordCallback (sv_PasswordHandler srv),
      cf_NoClientAuth = NoClientAuth srv,
      cf_NoClientAuthCallback = (if sv_PasswordHandler srv = None then Some NoClientAuthCallback else None),
      cf_hostKeys = foldl add [] (sv_HostSigners srv)\<rparr>"

definition Server_Handle :: "'h \<Rightarrow> ('h, 'k, 'l, 'c, 'w) Server \<Rightarrow> ('h, 'k, 'l, 'c, 'w) Server" where
  "Server_Handle fn srv = srv\<lparr>sv_Handler := Some fn\<rparr>"

section \<open>Sessions\<close>

text \<open>
  The handler of session channels: a channel that cannot be accepted is dropped, otherwise its
  requests are handled by a new session.
\<close>

definition DefaultSessionHandler :: "'h session_env \<Rightarrow> error option \<Rightarrow> session_action list \<Rightarrow> 'h run option" where
  "DefaultSessionHandler env acceptErr acts =
     (if acceptErr \<noteq> None then None else Some (session_run env acts new_session [] []))"

text \<open>The accessors; \<open>split\<close> is \<^verbatim>\<open>shlex.Split\<close>, whose error is dropped.\<close>

definition session_PublicKey :: "sshContext \<Rightarrow> string option go" where
  "session_PublicKey ctx =
     (case Value ctx ContextKeyPublicKey of
        None \<Rightarrow> Ret None
      | Some (CtxPublicKey k) \<Rightarrow> Ret (Some k)
      | _ \<Rightarrow> Panic ''interface conversion: interface is not PublicKey'')"

definition session_Permissions :: "sshContext \<Rightarrow> ctx_value go" where
  "session_Permissions ctx = ctx_Permissions ctx"

definition session_Context :: "sshContext \<Rightarrow> sshContext" where
  "session_Context ctx = ctx"

definition session_User :: "ConnMetadata \<Rightarrow> string" where
  "session_User conn = cn_User conn"

definition session_RemoteAddr :: "ConnMetadata \<Rightarrow> string" where
  "session_RemoteAddr conn = cn_RemoteAddr conn"

definition session_LocalAddr :: "ConnMetadata \<Rightarrow> string" where
  "session_LocalAddr conn = cn_LocalAddr conn"

definition session_Environ :: "session \<Rightarrow> string list" where
  "session_Environ sess = [] @ ss_env sess"

definition session_RawCommand :: "session \<Rightarrow> string" where
  "session_RawCommand sess = ss_rawCmd sess"

definition session_Command :: "(string \<Rightarrow> bool \<Rightarrow> string list \<times> error option) \<Rightarrow> session \<Rightarrow> string list" where
  "session_Command split sess = [] @ fst (split (ss_rawCmd sess) True)"

definition session_Subsystem :: "session \<Rightarrow> string" where
  "session_Subsystem sess = ss_subsystem sess"

section \<open>Contexts during authentication\<close>

text \<open>
  The contexts a connection can have when its handshake ends: new, or filled by the callbacks, any
  number of times.
\<close>

inductive auth_context :: "sshContext \<Rightarrow> bool" where
  new: "auth_context newContext"
| callback: "auth_context ctx \<Longrightarrow> auth_context (applyConnMetadata ctx conn)"

text \<open>A context is either untouched or holds everything the callbacks set.\<close>

definition ctx_filled :: "sshContext \<Rightarrow> bool" where
  "ctx_filled ctx \<longleftrightarrow>
     (\<exists>sid cv sv u la ra.
        Value ctx ContextKeySessionID = Some (CtxString sid) \<and> Value ctx ContextKeyClientVersion = Some (CtxString cv) \<and>
        Value ctx ContextKeyServerVersion = Some (CtxString sv) \<and> Value ctx ContextKeyUser = Some (CtxString u) \<and>
        Value ctx ContextKeyLocalAddr = Some (CtxAddr la) \<and> Value ctx ContextKeyRemoteAddr = Some (CtxAddr ra))"

lemma applyConnMetadata_fills:
  assumes "Value ctx ContextKeySessionID = None \<or> ctx_filled ctx"
  shows "ctx_filled (applyConnMetadata ctx conn)"
  using assms by (auto simp: ctx_filled_def applyConnMetadata_def SetValue_def Value_def Let_def)

lemma applyConnMetadata_keeps:
  "Value (applyConnMetadata ctx conn) ContextKeyPermissions = Value ctx ContextKeyPermissions"
  "Value (applyConnMetadata ctx conn) ContextKeyPublicKey = Value ctx ContextKeyPublicKey"
  by (simp_all add: applyConnMetadata_def SetValue_def Value_def Let_def)

lemma auth_context_inv:
  "auth_context ctx \<Longrightarrow> (Value ctx ContextKeySessionID = None \<or> ctx_filled ctx) \<and>
     Value ctx ContextKeyPermissions = Some CtxPermissions \<and> Value ctx ContextKeyPublicKey = None"
  by (induction rule: auth_context.induct)
    (auto simp: newContext_def SetValue_def Value_def applyConnMetadata_keeps [unfolded Value_def]
      applyConnMetadata_fills [unfolded Value_def])

lemma callback_contexts:
  assumes "auth_context ctx"
  shows "config_PasswordCallback h ctx conn pw w = Ret (perms, err, ctx', w') \<Longrightarrow> auth_context ctx'"
    and "NoClientAuthCallback ctx conn = Ret (perms, ctx') \<Longrightarrow> auth_context ctx'"
  using assms by (auto simp: config_PasswordCallback_def PasswordCallback_def NoClientAuthCallback_def Let_def
      split: go.splits prod.splits intro: auth_context.callback)

section \<open>Properties\<close>

text \<open>
  C31. What a session can read. However many authentication attempts a connection made, once it is
  handled every accessor of its context returns a value: no type assertion fails, the
  permissions are there, and there is never a public key. Before the first attempt the user name
  cannot be read without a crash. Keys are compared by their wire formats, in constant time and
  without error; a missing key equals nothing.
\<close>

theorem session_getters_safe:
  assumes "auth_context ctx" "HandleConn now (\<lambda>_. Inr (ctx, meta, c, chans, conn)) srv = (Inr (ctx', acts, conn'), srv')"
  shows "(\<exists>u sid cv sv la ra. ctx_User ctx' = Ret u \<and> ctx_SessionID ctx' = Ret sid \<and> ctx_ClientVersion ctx' = Ret cv \<and>
      ctx_ServerVersion ctx' = Ret sv \<and> ctx_LocalAddr ctx' = Ret la \<and> ctx_RemoteAddr ctx' = Some ra) \<and>
    session_Permissions ctx' = Ret CtxPermissions \<and> session_PublicKey ctx' = Ret None \<and>
    (\<forall>u. ctx_User newContext \<noteq> Ret u) \<and>
    (\<forall>ka kb. KeysEqual marshal ka kb \<longleftrightarrow> (\<exists>a b. ka = Some a \<and> kb = Some b \<and> marshal a = marshal b))"
proof -
  have ctx': "ctx' = applyConnMetadata (SetValue ctx ContextKeyConn CtxConn) meta"
    using assms(2) by (auto simp: HandleConn_def Let_def)
  note inv = auth_context_inv [OF assms(1)]
  then have "ctx_filled ctx'"
    unfolding ctx' by (intro applyConnMetadata_fills) (auto simp: ctx_filled_def SetValue_def Value_def)
  then have "\<exists>u sid cv sv la ra. ctx_User ctx' = Ret u \<and> ctx_SessionID ctx' = Ret sid \<and> ctx_ClientVersion ctx' = Ret cv \<and>
      ctx_ServerVersion ctx' = Ret sv \<and> ctx_LocalAddr ctx' = Ret la \<and> ctx_RemoteAddr ctx' = Some ra"
    by (auto simp: ctx_filled_def ctx_User_def ctx_SessionID_def ctx_ClientVersion_def ctx_ServerVersion_def
        ctx_LocalAddr_def ctx_RemoteAddr_def ctx_string_def)
  moreover have "session_Permissions ctx' = Ret CtxPermissions" "session_PublicKey ctx' = Ret None"
    using inv by (simp_all add: ctx' session_Permissions_def ctx_Permissions_def session_PublicKey_def
        applyConnMetadata_keeps) (simp_all add: SetValue_def Value_def)
  moreover have "\<forall>u. ctx_User newContext \<noteq> Ret u"
    by (simp add: ctx_User_def ctx_string_def newContext_def SetValue_def Value_def)
  moreover have "\<forall>ka kb. KeysEqual marshal ka kb \<longleftrightarrow> (\<exists>a b. ka = Some a \<and> kb = Some b \<and> marshal a = marshal b)"
    by (auto simp: KeysEqual_def ConstantTimeCompare_iff Let_def split: option.splits)
  ultimately show ?thesis
    by blast
qed

theorem session_getters_safe_witness:
  "\<exists>ctx' acts conn' srv'.
     HandleConn 0 (\<lambda>sc. Inr (newContext, \<lparr>cn_User = ''nc_abc'', cn_SessionID = ''x'', cn_ClientVersion = '''',
        cn_ServerVersion = '''', cn_RemoteAddr = '''', cn_LocalAddr = ''''\<rparr>, 7, [], new_serverConn 0 new_Server)) new_Server =
        (Inr (ctx', acts, conn'), srv') \<and> session_PublicKey ctx' = Ret None"
proof -
  let ?meta = "\<lparr>cn_User = ''nc_abc'', cn_SessionID = ''x'', cn_ClientVersion = '''',
    cn_ServerVersion = '''', cn_RemoteAddr = '''', cn_LocalAddr = ''''\<rparr>"
  obtain ctx' acts conn' srv' where h: "HandleConn 0 (\<lambda>sc. Inr (newContext, ?meta, 7, [], new_serverConn 0 new_Server)) new_Server =
      (Inr (ctx', acts, conn'), srv')"
    by (simp add: HandleConn_def Let_def)
  with session_getters_safe [OF auth_context.new h, of "\<lambda>_ :: unit. []"] show ?thesis
    by blast
qed

end
