(* ===== verification/Node_Access.thy ===== *)
theory Node_Access
  imports Containerlab Tracing
begin

text \<open>
  How \<^verbatim>\<open>access-helper\<close> connects to a node (\<^verbatim>\<open>cmd/access-helper/ssh.go\<close>, \<^verbatim>\<open>exec.go\<close>, \<^verbatim>\<open>term.go\<close>): by
  SSH with the local terminal in raw mode, or by \<^verbatim>\<open>docker exec\<close>. The outside world -- terminal,
  network, docker and the host -- is a state of type \<open>'s\<close>; the calls into it are the fields of
  \<open>access_ops\<close>. Deferred calls are written at the end of the function that defers them, in
  reverse order, and leave events in the trace.
\<close>

unbundle bit_operations_syntax

section \<open>The terminal\<close>

record Termios =
  tm_Iflag :: "32 word"
  tm_Oflag :: "32 word"
  tm_Cflag :: "32 word"
  tm_Lflag :: "32 word"
  tm_Line :: "8 word"
  tm_Cc :: "8 word list" \<comment> \<open>19 control characters\<close>
  tm_Ispeed :: "32 word"
  tm_Ospeed :: "32 word"

text \<open>Flags of the Linux terminal interface.\<close>

definition IGNBRK :: "32 word" where "IGNBRK = 0x1"
definition BRKINT :: "32 word" where "BRKINT = 0x2"
definition PARMRK :: "32 word" where "PARMRK = 0x8"
definition ISTRIP :: "32 word" where "ISTRIP = 0x20"
definition INLCR :: "32 word" where "INLCR = 0x40"
definition IGNCR :: "32 word" where "IGNCR = 0x80"
definition ICRNL :: "32 word" where "ICRNL = 0x100"
definition IXON :: "32 word" where "IXON = 0x400"
definition OPOST :: "32 word" where "OPOST = 0x1"
definition ISIG :: "32 word" where "ISIG = 0x1"
definition ICANON :: "32 word" where "ICANON = 0x2"
definition ECHO :: "32 word" where "ECHO = 0x8"
definition ECHONL :: "32 word" where "ECHONL = 0x40"
definition IEXTEN :: "32 word" where "IEXTEN = 0x8000"
definition CSIZE :: "32 word" where "CSIZE = 0x30"
definition CS8 :: "32 word" where "CS8 = 0x30"
definition PARENB :: "32 word" where "PARENB = 0x100"
definition VTIME :: nat where "VTIME = 5"
definition VMIN :: nat where "VMIN = 6"

lemmas termios_flags = IGNBRK_def BRKINT_def PARMRK_def ISTRIP_def INLCR_def IGNCR_def ICRNL_def IXON_def
  OPOST_def ISIG_def ICANON_def ECHO_def ECHONL_def IEXTEN_def CSIZE_def CS8_def PARENB_def VTIME_def VMIN_def

datatype wait_result = WaitOk | WaitExitError int | WaitError error

datatype access_event =
    Dialed string string string \<comment> \<open>user, password, address\<close>
  | MadeRaw
  | WinchNotified
  | ClonerStarted \<comment> \<open>the goroutine that copies the standard input\<close>
  | ClonerJoined
  | WinchStopped
  | Restored
  | SessionClosed
  | ClientClosed
  | DockerExec "string list"

record ('s, 'x) access_ops =
  ao_host :: "'s \<Rightarrow> 'x host"
  ao_Dial :: "string \<Rightarrow> string \<Rightarrow> string \<Rightarrow> 's \<Rightarrow> error option \<times> 's" \<comment> \<open>user, password, address\<close>
  ao_NewSession :: "'s \<Rightarrow> error option \<times> 's"
  ao_GetSize :: "'s \<Rightarrow> (int \<times> int) or_error" \<comment> \<open>width, height\<close>
  ao_GetTermios :: "'s \<Rightarrow> Termios or_error"
  ao_SetTermios :: "Termios \<Rightarrow> 's \<Rightarrow> error option \<times> 's"
  ao_RequestPty :: "string \<Rightarrow> int \<Rightarrow> int \<Rightarrow> 's \<Rightarrow> error option \<times> 's" \<comment> \<open>terminal, height, width\<close>
  ao_StdinPipe :: "'s \<Rightarrow> error option \<times> 's"
  ao_Shell :: "'s \<Rightarrow> error option \<times> 's"
  ao_Wait :: "'s \<Rightarrow> wait_result \<times> 's"
  ao_shlex :: "string \<Rightarrow> string list or_error"
  ao_cmd_Start :: "string list \<Rightarrow> 's \<Rightarrow> error option \<times> 's"
  ao_cmd_Wait :: "'s \<Rightarrow> wait_result \<times> 's" \<comment> \<open>\<open>WaitExitError\<close> is an \<^verbatim>\<open>exec.ExitError\<close>\<close>

definition raw :: "Termios \<Rightarrow> Termios" where
  "raw t = t\<lparr>
     tm_Iflag := tm_Iflag t AND NOT (IGNBRK OR BRKINT OR PARMRK OR ISTRIP OR INLCR OR IGNCR OR ICRNL OR IXON),
     tm_Oflag := tm_Oflag t AND NOT OPOST,
     tm_Lflag := tm_Lflag t AND NOT (ECHO OR ECHONL OR ICANON OR ISIG OR IEXTEN),
     tm_Cflag := (tm_Cflag t AND NOT (CSIZE OR PARENB)) OR CS8,
     tm_Cc := (tm_Cc t)[VMIN := 0, VTIME := 1]\<rparr>"

definition makeRaw :: "('s, 'x) access_ops \<Rightarrow> 's \<Rightarrow> Termios or_error \<times> 's" where
  "makeRaw ops s =
     (case ao_GetTermios ops s of
        Inl e \<Rightarrow> (Inl e, s)
      | Inr termios \<Rightarrow>
          (case ao_SetTermios ops (raw termios) s of
             (Some e, s) \<Rightarrow> (Inl e, s)
           | (None, s) \<Rightarrow> (Inr termios, s)))"

definition restore :: "('s, 'x) access_ops \<Rightarrow> Termios \<Rightarrow> 's \<Rightarrow> error option \<times> 's" where
  "restore ops state s = ao_SetTermios ops state s"

section \<open>Labels\<close>

definition defaultSSHUsername :: string where "defaultSSHUsername = ''clab''"
definition defaultSSHPassword :: string where "defaultSSHPassword = ''clab@123''"
definition defaultSSHPort :: nat where "defaultSSHPort = 22"
definition defaultExecCommand :: string where "defaultExecCommand = ''sh''"
definition AccessMethodKey :: string where "AccessMethodKey = ''netcon.janog.gr.jp/accessMethod''"
definition AdminOnlyKey :: string where "AdminOnlyKey = ''netcon.janog.gr.jp/adminOnly''"
definition sshUsernameKey :: string where "sshUsernameKey = ''netcon.janog.gr.jp/sshUsername''"
definition sshPasswordKey :: string where "sshPasswordKey = ''netcon.janog.gr.jp/sshPassword''"
definition sshUsernameForAdminKey :: string where
  "sshUsernameForAdminKey = ''netcon.janog.gr.jp/sshUsernameForAdmin''"
definition sshPasswordForAdminKey :: string where
  "sshPasswordForAdminKey = ''netcon.janog.gr.jp/sshPasswordForAdmin''"
definition sshPortKey :: string where "sshPortKey = ''netcon.janog.gr.jp/sshPort''"
definition execCommandKey :: string where "execCommandKey = ''netcon.janog.gr.jp/execCommand''"
definition execCommandForAdminKey :: string where
  "execCommandForAdminKey = ''netcon.janog.gr.jp/execCommandForAdmin''"

text \<open>The value of a label with one for administrators and a default.\<close>

definition label_for :: "label_map \<Rightarrow> string \<Rightarrow> string \<Rightarrow> string \<Rightarrow> bool \<Rightarrow> string" where
  "label_for labels adminKey key dflt isAdmin =
     (case (labels adminKey, isAdmin) of
        (Some v, True) \<Rightarrow> v
      | _ \<Rightarrow> (case labels key of Some v \<Rightarrow> v | None \<Rightarrow> dflt))"

section \<open>Access by SSH\<close>

definition loadParameters :: "'f NodeDefinition \<Rightarrow> bool \<Rightarrow> (string \<times> string \<times> nat) or_error" where
  "loadParameters nd isAdmin =
     (let labels = nd_Labels nd;
          username = label_for labels sshUsernameForAdminKey sshUsernameKey defaultSSHUsername isAdmin;
          password = label_for labels sshPasswordForAdminKey sshPasswordKey defaultSSHPassword isAdmin
      in case labels sshPortKey of
           None \<Rightarrow> Inr (username, password, defaultSSHPort)
         | Some v \<Rightarrow>
             (case ParseUint 16 v of
                Inl _ \<Rightarrow> Inl (Errorf ''could not parse port'')
              | Inr p \<Rightarrow> Inr (username, password, p)))"

text \<open>\<^verbatim>\<open>serverAddress[:strings.Index(serverAddress, "/")]\<close> panics without a slash.\<close>

definition server_address :: "string \<Rightarrow> nat \<Rightarrow> string go" where
  "server_address ip port =
     (if slash \<in> set ip then Ret (takeWhile (\<lambda>c. c \<noteq> slash) ip @ '':'' @ dec_nat port)
      else Panic ''slice bounds out of range [:-1]'')"

text \<open>From the standard input pipe to the end of the remote shell; the copying goroutine is joined last.\<close>

definition ssh_shell :: "('s, 'x) access_ops \<Rightarrow> 's \<Rightarrow> (int \<times> error option) \<times> access_event list \<times> 's" where
  "ssh_shell ops s =
     (case ao_StdinPipe ops s of
        (Some e, s) \<Rightarrow> ((0, Some e), [], s)
      | (None, s) \<Rightarrow>
          (case ao_Shell ops s of
             (Some e, s) \<Rightarrow> ((0, Some e), [ClonerStarted, ClonerJoined], s)
           | (None, s) \<Rightarrow>
               (case ao_Wait ops s of
                  (WaitExitError status, s) \<Rightarrow> ((status, None), [ClonerStarted, ClonerJoined], s)
                | (WaitError e, s) \<Rightarrow> ((0, Some e), [ClonerStarted, ClonerJoined], s)
                | (WaitOk, s) \<Rightarrow> ((0, None), [ClonerStarted, ClonerJoined], s))))"

definition ssh_pty :: "('s, 'x) access_ops \<Rightarrow> 's \<Rightarrow> (int \<times> error option) \<times> access_event list \<times> 's" where
  "ssh_pty ops s =
     (case ao_GetSize ops s of
        Inl e \<Rightarrow> ((0, Some e), [], s)
      | Inr (width, height) \<Rightarrow>
          (case makeRaw ops s of
             (Inl e, s) \<Rightarrow> ((0, Some e), [], s)
           | (Inr state, s) \<Rightarrow>
               (let (r, evs, s) =
                      (case ao_RequestPty ops ''xterm-256color'' height width s of
                         (Some e, s) \<Rightarrow> ((0, Some e), [], s)
                       | (None, s) \<Rightarrow>
                           (case ssh_shell ops s of (r, evs, s) \<Rightarrow> (r, [WinchNotified] @ evs @ [WinchStopped], s)))
                in (r, [MadeRaw] @ evs @ [Restored], snd (restore ops state s)))))"

definition ssh_session ::
    "('s, 'x) access_ops \<Rightarrow> string \<Rightarrow> string \<Rightarrow> string \<Rightarrow> 's \<Rightarrow> (int \<times> error option) \<times> access_event list \<times> 's" where
  "ssh_session ops userName password serverAddress s =
     (case ao_Dial ops userName password serverAddress s of
        (Some e, s) \<Rightarrow> ((0, Some (Wrap ''failed to access node via SSH: '' e)), [], s)
      | (None, s) \<Rightarrow>
          (let (r, evs, s) =
                 (case ao_NewSession ops s of
                    (Some e, s) \<Rightarrow> ((0, Some (Wrap ''failed to open new session: '' e)), [], s)
                  | (None, s) \<Rightarrow> (case ssh_pty ops s of (r, evs, s) \<Rightarrow> (r, evs @ [SessionClosed], s)))
           in (r, [Dialed userName password serverAddress] @ evs @ [ClientClosed], s)))"

definition ssh__access ::
    "('s, 'x) access_ops \<Rightarrow> 'f NodeDefinition \<Rightarrow> ContainerDetails \<Rightarrow> bool \<Rightarrow> 's \<Rightarrow>
     ((int \<times> error option) \<times> access_event list \<times> 's) go" where
  "ssh__access ops nd cd isAdmin s =
     (case loadParameters nd isAdmin of
        Inl e \<Rightarrow> Ret ((0, Some e), [], s)
      | Inr (userName, password, port) \<Rightarrow>
          (case server_address (cd_IPv4Address cd) port of
             Panic m \<Rightarrow> Panic m
           | Ret serverAddress \<Rightarrow> Ret (ssh_session ops userName password serverAddress s)))"

definition ssh_access ::
    "('s, 'x) access_ops \<Rightarrow> 'f NodeDefinition \<Rightarrow> ContainerDetails \<Rightarrow> bool \<Rightarrow> 's \<Rightarrow>
     (error option \<times> access_event list \<times> 's) go" where
  "ssh_access ops nd cd isAdmin s =
     (case ssh__access ops nd cd isAdmin s of
        Panic m \<Rightarrow> Panic m
      | Ret ((_, Some e), evs, s) \<Rightarrow> Ret (Some (WrapError e ''failed to access node via SSH''), evs, s)
      | Ret ((_, None), evs, s) \<Rightarrow> Ret (None, evs, s))"

section \<open>Access by docker\<close>

definition exec__access ::
    "('s, 'x) access_ops \<Rightarrow> 'f NodeDefinition \<Rightarrow> ContainerDetails \<Rightarrow> bool \<Rightarrow> 's \<Rightarrow> error option \<times> access_event list \<times> 's" where
  "exec__access ops nd cd isAdmin s =
     (case ao_shlex ops (label_for (nd_Labels nd) execCommandForAdminKey execCommandKey defaultExecCommand isAdmin) of
        Inl e \<Rightarrow> (Some (Wrap ''failed to parse exec command: '' e), [], s)
      | Inr commands \<Rightarrow>
          (let commands = [''exec'', ''-it'', cd_Name cd] @ commands
           in case ao_cmd_Start ops (''docker'' # commands) s of
                (Some e, s) \<Rightarrow> (Some (Wrap ''failed to start command: '' e), [], s)
              | (None, s) \<Rightarrow>
                  (case ao_cmd_Wait ops s of
                     (WaitOk, s) \<Rightarrow> (None, [DockerExec commands], s)
                   | (WaitExitError _, s) \<Rightarrow> (None, [DockerExec commands], s)
                   | (WaitError e, s) \<Rightarrow> (Some (Wrap ''failed to wait command: '' e), [DockerExec commands], s))))"

definition exec_access ::
    "('s, 'x) access_ops \<Rightarrow> 'f NodeDefinition \<Rightarrow> ContainerDetails \<Rightarrow> bool \<Rightarrow> 's \<Rightarrow>
     (error option \<times> access_event list \<times> 's) go" where
  "exec_access ops nd cd isAdmin s =
     (case exec__access ops nd cd isAdmin s of
        (Some e, evs, s) \<Rightarrow> Ret (Some (WrapError e ''failed to access node via exec''), evs, s)
      | (None, evs, s) \<Rightarrow> Ret (None, evs, s))"

section \<open>What a session leaves behind\<close>

text \<open>
  Only \<^verbatim>\<open>ioctl\<close> changes the settings of the terminal, a failed one changes nothing, and settings
  that were read can be set again.
\<close>

locale terminal =
  fixes ops :: "('s, 'x) access_ops" and tty :: "'s \<Rightarrow> Termios"
  assumes get_tty: "ao_GetTermios ops s = Inr t \<Longrightarrow> t = tty s"
    and set_tty: "ao_SetTermios ops t s = (e, s') \<Longrightarrow> tty s' = (if e = None then t else tty s)"
    and set_again: "ao_GetTermios ops s = Inr t \<Longrightarrow> fst (ao_SetTermios ops t s') = None"
    and frames: "ao_Dial ops u p a s = (e, s') \<Longrightarrow> tty s' = tty s" "ao_NewSession ops s = (e, s') \<Longrightarrow> tty s' = tty s"
      "ao_RequestPty ops n h w s = (e, s') \<Longrightarrow> tty s' = tty s" "ao_StdinPipe ops s = (e, s') \<Longrightarrow> tty s' = tty s"
      "ao_Shell ops s = (e, s') \<Longrightarrow> tty s' = tty s" "ao_Wait ops s = (wr, s') \<Longrightarrow> tty s' = tty s"
      "ao_cmd_Start ops argv s = (e, s') \<Longrightarrow> tty s' = tty s" "ao_cmd_Wait ops s = (wr, s') \<Longrightarrow> tty s' = tty s"
begin

lemma ssh_shell_tty: "ssh_shell ops s = (r, evs, s') \<Longrightarrow> tty s' = tty s"
  by (auto simp: ssh_shell_def dest!: frames(4-6) split: prod.splits option.splits wait_result.splits)

lemma restore_tty:
  assumes "makeRaw ops s = (Inr state, s1)"
  shows "tty (snd (restore ops state s2)) = tty s"
proof -
  have get: "ao_GetTermios ops s = Inr state"
    using assms by (auto simp: makeRaw_def split: sum.splits prod.splits option.splits)
  obtain e s3 where set: "ao_SetTermios ops state s2 = (e, s3)"
    by fastforce
  have "e = None"
    using set_again [OF get, of s2] set by simp
  then show ?thesis
    using set_tty [OF set] get_tty [OF get] set by (simp add: restore_def)
qed

lemma makeRaw_failed_tty: "makeRaw ops s = (Inl e, s1) \<Longrightarrow> tty s1 = tty s"
  by (auto simp: makeRaw_def dest: set_tty split: sum.splits prod.splits option.splits)

lemma ssh_pty_tty: "ssh_pty ops s = (r, evs, s') \<Longrightarrow> tty s' = tty s"
  using restore_tty
  by (auto simp: ssh_pty_def Let_def dest: makeRaw_failed_tty split: sum.splits prod.splits option.splits)

lemma ssh_session_tty: "ssh_session ops u p a s = (r, evs, s') \<Longrightarrow> tty s' = tty s"
  by (auto simp: ssh_session_def Let_def dest!: frames(1,2) ssh_pty_tty split: prod.splits option.splits)

lemma ssh_access_tty: "ssh_access ops nd cd adm s = Ret (e, evs, s') \<Longrightarrow> tty s' = tty s"
  by (auto simp: ssh_access_def ssh__access_def dest: ssh_session_tty
      split: go.splits sum.splits prod.splits option.splits)

lemma exec_access_tty: "exec_access ops nd cd adm s = Ret (e, evs, s') \<Longrightarrow> tty s' = tty s"
  by (auto simp: exec_access_def exec__access_def Let_def dest!: frames(7,8)
      split: sum.splits prod.splits option.splits wait_result.splits)

end

text \<open>Whatever fails, what was opened is closed, in reverse order, and nothing else happens.\<close>

definition bracketed :: "access_event list \<Rightarrow> bool" where
  "bracketed evs \<longleftrightarrow> (\<exists>u p a. evs \<in> set [[],
     [Dialed u p a, ClientClosed],
     [Dialed u p a, SessionClosed, ClientClosed],
     [Dialed u p a, MadeRaw, Restored, SessionClosed, ClientClosed],
     [Dialed u p a, MadeRaw, WinchNotified, WinchStopped, Restored, SessionClosed, ClientClosed],
     [Dialed u p a, MadeRaw, WinchNotified, ClonerStarted, ClonerJoined, WinchStopped, Restored, SessionClosed, ClientClosed]])"

lemma ssh_shell_events: "ssh_shell ops s = (r, evs, s') \<Longrightarrow> evs = [] \<or> evs = [ClonerStarted, ClonerJoined]"
  by (auto simp: ssh_shell_def split: prod.splits option.splits wait_result.splits)

lemma ssh_pty_events:
  "ssh_pty ops s = (r, evs, s') \<Longrightarrow> evs \<in> set [[], [MadeRaw, Restored], [MadeRaw, WinchNotified, WinchStopped, Restored],
     [MadeRaw, WinchNotified, ClonerStarted, ClonerJoined, WinchStopped, Restored]]"
  by (auto simp: ssh_pty_def Let_def split: prod.splits option.splits sum.splits dest: ssh_shell_events)

lemma ssh_session_events:
  assumes "ssh_session ops u p a s = (r, evs, s')"
  shows "bracketed evs"
proof -
  consider "evs = []" | "evs = [Dialed u p a, ClientClosed]"
    | s1 r' evs' s2 where "ssh_pty ops s1 = (r', evs', s2)" "evs = [Dialed u p a] @ evs' @ [SessionClosed, ClientClosed]"
    using assms by (auto simp: ssh_session_def Let_def split: prod.splits option.splits)
  then show ?thesis
  proof cases
    case 3
    then show ?thesis
      using ssh_pty_events [OF 3(1)] unfolding bracketed_def
      by (intro exI [of _ u] exI [of _ p] exI [of _ a]) simp
  qed (simp_all add: bracketed_def)
qed

end
