(* ===== verification/Access_Helper.thy ===== *)
theory Access_Helper
  imports Node_Access "HOL-Library.Char_ord" "HOL-Library.List_Lexorder"
begin

text \<open>
  \<^verbatim>\<open>access-helper\<close> (\<^verbatim>\<open>cmd/access-helper/main.go\<close>, \<^verbatim>\<open>helper.go\<close>), the program a participant's SSH
  session runs: it lets the user choose a node of the topology and connects to it. The lines the
  user enters are an argument; what is printed and which nodes are accessed are events.
\<close>

section \<open>Access methods\<close>

definition AccessMethodSSH :: string where "AccessMethodSSH = ''ssh''"
definition AccessMethodExec :: string where "AccessMethodExec = ''exec''"

datatype access_method = SSHAccessHelper | ExecAccessHelper

type_synonym helpers = "string \<rightharpoonup> access_method"

definition registerAccessHelper :: "string \<Rightarrow> access_method \<Rightarrow> helpers \<Rightarrow> helpers go" where
  "registerAccessHelper m helper hs =
     (if hs m \<noteq> None then Panic (''failed to register access helper: method `'' @ m @ ''` is already registered'')
      else Ret (hs(m \<mapsto> helper)))"

text \<open>The table after the two \<^verbatim>\<open>init\<close> functions.\<close>

definition accessHelpers :: helpers where
  "accessHelpers =
     (case registerAccessHelper AccessMethodExec ExecAccessHelper Map.empty of
        Panic _ \<Rightarrow> Map.empty
      | Ret hs \<Rightarrow>
          (case registerAccessHelper AccessMethodSSH SSHAccessHelper hs of
             Panic _ \<Rightarrow> hs
           | Ret hs \<Rightarrow> hs))"

definition findAccessHelper :: "string \<Rightarrow> access_method option" where
  "findAccessHelper m = accessHelpers m"

fun helper_access ::
    "('s, 'x) access_ops \<Rightarrow> access_method \<Rightarrow> 'f NodeDefinition \<Rightarrow> ContainerDetails \<Rightarrow> bool \<Rightarrow> 's \<Rightarrow>
     (error option \<times> access_event list \<times> 's) go" where
  "helper_access ops SSHAccessHelper nd cd isAdmin s = ssh_access ops nd cd isAdmin s"
| "helper_access ops ExecAccessHelper nd cd isAdmin s = exec_access ops nd cd isAdmin s"

section \<open>Choosing a node\<close>

datatype 'f ah_event =
    Println string
  | Accessed access_method string "'f NodeDefinition" ContainerDetails bool "access_event list"

definition internalErrorMessage :: string where
  "internalErrorMessage = ''Internal error occured. Please contact NETCON members with Session ID and Trace ID.''"

text \<open>The names offered: a nil node is dereferenced.\<close>

fun visible_nodes :: "bool \<Rightarrow> (string \<times> 'f NodeDefinition option) list \<Rightarrow> string list go" where
  "visible_nodes isAdmin [] = Ret []"
| "visible_nodes isAdmin ((n, None) # nodes) = Panic ''invalid memory address or nil pointer dereference''"
| "visible_nodes isAdmin ((n, Some nd) # nodes) =
     (case visible_nodes isAdmin nodes of
        Panic m \<Rightarrow> Panic m
      | Ret ns \<Rightarrow>
          if nd_Labels nd AdminOnlyKey = Some ''true'' \<and> \<not> isAdmin then Ret ns else Ret (n # ns))"

text \<open>\<^verbatim>\<open>strconv.ParseInt(s, 10, 64)\<close>.\<close>

definition ParseInt64 :: "string \<Rightarrow> int or_error" where
  "ParseInt64 s =
     (let (neg, ds) = (case s of
          [] \<Rightarrow> (False, [])
        | c # cs \<Rightarrow> if c = CHR ''-'' then (True, cs) else if c = CHR ''+'' then (False, cs) else (False, s))
      in if ds = [] \<or> \<not> list_all is_digit ds then Inl (Errorf ''invalid syntax'')
         else (let n = (if neg then - int (digits_val ds) else int (digits_val ds))
               in if - (2 ^ 63) \<le> n \<and> n < 2 ^ 63 then Inr n else Inl (Errorf ''value out of range'')))"

text \<open>\<^verbatim>\<open>%3d\<close> of a number of at least one digit.\<close>

definition pad3 :: "nat \<Rightarrow> string" where
  "pad3 n = replicate (3 - length (dec_nat n)) CHR '' '' @ dec_nat n"

definition menu :: "string list \<Rightarrow> string list" where
  "menu nodeNames =
     [''Enter the number of the node you want to access'', ''Nodes:'']
     @ map (\<lambda>i. ''   '' @ pad3 (i + 1) @ '': '' @ nodeNames ! i) [0..<length nodeNames]
     @ [''     0: (exit)'']"

datatype user_input = EOF | ReadError | Line string \<comment> \<open>without the final line feed\<close>

text \<open>
  The input loop: the chosen node (empty to leave), the lines not read yet and what was printed;
  \<open>None\<close> while it still waits for input. After the prompt a line is read.
\<close>

abbreviation try_again :: string where
  "try_again \<equiv> ''Please input collect value.''"

fun ask_loop :: "string list \<Rightarrow> user_input list \<Rightarrow> (string \<times> user_input list) option \<times> string list" where
  "ask_loop nodeNames [] = (None, [''Your select: ''])"
| "ask_loop nodeNames (EOF # ins) = (Some ('''', ins), [''Your select: ''])"
| "ask_loop nodeNames (ReadError # ins) =
     (case ask_loop nodeNames ins of (r, out) \<Rightarrow> (r, ''Your select: '' # try_again # out))"
| "ask_loop nodeNames (Line input # ins) =
     (if input = '''' then (case ask_loop nodeNames ins of (r, out) \<Rightarrow> (r, ''Your select: '' # out))
      else if input = ''exit'' then (Some ('''', ins), [''Your select: ''])
      else (case ParseInt64 input of
              Inl _ \<Rightarrow> (case ask_loop nodeNames ins of (r, out) \<Rightarrow> (r, ''Your select: '' # try_again # out))
            | Inr selected \<Rightarrow>
                if selected = 0 then (Some ('''', ins), [''Your select: ''])
                else if \<not> (1 \<le> selected \<and> selected \<le> int (length nodeNames))
                then (case ask_loop nodeNames ins of (r, out) \<Rightarrow> (r, ''Your select: '' # try_again # out))
                else (Some (nodeNames ! nat (selected - 1), ins), [''Your select: ''])))"

definition askUserForNode ::
    "'f Config \<Rightarrow> bool \<Rightarrow> user_input list \<Rightarrow> ((string \<times> user_input list) option \<times> string list) go" where
  "askUserForNode config isAdmin ins =
     (case visible_nodes isAdmin (tp_Nodes (cf_Topology config)) of
        Panic m \<Rightarrow> Panic m
      | Ret ns \<Rightarrow>
          (let nodeNames = sort ns
           in case ask_loop nodeNames ins of (r, out) \<Rightarrow> Ret (r, menu nodeNames @ out)))"

section \<open>Accessing a node\<close>

definition container_name :: "'f Config \<Rightarrow> string \<Rightarrow> string" where
  "container_name config nodeName =
     (case cf_Prefix config of
        Some p \<Rightarrow> if p \<noteq> '''' then p @ cf_Name config @ ''-'' else ''''
      | None \<Rightarrow> ''clab-'' @ cf_Name config @ ''-'') @ nodeName"

definition accessNode ::
    "('f, 'x) host_ops \<Rightarrow> ('s, 'x) access_ops \<Rightarrow> ContainerLabClient \<Rightarrow> 'f Config \<Rightarrow> string \<Rightarrow> bool \<Rightarrow> 's \<Rightarrow>
     (error option \<times> 'f ah_event list \<times> 's) go" where
  "accessNode ho ops client config nodeName isAdmin s =
     (case map_of (tp_Nodes (cf_Topology config)) nodeName of
        Some (Some nd) \<Rightarrow>
          if nd_Labels nd AdminOnlyKey = Some ''true'' \<and> \<not> isAdmin
          then Ret (None, [Println (''no such node: '' @ [CHR 0x22] @ nodeName @ [CHR 0x22])], s)
          else (case clab_Inspect ho client (ao_host ops s) of
                  Inl _ \<Rightarrow> Ret (None, [Println internalErrorMessage], s)
                | Inr containers \<Rightarrow>
                    (case find (\<lambda>c. cd_Name c = container_name config nodeName) containers of
                       None \<Rightarrow> Ret (None, [Println internalErrorMessage], s)
                     | Some cd \<Rightarrow>
                         (let accessMethod = (case nd_Labels nd AccessMethodKey of
                                None \<Rightarrow> AccessMethodSSH | Some v \<Rightarrow> v)
                          in case findAccessHelper accessMethod of
                               None \<Rightarrow> Ret (None, [Println internalErrorMessage], s)
                             | Some helper \<Rightarrow>
                                 (case helper_access ops helper nd cd isAdmin s of
                                    Panic m \<Rightarrow> Panic m
                                  | Ret (Some e, tr, s) \<Rightarrow>
                                      Ret (Some (WrapError e ''failed to access node''), [Accessed helper nodeName nd cd isAdmin tr], s)
                                  | Ret (None, tr, s) \<Rightarrow> Ret (None, [Accessed helper nodeName nd cd isAdmin tr], s)))))
      | _ \<Rightarrow> Ret (None, [Println (''no such node: '' @ [CHR 0x22] @ nodeName @ [CHR 0x22])], s))"

lemma ask_loop_consumes: "ask_loop ns ins = (Some (n, rest), out) \<Longrightarrow> length rest < length ins"
proof (induction ns ins arbitrary: n rest out rule: ask_loop.induct)
  case (4 ns input ins)
  then show ?case
    by (auto split: if_splits sum.splits prod.splits simp: less_Suc_eq)
qed (auto split: prod.splits simp: less_Suc_eq)

lemma askUserForNode_consumes:
  "askUserForNode config isAdmin ins = Ret (Some (n, rest), out) \<Longrightarrow> length rest < length ins"
  by (auto simp: askUserForNode_def Let_def split: go.splits prod.splits dest: ask_loop_consumes)

text \<open>
  The interactive loop; the flag tells whether it returned, false while it waits for input. A
  failed access is reported and the loop goes on.
\<close>

function menu_loop ::
    "('f, 'x) host_ops \<Rightarrow> ('s, 'x) access_ops \<Rightarrow> ContainerLabClient \<Rightarrow> 'f Config \<Rightarrow> bool \<Rightarrow> user_input list \<Rightarrow> 's \<Rightarrow>
     (bool \<times> 'f ah_event list \<times> 's) go" where
  "menu_loop ho ops client config isAdmin ins s =
     (case askUserForNode config isAdmin ins of
        Panic m \<Rightarrow> Panic m
      | Ret (None, out) \<Rightarrow> Ret (False, map Println out, s)
      | Ret (Some (nodeName, rest), out) \<Rightarrow>
          if nodeName = '''' then Ret (True, map Println out, s)
          else (case accessNode ho ops client config nodeName isAdmin s of
                  Panic m \<Rightarrow> Panic m
                | Ret (err, evs, s) \<Rightarrow>
                    (case menu_loop ho ops client config isAdmin rest s of
                       Panic m \<Rightarrow> Panic m
                     | Ret (returned, evs', s) \<Rightarrow>
                         Ret (returned, map Println out @ evs @
                           (if err \<noteq> None then [Println internalErrorMessage] else []) @ evs', s))))"
  by pat_completeness auto
termination
  by (relation "measure (\<lambda>(ho, ops, client, config, isAdmin, ins, s). length ins)")
    (auto dest: askUserForNode_consumes)

declare menu_loop.simps [simp del]

text \<open>
  \<open>isTerminal\<close> and \<open>absPath\<close> are \<^verbatim>\<open>term.IsTerminal\<close> of the standard input and
  \<^verbatim>\<open>filepath.Abs\<close>. \<^verbatim>\<open>run\<close> never returns an error.
\<close>

definition ah_run ::
    "('f, 'x) host_ops \<Rightarrow> ('s, 'x) access_ops \<Rightarrow> bool \<Rightarrow> (string \<Rightarrow> string or_error) \<Rightarrow> string \<Rightarrow> bool \<Rightarrow> string list \<Rightarrow>
     user_input list \<Rightarrow> 's \<Rightarrow> (bool \<times> 'f ah_event list \<times> 's) go" where
  "ah_run ho ops isTerminal absPath topologyFilePath isAdmin args ins s =
     (if \<not> isTerminal then Ret (True, [Println internalErrorMessage], s)
      else (case absPath topologyFilePath of
              Inl _ \<Rightarrow> Ret (True, [Println internalErrorMessage], s)
            | Inr path \<Rightarrow>
                (let client = NewContainerLabClient path
                 in case LoadTopologyFile ho client (ao_host ops s) of
                      Inl _ \<Rightarrow> Ret (True, [Println internalErrorMessage], s)
                    | Inr config \<Rightarrow>
                        (case args of
                           [nodeName] \<Rightarrow>
                             (case accessNode ho ops client config nodeName isAdmin s of
                                Panic m \<Rightarrow> Panic m
                              | Ret (Some _, evs, s) \<Rightarrow> Ret (True, evs @ [Println internalErrorMessage], s)
                              | Ret (None, evs, s) \<Rightarrow> Ret (True, evs, s))
                         | _ \<Rightarrow> menu_loop ho ops client config isAdmin ins s))))"

definition ah_Args :: "string list \<Rightarrow> error option" where
  "ah_Args args = (if length args > 1 then Some (Errorf ''invalid argument'') else None)"

text \<open>
  The command: with \<^verbatim>\<open>--enable-otel\<close> a failing set-up of tracing is its only error (\<open>otel\<close> is the
  error of \<^verbatim>\<open>SetupOpenTelemetry\<close>). \<open>parse\<close> is the flag parser of cobra; the program ends with
  exit code 1 on an error of the parser, of the argument check or of the command.
\<close>

record ah_flags =
  af_topo :: string
  af_admin :: bool
  af_enableOtel :: bool

definition ah_RunE ::
    "('f, 'x) host_ops \<Rightarrow> ('s, 'x) access_ops \<Rightarrow> bool \<Rightarrow> (string \<Rightarrow> string or_error) \<Rightarrow> error option \<Rightarrow> ah_flags \<Rightarrow> string list \<Rightarrow>
     user_input list \<Rightarrow> 's \<Rightarrow> (error + bool \<times> 'f ah_event list \<times> 's) go" where
  "ah_RunE ho ops isTerminal absPath otel fl args ins s =
     (case (af_enableOtel fl, otel) of
        (True, Some e) \<Rightarrow> Ret (Inl (Wrap ''failed to setup OpenTelemetry: '' e))
      | _ \<Rightarrow>
          (case ah_run ho ops isTerminal absPath (af_topo fl) (af_admin fl) args ins s of
             Panic m \<Rightarrow> Panic m
           | Ret r \<Rightarrow> Ret (Inr r)))"

definition ah_main ::
    "(string list \<Rightarrow> (ah_flags \<times> string list) or_error) \<Rightarrow> ('f, 'x) host_ops \<Rightarrow> ('s, 'x) access_ops \<Rightarrow> bool \<Rightarrow>
     (string \<Rightarrow> string or_error) \<Rightarrow> error option \<Rightarrow> string list \<Rightarrow> user_input list \<Rightarrow> 's \<Rightarrow>
     (int + bool \<times> 'f ah_event list \<times> 's) go" where
  "ah_main parse ho ops isTerminal absPath otel argv ins s =
     (case parse argv of
        Inl _ \<Rightarrow> Ret (Inl 1)
      | Inr (fl, args) \<Rightarrow>
          (case ah_Args args of
             Some _ \<Rightarrow> Ret (Inl 1)
           | None \<Rightarrow>
               (case ah_RunE ho ops isTerminal absPath otel fl args ins s of
                  Panic m \<Rightarrow> Panic m
                | Ret (Inl _) \<Rightarrow> Ret (Inl 1)
                | Ret (Inr r) \<Rightarrow> Ret (Inr r))))"

section \<open>Facts\<close>

lemma findAccessHelper_simps [simp]:
  "findAccessHelper m = (if m = ''ssh'' then Some SSHAccessHelper else if m = ''exec'' then Some ExecAccessHelper else None)"
  by (simp add: findAccessHelper_def accessHelpers_def registerAccessHelper_def AccessMethodSSH_def AccessMethodExec_def)

text \<open>What a participant is given does not depend on the labels for administrators.\<close>

lemma label_for_participant:
  "label_for labels adminKey key dflt False = (case labels key of Some v \<Rightarrow> v | None \<Rightarrow> dflt)"
  by (simp add: label_for_def split: option.split)

lemma participant_parameters:
  assumes "nd_Labels nd sshUsernameKey = nd_Labels nd' sshUsernameKey"
    "nd_Labels nd sshPasswordKey = nd_Labels nd' sshPasswordKey"
    "nd_Labels nd sshPortKey = nd_Labels nd' sshPortKey"
    "nd_Labels nd execCommandKey = nd_Labels nd' execCommandKey"
  shows "loadParameters nd False = loadParameters nd' False"
    and "exec__access ops nd cd False s = exec__access ops nd' cd False s"
  unfolding loadParameters_def exec__access_def label_for_participant Let_def assms by (rule refl)+

lemma accessNode_accesses:
  assumes "accessNode ho ops client config nodeName isAdmin s = Ret (err, evs, s')"
    and "Accessed helper n nd cd adm tr \<in> set evs"
  shows "n = nodeName \<and> adm = isAdmin \<and> map_of (tp_Nodes (cf_Topology config)) n = Some (Some nd) \<and>
    (isAdmin \<or> nd_Labels nd AdminOnlyKey \<noteq> Some ''true'') \<and> cd_Name cd = container_name config n \<and>
    (\<exists>cs. clab_Inspect ho client (ao_host ops s) = Inr cs \<and> cd \<in> set cs) \<and>
    (\<exists>e. helper_access ops helper nd cd isAdmin s = Ret (e, tr, s'))"
  using assms
  by (auto simp: accessNode_def Let_def find_Some_iff split: option.splits if_splits sum.splits go.splits prod.splits)

lemma accessNode_world:
  fixes ho :: "('f, 'x) host_ops"
  assumes "accessNode ho ops client config nodeName isAdmin s = Ret (err, evs, s')"
  shows "s' = s \<or> (\<exists>helper (nd :: 'f NodeDefinition) cd e tr. helper_access ops helper nd cd isAdmin s = Ret (e, tr, s'))"
  using assms by (auto simp: accessNode_def Let_def simp del: helper_access.simps findAccessHelper_simps
      split: option.splits if_splits sum.splits go.splits prod.splits)

text \<open>A round of the menu: how the loop goes on when it does.\<close>

lemma menu_loop_Ret:
  assumes "menu_loop ho ops client config isAdmin ins s = Ret (returned, evs, s')"
  obtains (stopped) out where "evs = map Println out" "s' = s"
  | (accessed) nodeName rest out err evs1 s1 evs2 where
      "askUserForNode config isAdmin ins = Ret (Some (nodeName, rest), out)" "nodeName \<noteq> ''''"
      "accessNode ho ops client config nodeName isAdmin s = Ret (err, evs1, s1)"
      "menu_loop ho ops client config isAdmin rest s1 = Ret (returned, evs2, s')"
      "evs = map Println out @ evs1 @ (if err \<noteq> None then [Println internalErrorMessage] else []) @ evs2"
  using assms
  by (subst (asm) menu_loop.simps) (auto split: go.splits prod.splits option.splits if_splits)

lemma menu_loop_accesses:
  assumes "menu_loop ho ops client config isAdmin ins s = Ret (returned, evs, s')"
    and "Accessed helper n nd cd adm tr \<in> set evs"
  shows "\<exists>s1 err evs1 s2. accessNode ho ops client config n isAdmin s1 = Ret (err, evs1, s2) \<and>
    Accessed helper n nd cd adm tr \<in> set evs1"
  using assms
proof (induction ins arbitrary: s evs rule: length_induct)
  case (1 ins)
  from "1.prems"(1) show ?case
  proof (cases rule: menu_loop_Ret)
    case (stopped out)
    then show ?thesis
      using "1.prems"(2) by auto
  next
    case (accessed nodeName rest out err evs1 s1 evs2)
    from accessed(5) "1.prems"(2) consider "Accessed helper n nd cd adm tr \<in> set evs1"
      | "Accessed helper n nd cd adm tr \<in> set evs2"
      by (auto split: if_splits)
    then show ?thesis
    proof cases
      case 1
      then show ?thesis
        using accessed(3) accessNode_accesses [OF accessed(3) 1] by blast
    next
      case 2
      then show ?thesis
        using "1.IH" askUserForNode_consumes [OF accessed(1)] accessed(4) by blast
    qed
  qed
qed

lemma menu_loop_keeps:
  fixes ho :: "('f, 'x) host_ops"
  assumes "\<And>helper (nd :: 'f NodeDefinition) cd s e tr s'. helper_access ops helper nd cd isAdmin s = Ret (e, tr, s') \<Longrightarrow> f s' = f s"
    and "menu_loop ho ops client config isAdmin ins s = Ret (returned, evs, s')"
  shows "f s' = f s"
  using assms(2)
proof (induction ins arbitrary: s evs rule: length_induct)
  case (1 ins)
  from "1.prems"(1) show ?case
  proof (cases rule: menu_loop_Ret)
    case (accessed nodeName rest out err evs1 s1 evs2)
    have "f s' = f s1"
      using "1.IH" askUserForNode_consumes [OF accessed(1)] accessed(4) by blast
    then show ?thesis
      using accessNode_world [OF accessed(3)] assms(1) by metis
  qed simp
qed

lemma ask_loop_EOF:
  "EOF \<in> set ins \<Longrightarrow> \<exists>n rest out. ask_loop ns ins = (Some (n, rest), out) \<and> (n = '''' \<or> EOF \<in> set rest)"
proof (induction ns ins rule: ask_loop.induct)
  case (4 ns input ins)
  then show ?case
    by (auto split: sum.splits)
qed (auto split: prod.splits)

lemma visible_nodes_total:
  "\<forall>(n, nd) \<in> set nodes. nd \<noteq> None \<Longrightarrow> \<exists>ns. visible_nodes isAdmin nodes = Ret ns"
  by (induction isAdmin nodes rule: visible_nodes.induct) auto

lemma find_member: "find P xs = Some x \<Longrightarrow> x \<in> set xs"
  by (induction xs) (auto split: if_splits)

lemma helper_access_Panic:
  "helper_access ops helper nd cd isAdmin s = Panic m \<Longrightarrow> slash \<notin> set (cd_IPv4Address cd)"
  by (cases helper)
    (auto simp: ssh_access_def ssh__access_def exec_access_def server_address_def
      split: sum.splits prod.splits option.splits if_splits go.splits)

lemma accessNode_total:
  assumes "\<And>cs. clab_Inspect ho client (ao_host ops s) = Inr cs \<Longrightarrow> \<forall>cd \<in> set cs. slash \<in> set (cd_IPv4Address cd)"
  shows "\<exists>err evs s'. accessNode ho ops client config nodeName isAdmin s = Ret (err, evs, s')"
proof -
  have found: "slash \<in> set (cd_IPv4Address cd)" if "clab_Inspect ho client (ao_host ops s) = Inr cs" "find P cs = Some cd"
    for cs cd P
    using assms [OF that(1)] find_member [OF that(2)] by blast
  then show ?thesis
    by (auto simp: accessNode_def Let_def split: option.splits sum.splits go.splits
        dest: helper_access_Panic simp del: findAccessHelper_simps)
qed

lemma menu_loop_returns:
  assumes "\<forall>(n, nd) \<in> set (tp_Nodes (cf_Topology config)). nd \<noteq> None" "EOF \<in> set ins"
    and "\<And>s cs. clab_Inspect ho client (ao_host ops s) = Inr cs \<Longrightarrow> \<forall>cd \<in> set cs. slash \<in> set (cd_IPv4Address cd)"
  shows "\<exists>evs s'. menu_loop ho ops client config isAdmin ins s = Ret (True, evs, s')"
  using assms(2)
proof (induction ins arbitrary: s rule: length_induct)
  case (1 ins)
  obtain ns where ns: "visible_nodes isAdmin (tp_Nodes (cf_Topology config)) = Ret ns"
    using visible_nodes_total [OF assms(1)] by blast
  obtain n rest out where ask: "ask_loop (sort ns) ins = (Some (n, rest), out)" "n = '''' \<or> EOF \<in> set rest"
    using ask_loop_EOF [OF "1.prems"] by blast
  have a: "askUserForNode config isAdmin ins = Ret (Some (n, rest), menu (sort ns) @ out)"
    by (simp add: askUserForNode_def ns ask)
  show ?case
  proof (cases "n = ''''")
    case True
    then show ?thesis
      by (subst menu_loop.simps) (simp add: a)
  next
    case False
    obtain err evs' s1 where acc: "accessNode ho ops client config n isAdmin s = Ret (err, evs', s1)"
      using accessNode_total [where ops = ops and s = s] assms(3) by metis
    obtain evs s' where "menu_loop ho ops client config isAdmin rest s1 = Ret (True, evs, s')"
      using "1.IH" ask askUserForNode_consumes [OF a] False by blast
    with acc show ?thesis
      using False by (subst menu_loop.simps) (simp add: a)
  qed
qed

lemma ah_run_menu:
  assumes isTerminal "absPath topo = Inr path" "\<nexists>n. args = [n]"
    "LoadTopologyFile ho (NewContainerLabClient path) (ao_host ops s) = Inr config"
  shows "ah_run ho ops isTerminal absPath topo isAdmin args ins s =
    menu_loop ho ops (NewContainerLabClient path) config isAdmin ins s"
  using assms by (auto simp: ah_run_def Let_def split: list.splits)

text \<open>What \<^verbatim>\<open>run\<close> does when it gets to the nodes.\<close>

lemma ah_run_cases:
  assumes "ah_run ho ops isTerminal absPath topo isAdmin args ins s = Ret (returned, evs, s')"
  obtains (early) "evs = [Println internalErrorMessage]" "s' = s"
  | (node) path config nodeName err evs1 where
      "absPath topo = Inr path" "LoadTopologyFile ho (NewContainerLabClient path) (ao_host ops s) = Inr config"
      "accessNode ho ops (NewContainerLabClient path) config nodeName isAdmin s = Ret (err, evs1, s')"
      "evs = evs1 @ (if err \<noteq> None then [Println internalErrorMessage] else [])"
  | (loop) path config where
      "absPath topo = Inr path" "LoadTopologyFile ho (NewContainerLabClient path) (ao_host ops s) = Inr config"
      "menu_loop ho ops (NewContainerLabClient path) config isAdmin ins s = Ret (returned, evs, s')"
proof (cases "isTerminal \<and> (\<exists>path config. absPath topo = Inr path \<and>
    LoadTopologyFile ho (NewContainerLabClient path) (ao_host ops s) = Inr config)")
  case False
  then have "ah_run ho ops isTerminal absPath topo isAdmin args ins s = Ret (True, [Println internalErrorMessage], s)"
    by (auto simp: ah_run_def Let_def split: sum.splits)
  then show ?thesis
    using assms early by simp
next
  case True
  then obtain path config where *: isTerminal "absPath topo = Inr path"
    "LoadTopologyFile ho (NewContainerLabClient path) (ao_host ops s) = Inr config"
    by blast
  show ?thesis
  proof (cases "\<exists>n. args = [n]")
    case True
    then obtain n where "args = [n]"
      by blast
    with * assms obtain err evs1 where "accessNode ho ops (NewContainerLabClient path) config n isAdmin s = Ret (err, evs1, s')"
      "evs = evs1 @ (if err \<noteq> None then [Println internalErrorMessage] else [])"
      by (auto simp: ah_run_def Let_def split: go.splits option.splits)
    with * node show ?thesis
      by blast
  next
    case False
    then show ?thesis
      using * assms loop by (auto simp: ah_run_menu)
  qed
qed

section \<open>Properties\<close>

text \<open>
  C37. Nodes for administrators. Every node \<^verbatim>\<open>access-helper\<close> connects to, chosen on the command
  line or from the menu, is a node of the topology with its own container, and unless the program
  was started with \<^verbatim>\<open>--admin\<close> it is not marked \<^verbatim>\<open>adminOnly\<close> and is accessed with a participant's
  rights.
\<close>

theorem admin_only_nodes_hidden:
  assumes "ah_run ho ops isTerminal absPath topo isAdmin args ins s = Ret (returned, evs, s')"
    and "Accessed helper n nd cd adm tr \<in> set evs"
  shows "\<exists>path config. absPath topo = Inr path \<and>
    LoadTopologyFile ho (NewContainerLabClient path) (ao_host ops s) = Inr config \<and>
    map_of (tp_Nodes (cf_Topology config)) n = Some (Some nd) \<and> cd_Name cd = container_name config n \<and>
    adm = isAdmin \<and> (isAdmin \<or> nd_Labels nd AdminOnlyKey \<noteq> Some ''true'')"
  using assms(1)
proof (cases rule: ah_run_cases)
  case early
  then show ?thesis
    using assms(2) by simp
next
  case (node path config nodeName err evs1)
  then have "Accessed helper n nd cd adm tr \<in> set evs1"
    using assms(2) by (auto split: if_splits)
  with node accessNode_accesses [OF node(3)] show ?thesis
    by blast
next
  case (loop path config)
  obtain s1 err evs1 s2 where "accessNode ho ops (NewContainerLabClient path) config n isAdmin s1 = Ret (err, evs1, s2)"
    "Accessed helper n nd cd adm tr \<in> set evs1"
    using menu_loop_accesses [OF loop(3) assms(2)] by blast
  from accessNode_accesses [OF this] loop(1,2) show ?thesis
    by blast
qed

definition sample_node :: "label_map \<Rightarrow> unit NodeDefinition" where
  "sample_node labels = \<lparr>nd_Kind = ''linux'', nd_Group = '''', nd_Type = '''', nd_StartupConfig = '''', nd_StartupDelay = 0,
     nd_EnforceStartupConfig = False, nd_Config = None, nd_Image = ''frr'', nd_License = '''', nd_Position = '''',
     nd_Entrypoint = '''', nd_Cmd = '''', nd_SANs = [], nd_Exec = [], nd_Binds = [], nd_Ports = [], nd_MgmtIPv4 = '''',
     nd_MgmtIPv6 = '''', nd_Publish = [], nd_Env = Map.empty, nd_EnvFiles = [], nd_User = '''', nd_Labels = labels,
     nd_NetworkMode = '''', nd_Sandbox = '''', nd_Kernel = '''', nd_Runtime = '''', nd_CPU = (), nd_CPUSet = '''',
     nd_Memory = '''', nd_Sysctls = Map.empty, nd_Extras = None, nd_WaitFor = []\<rparr>"

definition sample_topology :: "unit Config" where
  "sample_topology = \<lparr>cf_Name = ''abc-1'', cf_Prefix = None, cf_Mgmt = None,
     cf_Topology = \<lparr>tp_Defaults = None, tp_Kinds = [],
       tp_Nodes = [(''r1'', Some (sample_node Map.empty)), (''judge'', Some (sample_node [AdminOnlyKey \<mapsto> ''true'']))],
       tp_Links = []\<rparr>\<rparr>"

definition sample_details :: ContainerDetails where
  "sample_details = \<lparr>cd_LabName = ''abc-1'', cd_LabPath = ''manifest.yml'', cd_Name = ''clab-abc-1-r1'', cd_ContainerID = ''c0'',
     cd_Image = ''frr'', cd_Kind = ''linux'', cd_State = ''running'', cd_IPv4Address = ''172.20.20.2/24'', cd_IPv6Address = ''''\<rparr>"

definition sample_lab :: "(unit, unit) host_ops" where
  "sample_lab = \<lparr>ho_fault = (\<lambda>h op p. None), ho_clab = (\<lambda>args dir h. (('''', '''', None), h)),
     ho_clab_query = (\<lambda>args dir h. Inr ''json''), ho_json = (\<lambda>s. Inr [(''containers'', [sample_details])]),
     ho_yaml_Unmarshal = (\<lambda>s. Inr sample_topology), ho_yaml_Marshal = (\<lambda>c. Inr ''''),
     ho_ContainerInspect = (\<lambda>h i. Inl NotFound), ho_NetworkInspect = (\<lambda>h n. Inl NotFound),
     ho_NetworkRemove = (\<lambda>n h. (None, h)), ho_NetworkCreate = (\<lambda>n r h. (None, h)),
     ho_format_time = (\<lambda>t. ''''), ho_SetOwnerReference = (\<lambda>pe c. c)\<rparr>"

definition sample_lab_host :: "unit host" where
  "sample_lab_host = \<lparr>h_fs = (\<lambda>p. Some (File ''topology'')), h_ext = ()\<rparr>"

text \<open>A world that consists of the terminal; the remote shell exits with status 1.\<close>

definition sample_access :: "(Termios, unit) access_ops" where
  "sample_access = \<lparr>ao_host = (\<lambda>s. sample_lab_host), ao_Dial = (\<lambda>u p a s. (None, s)), ao_NewSession = (\<lambda>s. (None, s)),
     ao_GetSize = (\<lambda>s. Inr (80, 24)), ao_GetTermios = Inr, ao_SetTermios = (\<lambda>t s. (None, t)),
     ao_RequestPty = (\<lambda>n h w s. (None, s)), ao_StdinPipe = (\<lambda>s. (None, s)), ao_Shell = (\<lambda>s. (None, s)),
     ao_Wait = (\<lambda>s. (WaitExitError 1, s)), ao_shlex = (\<lambda>s. Inr [s]), ao_cmd_Start = (\<lambda>a s. (None, s)),
     ao_cmd_Wait = (\<lambda>s. (WaitOk, s))\<rparr>"

definition sample_tty :: Termios where
  "sample_tty = \<lparr>tm_Iflag = 0x500, tm_Oflag = 0x5, tm_Cflag = 0xBF, tm_Lflag = 0x8A3B, tm_Line = 0,
     tm_Cc = replicate 19 1, tm_Ispeed = 15, tm_Ospeed = 15\<rparr>"

interpretation sample_terminal: terminal sample_access "\<lambda>s. s"
  by unfold_locales (auto simp: sample_access_def)

lemma sample_lab_eval:
  "LoadTopologyFile sample_lab client sample_lab_host = Inr sample_topology"
  "clab_Inspect sample_lab client sample_lab_host = Inr [sample_details]"
  "ao_host sample_access s = sample_lab_host"
  by (simp_all add: LoadTopologyFile_def os_ReadFile_def clab_Inspect_def sample_lab_def sample_lab_host_def sample_access_def)

lemma sample_ssh_run:
  "ah_run sample_lab sample_access True Inr ''data/abc-1/manifest.yml'' False [''r1''] [] sample_tty =
     Ret (True, [Accessed SSHAccessHelper ''r1'' (sample_node Map.empty) sample_details False
       [Dialed ''clab'' ''clab@123'' (''172.20.20.2:'' @ dec_nat 22), MadeRaw, WinchNotified, ClonerStarted, ClonerJoined, WinchStopped,
        Restored, SessionClosed, ClientClosed]], sample_tty)"
  by (simp add: ah_run_def sample_lab_eval accessNode_def sample_topology_def container_name_def sample_details_def
      sample_node_def AccessMethodSSH_def ssh_access_def ssh__access_def ssh_session_def ssh_pty_def ssh_shell_def
      makeRaw_def restore_def loadParameters_def label_for_def server_address_def sample_access_def Let_def
      defaultSSHUsername_def defaultSSHPassword_def defaultSSHPort_def)

theorem admin_only_nodes_hidden_witness:
  "\<exists>evs tr s'. ah_run sample_lab sample_access True Inr ''data/abc-1/manifest.yml'' False [''r1''] [] sample_tty = Ret (True, evs, s') \<and>
     Accessed SSHAccessHelper ''r1'' (sample_node Map.empty) sample_details False tr \<in> set evs \<and>
     nd_Labels (sample_node Map.empty) AdminOnlyKey \<noteq> Some ''true''"
  using admin_only_nodes_hidden [OF sample_ssh_run, of SSHAccessHelper "''r1''" "sample_node Map.empty" sample_details False]
    sample_ssh_run by auto

text \<open>
  C38. The program ends with its input. On a topology whose nodes are all defined and with container
  addresses in CIDR form, \<^verbatim>\<open>access-helper\<close> returns, without a crash, on every input that
  reaches end of file, whatever the user enters and however the connections go.
\<close>

theorem access_helper_returns:
  assumes "EOF \<in> set ins"
    and "\<And>path config s' cs. absPath topo = Inr path \<Longrightarrow>
      LoadTopologyFile ho (NewContainerLabClient path) (ao_host ops s) = Inr config \<Longrightarrow>
      (\<forall>(n, nd) \<in> set (tp_Nodes (cf_Topology config)). nd \<noteq> None) \<and>
      (clab_Inspect ho (NewContainerLabClient path) (ao_host ops s') = Inr cs \<longrightarrow>
         (\<forall>cd \<in> set cs. slash \<in> set (cd_IPv4Address cd)))"
  shows "\<exists>evs s'. ah_run ho ops isTerminal absPath topo isAdmin args ins s = Ret (True, evs, s')"
proof (cases "isTerminal \<and> (\<exists>path config. absPath topo = Inr path \<and>
    LoadTopologyFile ho (NewContainerLabClient path) (ao_host ops s) = Inr config)")
  case False
  then show ?thesis
    by (auto simp: ah_run_def Let_def split: sum.splits)
next
  case True
  then obtain path config where *: isTerminal "absPath topo = Inr path"
    "LoadTopologyFile ho (NewContainerLabClient path) (ao_host ops s) = Inr config"
    by blast
  note ok = assms(2) [OF *(2,3)]
  have acc: "\<exists>err evs s'. accessNode ho ops (NewContainerLabClient path) config n isAdmin s = Ret (err, evs, s')" for n
    by (rule accessNode_total) (use ok in blast)
  have loop: "\<exists>evs s'. menu_loop ho ops (NewContainerLabClient path) config isAdmin ins s = Ret (True, evs, s')"
    by (rule menu_loop_returns [OF _ assms(1)]) (use ok in blast)+
  show ?thesis
  proof (cases "\<exists>n. args = [n]")
    case True
    then obtain n where "args = [n]"
      by blast
    moreover obtain err evs s' where "accessNode ho ops (NewContainerLabClient path) config n isAdmin s = Ret (err, evs, s')"
      using acc by blast
    ultimately show ?thesis
      using * by (cases err) (auto simp: ah_run_def)
  next
    case False
    with * loop show ?thesis
      by (simp add: ah_run_menu)
  qed
qed

theorem access_helper_returns_witness:
  "\<exists>evs s'. ah_run sample_lab sample_access True Inr ''data/abc-1/manifest.yml'' False [] [Line ''2'', Line ''1'', EOF] sample_tty
     = Ret (True, evs, s')"
  by (rule access_helper_returns)
    (auto simp: sample_lab_eval sample_topology_def sample_details_def)

text \<open>
  C39. The terminal is given back. Whatever fails on the way, when \<^verbatim>\<open>access-helper\<close> returns the
  settings of the terminal are those it found, and every SSH access closed what it had opened, in
  reverse order: the goroutine that copies the input ended before raw mode was left.
\<close>

theorem terminal_given_back:
  fixes ho :: "('f, 'x) host_ops"
  assumes "terminal ops tty"
    and "ah_run ho ops isTerminal absPath topo isAdmin args ins s = Ret (returned, evs, s')"
  shows "tty s' = tty s \<and> (\<forall>n nd cd adm tr. Accessed SSHAccessHelper n nd cd adm tr \<in> set evs \<longrightarrow> bracketed tr)"
proof -
  have keep: "tty s2 = tty s1" if "helper_access ops helper nd cd isAdmin s1 = Ret (e, tr, s2)"
    for helper and nd :: "'f NodeDefinition" and cd s1 e tr s2
    using that terminal.ssh_access_tty [OF assms(1)] terminal.exec_access_tty [OF assms(1)] by (cases helper) auto
  have brack: "bracketed tr" if "accessNode ho ops client config n isAdmin s1 = Ret (err, evs1, s2)"
    "Accessed SSHAccessHelper n nd cd adm tr \<in> set evs1" for client config n s1 err evs1 s2 nd cd adm tr
  proof -
    note access = accessNode_accesses [OF that]
    obtain e where "ssh_access ops nd cd isAdmin s1 = Ret (e, tr, s2)"
      using access by auto
    moreover have "bracketed []"
      by (simp add: bracketed_def)
    ultimately show ?thesis
      by (auto simp: ssh_access_def ssh__access_def dest: ssh_session_events
          split: go.splits sum.splits prod.splits option.splits)
  qed
  from assms(2) show ?thesis
  proof (cases rule: ah_run_cases)
    case (node path config nodeName err evs1)
    have "tty s' = tty s"
      using accessNode_world [OF node(3)] keep by blast
    moreover have "bracketed tr" if "Accessed SSHAccessHelper n nd cd adm tr \<in> set evs" for n nd cd adm tr
    proof -
      from that node(4) have "Accessed SSHAccessHelper n nd cd adm tr \<in> set evs1"
        by (auto split: if_splits)
      with accessNode_accesses [OF node(3)] brack node(3) show ?thesis
        by blast
    qed
    ultimately show ?thesis
      by blast
  next
    case (loop path config)
    have "tty s' = tty s"
      using menu_loop_keeps [where f = tty, OF keep loop(3)] .
    moreover have "bracketed tr" if "Accessed SSHAccessHelper n nd cd adm tr \<in> set evs" for n nd cd adm tr
    proof -
      note access = menu_loop_accesses [OF loop(3) that]
      obtain s1 err evs1 s2 where "accessNode ho ops (NewContainerLabClient path) config n isAdmin s1 = Ret (err, evs1, s2)"
        "Accessed SSHAccessHelper n nd cd adm tr \<in> set evs1"
        using access by blast
      then show ?thesis
        by (rule brack)
    qed
    ultimately show ?thesis
      by blast
  qed simp
qed

theorem terminal_given_back_witness:
  "\<exists>evs. ah_run sample_lab sample_access True Inr ''data/abc-1/manifest.yml'' False [''r1''] [] sample_tty = Ret (True, evs, sample_tty) \<and>
     (\<forall>n nd cd adm tr. Accessed SSHAccessHelper n nd cd adm tr \<in> set evs \<longrightarrow> bracketed tr)"
  using terminal_given_back [OF sample_terminal.terminal_axioms sample_ssh_run] sample_ssh_run by blast

end
