(* ===== verification/Ssh_Login.thy ===== *)
theory Ssh_Login
  imports Access_Helper Nclet_Ssh
begin

text \<open>
  From an SSH login to the node: the command line nclet starts for a user
  (\<^verbatim>\<open>controllers/nclet/ssh_server.go\<close>) as \<^verbatim>\<open>access-helper\<close> reads it
  (\<^verbatim>\<open>cmd/access-helper/main.go\<close>). Both ends are modelled in their own theories; between them is
  the flag parser of cobra, a parameter that keeps \<open>flags_contract\<close>.
\<close>

section \<open>What the flag parser promises\<close>

text \<open>
  Options may come in any order and between arguments; an argument is a non-empty string that
  does not begin with a dash.
\<close>

definition positional :: "string \<Rightarrow> bool" where
  "positional a \<longleftrightarrow> a \<noteq> '''' \<and> hd a \<noteq> CHR ''-''"

definition flags_contract :: "(string list \<Rightarrow> (ah_flags \<times> string list) or_error) \<Rightarrow> bool" where
  "flags_contract parse \<longleftrightarrow>
     (\<forall>topo opts. (\<forall>a \<in> set opts. a \<in> {''--admin'', ''--enable-otel''} \<or> positional a) \<longrightarrow>
        parse (''-t'' # topo # opts) =
          Inr (\<lparr>af_topo = topo, af_admin = (''--admin'' \<in> set opts), af_enableOtel = (''--enable-otel'' \<in> set opts)\<rparr>,
               filter positional opts))"

lemma parse_helper_args:
  assumes "flags_contract parse" "positional (us_NodeName user) \<or> us_NodeName user \<in> {'''', ''--admin'', ''--enable-otel''}"
  shows "parse (helper_args otlp user) =
    Inr (\<lparr>af_topo = path_join [''data'', us_ProblemEnvironmentName user, ''manifest.yml''],
          af_admin = (us_Admin user \<or> us_NodeName user = ''--admin''),
          af_enableOtel = (otlp \<noteq> '''' \<or> us_NodeName user = ''--enable-otel'')\<rparr>,
         if positional (us_NodeName user) then [us_NodeName user] else [])"
proof -
  let ?opts = "(if us_Admin user then [''--admin''] else []) @ (if otlp \<noteq> '''' then [''--enable-otel''] else []) @
    (if us_NodeName user \<noteq> '''' then [us_NodeName user] else [])"
  let ?t = "path_join [''data'', us_ProblemEnvironmentName user, ''manifest.yml'']"
  have "\<forall>a \<in> set ?opts. a \<in> {''--admin'', ''--enable-otel''} \<or> positional a"
    using assms(2) by auto
  then have "parse (''-t'' # ?t # ?opts) =
      Inr (\<lparr>af_topo = ?t, af_admin = (''--admin'' \<in> set ?opts), af_enableOtel = (''--enable-otel'' \<in> set ?opts)\<rparr>,
           filter positional ?opts)"
    using assms(1) unfolding flags_contract_def by blast
  moreover have "helper_args otlp user = ''-t'' # ?t # ?opts"
    by (simp add: helper_args_def)
  moreover have "''--admin'' \<in> set ?opts \<longleftrightarrow> us_Admin user \<or> us_NodeName user = ''--admin''"
    "''--enable-otel'' \<in> set ?opts \<longleftrightarrow> otlp \<noteq> '''' \<or> us_NodeName user = ''--enable-otel''"
    "filter positional ?opts = (if positional (us_NodeName user) then [us_NodeName user] else [])"
    by (auto simp: positional_def)
  ultimately show ?thesis
    by (simp only:)
qed

lemma ah_main_run:
  "parse argv = Inr (fl, args) \<Longrightarrow> length args \<le> 1 \<Longrightarrow> \<not> af_enableOtel fl \<Longrightarrow>
   ah_main parse ho ops tty absPath otel argv ins s =
     (case ah_run ho ops tty absPath (af_topo fl) (af_admin fl) args ins s of Panic m \<Rightarrow> Panic m | Ret r \<Rightarrow> Ret (Inr r))"
  by (simp add: ah_main_def ah_Args_def ah_RunE_def split: go.splits)

section \<open>Properties\<close>

text \<open>
  C29. The role of a login. For a node name that is empty or does not begin with a dash, the
  \<^verbatim>\<open>access-helper\<close> that nclet starts for a user runs on the topology of the user's
  environment, with the rights of an administrator exactly if the user name is one, and on the
  named node. For the node name \<^verbatim>\<open>--admin\<close> however it runs with the rights of an administrator
  also when the user name is that of a participant.
\<close>

theorem login_role:
  assumes "flags_contract parse" "parseUser suser = Inr user" "Getenv environ OTLPEndpointKey = ''''"
  shows "\<exists>cmd. handle environ carrier (\<lambda>_. None) '''' suser = (None, [PtyStart cmd, CmdWait, SessionClose, PtyClose]) \<and>
    (us_NodeName user = '''' \<or> positional (us_NodeName user) \<longrightarrow>
       ah_main parse ho ops tty absPath otel (cmd_Args cmd) ins s =
       (case ah_run ho ops tty absPath (path_join [''data'', us_ProblemEnvironmentName user, ''manifest.yml''])
               (us_Admin user) (if us_NodeName user = '''' then [] else [us_NodeName user]) ins s of
          Panic m \<Rightarrow> Panic m | Ret r \<Rightarrow> Ret (Inr r))) \<and>
    (us_NodeName user = ''--admin'' \<longrightarrow>
       ah_main parse ho ops tty absPath otel (cmd_Args cmd) ins s =
       (case ah_run ho ops tty absPath (path_join [''data'', us_ProblemEnvironmentName user, ''manifest.yml''])
               True [] ins s of
          Panic m \<Rightarrow> Panic m | Ret r \<Rightarrow> Ret (Inr r)))"
proof -
  let ?cmd = "\<lparr>cmd_Name = ''access-helper'', cmd_Args = helper_args '''' user, cmd_Env = None\<rparr>"
  have "handle environ carrier (\<lambda>_. None) '''' suser = (None, [PtyStart ?cmd, CmdWait, SessionClose, PtyClose])"
    using assms(2,3) by (simp add: handle_def Let_def)
  moreover have "ah_main parse ho ops tty absPath otel (cmd_Args ?cmd) ins s =
      (case ah_run ho ops tty absPath (path_join [''data'', us_ProblemEnvironmentName user, ''manifest.yml''])
              (us_Admin user) (if us_NodeName user = '''' then [] else [us_NodeName user]) ins s of
         Panic m \<Rightarrow> Panic m | Ret r \<Rightarrow> Ret (Inr r))"
    if "us_NodeName user = '''' \<or> positional (us_NodeName user)"
  proof -
    have "us_NodeName user \<noteq> ''--admin''" "us_NodeName user \<noteq> ''--enable-otel''"
      "positional (us_NodeName user) \<longleftrightarrow> us_NodeName user \<noteq> ''''"
      using that by (auto simp: positional_def)
    then show ?thesis
      using ah_main_run [where parse = parse, OF parse_helper_args [OF assms(1), of user "''''"]] that
      by (cases "us_NodeName user = ''''") simp_all
  qed
  moreover have "ah_main parse ho ops tty absPath otel (cmd_Args ?cmd) ins s =
      (case ah_run ho ops tty absPath (path_join [''data'', us_ProblemEnvironmentName user, ''manifest.yml''])
              True [] ins s of
         Panic m \<Rightarrow> Panic m | Ret r \<Rightarrow> Ret (Inr r))" if "us_NodeName user = ''--admin''"
    using ah_main_run [where parse = parse, OF parse_helper_args [OF assms(1), of user "''''"]] that by (simp add: positional_def)
  ultimately show ?thesis
    by (intro exI [of _ ?cmd]) simp
qed

text \<open>A parser that keeps the contract.\<close>

fun scan_flags :: "string list \<Rightarrow> ah_flags \<Rightarrow> string list \<Rightarrow> (ah_flags \<times> string list) or_error" where
  "scan_flags [] fl args = Inr (fl, args)"
| "scan_flags (a # as) fl args =
     (if a = ''-t'' then (case as of [] \<Rightarrow> Inl (Errorf ''flag needs an argument: -t'') | t # as \<Rightarrow> scan_flags as (fl\<lparr>af_topo := t\<rparr>) args)
      else if a = ''--admin'' then scan_flags as (fl\<lparr>af_admin := True\<rparr>) args
      else if a = ''--enable-otel'' then scan_flags as (fl\<lparr>af_enableOtel := True\<rparr>) args
      else if positional a then scan_flags as fl (args @ [a])
      else Inl (Errorf ''unknown flag''))"

definition simple_parse :: "string list \<Rightarrow> (ah_flags \<times> string list) or_error" where
  "simple_parse argv = scan_flags argv \<lparr>af_topo = '''', af_admin = False, af_enableOtel = False\<rparr> []"

lemma scan_flags_opts:
  "\<forall>a \<in> set opts. a \<in> {''--admin'', ''--enable-otel''} \<or> positional a \<Longrightarrow>
   scan_flags opts fl args =
     Inr (fl\<lparr>af_admin := af_admin fl \<or> ''--admin'' \<in> set opts, af_enableOtel := af_enableOtel fl \<or> ''--enable-otel'' \<in> set opts\<rparr>,
          args @ filter positional opts)"
  by (induction opts arbitrary: fl args) (auto simp: positional_def)

lemma simple_parse_contract: "flags_contract simple_parse"
  by (auto simp: flags_contract_def simple_parse_def scan_flags_opts)

theorem login_role_witness:
  "\<exists>cmd. handle [] [] (\<lambda>_. None) '''' ''nc_abc-1_--admin'' = (None, [PtyStart cmd, CmdWait, SessionClose, PtyClose]) \<and>
     ah_main simple_parse sample_lab sample_access True Inr None (cmd_Args cmd) [EOF] sample_tty =
     (case ah_run sample_lab sample_access True Inr (path_join [''data'', ''abc-1'', ''manifest.yml'']) True [] [EOF] sample_tty of
        Panic m \<Rightarrow> Panic m | Ret r \<Rightarrow> Ret (Inr r))"
proof -
  have "parseUser ''nc_abc-1_--admin'' =
      Inr \<lparr>us_ProblemEnvironmentName = ''abc-1'', us_NodeName = ''--admin'', us_Admin = False\<rparr>"
    using parseUser_participant [of "''abc-1''" "''--admin''"] by simp
  from login_role [OF simple_parse_contract this, of "[]" "[]" sample_lab sample_access True Inr None "[EOF]" sample_tty]
  show ?thesis
    by auto
qed

end
