(* ===== verification/Cloud_Logging.thy ===== *)
theory Cloud_Logging
  imports Prelude
begin

text \<open>
  The encoder options that shape the log of the controller manager for Cloud Logging
  (\<^verbatim>\<open>pkg/log/gcloud.go\<close>). A level is zap's \<^verbatim>\<open>int8\<close>; logr's verbosity \<open>v\<close> is the level
  \<open>- v\<close>. An encoder is what it appends to the entry.
\<close>

section \<open>Levels\<close>

type_synonym zap_level = int

abbreviation DebugLevel :: zap_level where "DebugLevel \<equiv> - 1"
abbreviation InfoLevel :: zap_level where "InfoLevel \<equiv> 0"
abbreviation WarnLevel :: zap_level where "WarnLevel \<equiv> 1"
abbreviation ErrorLevel :: zap_level where "ErrorLevel \<equiv> 2"
abbreviation DPanicLevel :: zap_level where "DPanicLevel \<equiv> 3"
abbreviation PanicLevel :: zap_level where "PanicLevel \<equiv> 4"
abbreviation FatalLevel :: zap_level where "FatalLevel \<equiv> 5"

definition encodeLevelForCloudLogging :: "zap_level \<Rightarrow> string list" where
  "encodeLevelForCloudLogging l =
     (if l = DebugLevel then [''DEBUG'']
      else if l = InfoLevel then [''INFO'']
      else if l = WarnLevel then [''WARNING'']
      else if l = ErrorLevel then [''ERROR'']
      else if l = DPanicLevel then [''CRITICAL'']
      else if l = PanicLevel then [''ALERT'']
      else if l = FatalLevel then [''EMERGENCY'']
      else [])"

record EncoderConfig =
  ec_TimeKey :: string
  ec_LevelKey :: string
  ec_MessageKey :: string
  ec_EncodeLevel :: "zap_level \<Rightarrow> string list"
  ec_EncodeTime :: "time \<Rightarrow> string list"

text \<open>\<open>RFC3339Nano\<close> is zap's encoder of times.\<close>

definition NewEncoderConfigOptionForCloudLogging :: "(time \<Rightarrow> string list) \<Rightarrow> EncoderConfig \<Rightarrow> EncoderConfig" where
  "NewEncoderConfigOptionForCloudLogging RFC3339Nano cfg =
     cfg\<lparr>ec_TimeKey := ''time'', ec_LevelKey := ''severity'', ec_MessageKey := ''message'',
         ec_EncodeLevel := encodeLevelForCloudLogging, ec_EncodeTime := RFC3339Nano\<rparr>"

section \<open>Facts\<close>

text \<open>
  The severities of Cloud Logging in increasing order. Every level of zap gets its own, in order;
  a level outside zap's range, such as that of a log with verbosity 2, gets none.
\<close>

definition severities :: "string list" where
  "severities = [''DEBUG'', ''INFO'', ''NOTICE'', ''WARNING'', ''ERROR'', ''CRITICAL'', ''ALERT'', ''EMERGENCY'']"

definition severity_rank :: "string \<Rightarrow> nat" where
  "severity_rank s = length (takeWhile (\<lambda>x. x \<noteq> s) severities)"

lemma encodeLevel_none: "encodeLevelForCloudLogging l = [] \<longleftrightarrow> l < DebugLevel \<or> FatalLevel < l"
  by (auto simp: encodeLevelForCloudLogging_def)

lemma severity_ranks:
  "severity_rank ''DEBUG'' = 0" "severity_rank ''INFO'' = 1" "severity_rank ''WARNING'' = 3"
  "severity_rank ''ERROR'' = 4" "severity_rank ''CRITICAL'' = 5" "severity_rank ''ALERT'' = 6"
  "severity_rank ''EMERGENCY'' = 7"
  by (simp_all add: severity_rank_def severities_def)

lemma encodeLevel_rank:
  assumes "DebugLevel \<le> l" "l \<le> FatalLevel"
  shows "severity_rank (hd (encodeLevelForCloudLogging l)) = nat (if 1 \<le> l then l + 2 else l + 1)"
proof -
  consider "l = -1" | "l = 0" | "l = 1" | "l = 2" | "l = 3" | "l = 4" | "l = 5"
    using assms by linarith
  then show ?thesis
    by cases (simp_all add: encodeLevelForCloudLogging_def severity_ranks)
qed

lemma encodeLevel_monotone:
  "DebugLevel \<le> l \<Longrightarrow> l < l' \<Longrightarrow> l' \<le> FatalLevel \<Longrightarrow>
   severity_rank (hd (encodeLevelForCloudLogging l)) < severity_rank (hd (encodeLevelForCloudLogging l'))"
  by (simp add: encodeLevel_rank)

end
