(* ===== verification/Go_Heap.thy ===== *)
theory Go_Heap
  imports Main
begin

text \<open>
  Go's memory where aliasing matters: a heap is the list of its cells, an address an index, and
  allocation appends. A representation says what a struct that may hold addresses stands for in a
  heap: its value, the addresses it reaches, and when these hold cells of the right type. The
  locale \<open>deep_copy\<close> is the contract of a \<^verbatim>\<open>DeepCopyInto\<close>: the copy has the same value
  and reaches only new cells, and nothing else changes. The combinators for structs, slices and
  pointers keep the contract.
\<close>

section \<open>Heaps and representations\<close>

type_synonym addr = nat
type_synonym 'c heap = "'c list"

record ('c, 'a, 'v) rep =
  rv :: "'c heap \<Rightarrow> 'a \<Rightarrow> 'v"
  rf :: "'c heap \<Rightarrow> 'a \<Rightarrow> addr set"
  rw :: "'c heap \<Rightarrow> 'a \<Rightarrow> bool"

type_synonym ('c, 'a) copier = "'a \<Rightarrow> 'c heap \<Rightarrow> 'a \<times> 'c heap"

text \<open>A value without references, two fields, and a struct read off its reference fields.\<close>

definition value_rep :: "('c, 'a, 'a) rep" where
  "value_rep = \<lparr>rv = (\<lambda>h x. x), rf = (\<lambda>h x. {}), rw = (\<lambda>h x. True)\<rparr>"

definition pair_rep :: "('c, 'a, 'v) rep \<Rightarrow> ('c, 'b, 'u) rep \<Rightarrow> ('c, 'a \<times> 'b, 'v \<times> 'u) rep" where
  "pair_rep A B =
     \<lparr>rv = (\<lambda>h (a, b). (rv A h a, rv B h b)),
      rf = (\<lambda>h (a, b). rf A h a \<union> rf B h b),
      rw = (\<lambda>h (a, b). rw A h a \<and> rw B h b)\<rparr>"

definition struct_rep :: "('s \<Rightarrow> 'a) \<Rightarrow> ('s \<Rightarrow> 'v \<Rightarrow> 'u) \<Rightarrow> ('c, 'a, 'v) rep \<Rightarrow> ('c, 's, 'u) rep" where
  "struct_rep refs build A =
     \<lparr>rv = (\<lambda>h s. build s (rv A h (refs s))), rf = (\<lambda>h s. rf A h (refs s)), rw = (\<lambda>h s. rw A h (refs s))\<rparr>"

text \<open>
  A pointer or map, nil is \<open>None\<close>: \<open>prj\<close> reads the cell it points to. A slice is a pointer to
  its array.
\<close>

definition ptr_rep :: "('c \<Rightarrow> 'a option) \<Rightarrow> ('c, 'a, 'v) rep \<Rightarrow> ('c, addr option, 'v option) rep" where
  "ptr_rep prj A =
     \<lparr>rv = (\<lambda>h p. case p of None \<Rightarrow> None | Some a \<Rightarrow> map_option (rv A h) (prj (h ! a))),
      rf = (\<lambda>h p. case p of None \<Rightarrow> {} | Some a \<Rightarrow> insert a (case prj (h ! a) of None \<Rightarrow> {} | Some x \<Rightarrow> rf A h x)),
      rw = (\<lambda>h p. case p of None \<Rightarrow> True
             | Some a \<Rightarrow> a < length h \<and> (case prj (h ! a) of None \<Rightarrow> False | Some x \<Rightarrow> rw A h x))\<rparr>"

definition list_rep :: "('c, 'a, 'v) rep \<Rightarrow> ('c, 'a list, 'v list) rep" where
  "list_rep A =
     \<lparr>rv = (\<lambda>h xs. map (rv A h) xs), rf = (\<lambda>h xs. \<Union> (rf A h ` set xs)), rw = (\<lambda>h xs. \<forall>x \<in> set xs. rw A h x)\<rparr>"

abbreviation slice_rep :: "('c \<Rightarrow> 'a list option) \<Rightarrow> ('c, 'a, 'v) rep \<Rightarrow> ('c, addr option, 'v list option) rep" where
  "slice_rep prj A \<equiv> ptr_rep prj (list_rep A)"

lemmas rep_defs = value_rep_def pair_rep_def struct_rep_def ptr_rep_def list_rep_def

section \<open>Copying\<close>

text \<open>A pair of reference fields, one after the other.\<close>

definition copy_pair :: "('c, 'a) copier \<Rightarrow> ('c, 'b) copier \<Rightarrow> ('c, 'a \<times> 'b) copier" where
  "copy_pair ca cb = (\<lambda>(a, b) h. case ca a h of (a', h1) \<Rightarrow> case cb b h1 of (b', h2) \<Rightarrow> ((a', b'), h2))"

text \<open>
  \<^verbatim>\<open>*out = new(T); (*in).DeepCopyInto(*out)\<close>, for \<^verbatim>\<open>in\<close> not nil: the new cell is zero until the
  fields are copied. A cell of another type does not occur.
\<close>

definition copy_ptr :: "('a \<Rightarrow> 'c) \<Rightarrow> ('c \<Rightarrow> 'a option) \<Rightarrow> 'a \<Rightarrow> ('c, 'a) copier \<Rightarrow> ('c, addr option) copier" where
  "copy_ptr mk prj zero c p h =
     (case p of
        None \<Rightarrow> (None, h)
      | Some b \<Rightarrow>
          (case prj (h ! b) of
             None \<Rightarrow> (None, h)
           | Some x \<Rightarrow>
               (let a = length h; h = h @ [mk zero]
                in case c x h of (y, h) \<Rightarrow> (Some a, h[a := mk y]))))"

text \<open>
  \<^verbatim>\<open>*out = make([]T, len(*in)); for i := range *in { (*in)[i].DeepCopyInto(&(*out)[i]) }\<close>: the loop
  fills the new array from the left.
\<close>

fun copy_elems :: "('a list \<Rightarrow> 'c) \<Rightarrow> 'a \<Rightarrow> ('c, 'a) copier \<Rightarrow> addr \<Rightarrow> 'a list \<Rightarrow> 'a list \<Rightarrow> 'c heap \<Rightarrow> 'c heap" where
  "copy_elems mk zero c a out [] h = h"
| "copy_elems mk zero c a out (x # xs) h =
     (case c x h of
        (y, h) \<Rightarrow> copy_elems mk zero c a (out @ [y]) xs (h[a := mk (out @ y # replicate (length xs) zero)]))"

definition copy_slice :: "('a list \<Rightarrow> 'c) \<Rightarrow> ('c \<Rightarrow> 'a list option) \<Rightarrow> 'a \<Rightarrow> ('c, 'a) copier \<Rightarrow> ('c, addr option) copier" where
  "copy_slice mk prj zero c p h =
     (case p of
        None \<Rightarrow> (None, h)
      | Some b \<Rightarrow>
          (case prj (h ! b) of
             None \<Rightarrow> (None, h)
           | Some xs \<Rightarrow>
               (let a = length h
                in (Some a, copy_elems mk zero c a [] xs (h @ [mk (replicate (length xs) zero)])))))"

text \<open>\<^verbatim>\<open>*out = make([]T, len(*in)); copy(*out, *in)\<close>, for elements without references.\<close>

definition copy_values :: "('a list \<Rightarrow> 'c) \<Rightarrow> ('c \<Rightarrow> 'a list option) \<Rightarrow> 'a \<Rightarrow> ('c, addr option) copier" where
  "copy_values mk prj zero p h =
     (case p of
        None \<Rightarrow> (None, h)
      | Some b \<Rightarrow>
          (case prj (h ! b) of
             None \<Rightarrow> (None, h)
           | Some xs \<Rightarrow>
               (let a = length h; h = h @ [mk (replicate (length xs) zero)] in (Some a, h[a := mk xs]))))"

definition copy_value :: "('c, 'a) copier" where
  "copy_value x h = (x, h)"

section \<open>The contract\<close>

text \<open>\<open>same_on S h h'\<close>: both heaps have the addresses \<open>S\<close>, with the same cells.\<close>

definition same_on :: "addr set \<Rightarrow> 'c heap \<Rightarrow> 'c heap \<Rightarrow> bool" where
  "same_on S h h' \<longleftrightarrow> (\<forall>a \<in> S. a < length h \<and> a < length h' \<and> h' ! a = h ! a)"

text \<open>\<open>only_writes S h h'\<close>: \<open>h'\<close> is \<open>h\<close> after writes to cells of \<open>S\<close>.\<close>

definition only_writes :: "addr set \<Rightarrow> 'c heap \<Rightarrow> 'c heap \<Rightarrow> bool" where
  "only_writes S h h' \<longleftrightarrow> length h' = length h \<and> (\<forall>b < length h. b \<notin> S \<longrightarrow> h' ! b = h ! b)"

lemma only_writes_update: "a \<in> S \<Longrightarrow> only_writes S h (h[a := c])"
  unfolding only_writes_def by (metis length_list_update nth_list_update_neq)

lemma only_writes_same_on: "only_writes S h h' \<Longrightarrow> T \<subseteq> {..<length h} \<Longrightarrow> T \<inter> S = {} \<Longrightarrow> same_on T h h'"
  by (auto simp: only_writes_def same_on_def)

text \<open>
  What a caller of a deep copy may rely on: the copy has the value of the original, the original
  keeps its own, and from then on writes through one of them do not change the other.
\<close>

definition independent_copy :: "('c, 'a, 'v) rep \<Rightarrow> ('c, 'a) copier \<Rightarrow> bool" where
  "independent_copy A copy \<longleftrightarrow>
     (\<forall>x h y h'. rw A h x \<and> copy x h = (y, h') \<longrightarrow>
        rw A h' y \<and> rv A h' y = rv A h x \<and> rw A h' x \<and> rv A h' x = rv A h x \<and>
        (\<forall>h''. only_writes (rf A h' y) h' h'' \<longrightarrow> rv A h'' x = rv A h x) \<and>
        (\<forall>h''. only_writes (rf A h' x) h' h'' \<longrightarrow> rv A h'' y = rv A h x))"

lemma same_on_append: "S \<subseteq> {..<length h} \<Longrightarrow> same_on S h (h @ ext)"
  by (auto simp: same_on_def nth_append)

lemma same_on_update: "S \<subseteq> {..<length h} \<Longrightarrow> a \<notin> S \<Longrightarrow> same_on S h (h[a := c])"
  unfolding same_on_def by (metis lessThan_iff length_list_update nth_list_update_neq subsetD)

lemma same_on_trans: "same_on S h h' \<Longrightarrow> same_on S h' h'' \<Longrightarrow> same_on S h h''"
  by (auto simp: same_on_def)

lemma same_on_Un [simp]: "same_on (S \<union> T) h h' \<longleftrightarrow> same_on S h h' \<and> same_on T h h'"
  by (auto simp: same_on_def)

text \<open>The value of a struct depends on the cells it reaches only.\<close>

locale framed =
  fixes A :: "('c, 'a, 'v) rep"
  assumes inside: "rw A h x \<Longrightarrow> rf A h x \<subseteq> {..<length h}"
    and frame: "rw A h x \<Longrightarrow> same_on (rf A h x) h h' \<Longrightarrow> rw A h' x \<and> rv A h' x = rv A h x \<and> rf A h' x = rf A h x"
begin

lemma grows: "rw A h x \<Longrightarrow> rw A (h @ ext) x \<and> rv A (h @ ext) x = rv A h x \<and> rf A (h @ ext) x = rf A h x"
  using frame [OF _ same_on_append [OF inside]] by blast

lemma below: "rw A h x \<Longrightarrow> same_on {..<length h} h h' \<Longrightarrow> rv A h' x = rv A h x"
  using frame [of h x h'] inside [of h x] unfolding same_on_def by blast

lemma update_outside:
  "rw A h x \<Longrightarrow> a \<notin> rf A h x \<Longrightarrow> rw A (h[a := c]) x \<and> rv A (h[a := c]) x = rv A h x \<and> rf A (h[a := c]) x = rf A h x"
  using frame [OF _ same_on_update [OF inside]] by blast

end

locale deep_copy = framed A for A :: "('c, 'a, 'v) rep" +
  fixes copy :: "('c, 'a) copier"
  assumes copied: "rw A h x \<Longrightarrow> copy x h = (y, h') \<Longrightarrow>
    (\<exists>ext. h' = h @ ext) \<and> rw A h' y \<and> rv A h' y = rv A h x \<and> rf A h' y \<inter> {..<length h} = {}"
begin

text \<open>
  No write through the copy is seen through the original, and none through the original is seen
  through the copy.
\<close>

lemma disjoint:
  "rw A h x \<Longrightarrow> copy x h = (y, h') \<Longrightarrow> rw A h' x \<and> rf A h' x = rf A h x \<and> rv A h' x = rv A h x \<and> rf A h' x \<inter> rf A h' y = {}"
proof -
  assume *: "rw A h x" "copy x h = (y, h')"
  then obtain ext where "h' = h @ ext" "rf A h' y \<inter> {..<length h} = {}"
    using copied by blast
  with grows [OF *(1), of ext] inside [OF *(1)] show ?thesis
    by auto
qed

lemma independent: "independent_copy A copy"
  unfolding independent_copy_def
proof (intro allI impI)
  fix x h y h'
  assume "rw A h x \<and> copy x h = (y, h')"
  then have *: "rw A h x" "copy x h = (y, h')"
    by simp_all
  note d = disjoint [OF *] and c = copied [OF *]
  have "rv A h'' x = rv A h x" if "only_writes (rf A h' y) h' h''" for h''
    using frame [of h' x h''] only_writes_same_on [OF that, of "rf A h' x"] inside [of h' x] d by metis
  moreover have "rv A h'' y = rv A h x" if "only_writes (rf A h' x) h' h''" for h''
    using frame [of h' y h''] only_writes_same_on [OF that, of "rf A h' y"] inside [of h' y] c d by (metis Int_commute)
  ultimately show "rw A h' y \<and> rv A h' y = rv A h x \<and> rw A h' x \<and> rv A h' x = rv A h x \<and>
      (\<forall>h''. only_writes (rf A h' y) h' h'' \<longrightarrow> rv A h'' x = rv A h x) \<and>
      (\<forall>h''. only_writes (rf A h' x) h' h'' \<longrightarrow> rv A h'' y = rv A h x)"
    using d c by simp
qed

end

section \<open>The combinators keep the contract\<close>

lemma framed_value: "framed value_rep"
  by unfold_locales (simp_all add: rep_defs)

lemma framed_struct:
  assumes "framed A"
  shows "framed (struct_rep refs build A)"
proof
  fix h s
  assume "rw (struct_rep refs build A) h s"
  then show "rf (struct_rep refs build A) h s \<subseteq> {..<length h}"
    using framed.inside [OF assms, of h "refs s"] by (simp add: struct_rep_def)
next
  fix h s h'
  assume "rw (struct_rep refs build A) h s" "same_on (rf (struct_rep refs build A) h s) h h'"
  then show "rw (struct_rep refs build A) h' s \<and> rv (struct_rep refs build A) h' s = rv (struct_rep refs build A) h s \<and>
      rf (struct_rep refs build A) h' s = rf (struct_rep refs build A) h s"
    using framed.frame [OF assms, of h "refs s" h'] by (simp add: struct_rep_def)
qed

lemma framed_pair:
  assumes "framed A" "framed B"
  shows "framed (pair_rep A B)"
proof
  fix h x
  assume "rw (pair_rep A B) h x"
  then show "rf (pair_rep A B) h x \<subseteq> {..<length h}"
    using framed.inside [OF assms(1)] framed.inside [OF assms(2)] by (cases x) (simp add: pair_rep_def)
next
  fix h x h'
  assume "rw (pair_rep A B) h x" "same_on (rf (pair_rep A B) h x) h h'"
  then show "rw (pair_rep A B) h' x \<and> rv (pair_rep A B) h' x = rv (pair_rep A B) h x \<and>
      rf (pair_rep A B) h' x = rf (pair_rep A B) h x"
    using framed.frame [OF assms(1), of h "fst x" h'] framed.frame [OF assms(2), of h "snd x" h']
    by (cases x) (simp add: pair_rep_def)
qed

lemma framed_list:
  assumes "framed A"
  shows "framed (list_rep A)"
proof
  fix h xs
  assume "rw (list_rep A) h xs"
  then show "rf (list_rep A) h xs \<subseteq> {..<length h}"
    using framed.inside [OF assms] by (fastforce simp: list_rep_def)
next
  fix h xs h'
  assume "rw (list_rep A) h xs" "same_on (rf (list_rep A) h xs) h h'"
  then have "rw A h' x \<and> rv A h' x = rv A h x \<and> rf A h' x = rf A h x" if "x \<in> set xs" for x
    using framed.frame [OF assms, of h x h'] that by (auto simp: list_rep_def same_on_def)
  then show "rw (list_rep A) h' xs \<and> rv (list_rep A) h' xs = rv (list_rep A) h xs \<and> rf (list_rep A) h' xs = rf (list_rep A) h xs"
    by (simp add: list_rep_def)
qed

lemma framed_ptr:
  assumes "framed A"
  shows "framed (ptr_rep prj A)"
proof
  fix h p
  assume "rw (ptr_rep prj A) h p"
  then show "rf (ptr_rep prj A) h p \<subseteq> {..<length h}"
    using framed.inside [OF assms] by (auto simp: ptr_rep_def split: option.splits)
next
  fix h p h'
  assume *: "rw (ptr_rep prj A) h p" "same_on (rf (ptr_rep prj A) h p) h h'"
  show "rw (ptr_rep prj A) h' p \<and> rv (ptr_rep prj A) h' p = rv (ptr_rep prj A) h p \<and> rf (ptr_rep prj A) h' p = rf (ptr_rep prj A) h p"
  proof (cases p)
    case (Some a)
    with *(1) obtain x where x: "prj (h ! a) = Some x" "rw A h x" "a < length h"
      by (auto simp: ptr_rep_def split: option.splits)
    then have "same_on (rf A h x) h h'" "h' ! a = h ! a" "a < length h'"
      using *(2) Some by (auto simp: ptr_rep_def same_on_def)
    then show ?thesis
      using framed.frame [OF assms x(2), of h'] x Some by (simp add: ptr_rep_def)
  qed (simp add: ptr_rep_def)
qed

lemma deep_copy_value: "deep_copy value_rep copy_value"
  by (intro deep_copy.intro framed_value deep_copy_axioms.intro) (simp_all add: value_rep_def copy_value_def)

lemma deep_copy_pair:
  assumes "deep_copy A ca" "deep_copy B cb"
  shows "deep_copy (pair_rep A B) (copy_pair ca cb)"
proof (intro deep_copy.intro deep_copy_axioms.intro framed_pair)
  note fA = deep_copy.axioms(1) [OF assms(1)] and fB = deep_copy.axioms(1) [OF assms(2)]
  show "framed A" "framed B"
    by (fact fA fB)+
  fix h x y h'
  assume w: "rw (pair_rep A B) h x" and c: "copy_pair ca cb x h = (y, h')"
  obtain a b where x: "x = (a, b)"
    by (cases x)
  obtain a' h1 b' where c': "ca a h = (a', h1)" "cb b h1 = (b', h')" "y = (a', b')"
    using c by (auto simp: copy_pair_def x split: prod.splits)
  have wab: "rw A h a" "rw B h b"
    using w by (simp_all add: x pair_rep_def)
  obtain e1 where 1: "h1 = h @ e1" "rw A h1 a'" "rv A h1 a' = rv A h a" "rf A h1 a' \<inter> {..<length h} = {}"
    using deep_copy.copied [OF assms(1) wab(1) c'(1)] by blast
  have wb: "rw B h1 b" "rv B h1 b = rv B h b"
    using framed.grows [OF fB wab(2), of e1] 1(1) by simp_all
  obtain e2 where 2: "h' = h1 @ e2" "rw B h' b'" "rv B h' b' = rv B h1 b" "rf B h' b' \<inter> {..<length h1} = {}"
    using deep_copy.copied [OF assms(2) wb(1) c'(2)] by blast
  have "rw A h' a' \<and> rv A h' a' = rv A h1 a' \<and> rf A h' a' = rf A h1 a'"
    using framed.grows [OF fA 1(2), of e2] 2(1) by simp
  with 1 2 wb show "(\<exists>ext. h' = h @ ext) \<and> rw (pair_rep A B) h' y \<and> rv (pair_rep A B) h' y = rv (pair_rep A B) h x \<and>
      rf (pair_rep A B) h' y \<inter> {..<length h} = {}"
    by (auto simp: pair_rep_def x c'(3))
qed

text \<open>A struct: all fields are copied by value, then the reference fields by their copiers.\<close>

lemma deep_copy_struct:
  assumes "deep_copy A c" "\<And>y s. refs (upd y s) = y" "\<And>y s. build (upd y s) = build s"
  shows "deep_copy (struct_rep refs build A) (\<lambda>s h. case c (refs s) h of (y, h') \<Rightarrow> (upd y s, h'))"
proof (intro deep_copy.intro deep_copy_axioms.intro framed_struct)
  show "framed A"
    by (rule deep_copy.axioms(1) [OF assms(1)])
  fix h s t h'
  assume w: "rw (struct_rep refs build A) h s" and c: "(case c (refs s) h of (y, h') \<Rightarrow> (upd y s, h')) = (t, h')"
  obtain y where y: "c (refs s) h = (y, h')" "t = upd y s"
    using c by (auto split: prod.splits)
  with deep_copy.copied [OF assms(1) _ y(1)] w assms(2,3)
  show "(\<exists>ext. h' = h @ ext) \<and> rw (struct_rep refs build A) h' t \<and>
      rv (struct_rep refs build A) h' t = rv (struct_rep refs build A) h s \<and> rf (struct_rep refs build A) h' t \<inter> {..<length h} = {}"
    by (simp add: struct_rep_def)
qed

text \<open>The same for a copier in any form that runs the fields' copiers in order.\<close>

lemma deep_copy_structI:
  assumes "deep_copy A c" "\<And>s h. copy s h = (case c (refs s) h of (y, h') \<Rightarrow> (upd y s, h'))"
    "\<And>y s. refs (upd y s) = y" "\<And>y s. build (upd y s) = build s"
  shows "deep_copy (struct_rep refs build A) copy"
proof -
  have "copy = (\<lambda>s h. case c (refs s) h of (y, h') \<Rightarrow> (upd y s, h'))"
    by (intro ext) (rule assms(2))
  then show ?thesis
    using deep_copy_struct [OF assms(1,3,4)] by simp
qed

text \<open>A struct allocated after the cell \<open>a\<close> is not changed by growing the heap and writing \<open>a\<close>.\<close>

context framed
begin

lemma above:
  assumes "rw A h y" "rf A h y \<subseteq> {a<..}"
  shows "rw A ((h @ ext)[a := c]) y \<and> rv A ((h @ ext)[a := c]) y = rv A h y \<and> rf A ((h @ ext)[a := c]) y = rf A h y"
proof -
  have "rw A (h @ ext) y" "rv A (h @ ext) y = rv A h y" "rf A (h @ ext) y = rf A h y"
    using grows [OF assms(1)] by simp_all
  moreover have "a \<notin> rf A (h @ ext) y"
    using assms(2) calculation(3) by auto
  ultimately show ?thesis
    using update_outside by simp
qed

end

lemma update_middle: "(h @ [x] @ ext)[length h := y] = h @ [y] @ ext"
  by simp

lemma deep_copy_ptr:
  assumes "deep_copy A c" "prj \<circ> mk = Some"
  shows "deep_copy (ptr_rep prj A) (copy_ptr mk prj zero c)"
proof (intro deep_copy.intro deep_copy_axioms.intro framed_ptr)
  show fA: "framed A"
    by (rule deep_copy.axioms(1) [OF assms(1)])
  have retract: "prj (mk x) = Some x" for x
    using fun_cong [OF assms(2), of x] by simp
  fix h p q h'
  assume w: "rw (ptr_rep prj A) h p" and c: "copy_ptr mk prj zero c p h = (q, h')"
  show "(\<exists>ext. h' = h @ ext) \<and> rw (ptr_rep prj A) h' q \<and> rv (ptr_rep prj A) h' q = rv (ptr_rep prj A) h p \<and>
      rf (ptr_rep prj A) h' q \<inter> {..<length h} = {}"
  proof (cases p)
    case (Some b)
    with w obtain x where x: "prj (h ! b) = Some x" "rw A h x"
      by (auto simp: ptr_rep_def split: option.splits)
    let ?a = "length h"
    obtain y H where y: "c x (h @ [mk zero]) = (y, H)" "q = Some ?a" "h' = H[?a := mk y]"
      using c Some x(1) by (auto simp: copy_ptr_def Let_def split: prod.splits)
    have g: "rw A (h @ [mk zero]) x" "rv A (h @ [mk zero]) x = rv A h x"
      using framed.grows [OF fA x(2)] by simp_all
    obtain ext where H: "H = (h @ [mk zero]) @ ext" "rw A H y" "rv A H y = rv A h x" "rf A H y \<inter> {..<length (h @ [mk zero])} = {}"
      using deep_copy.copied [OF assms(1) g(1) y(1)] g(2) by auto
    then have "rf A H y \<subseteq> {?a<..}"
      by fastforce
    from framed.above [OF fA H(2) this, of "[]" "mk y"]
    have h': "rw A h' y" "rv A h' y = rv A h x" "rf A h' y = rf A H y"
      using H(3) y(3) by simp_all
    moreover have "h' = h @ [mk y] @ ext"
      using y(3) H(1) by simp
    ultimately show ?thesis
      using H(4) y(2) x(1) Some retract by (auto simp: ptr_rep_def nth_append)
  qed (use c in \<open>simp add: ptr_rep_def copy_ptr_def\<close>)
qed

text \<open>The loop over the elements: what it has copied so far stays as it is.\<close>

lemma copy_elems_copies:
  assumes "deep_copy A c" "\<forall>x \<in> set xs. rw A h x" "H = h @ [mk (out @ replicate (length xs) zero)] @ ext"
    "\<forall>y \<in> set out. rw A H y \<and> rf A H y \<subseteq> {length h<..}" "copy_elems mk zero c (length h) out xs H = H'"
  shows "\<exists>ys ext'. H' = h @ [mk (out @ ys)] @ ext' \<and> map (rv A H') ys = map (rv A h) xs \<and>
    (\<forall>y \<in> set (out @ ys). rw A H' y \<and> rf A H' y \<subseteq> {length h<..}) \<and> (\<forall>y \<in> set out. rv A H' y = rv A H y)"
  using assms(2-)
proof (induction xs arbitrary: out ext H)
  case Nil
  then show ?case
    by auto
next
  case (Cons x xs)
  note fA = deep_copy.axioms(1) [OF assms(1)]
  let ?a = "length h"
  obtain y H1 where y: "c x H = (y, H1)"
    by fastforce
  define H2 where "H2 = H1[?a := mk (out @ y # replicate (length xs) zero)]"
  have g: "rw A H x" "rv A H x = rv A h x"
    using framed.grows [OF fA, of h x] Cons.prems(1,2) by simp_all
  obtain e where H1: "H1 = H @ e" "rw A H1 y" "rv A H1 y = rv A h x" "rf A H1 y \<inter> {..<length H} = {}"
    using deep_copy.copied [OF assms(1) g(1) y] g(2) by auto
  have "rf A H1 y \<subseteq> {?a<..}"
    using H1(4) Cons.prems(2) by fastforce
  from framed.above [OF fA H1(2) this, of "[]" "mk (out @ y # replicate (length xs) zero)"]
  have y2: "rw A H2 y" "rv A H2 y = rv A h x" "rf A H2 y = rf A H1 y"
    using H1(3) by (simp_all add: H2_def)
  have out2: "rw A H2 z \<and> rv A H2 z = rv A H z \<and> rf A H2 z = rf A H z" if "z \<in> set out" for z
    using framed.above [OF fA, of H z ?a e] Cons.prems(3) that by (simp add: H2_def H1(1))
  have H2: "H2 = h @ [mk ((out @ [y]) @ replicate (length xs) zero)] @ (ext @ e)"
    by (simp add: H2_def H1(1) Cons.prems(2))
  have "\<forall>z \<in> set (out @ [y]). rw A H2 z \<and> rf A H2 z \<subseteq> {?a<..}"
    using out2 y2 Cons.prems(3) \<open>rf A H1 y \<subseteq> {?a<..}\<close> by simp
  moreover have "copy_elems mk zero c ?a (out @ [y]) xs H2 = H'"
    using Cons.prems(4) y by (simp add: H2_def)
  ultimately obtain ys ext' where IH: "H' = h @ [mk ((out @ [y]) @ ys)] @ ext'" "map (rv A H') ys = map (rv A h) xs"
      "\<forall>z \<in> set ((out @ [y]) @ ys). rw A H' z \<and> rf A H' z \<subseteq> {?a<..}" "\<forall>z \<in> set (out @ [y]). rv A H' z = rv A H2 z"
    using Cons.IH [OF _ H2] Cons.prems(1) by fastforce
  show ?case
  proof (intro exI conjI)
    show "H' = h @ [mk (out @ y # ys)] @ ext'" "map (rv A H') (y # ys) = map (rv A h) (x # xs)"
      using IH(1,2,4) y2 by simp_all
    show "\<forall>z \<in> set (out @ y # ys). rw A H' z \<and> rf A H' z \<subseteq> {?a<..}"
      using IH(3) by simp
    show "\<forall>z \<in> set out. rv A H' z = rv A H z"
      using IH(4) out2 by simp
  qed
qed

lemma deep_copy_slice:
  assumes "deep_copy A c" "prj \<circ> mk = Some"
  shows "deep_copy (slice_rep prj A) (copy_slice mk prj zero c)"
proof (intro deep_copy.intro deep_copy_axioms.intro framed_ptr framed_list)
  show fA: "framed A"
    by (rule deep_copy.axioms(1) [OF assms(1)])
  have retract: "prj (mk x) = Some x" for x
    using fun_cong [OF assms(2), of x] by simp
  fix h p q h'
  assume w: "rw (slice_rep prj A) h p" and c: "copy_slice mk prj zero c p h = (q, h')"
  show "(\<exists>ext. h' = h @ ext) \<and> rw (slice_rep prj A) h' q \<and> rv (slice_rep prj A) h' q = rv (slice_rep prj A) h p \<and>
      rf (slice_rep prj A) h' q \<inter> {..<length h} = {}"
  proof (cases p)
    case (Some b)
    with w obtain xs where x: "prj (h ! b) = Some xs" "\<forall>x \<in> set xs. rw A h x"
      by (auto simp: ptr_rep_def list_rep_def split: option.splits)
    then have q: "q = Some (length h)" "copy_elems mk zero c (length h) [] xs (h @ [mk (replicate (length xs) zero)]) = h'"
      using c Some by (auto simp: copy_slice_def Let_def)
    obtain ys ext where "h' = h @ [mk ys] @ ext" "map (rv A h') ys = map (rv A h) xs"
      "\<forall>y \<in> set ys. rw A h' y \<and> rf A h' y \<subseteq> {length h<..}"
      using copy_elems_copies [OF assms(1) x(2) _ _ q(2), of "[]"] by auto
    then show ?thesis
      using q(1) x(1) Some retract by (fastforce simp: ptr_rep_def list_rep_def nth_append)
  qed (use c in \<open>simp add: ptr_rep_def copy_slice_def\<close>)
qed

lemma deep_copy_values:
  assumes "prj \<circ> mk = Some"
  shows "deep_copy (slice_rep prj value_rep) (copy_values mk prj zero)"
proof (intro deep_copy.intro deep_copy_axioms.intro framed_ptr framed_list framed_value)
  have retract: "prj (mk xs) = Some xs" for xs
    using fun_cong [OF assms, of xs] by simp
  fix h p q h'
  assume w: "rw (slice_rep prj value_rep) h p" and c: "copy_values mk prj zero p h = (q, h')"
  show "(\<exists>ext. h' = h @ ext) \<and> rw (slice_rep prj value_rep) h' q \<and>
      rv (slice_rep prj value_rep) h' q = rv (slice_rep prj value_rep) h p \<and> rf (slice_rep prj value_rep) h' q \<inter> {..<length h} = {}"
    using w c retract by (auto simp: rep_defs copy_values_def Let_def nth_append split: option.splits)
qed

lemmas deep_copy_intros = deep_copy_value deep_copy_pair deep_copy_ptr deep_copy_slice deep_copy_values

end
