(* ===== verification/Deep_Copy.thy ===== *)
theory Deep_Copy
  imports Go_Heap Problem_Controller
begin

text \<open>
  The generated deep copies (\<^verbatim>\<open>api/v1alpha1/zz_generated.deepcopy.go\<close>) on a heap with aliasing.
  Everywhere else in this development objects are values; that is right because the cached
  client hands out deep copies and the one place that changes an object it also keeps, the
  template of a Problem, copies it first. The layouts of \<^verbatim>\<open>ObjectMeta\<close>, \<^verbatim>\<open>ListMeta\<close>,
  \<^verbatim>\<open>LabelSelector\<close> and \<^verbatim>\<open>Condition\<close> are those of apimachinery with the fields of
  \<open>Api_Types\<close>; their own copiers are a parameter, \<open>k8s_copiers\<close>.
\<close>

section \<open>Layouts\<close>

text \<open>A reference field is an address or nil (\<open>None\<close>): a map, a pointer, or a slice by its array.\<close>

record m_ObjectMeta =
  mm_Name :: string
  mm_Namespace :: string
  mm_GenerateName :: string
  mm_Generation :: int
  mm_ResourceVersion :: nat
  mm_CreationTimestamp :: "time option"
  mm_Labels :: "addr option"
  mm_Annotations :: "addr option"
  mm_DeletionTimestamp :: "addr option"
  mm_Finalizers :: "addr option"
  mm_OwnerReferences :: "addr option"

record m_ListMeta =
  ml_ResourceVersion :: string
  ml_RemainingItemCount :: "addr option"

record m_LabelSelectorRequirement =
  mlr_Key :: string
  mlr_Operator :: string
  mlr_Values :: "addr option"

record m_LabelSelector =
  mls_MatchLabels :: "addr option"
  mls_MatchExpressions :: "addr option"

type_synonym TypeMeta = "string \<times> string" \<comment> \<open>kind, API version\<close>

record m_ProblemEnvironmentSpec =
  ms_TopologyFile :: FileSource
  ms_ConfigFiles :: "addr option"
  ms_WorkerName :: string
  ms_WorkerSelectors :: "addr option"

record m_ProblemEnvironmentStatus =
  mst_Containers :: "addr option"
  mst_Password :: string
  mst_Conditions :: "addr option"

record m_ProblemEnvironment =
  mpe_TypeMeta :: TypeMeta
  mpe_ObjectMeta :: m_ObjectMeta
  mpe_Spec :: m_ProblemEnvironmentSpec
  mpe_Status :: m_ProblemEnvironmentStatus

record m_ProblemEnvironmentTemplate =
  mt_ObjectMeta :: m_ObjectMeta
  mt_Spec :: m_ProblemEnvironmentSpec

record m_ProblemSpec =
  mps_Template :: "addr option"
  mps_AssignableReplicas :: int

record m_ProblemStatus =
  mps_Replicas :: ProblemReplicas

record m_Problem =
  mp_TypeMeta :: TypeMeta
  mp_ObjectMeta :: m_ObjectMeta
  mp_Spec :: m_ProblemSpec
  mp_Status :: m_ProblemStatus

record m_WorkerSpec =
  mws_DisableSchedule :: bool

record m_WorkerStatus =
  mws_WorkerInfo :: WorkerInfo
  mws_Conditions :: "addr option"

record m_Worker =
  mw_TypeMeta :: TypeMeta
  mw_ObjectMeta :: m_ObjectMeta
  mw_Spec :: m_WorkerSpec
  mw_Status :: m_WorkerStatus

text \<open>The three list types have the same layout.\<close>

record m_List =
  mi_TypeMeta :: TypeMeta
  mi_ListMeta :: m_ListMeta
  mi_Items :: "addr option"

text \<open>Cells: of the library, arrays, and structs behind pointers.\<close>

datatype lib_cell =
    LMap label_map
  | LStrings "string list"
  | LTime time
  | LOwners "OwnerReference list"
  | LRequirements "m_LabelSelectorRequirement list"
  | LInt int

datatype array_cell =
    AFileSource "FileSource list"
  | ALabelSelector "m_LabelSelector list"
  | AContainerStatus "ContainerStatus list"
  | ACondition "Condition list"
  | AProblem "m_Problem list"
  | AProblemEnvironment "m_ProblemEnvironment list"
  | AWorker "m_Worker list"

datatype struct_cell =
    SConfigMapFileSource ConfigMapFileSource
  | SContainerStatus ContainerStatus
  | SFileSource FileSource
  | SProblem m_Problem
  | SProblemEnvironment m_ProblemEnvironment
  | SProblemEnvironmentList m_List
  | SProblemEnvironmentSpec m_ProblemEnvironmentSpec
  | SProblemEnvironmentStatus m_ProblemEnvironmentStatus
  | SProblemEnvironmentTemplate m_ProblemEnvironmentTemplate
  | SProblemList m_List
  | SProblemReplicas ProblemReplicas
  | SProblemSpec m_ProblemSpec
  | SProblemStatus m_ProblemStatus
  | SWorker m_Worker
  | SWorkerInfo WorkerInfo
  | SWorkerList m_List
  | SWorkerSpec m_WorkerSpec
  | SWorkerStatus m_WorkerStatus

datatype cell = Lib lib_cell | Arr array_cell | Obj struct_cell

text \<open>Reading a cell at its type.\<close>

definition as_map :: "cell \<Rightarrow> (label_map) option" where
  "as_map c = (case c of Lib (LMap x) \<Rightarrow> Some x | _ \<Rightarrow> None)"

definition as_strings :: "cell \<Rightarrow> (string list) option" where
  "as_strings c = (case c of Lib (LStrings x) \<Rightarrow> Some x | _ \<Rightarrow> None)"

definition as_time :: "cell \<Rightarrow> (time) option" where
  "as_time c = (case c of Lib (LTime x) \<Rightarrow> Some x | _ \<Rightarrow> None)"

definition as_owners :: "cell \<Rightarrow> (OwnerReference list) option" where
  "as_owners c = (case c of Lib (LOwners x) \<Rightarrow> Some x | _ \<Rightarrow> None)"

definition as_requirements :: "cell \<Rightarrow> (m_LabelSelectorRequirement list) option" where
  "as_requirements c = (case c of Lib (LRequirements x) \<Rightarrow> Some x | _ \<Rightarrow> None)"

definition as_int :: "cell \<Rightarrow> (int) option" where
  "as_int c = (case c of Lib (LInt x) \<Rightarrow> Some x | _ \<Rightarrow> None)"

definition as_FileSource_array :: "cell \<Rightarrow> FileSource list option" where
  "as_FileSource_array c = (case c of Arr (AFileSource xs) \<Rightarrow> Some xs | _ \<Rightarrow> None)"

definition as_LabelSelector_array :: "cell \<Rightarrow> m_LabelSelector list option" where
  "as_LabelSelector_array c = (case c of Arr (ALabelSelector xs) \<Rightarrow> Some xs | _ \<Rightarrow> None)"

definition as_ContainerStatus_array :: "cell \<Rightarrow> ContainerStatus list option" where
  "as_ContainerStatus_array c = (case c of Arr (AContainerStatus xs) \<Rightarrow> Some xs | _ \<Rightarrow> None)"

definition as_Condition_array :: "cell \<Rightarrow> Condition list option" where
  "as_Condition_array c = (case c of Arr (ACondition xs) \<Rightarrow> Some xs | _ \<Rightarrow> None)"

definition as_Problem_array :: "cell \<Rightarrow> m_Problem list option" where
  "as_Problem_array c = (case c of Arr (AProblem xs) \<Rightarrow> Some xs | _ \<Rightarrow> None)"

definition as_ProblemEnvironment_array :: "cell \<Rightarrow> m_ProblemEnvironment list option" where
  "as_ProblemEnvironment_array c = (case c of Arr (AProblemEnvironment xs) \<Rightarrow> Some xs | _ \<Rightarrow> None)"

definition as_Worker_array :: "cell \<Rightarrow> m_Worker list option" where
  "as_Worker_array c = (case c of Arr (AWorker xs) \<Rightarrow> Some xs | _ \<Rightarrow> None)"

definition as_ConfigMapFileSource :: "cell \<Rightarrow> ConfigMapFileSource option" where
  "as_ConfigMapFileSource c = (case c of Obj (SConfigMapFileSource x) \<Rightarrow> Some x | _ \<Rightarrow> None)"

definition as_ContainerStatus :: "cell \<Rightarrow> ContainerStatus option" where
  "as_ContainerStatus c = (case c of Obj (SContainerStatus x) \<Rightarrow> Some x | _ \<Rightarrow> None)"

definition as_FileSource :: "cell \<Rightarrow> FileSource option" where
  "as_FileSource c = (case c of Obj (SFileSource x) \<Rightarrow> Some x | _ \<Rightarrow> None)"

definition as_Problem :: "cell \<Rightarrow> m_Problem option" where
  "as_Problem c = (case c of Obj (SProblem x) \<Rightarrow> Some x | _ \<Rightarrow> None)"

definition as_ProblemEnvironment :: "cell \<Rightarrow> m_ProblemEnvironment option" where
  "as_ProblemEnvironment c = (case c of Obj (SProblemEnvironment x) \<Rightarrow> Some x | _ \<Rightarrow> None)"

definition as_ProblemEnvironmentList :: "cell \<Rightarrow> m_List option" where
  "as_ProblemEnvironmentList c = (case c of Obj (SProblemEnvironmentList x) \<Rightarrow> Some x | _ \<Rightarrow> None)"

definition as_ProblemEnvironmentSpec :: "cell \<Rightarrow> m_ProblemEnvironmentSpec option" where
  "as_ProblemEnvironmentSpec c = (case c of Obj (SProblemEnvironmentSpec x) \<Rightarrow> Some x | _ \<Rightarrow> None)"

definition as_ProblemEnvironmentStatus :: "cell \<Rightarrow> m_ProblemEnvironmentStatus option" where
  "as_ProblemEnvironmentStatus c = (case c of Obj (SProblemEnvironmentStatus x) \<Rightarrow> Some x | _ \<Rightarrow> None)"

definition as_ProblemEnvironmentTemplate :: "cell \<Rightarrow> m_ProblemEnvironmentTemplate option" where
  "as_ProblemEnvironmentTemplate c = (case c of Obj (SProblemEnvironmentTemplate x) \<Rightarrow> Some x | _ \<Rightarrow> None)"

definition as_ProblemList :: "cell \<Rightarrow> m_List option" where
  "as_ProblemList c = (case c of Obj (SProblemList x) \<Rightarrow> Some x | _ \<Rightarrow> None)"

definition as_ProblemReplicas :: "cell \<Rightarrow> ProblemReplicas option" where
  "as_ProblemReplicas c = (case c of Obj (SProblemReplicas x) \<Rightarrow> Some x | _ \<Rightarrow> None)"

definition as_ProblemSpec :: "cell \<Rightarrow> m_ProblemSpec option" where
  "as_ProblemSpec c = (case c of Obj (SProblemSpec x) \<Rightarrow> Some x | _ \<Rightarrow> None)"

definition as_ProblemStatus :: "cell \<Rightarrow> m_ProblemStatus option" where
  "as_ProblemStatus c = (case c of Obj (SProblemStatus x) \<Rightarrow> Some x | _ \<Rightarrow> None)"

definition as_Worker :: "cell \<Rightarrow> m_Worker option" where
  "as_Worker c = (case c of Obj (SWorker x) \<Rightarrow> Some x | _ \<Rightarrow> None)"

definition as_WorkerInfo :: "cell \<Rightarrow> WorkerInfo option" where
  "as_WorkerInfo c = (case c of Obj (SWorkerInfo x) \<Rightarrow> Some x | _ \<Rightarrow> None)"

definition as_WorkerList :: "cell \<Rightarrow> m_List option" where
  "as_WorkerList c = (case c of Obj (SWorkerList x) \<Rightarrow> Some x | _ \<Rightarrow> None)"

definition as_WorkerSpec :: "cell \<Rightarrow> m_WorkerSpec option" where
  "as_WorkerSpec c = (case c of Obj (SWorkerSpec x) \<Rightarrow> Some x | _ \<Rightarrow> None)"

definition as_WorkerStatus :: "cell \<Rightarrow> m_WorkerStatus option" where
  "as_WorkerStatus c = (case c of Obj (SWorkerStatus x) \<Rightarrow> Some x | _ \<Rightarrow> None)"

lemmas as_defs =
  as_map_def as_strings_def as_time_def as_owners_def
  as_requirements_def as_int_def as_FileSource_array_def as_LabelSelector_array_def
  as_ContainerStatus_array_def as_Condition_array_def as_Problem_array_def as_ProblemEnvironment_array_def
  as_Worker_array_def as_ConfigMapFileSource_def as_ContainerStatus_def as_FileSource_def
  as_Problem_def as_ProblemEnvironment_def as_ProblemEnvironmentList_def as_ProblemEnvironmentSpec_def
  as_ProblemEnvironmentStatus_def as_ProblemEnvironmentTemplate_def as_ProblemList_def as_ProblemReplicas_def
  as_ProblemSpec_def as_ProblemStatus_def as_Worker_def as_WorkerInfo_def
  as_WorkerList_def as_WorkerSpec_def as_WorkerStatus_def

text \<open>Reading a cell gives what was put into it.\<close>

lemma retract_map: "as_map \<circ> (Lib \<circ> LMap) = Some"
  and retract_strings: "as_strings \<circ> (Lib \<circ> LStrings) = Some"
  and retract_time: "as_time \<circ> (Lib \<circ> LTime) = Some"
  and retract_owners: "as_owners \<circ> (Lib \<circ> LOwners) = Some"
  and retract_requirements: "as_requirements \<circ> (Lib \<circ> LRequirements) = Some"
  and retract_int: "as_int \<circ> (Lib \<circ> LInt) = Some"
  and retract_FileSource_array: "as_FileSource_array \<circ> (Arr \<circ> AFileSource) = Some"
  and retract_LabelSelector_array: "as_LabelSelector_array \<circ> (Arr \<circ> ALabelSelector) = Some"
  and retract_ContainerStatus_array: "as_ContainerStatus_array \<circ> (Arr \<circ> AContainerStatus) = Some"
  and retract_Condition_array: "as_Condition_array \<circ> (Arr \<circ> ACondition) = Some"
  and retract_Problem_array: "as_Problem_array \<circ> (Arr \<circ> AProblem) = Some"
  and retract_ProblemEnvironment_array: "as_ProblemEnvironment_array \<circ> (Arr \<circ> AProblemEnvironment) = Some"
  and retract_Worker_array: "as_Worker_array \<circ> (Arr \<circ> AWorker) = Some"
  and retract_ConfigMapFileSource: "as_ConfigMapFileSource \<circ> (Obj \<circ> SConfigMapFileSource) = Some"
  and retract_ContainerStatus: "as_ContainerStatus \<circ> (Obj \<circ> SContainerStatus) = Some"
  and retract_FileSource: "as_FileSource \<circ> (Obj \<circ> SFileSource) = Some"
  and retract_Problem: "as_Problem \<circ> (Obj \<circ> SProblem) = Some"
  and retract_ProblemEnvironment: "as_ProblemEnvironment \<circ> (Obj \<circ> SProblemEnvironment) = Some"
  and retract_ProblemEnvironmentList: "as_ProblemEnvironmentList \<circ> (Obj \<circ> SProblemEnvironmentList) = Some"
  and retract_ProblemEnvironmentSpec: "as_ProblemEnvironmentSpec \<circ> (Obj \<circ> SProblemEnvironmentSpec) = Some"
  and retract_ProblemEnvironmentStatus: "as_ProblemEnvironmentStatus \<circ> (Obj \<circ> SProblemEnvironmentStatus) = Some"
  and retract_ProblemEnvironmentTemplate: "as_ProblemEnvironmentTemplate \<circ> (Obj \<circ> SProblemEnvironmentTemplate) = Some"
  and retract_ProblemList: "as_ProblemList \<circ> (Obj \<circ> SProblemList) = Some"
  and retract_ProblemReplicas: "as_ProblemReplicas \<circ> (Obj \<circ> SProblemReplicas) = Some"
  and retract_ProblemSpec: "as_ProblemSpec \<circ> (Obj \<circ> SProblemSpec) = Some"
  and retract_ProblemStatus: "as_ProblemStatus \<circ> (Obj \<circ> SProblemStatus) = Some"
  and retract_Worker: "as_Worker \<circ> (Obj \<circ> SWorker) = Some"
  and retract_WorkerInfo: "as_WorkerInfo \<circ> (Obj \<circ> SWorkerInfo) = Some"
  and retract_WorkerList: "as_WorkerList \<circ> (Obj \<circ> SWorkerList) = Some"
  and retract_WorkerSpec: "as_WorkerSpec \<circ> (Obj \<circ> SWorkerSpec) = Some"
  and retract_WorkerStatus: "as_WorkerStatus \<circ> (Obj \<circ> SWorkerStatus) = Some"
  by (simp_all add: as_defs fun_eq_iff)

text \<open>The zero values that \<^verbatim>\<open>new\<close> and \<^verbatim>\<open>make\<close> start from.\<close>

definition m_ObjectMeta0 :: m_ObjectMeta where
  "m_ObjectMeta0 =
     \<lparr>mm_Name = '''', mm_Namespace = '''', mm_GenerateName = '''', mm_Generation = 0, mm_ResourceVersion = 0,
      mm_CreationTimestamp = None, mm_Labels = None, mm_Annotations = None, mm_DeletionTimestamp = None,
      mm_Finalizers = None, mm_OwnerReferences = None\<rparr>"

definition m_List0 :: m_List where
  "m_List0 = \<lparr>mi_TypeMeta = ('''', ''''), mi_ListMeta = \<lparr>ml_ResourceVersion = '''', ml_RemainingItemCount = None\<rparr>, mi_Items = None\<rparr>"

definition m_LabelSelector0 :: m_LabelSelector where
  "m_LabelSelector0 = \<lparr>mls_MatchLabels = None, mls_MatchExpressions = None\<rparr>"

definition ConfigMapFileSource0 :: ConfigMapFileSource where
  "ConfigMapFileSource0 = \<lparr>cmfs_Key = '''', cmfs_Name = ''''\<rparr>"

definition FileSource0 :: FileSource where
  "FileSource0 = \<lparr>fs_ConfigMapRef = ConfigMapFileSource0\<rparr>"

definition ContainerStatus0 :: ContainerStatus where
  "ContainerStatus0 =
     \<lparr>cs_Name = '''', cs_Image = '''', cs_ContainerID = '''', cs_ContainerName = '''', cs_Ready = False,
      cs_ManagementIPAddress = ''''\<rparr>"

definition ProblemReplicas0 :: ProblemReplicas where
  "ProblemReplicas0 = \<lparr>rep_Total = 0, rep_Scheduled = 0, rep_Assignable = 0, rep_Assigned = 0\<rparr>"

definition m_ProblemEnvironmentSpec0 :: m_ProblemEnvironmentSpec where
  "m_ProblemEnvironmentSpec0 =
     \<lparr>ms_TopologyFile = FileSource0, ms_ConfigFiles = None, ms_WorkerName = '''', ms_WorkerSelectors = None\<rparr>"

definition m_ProblemEnvironmentStatus0 :: m_ProblemEnvironmentStatus where
  "m_ProblemEnvironmentStatus0 = \<lparr>mst_Containers = None, mst_Password = '''', mst_Conditions = None\<rparr>"

definition m_ProblemEnvironment0 :: m_ProblemEnvironment where
  "m_ProblemEnvironment0 =
     \<lparr>mpe_TypeMeta = ('''', ''''), mpe_ObjectMeta = m_ObjectMeta0, mpe_Spec = m_ProblemEnvironmentSpec0,
      mpe_Status = m_ProblemEnvironmentStatus0\<rparr>"

definition m_ProblemEnvironmentTemplate0 :: m_ProblemEnvironmentTemplate where
  "m_ProblemEnvironmentTemplate0 = \<lparr>mt_ObjectMeta = m_ObjectMeta0, mt_Spec = m_ProblemEnvironmentSpec0\<rparr>"

definition m_ProblemSpec0 :: m_ProblemSpec where
  "m_ProblemSpec0 = \<lparr>mps_Template = None, mps_AssignableReplicas = 0\<rparr>"

definition m_ProblemStatus0 :: m_ProblemStatus where
  "m_ProblemStatus0 = \<lparr>mps_Replicas = ProblemReplicas0\<rparr>"

definition m_Problem0 :: m_Problem where
  "m_Problem0 =
     \<lparr>mp_TypeMeta = ('''', ''''), mp_ObjectMeta = m_ObjectMeta0, mp_Spec = m_ProblemSpec0, mp_Status = m_ProblemStatus0\<rparr>"

definition m_WorkerSpec0 :: m_WorkerSpec where
  "m_WorkerSpec0 = \<lparr>mws_DisableSchedule = False\<rparr>"

definition m_WorkerStatus0 :: m_WorkerStatus where
  "m_WorkerStatus0 = \<lparr>mws_WorkerInfo = wk_WorkerInfo Worker0, mws_Conditions = None\<rparr>"

definition m_Worker0 :: m_Worker where
  "m_Worker0 =
     \<lparr>mw_TypeMeta = ('''', ''''), mw_ObjectMeta = m_ObjectMeta0, mw_Spec = m_WorkerSpec0, mw_Status = m_WorkerStatus0\<rparr>"

text \<open>The zero Condition has the empty string for a status, which is none of the three of the API: \<open>ConditionUnknown\<close> stands for it.\<close>

definition Condition0 :: Condition where
  "Condition0 =
     \<lparr>c_Type = '''', c_Status = ConditionUnknown, c_ObservedGeneration = 0, c_LastTransitionTime = 0, c_Reason = '''', c_Message = ''''\<rparr>"

section \<open>The generated functions\<close>

text \<open>The copiers of apimachinery.\<close>

record k8s_copiers =
  lib_ObjectMeta :: "(cell, m_ObjectMeta) copier"
  lib_ListMeta :: "(cell, m_ListMeta) copier"
  lib_LabelSelector :: "(cell, m_LabelSelector) copier"
  lib_Condition :: "(cell, Condition) copier"

text \<open>
  \<open><T>_DeepCopyInto\<close> maps \<^verbatim>\<open>*in\<close> to \<^verbatim>\<open>*out\<close>, \<open><T>_DeepCopy\<close> a pointer to a pointer, and
  \<open><T>_DeepCopyObject\<close> a pointer to an interface: \<open>None\<close> is the nil interface, which differs from an
  interface that holds a nil pointer.
\<close>

type_synonym runtime_Object = "(string \<times> addr option) option"

definition as_object :: "string \<Rightarrow> (cell, addr option) copier \<Rightarrow> addr option \<Rightarrow> cell heap \<Rightarrow> runtime_Object \<times> cell heap" where
  "as_object T DeepCopy p h = (case DeepCopy p h of (c, h) \<Rightarrow> (if c \<noteq> None then (Some (T, c), h) else (None, h)))"

definition ConfigMapFileSource_DeepCopyInto :: "(cell, ConfigMapFileSource) copier" where
  "ConfigMapFileSource_DeepCopyInto x h = (x, h)"

definition ConfigMapFileSource_DeepCopy :: "(cell, addr option) copier" where
  "ConfigMapFileSource_DeepCopy = copy_ptr (Obj \<circ> SConfigMapFileSource) as_ConfigMapFileSource ConfigMapFileSource0 ConfigMapFileSource_DeepCopyInto"

definition ContainerStatus_DeepCopyInto :: "(cell, ContainerStatus) copier" where
  "ContainerStatus_DeepCopyInto x h = (x, h)"

definition ContainerStatus_DeepCopy :: "(cell, addr option) copier" where
  "ContainerStatus_DeepCopy = copy_ptr (Obj \<circ> SContainerStatus) as_ContainerStatus ContainerStatus0 ContainerStatus_DeepCopyInto"

definition FileSource_DeepCopyInto :: "(cell, FileSource) copier" where
  "FileSource_DeepCopyInto x h =
     (x\<lparr>fs_ConfigMapRef := fs_ConfigMapRef x\<rparr>, h)"

definition FileSource_DeepCopy :: "(cell, addr option) copier" where
  "FileSource_DeepCopy = copy_ptr (Obj \<circ> SFileSource) as_FileSource FileSource0 FileSource_DeepCopyInto"

definition ProblemEnvironmentSpec_DeepCopyInto :: "k8s_copiers \<Rightarrow> (cell, m_ProblemEnvironmentSpec) copier" where
  "ProblemEnvironmentSpec_DeepCopyInto lib x h =
     (let out = x\<lparr>ms_TopologyFile := ms_TopologyFile x\<rparr>
      in case copy_values (Arr \<circ> AFileSource) as_FileSource_array FileSource0 (ms_ConfigFiles x) h of
           (configs, h) \<Rightarrow>
             (let out = out\<lparr>ms_ConfigFiles := configs\<rparr>
              in case copy_slice (Arr \<circ> ALabelSelector) as_LabelSelector_array m_LabelSelector0 (lib_LabelSelector lib)
                        (ms_WorkerSelectors x) h of
                   (selectors, h) \<Rightarrow> (out\<lparr>ms_WorkerSelectors := selectors\<rparr>, h)))"

definition ProblemEnvironmentSpec_DeepCopy :: "k8s_copiers \<Rightarrow> (cell, addr option) copier" where
  "ProblemEnvironmentSpec_DeepCopy lib = copy_ptr (Obj \<circ> SProblemEnvironmentSpec) as_ProblemEnvironmentSpec m_ProblemEnvironmentSpec0 (ProblemEnvironmentSpec_DeepCopyInto lib)"

definition ProblemEnvironmentStatus_DeepCopyInto :: "k8s_copiers \<Rightarrow> (cell, m_ProblemEnvironmentStatus) copier" where
  "ProblemEnvironmentStatus_DeepCopyInto lib x h =
     (case copy_values (Arr \<circ> AContainerStatus) as_ContainerStatus_array ContainerStatus0 (mst_Containers x) h of
        (containers, h) \<Rightarrow>
          (let out = x\<lparr>mst_Containers := containers\<rparr>
           in case copy_slice (Arr \<circ> ACondition) as_Condition_array Condition0 (lib_Condition lib) (mst_Conditions x) h of
                (conditions, h) \<Rightarrow> (out\<lparr>mst_Conditions := conditions\<rparr>, h)))"

definition ProblemEnvironmentStatus_DeepCopy :: "k8s_copiers \<Rightarrow> (cell, addr option) copier" where
  "ProblemEnvironmentStatus_DeepCopy lib = copy_ptr (Obj \<circ> SProblemEnvironmentStatus) as_ProblemEnvironmentStatus m_ProblemEnvironmentStatus0 (ProblemEnvironmentStatus_DeepCopyInto lib)"

definition ProblemEnvironmentTemplate_DeepCopyInto :: "k8s_copiers \<Rightarrow> (cell, m_ProblemEnvironmentTemplate) copier" where
  "ProblemEnvironmentTemplate_DeepCopyInto lib x h =
     (case lib_ObjectMeta lib (mt_ObjectMeta x) h of
        (meta, h) \<Rightarrow>
          (let out = x\<lparr>mt_ObjectMeta := meta\<rparr>
           in case ProblemEnvironmentSpec_DeepCopyInto lib (mt_Spec x) h of
                (spec, h) \<Rightarrow> (out\<lparr>mt_Spec := spec\<rparr>, h)))"

definition ProblemEnvironmentTemplate_DeepCopy :: "k8s_copiers \<Rightarrow> (cell, addr option) copier" where
  "ProblemEnvironmentTemplate_DeepCopy lib = copy_ptr (Obj \<circ> SProblemEnvironmentTemplate) as_ProblemEnvironmentTemplate m_ProblemEnvironmentTemplate0 (ProblemEnvironmentTemplate_DeepCopyInto lib)"

definition ProblemEnvironment_DeepCopyInto :: "k8s_copiers \<Rightarrow> (cell, m_ProblemEnvironment) copier" where
  "ProblemEnvironment_DeepCopyInto lib x h =
     (let out = x\<lparr>mpe_TypeMeta := mpe_TypeMeta x\<rparr>
      in case lib_ObjectMeta lib (mpe_ObjectMeta x) h of
           (meta, h) \<Rightarrow>
             (let out = out\<lparr>mpe_ObjectMeta := meta\<rparr>
              in case ProblemEnvironmentSpec_DeepCopyInto lib (mpe_Spec x) h of
                   (spec, h) \<Rightarrow>
                     (let out = out\<lparr>mpe_Spec := spec\<rparr>
                      in case ProblemEnvironmentStatus_DeepCopyInto lib (mpe_Status x) h of
                           (status, h) \<Rightarrow> (out\<lparr>mpe_Status := status\<rparr>, h))))"

definition ProblemEnvironment_DeepCopy :: "k8s_copiers \<Rightarrow> (cell, addr option) copier" where
  "ProblemEnvironment_DeepCopy lib = copy_ptr (Obj \<circ> SProblemEnvironment) as_ProblemEnvironment m_ProblemEnvironment0 (ProblemEnvironment_DeepCopyInto lib)"

definition ProblemEnvironment_DeepCopyObject :: "k8s_copiers \<Rightarrow> addr option \<Rightarrow> cell heap \<Rightarrow> runtime_Object \<times> cell heap" where
  "ProblemEnvironment_DeepCopyObject lib = as_object ''ProblemEnvironment'' (ProblemEnvironment_DeepCopy lib)"

definition ProblemEnvironmentList_DeepCopyInto :: "k8s_copiers \<Rightarrow> (cell, m_List) copier" where
  "ProblemEnvironmentList_DeepCopyInto lib x h =
     (let out = x\<lparr>mi_TypeMeta := mi_TypeMeta x\<rparr>
      in case lib_ListMeta lib (mi_ListMeta x) h of
           (meta, h) \<Rightarrow>
             (let out = out\<lparr>mi_ListMeta := meta\<rparr>
              in case copy_slice (Arr \<circ> AProblemEnvironment) as_ProblemEnvironment_array m_ProblemEnvironment0 (ProblemEnvironment_DeepCopyInto lib) (mi_Items x) h of
                   (items, h) \<Rightarrow> (out\<lparr>mi_Items := items\<rparr>, h)))"

definition ProblemEnvironmentList_DeepCopy :: "k8s_copiers \<Rightarrow> (cell, addr option) copier" where
  "ProblemEnvironmentList_DeepCopy lib = copy_ptr (Obj \<circ> SProblemEnvironmentList) as_ProblemEnvironmentList m_List0 (ProblemEnvironmentList_DeepCopyInto lib)"

definition ProblemEnvironmentList_DeepCopyObject :: "k8s_copiers \<Rightarrow> addr option \<Rightarrow> cell heap \<Rightarrow> runtime_Object \<times> cell heap" where
  "ProblemEnvironmentList_DeepCopyObject lib = as_object ''ProblemEnvironmentList'' (ProblemEnvironmentList_DeepCopy lib)"

definition ProblemReplicas_DeepCopyInto :: "(cell, ProblemReplicas) copier" where
  "ProblemReplicas_DeepCopyInto x h = (x, h)"

definition ProblemReplicas_DeepCopy :: "(cell, addr option) copier" where
  "ProblemReplicas_DeepCopy = copy_ptr (Obj \<circ> SProblemReplicas) as_ProblemReplicas ProblemReplicas0 ProblemReplicas_DeepCopyInto"

definition ProblemSpec_DeepCopyInto :: "k8s_copiers \<Rightarrow> (cell, m_ProblemSpec) copier" where
  "ProblemSpec_DeepCopyInto lib x h =
     (case copy_ptr (Obj \<circ> SProblemEnvironmentTemplate) as_ProblemEnvironmentTemplate m_ProblemEnvironmentTemplate0
             (ProblemEnvironmentTemplate_DeepCopyInto lib) (mps_Template x) h of
        (template, h) \<Rightarrow> (x\<lparr>mps_Template := template\<rparr>, h))"

definition ProblemSpec_DeepCopy :: "k8s_copiers \<Rightarrow> (cell, addr option) copier" where
  "ProblemSpec_DeepCopy lib = copy_ptr (Obj \<circ> SProblemSpec) as_ProblemSpec m_ProblemSpec0 (ProblemSpec_DeepCopyInto lib)"

definition ProblemStatus_DeepCopyInto :: "(cell, m_ProblemStatus) copier" where
  "ProblemStatus_DeepCopyInto x h =
     (x\<lparr>mps_Replicas := mps_Replicas x\<rparr>, h)"

definition ProblemStatus_DeepCopy :: "(cell, addr option) copier" where
  "ProblemStatus_DeepCopy = copy_ptr (Obj \<circ> SProblemStatus) as_ProblemStatus m_ProblemStatus0 ProblemStatus_DeepCopyInto"

definition Problem_DeepCopyInto :: "k8s_copiers \<Rightarrow> (cell, m_Problem) copier" where
  "Problem_DeepCopyInto lib x h =
     (let out = x\<lparr>mp_TypeMeta := mp_TypeMeta x\<rparr>
      in case lib_ObjectMeta lib (mp_ObjectMeta x) h of
           (meta, h) \<Rightarrow>
             (let out = out\<lparr>mp_ObjectMeta := meta\<rparr>
              in case ProblemSpec_DeepCopyInto lib (mp_Spec x) h of
                   (spec, h) \<Rightarrow> (out\<lparr>mp_Spec := spec, mp_Status := mp_Status x\<rparr>, h)))"

definition Problem_DeepCopy :: "k8s_copiers \<Rightarrow> (cell, addr option) copier" where
  "Problem_DeepCopy lib = copy_ptr (Obj \<circ> SProblem) as_Problem m_Problem0 (Problem_DeepCopyInto lib)"

definition Problem_DeepCopyObject :: "k8s_copiers \<Rightarrow> addr option \<Rightarrow> cell heap \<Rightarrow> runtime_Object \<times> cell heap" where
  "Problem_DeepCopyObject lib = as_object ''Problem'' (Problem_DeepCopy lib)"

definition ProblemList_DeepCopyInto :: "k8s_copiers \<Rightarrow> (cell, m_List) copier" where
  "ProblemList_DeepCopyInto lib x h =
     (let out = x\<lparr>mi_TypeMeta := mi_TypeMeta x\<rparr>
      in case lib_ListMeta lib (mi_ListMeta x) h of
           (meta, h) \<Rightarrow>
             (let out = out\<lparr>mi_ListMeta := meta\<rparr>
              in case copy_slice (Arr \<circ> AProblem) as_Problem_array m_Problem0 (Problem_DeepCopyInto lib) (mi_Items x) h of
                   (items, h) \<Rightarrow> (out\<lparr>mi_Items := items\<rparr>, h)))"

definition ProblemList_DeepCopy :: "k8s_copiers \<Rightarrow> (cell, addr option) copier" where
  "ProblemList_DeepCopy lib = copy_ptr (Obj \<circ> SProblemList) as_ProblemList m_List0 (ProblemList_DeepCopyInto lib)"

definition ProblemList_DeepCopyObject :: "k8s_copiers \<Rightarrow> addr option \<Rightarrow> cell heap \<Rightarrow> runtime_Object \<times> cell heap" where
  "ProblemList_DeepCopyObject lib = as_object ''ProblemList'' (ProblemList_DeepCopy lib)"

definition WorkerInfo_DeepCopyInto :: "(cell, WorkerInfo) copier" where
  "WorkerInfo_DeepCopyInto x h = (x, h)"

definition WorkerInfo_DeepCopy :: "(cell, addr option) copier" where
  "WorkerInfo_DeepCopy = copy_ptr (Obj \<circ> SWorkerInfo) as_WorkerInfo (wk_WorkerInfo Worker0) WorkerInfo_DeepCopyInto"

definition WorkerSpec_DeepCopyInto :: "(cell, m_WorkerSpec) copier" where
  "WorkerSpec_DeepCopyInto x h = (x, h)"

definition WorkerSpec_DeepCopy :: "(cell, addr option) copier" where
  "WorkerSpec_DeepCopy = copy_ptr (Obj \<circ> SWorkerSpec) as_WorkerSpec m_WorkerSpec0 WorkerSpec_DeepCopyInto"

definition WorkerStatus_DeepCopyInto :: "k8s_copiers \<Rightarrow> (cell, m_WorkerStatus) copier" where
  "WorkerStatus_DeepCopyInto lib x h =
     (let out = x\<lparr>mws_WorkerInfo := mws_WorkerInfo x\<rparr>
      in case copy_slice (Arr \<circ> ACondition) as_Condition_array Condition0 (lib_Condition lib) (mws_Conditions x) h of
           (conditions, h) \<Rightarrow> (out\<lparr>mws_Conditions := conditions\<rparr>, h))"

definition WorkerStatus_DeepCopy :: "k8s_copiers \<Rightarrow> (cell, addr option) copier" where
  "WorkerStatus_DeepCopy lib = copy_ptr (Obj \<circ> SWorkerStatus) as_WorkerStatus m_WorkerStatus0 (WorkerStatus_DeepCopyInto lib)"

definition Worker_DeepCopyInto :: "k8s_copiers \<Rightarrow> (cell, m_Worker) copier" where
  "Worker_DeepCopyInto lib x h =
     (let out = x\<lparr>mw_TypeMeta := mw_TypeMeta x\<rparr>
      in case lib_ObjectMeta lib (mw_ObjectMeta x) h of
           (meta, h) \<Rightarrow>
             (let out = out\<lparr>mw_ObjectMeta := meta, mw_Spec := mw_Spec x\<rparr>
              in case WorkerStatus_DeepCopyInto lib (mw_Status x) h of
                   (status, h) \<Rightarrow> (out\<lparr>mw_Status := status\<rparr>, h)))"

definition Worker_DeepCopy :: "k8s_copiers \<Rightarrow> (cell, addr option) copier" where
  "Worker_DeepCopy lib = copy_ptr (Obj \<circ> SWorker) as_Worker m_Worker0 (Worker_DeepCopyInto lib)"

definition Worker_DeepCopyObject :: "k8s_copiers \<Rightarrow> addr option \<Rightarrow> cell heap \<Rightarrow> runtime_Object \<times> cell heap" where
  "Worker_DeepCopyObject lib = as_object ''Worker'' (Worker_DeepCopy lib)"

definition WorkerList_DeepCopyInto :: "k8s_copiers \<Rightarrow> (cell, m_List) copier" where
  "WorkerList_DeepCopyInto lib x h =
     (let out = x\<lparr>mi_TypeMeta := mi_TypeMeta x\<rparr>
      in case lib_ListMeta lib (mi_ListMeta x) h of
           (meta, h) \<Rightarrow>
             (let out = out\<lparr>mi_ListMeta := meta\<rparr>
              in case copy_slice (Arr \<circ> AWorker) as_Worker_array m_Worker0 (Worker_DeepCopyInto lib) (mi_Items x) h of
                   (items, h) \<Rightarrow> (out\<lparr>mi_Items := items\<rparr>, h)))"

definition WorkerList_DeepCopy :: "k8s_copiers \<Rightarrow> (cell, addr option) copier" where
  "WorkerList_DeepCopy lib = copy_ptr (Obj \<circ> SWorkerList) as_WorkerList m_List0 (WorkerList_DeepCopyInto lib)"

definition WorkerList_DeepCopyObject :: "k8s_copiers \<Rightarrow> addr option \<Rightarrow> cell heap \<Rightarrow> runtime_Object \<times> cell heap" where
  "WorkerList_DeepCopyObject lib = as_object ''WorkerList'' (WorkerList_DeepCopy lib)"

section \<open>What the structs stand for\<close>

definition nil_slice :: "'a list option \<Rightarrow> 'a list" where
  "nil_slice s = (case s of None \<Rightarrow> [] | Some xs \<Rightarrow> xs)"

definition map_rep :: "(cell, addr option, label_map option) rep" where
  "map_rep = ptr_rep as_map value_rep"

definition strings_rep :: "(cell, addr option, string list option) rep" where
  "strings_rep = slice_rep as_strings value_rep"

definition ObjectMeta_rep :: "(cell, m_ObjectMeta, ObjectMeta) rep" where
  "ObjectMeta_rep =
     struct_rep (\<lambda>m. (mm_Labels m, mm_Annotations m, mm_DeletionTimestamp m, mm_Finalizers m, mm_OwnerReferences m))
       (\<lambda>m (ls, as, del, fins, owners).
          \<lparr>om_Name = mm_Name m, om_Namespace = mm_Namespace m, om_GenerateName = mm_GenerateName m, om_Labels = ls,
           om_Annotations = as, om_Generation = mm_Generation m, om_ResourceVersion = mm_ResourceVersion m,
           om_CreationTimestamp = mm_CreationTimestamp m, om_DeletionTimestamp = del, om_Finalizers = nil_slice fins,
           om_OwnerReferences = nil_slice owners\<rparr>)
       (pair_rep map_rep (pair_rep map_rep (pair_rep (ptr_rep as_time value_rep)
          (pair_rep strings_rep (slice_rep as_owners value_rep)))))"

definition ListMeta_rep :: "(cell, m_ListMeta, string \<times> int option) rep" where
  "ListMeta_rep = struct_rep ml_RemainingItemCount (\<lambda>m n. (ml_ResourceVersion m, n)) (ptr_rep as_int value_rep)"

definition Requirement_rep :: "(cell, m_LabelSelectorRequirement, LabelSelectorRequirement) rep" where
  "Requirement_rep =
     struct_rep mlr_Values (\<lambda>r vs. \<lparr>lr_Key = mlr_Key r, lr_Operator = mlr_Operator r, lr_Values = nil_slice vs\<rparr>) strings_rep"

definition LabelSelector_rep :: "(cell, m_LabelSelector, LabelSelector) rep" where
  "LabelSelector_rep =
     struct_rep (\<lambda>s. (mls_MatchLabels s, mls_MatchExpressions s)) (\<lambda>s (ls, es). \<lparr>ls_MatchLabels = ls, ls_MatchExpressions = es\<rparr>)
       (pair_rep map_rep (slice_rep as_requirements Requirement_rep))"

definition Spec_rep :: "(cell, m_ProblemEnvironmentSpec, ProblemEnvironmentSpec) rep" where
  "Spec_rep =
     struct_rep (\<lambda>s. (ms_ConfigFiles s, ms_WorkerSelectors s))
       (\<lambda>s (configs, selectors).
          \<lparr>pes_TopologyFile = ms_TopologyFile s, pes_ConfigFiles = nil_slice configs, pes_WorkerName = ms_WorkerName s,
           pes_WorkerSelectors = selectors\<rparr>)
       (pair_rep (slice_rep as_FileSource_array value_rep) (slice_rep as_LabelSelector_array LabelSelector_rep))"

definition Status_rep :: "(cell, m_ProblemEnvironmentStatus, ProblemEnvironmentStatus) rep" where
  "Status_rep =
     struct_rep (\<lambda>s. (mst_Containers s, mst_Conditions s))
       (\<lambda>s (containers, conditions).
          \<lparr>pest_Containers = containers, pest_Password = mst_Password s, pest_Conditions = nil_slice conditions\<rparr>)
       (pair_rep (slice_rep as_ContainerStatus_array value_rep) (slice_rep as_Condition_array value_rep))"

definition Environment_rep :: "(cell, m_ProblemEnvironment, TypeMeta \<times> ProblemEnvironment) rep" where
  "Environment_rep =
     struct_rep (\<lambda>e. (mpe_ObjectMeta e, mpe_Spec e, mpe_Status e))
       (\<lambda>e (meta, spec, status). (mpe_TypeMeta e, \<lparr>pe_ObjectMeta = meta, pe_Spec = spec, pe_Status = status\<rparr>))
       (pair_rep ObjectMeta_rep (pair_rep Spec_rep Status_rep))"

definition Template_rep :: "(cell, m_ProblemEnvironmentTemplate, ObjectMeta \<times> ProblemEnvironmentSpec) rep" where
  "Template_rep = struct_rep (\<lambda>t. (mt_ObjectMeta t, mt_Spec t)) (\<lambda>t v. v) (pair_rep ObjectMeta_rep Spec_rep)"

definition ProblemSpec_rep :: "(cell, m_ProblemSpec, (ObjectMeta \<times> ProblemEnvironmentSpec) option \<times> int) rep" where
  "ProblemSpec_rep =
     struct_rep mps_Template (\<lambda>s t. (t, mps_AssignableReplicas s)) (ptr_rep as_ProblemEnvironmentTemplate Template_rep)"

definition Problem_rep ::
    "(cell, m_Problem, TypeMeta \<times> ObjectMeta \<times> ((ObjectMeta \<times> ProblemEnvironmentSpec) option \<times> int) \<times> ProblemReplicas) rep" where
  "Problem_rep =
     struct_rep (\<lambda>p. (mp_ObjectMeta p, mp_Spec p)) (\<lambda>p (meta, spec). (mp_TypeMeta p, meta, spec, mps_Replicas (mp_Status p)))
       (pair_rep ObjectMeta_rep ProblemSpec_rep)"

definition WorkerStatus_rep :: "(cell, m_WorkerStatus, WorkerInfo \<times> Condition list) rep" where
  "WorkerStatus_rep =
     struct_rep mws_Conditions (\<lambda>s conditions. (mws_WorkerInfo s, nil_slice conditions)) (slice_rep as_Condition_array value_rep)"

definition Worker_rep :: "(cell, m_Worker, TypeMeta \<times> Worker) rep" where
  "Worker_rep =
     struct_rep (\<lambda>w. (mw_ObjectMeta w, mw_Status w))
       (\<lambda>w (meta, info, conditions).
          (mw_TypeMeta w,
           \<lparr>wk_ObjectMeta = meta, wk_DisableSchedule = mws_DisableSchedule (mw_Spec w), wk_WorkerInfo = info,
            wk_Conditions = conditions\<rparr>))
       (pair_rep ObjectMeta_rep WorkerStatus_rep)"

definition List_rep :: "(cell \<Rightarrow> 'a list option) \<Rightarrow> (cell, 'a, 'v) rep \<Rightarrow> (cell, m_List, TypeMeta \<times> (string \<times> int option) \<times> 'v list option) rep" where
  "List_rep prj A =
     struct_rep (\<lambda>l. (mi_ListMeta l, mi_Items l)) (\<lambda>l (meta, items). (mi_TypeMeta l, meta, items))
       (pair_rep ListMeta_rep (slice_rep prj A))"

section \<open>The contract of the library\<close>

text \<open>
  What the generated code relies on: apimachinery's own copiers copy, and \<^verbatim>\<open>ObjectMeta\<close>'s makes one new
  map for the labels and another for the annotations.
\<close>

locale k8s =
  fixes lib :: k8s_copiers
  assumes meta: "deep_copy ObjectMeta_rep (lib_ObjectMeta lib)"
    and list_meta: "deep_copy ListMeta_rep (lib_ListMeta lib)"
    and selector: "deep_copy LabelSelector_rep (lib_LabelSelector lib)"
    and condition: "deep_copy value_rep (lib_Condition lib)"
    and two_maps: "rw ObjectMeta_rep h m \<Longrightarrow> lib_ObjectMeta lib m h = (m', h') \<Longrightarrow> mm_Labels m' = Some l \<Longrightarrow>
      mm_Annotations m' \<noteq> Some l"
begin

lemma spec: "deep_copy Spec_rep (ProblemEnvironmentSpec_DeepCopyInto lib)"
  unfolding Spec_rep_def
  by (rule deep_copy_structI [where upd = "\<lambda>(configs, selectors) s. s\<lparr>ms_ConfigFiles := configs, ms_WorkerSelectors := selectors\<rparr>",
        OF deep_copy_pair [OF deep_copy_values [OF retract_FileSource_array, where zero = FileSource0]
          deep_copy_slice [OF selector retract_LabelSelector_array, where zero = m_LabelSelector0]]])
    (auto simp: ProblemEnvironmentSpec_DeepCopyInto_def copy_pair_def Let_def split: prod.splits)

lemma status: "deep_copy Status_rep (ProblemEnvironmentStatus_DeepCopyInto lib)"
  unfolding Status_rep_def
  by (rule deep_copy_structI [where upd = "\<lambda>(containers, conditions) s. s\<lparr>mst_Containers := containers, mst_Conditions := conditions\<rparr>",
        OF deep_copy_pair [OF deep_copy_values [OF retract_ContainerStatus_array, where zero = ContainerStatus0]
          deep_copy_slice [OF condition retract_Condition_array, where zero = Condition0]]])
    (auto simp: ProblemEnvironmentStatus_DeepCopyInto_def copy_pair_def Let_def split: prod.splits)

lemma environment: "deep_copy Environment_rep (ProblemEnvironment_DeepCopyInto lib)"
  unfolding Environment_rep_def
  by (rule deep_copy_structI [where upd = "\<lambda>(m, s, st) e. e\<lparr>mpe_ObjectMeta := m, mpe_Spec := s, mpe_Status := st\<rparr>",
        OF deep_copy_pair [OF meta deep_copy_pair [OF spec status]]])
    (auto simp: ProblemEnvironment_DeepCopyInto_def copy_pair_def Let_def split: prod.splits)

lemma template: "deep_copy Template_rep (ProblemEnvironmentTemplate_DeepCopyInto lib)"
  unfolding Template_rep_def
  by (rule deep_copy_structI [where upd = "\<lambda>(m, s) t. t\<lparr>mt_ObjectMeta := m, mt_Spec := s\<rparr>",
        OF deep_copy_pair [OF meta spec]])
    (auto simp: ProblemEnvironmentTemplate_DeepCopyInto_def copy_pair_def Let_def split: prod.splits)

lemma problem_spec: "deep_copy ProblemSpec_rep (ProblemSpec_DeepCopyInto lib)"
  unfolding ProblemSpec_rep_def
  by (rule deep_copy_structI [where upd = "\<lambda>t s. s\<lparr>mps_Template := t\<rparr>",
        OF deep_copy_ptr [OF template retract_ProblemEnvironmentTemplate, where zero = m_ProblemEnvironmentTemplate0]])
    (auto simp: ProblemSpec_DeepCopyInto_def copy_pair_def Let_def split: prod.splits)

lemma problem: "deep_copy Problem_rep (Problem_DeepCopyInto lib)"
  unfolding Problem_rep_def
  by (rule deep_copy_structI [where upd = "\<lambda>(m, s) p. p\<lparr>mp_ObjectMeta := m, mp_Spec := s\<rparr>",
        OF deep_copy_pair [OF meta problem_spec]])
    (auto simp: Problem_DeepCopyInto_def copy_pair_def Let_def split: prod.splits)

lemma worker_status: "deep_copy WorkerStatus_rep (WorkerStatus_DeepCopyInto lib)"
  unfolding WorkerStatus_rep_def
  by (rule deep_copy_structI [where upd = "\<lambda>c s. s\<lparr>mws_Conditions := c\<rparr>",
        OF deep_copy_slice [OF condition retract_Condition_array, where zero = Condition0]])
    (auto simp: WorkerStatus_DeepCopyInto_def copy_pair_def Let_def split: prod.splits)

lemma worker: "deep_copy Worker_rep (Worker_DeepCopyInto lib)"
  unfolding Worker_rep_def
  by (rule deep_copy_structI [where upd = "\<lambda>(m, st) w. w\<lparr>mw_ObjectMeta := m, mw_Status := st\<rparr>",
        OF deep_copy_pair [OF meta worker_status]])
    (auto simp: Worker_DeepCopyInto_def copy_pair_def Let_def split: prod.splits)

text \<open>The three lists: a list of elements that copy.\<close>

lemma items:
  assumes "deep_copy A c" "prj \<circ> mk = Some"
    "\<And>x h. copy x h =
       (case lib_ListMeta lib (mi_ListMeta x) h of (m, h) \<Rightarrow>
          case copy_slice mk prj zero c (mi_Items x) h of (is, h) \<Rightarrow> (x\<lparr>mi_ListMeta := m, mi_Items := is\<rparr>, h))"
  shows "deep_copy (List_rep prj A) copy"
  unfolding List_rep_def
  by (rule deep_copy_structI [where upd = "\<lambda>(m, is) l. l\<lparr>mi_ListMeta := m, mi_Items := is\<rparr>",
        OF deep_copy_pair [OF list_meta deep_copy_slice [OF assms(1,2), where zero = zero]]])
    (auto simp: assms(3) copy_pair_def split: prod.splits)

lemma environment_list: "deep_copy (List_rep as_ProblemEnvironment_array Environment_rep) (ProblemEnvironmentList_DeepCopyInto lib)"
  by (rule items [OF environment retract_ProblemEnvironment_array]) (simp add: ProblemEnvironmentList_DeepCopyInto_def Let_def split: prod.splits)

lemma problem_list: "deep_copy (List_rep as_Problem_array Problem_rep) (ProblemList_DeepCopyInto lib)"
  by (rule items [OF problem retract_Problem_array]) (simp add: ProblemList_DeepCopyInto_def Let_def split: prod.splits)

lemma worker_list: "deep_copy (List_rep as_Worker_array Worker_rep) (WorkerList_DeepCopyInto lib)"
  by (rule items [OF worker retract_Worker_array]) (simp add: WorkerList_DeepCopyInto_def Let_def split: prod.splits)

end

text \<open>The copies the controllers rely on, as instances of the contract.\<close>

sublocale k8s \<subseteq> meta_copy: deep_copy ObjectMeta_rep "lib_ObjectMeta lib"
  by (rule meta)

sublocale k8s \<subseteq> spec_copy: deep_copy Spec_rep "ProblemEnvironmentSpec_DeepCopyInto lib"
  by (rule spec)

sublocale k8s \<subseteq> template_copy: deep_copy Template_rep "ProblemEnvironmentTemplate_DeepCopyInto lib"
  by (rule template)

sublocale k8s \<subseteq> problem_copy: deep_copy Problem_rep "Problem_DeepCopyInto lib"
  by (rule problem)

context k8s
begin

text \<open>The copy of a template: its metadata and its spec share no cell, and its two maps are two.\<close>

lemma template_apart:
  assumes "rw Template_rep h x" "ProblemEnvironmentTemplate_DeepCopyInto lib x h = (y, h')"
  shows "rf ObjectMeta_rep h' (mt_ObjectMeta y) \<inter> rf Spec_rep h' (mt_Spec y) = {} \<and>
    (mm_Labels (mt_ObjectMeta y) = Some l \<longrightarrow> mm_Annotations (mt_ObjectMeta y) \<noteq> Some l)"
proof -
  obtain m h1 s where c: "lib_ObjectMeta lib (mt_ObjectMeta x) h = (m, h1)"
      "ProblemEnvironmentSpec_DeepCopyInto lib (mt_Spec x) h1 = (s, h')" "mt_ObjectMeta y = m" "mt_Spec y = s"
    using assms(2) by (auto simp: ProblemEnvironmentTemplate_DeepCopyInto_def Let_def split: prod.splits)
  have w: "rw ObjectMeta_rep h (mt_ObjectMeta x)" "rw Spec_rep h (mt_Spec x)"
    using assms(1) by (simp_all add: Template_rep_def struct_rep_def pair_rep_def)
  obtain e where m: "h1 = h @ e" "rw ObjectMeta_rep h1 m"
    using meta_copy.copied [OF w(1) c(1)] by blast
  then have "rw Spec_rep h1 (mt_Spec x)"
    using spec_copy.grows [OF w(2)] by simp
  from spec_copy.copied [OF this c(2)]
  obtain e' where s: "h' = h1 @ e'" "rf Spec_rep h' s \<inter> {..<length h1} = {}"
    by blast
  have "rf ObjectMeta_rep h' m \<subseteq> {..<length h1}"
    using meta_copy.grows [OF m(2)] meta_copy.inside [OF m(2)] s(1)
    by simp
  then show ?thesis
    using two_maps [OF w(1) c(1)] s(2) c(3,4) by auto
qed

end

section \<open>The contract holds for copiers written with the combinators\<close>

definition copy_map :: "(cell, addr option) copier" where
  "copy_map = copy_ptr (Lib \<circ> LMap) as_map Map.empty copy_value"

definition OwnerReference0 :: OwnerReference where
  "OwnerReference0 = \<lparr>or_Kind = '''', or_Name = '''', or_Controller = False\<rparr>"

definition m_Requirement0 :: m_LabelSelectorRequirement where
  "m_Requirement0 = \<lparr>mlr_Key = '''', mlr_Operator = '''', mlr_Values = None\<rparr>"

definition std_ObjectMeta :: "(cell, m_ObjectMeta) copier" where
  "std_ObjectMeta m h =
     (case copy_pair copy_map (copy_pair copy_map (copy_pair (copy_ptr (Lib \<circ> LTime) as_time 0 copy_value)
             (copy_pair (copy_values (Lib \<circ> LStrings) as_strings []) (copy_slice (Lib \<circ> LOwners) as_owners OwnerReference0 copy_value))))
           (mm_Labels m, mm_Annotations m, mm_DeletionTimestamp m, mm_Finalizers m, mm_OwnerReferences m) h of
        ((ls, as, del, fins, owners), h) \<Rightarrow>
          (m\<lparr>mm_Labels := ls, mm_Annotations := as, mm_DeletionTimestamp := del, mm_Finalizers := fins,
             mm_OwnerReferences := owners\<rparr>, h))"

definition std_ListMeta :: "(cell, m_ListMeta) copier" where
  "std_ListMeta m h =
     (case copy_ptr (Lib \<circ> LInt) as_int 0 copy_value (ml_RemainingItemCount m) h of
        (n, h) \<Rightarrow> (m\<lparr>ml_RemainingItemCount := n\<rparr>, h))"

definition std_Requirement :: "(cell, m_LabelSelectorRequirement) copier" where
  "std_Requirement r h =
     (case copy_values (Lib \<circ> LStrings) as_strings [] (mlr_Values r) h of (vs, h) \<Rightarrow> (r\<lparr>mlr_Values := vs\<rparr>, h))"

definition std_LabelSelector :: "(cell, m_LabelSelector) copier" where
  "std_LabelSelector s h =
     (case copy_pair copy_map (copy_slice (Lib \<circ> LRequirements) as_requirements m_Requirement0 std_Requirement)
           (mls_MatchLabels s, mls_MatchExpressions s) h of
        ((ls, es), h) \<Rightarrow> (s\<lparr>mls_MatchLabels := ls, mls_MatchExpressions := es\<rparr>, h))"

definition std_copiers :: k8s_copiers where
  "std_copiers =
     \<lparr>lib_ObjectMeta = std_ObjectMeta, lib_ListMeta = std_ListMeta, lib_LabelSelector = std_LabelSelector,
      lib_Condition = copy_value\<rparr>"

lemma copy_map_copies: "deep_copy map_rep copy_map"
  unfolding map_rep_def copy_map_def by (rule deep_copy_ptr [OF deep_copy_value retract_map])

lemma std_ObjectMeta_copies: "deep_copy ObjectMeta_rep std_ObjectMeta"
  unfolding ObjectMeta_rep_def strings_rep_def
  by (rule deep_copy_structI [where upd = "\<lambda>(ls, as, del, fins, owners) m. m\<lparr>mm_Labels := ls, mm_Annotations := as,
          mm_DeletionTimestamp := del, mm_Finalizers := fins, mm_OwnerReferences := owners\<rparr>",
        OF deep_copy_pair [OF copy_map_copies deep_copy_pair [OF copy_map_copies
            deep_copy_pair [OF deep_copy_ptr [OF deep_copy_value retract_time, where zero = 0]
              deep_copy_pair [OF deep_copy_values [OF retract_strings, where zero = "[]"]
                deep_copy_slice [OF deep_copy_value retract_owners, where zero = OwnerReference0]]]]]])
    (auto simp: std_ObjectMeta_def split: prod.splits)

lemma std_ListMeta_copies: "deep_copy ListMeta_rep std_ListMeta"
  unfolding ListMeta_rep_def
  by (rule deep_copy_structI [where upd = "\<lambda>n m. m\<lparr>ml_RemainingItemCount := n\<rparr>",
        OF deep_copy_ptr [OF deep_copy_value retract_int, where zero = 0]])
    (auto simp: std_ListMeta_def split: prod.splits)

lemma std_Requirement_copies: "deep_copy Requirement_rep std_Requirement"
  unfolding Requirement_rep_def strings_rep_def
  by (rule deep_copy_structI [where upd = "\<lambda>vs r. r\<lparr>mlr_Values := vs\<rparr>", OF deep_copy_values [OF retract_strings, where zero = "[]"]])
    (auto simp: std_Requirement_def split: prod.splits)

lemma std_LabelSelector_copies: "deep_copy LabelSelector_rep std_LabelSelector"
  unfolding LabelSelector_rep_def
  by (rule deep_copy_structI [where upd = "\<lambda>(ls, es) s. s\<lparr>mls_MatchLabels := ls, mls_MatchExpressions := es\<rparr>",
        OF deep_copy_pair [OF copy_map_copies
            deep_copy_slice [OF std_Requirement_copies retract_requirements, where zero = m_Requirement0]]])
    (auto simp: std_LabelSelector_def split: prod.splits)

lemma copy_map_new: "copy_map p h = (Some a, h') \<Longrightarrow> a = length h \<and> length h' = Suc (length h)"
  by (auto simp: copy_map_def copy_ptr_def copy_value_def Let_def split: option.splits)

lemma std_two_maps: "std_ObjectMeta m h = (m', h') \<Longrightarrow> mm_Labels m' = Some l \<Longrightarrow> mm_Annotations m' \<noteq> Some l"
proof -
  assume m': "std_ObjectMeta m h = (m', h')" "mm_Labels m' = Some l"
  obtain ls h1 as h2 where 1: "copy_map (mm_Labels m) h = (ls, h1)" and 2: "copy_map (mm_Annotations m) h1 = (as, h2)"
    by (metis surj_pair)
  with m' have "ls = Some l" "mm_Annotations m' = as"
    by (auto simp: std_ObjectMeta_def copy_pair_def split: prod.splits)
  with copy_map_new [of _ h l h1] copy_map_new [of _ h1 l h2] 1 2 show ?thesis
    by auto
qed

interpretation std: k8s std_copiers
  by (rule k8s.intro)
    (simp_all add: std_copiers_def std_ObjectMeta_copies std_ListMeta_copies std_LabelSelector_copies deep_copy_value std_two_maps)

section \<open>Copies are independent\<close>

lemma independent_ptr:
  "deep_copy A c \<Longrightarrow> prj \<circ> mk = Some \<Longrightarrow> independent_copy (ptr_rep prj A) (copy_ptr mk prj zero c)"
  by (rule deep_copy.independent) (rule deep_copy_ptr)

lemma values_copied:
  "deep_copy value_rep ConfigMapFileSource_DeepCopyInto"
  "deep_copy value_rep ContainerStatus_DeepCopyInto"
  "deep_copy value_rep FileSource_DeepCopyInto"
  "deep_copy value_rep ProblemReplicas_DeepCopyInto"
  "deep_copy value_rep ProblemStatus_DeepCopyInto"
  "deep_copy value_rep WorkerInfo_DeepCopyInto"
  "deep_copy value_rep WorkerSpec_DeepCopyInto"
  using deep_copy_value
  by (simp_all add: copy_value_def [abs_def] ConfigMapFileSource_DeepCopyInto_def [abs_def] ContainerStatus_DeepCopyInto_def [abs_def] FileSource_DeepCopyInto_def [abs_def] ProblemReplicas_DeepCopyInto_def [abs_def] ProblemStatus_DeepCopyInto_def [abs_def] WorkerInfo_DeepCopyInto_def [abs_def] WorkerSpec_DeepCopyInto_def [abs_def])

text \<open>
  C16. Every generated \<^verbatim>\<open>DeepCopy\<close> copies: the result has the value of the original, which keeps its
  own, and writes through the one are not seen through the other, for all eighteen types of the
  API, provided apimachinery's own copiers do the same.
\<close>

theorem DeepCopy_independent:
  assumes "k8s lib"
  shows
    "independent_copy (ptr_rep as_ConfigMapFileSource value_rep) ConfigMapFileSource_DeepCopy \<and>
     independent_copy (ptr_rep as_ContainerStatus value_rep) ContainerStatus_DeepCopy \<and>
     independent_copy (ptr_rep as_FileSource value_rep) FileSource_DeepCopy \<and>
     independent_copy (ptr_rep as_ProblemEnvironmentSpec Spec_rep) (ProblemEnvironmentSpec_DeepCopy lib) \<and>
     independent_copy (ptr_rep as_ProblemEnvironmentStatus Status_rep) (ProblemEnvironmentStatus_DeepCopy lib) \<and>
     independent_copy (ptr_rep as_ProblemEnvironmentTemplate Template_rep) (ProblemEnvironmentTemplate_DeepCopy lib) \<and>
     independent_copy (ptr_rep as_ProblemEnvironment Environment_rep) (ProblemEnvironment_DeepCopy lib) \<and>
     independent_copy (ptr_rep as_ProblemEnvironmentList (List_rep as_ProblemEnvironment_array Environment_rep)) (ProblemEnvironmentList_DeepCopy lib) \<and>
     independent_copy (ptr_rep as_ProblemReplicas value_rep) ProblemReplicas_DeepCopy \<and>
     independent_copy (ptr_rep as_ProblemSpec ProblemSpec_rep) (ProblemSpec_DeepCopy lib) \<and>
     independent_copy (ptr_rep as_ProblemStatus value_rep) ProblemStatus_DeepCopy \<and>
     independent_copy (ptr_rep as_Problem Problem_rep) (Problem_DeepCopy lib) \<and>
     independent_copy (ptr_rep as_ProblemList (List_rep as_Problem_array Problem_rep)) (ProblemList_DeepCopy lib) \<and>
     independent_copy (ptr_rep as_WorkerInfo value_rep) WorkerInfo_DeepCopy \<and>
     independent_copy (ptr_rep as_WorkerSpec value_rep) WorkerSpec_DeepCopy \<and>
     independent_copy (ptr_rep as_WorkerStatus WorkerStatus_rep) (WorkerStatus_DeepCopy lib) \<and>
     independent_copy (ptr_rep as_Worker Worker_rep) (Worker_DeepCopy lib) \<and>
     independent_copy (ptr_rep as_WorkerList (List_rep as_Worker_array Worker_rep)) (WorkerList_DeepCopy lib)"
  unfolding ConfigMapFileSource_DeepCopy_def ContainerStatus_DeepCopy_def FileSource_DeepCopy_def ProblemEnvironmentSpec_DeepCopy_def ProblemEnvironmentStatus_DeepCopy_def ProblemEnvironmentTemplate_DeepCopy_def ProblemEnvironment_DeepCopy_def ProblemEnvironmentList_DeepCopy_def ProblemReplicas_DeepCopy_def ProblemSpec_DeepCopy_def ProblemStatus_DeepCopy_def Problem_DeepCopy_def ProblemList_DeepCopy_def WorkerInfo_DeepCopy_def WorkerSpec_DeepCopy_def WorkerStatus_DeepCopy_def Worker_DeepCopy_def WorkerList_DeepCopy_def
  by (intro conjI independent_ptr values_copied
      k8s.spec [OF assms] k8s.status [OF assms] k8s.template [OF assms] k8s.environment [OF assms] k8s.environment_list [OF assms] k8s.problem_spec [OF assms] k8s.problem [OF assms] k8s.problem_list [OF assms] k8s.worker_status [OF assms] k8s.worker [OF assms] k8s.worker_list [OF assms]
      retract_ConfigMapFileSource retract_ContainerStatus retract_FileSource retract_ProblemEnvironmentSpec retract_ProblemEnvironmentStatus retract_ProblemEnvironmentTemplate retract_ProblemEnvironment retract_ProblemEnvironmentList retract_ProblemReplicas retract_ProblemSpec retract_ProblemStatus retract_Problem retract_ProblemList retract_WorkerInfo retract_WorkerSpec retract_WorkerStatus retract_Worker retract_WorkerList)

text \<open>A spec with one config file at address 1: the copy is at 2, its array at 3, and a write to 3 is not seen through 0.\<close>

definition sample_file :: FileSource where
  "sample_file = \<lparr>fs_ConfigMapRef = \<lparr>cmfs_Key = ''topology'', cmfs_Name = ''sample''\<rparr>\<rparr>"

definition spec_heap :: "cell heap" where
  "spec_heap =
     [Obj (SProblemEnvironmentSpec (m_ProblemEnvironmentSpec0\<lparr>ms_ConfigFiles := Some 1\<rparr>)), Arr (AFileSource [sample_file])]"

lemma spec_heap_simps:
  "ProblemEnvironmentSpec_DeepCopy std_copiers (Some 0) spec_heap =
     (Some 2, spec_heap @ [Obj (SProblemEnvironmentSpec (m_ProblemEnvironmentSpec0\<lparr>ms_ConfigFiles := Some 3\<rparr>)), Arr (AFileSource [sample_file])])"
  "rw (ptr_rep as_ProblemEnvironmentSpec Spec_rep) spec_heap (Some 0)"
  "map_option pes_ConfigFiles (rv (ptr_rep as_ProblemEnvironmentSpec Spec_rep) spec_heap (Some 0)) = Some [sample_file]"
  by (simp_all add: ProblemEnvironmentSpec_DeepCopy_def ProblemEnvironmentSpec_DeepCopyInto_def copy_ptr_def copy_values_def
      copy_slice_def spec_heap_def as_defs m_ProblemEnvironmentSpec0_def Spec_rep_def rep_defs nil_slice_def Let_def)

lemma spec_copy_rf:
  "3 \<in> rf (ptr_rep as_ProblemEnvironmentSpec Spec_rep)
     (spec_heap @ [Obj (SProblemEnvironmentSpec (m_ProblemEnvironmentSpec0\<lparr>ms_ConfigFiles := Some 3\<rparr>)), Arr (AFileSource [sample_file])]) (Some 2)"
  by (simp add: spec_heap_def as_defs m_ProblemEnvironmentSpec0_def Spec_rep_def rep_defs)

theorem DeepCopy_independent_witness:
  "k8s std_copiers \<and>
   map_option pes_ConfigFiles (rv (ptr_rep as_ProblemEnvironmentSpec Spec_rep)
     ((snd (ProblemEnvironmentSpec_DeepCopy std_copiers (Some 0) spec_heap))[3 := Arr (AFileSource [])]) (Some 0)) = Some [sample_file]"
proof -
  have "independent_copy (ptr_rep as_ProblemEnvironmentSpec Spec_rep) (ProblemEnvironmentSpec_DeepCopy std_copiers)"
    using DeepCopy_independent [OF std.k8s_axioms] by (elim conjE)
  with spec_heap_simps(1,2) only_writes_update [OF spec_copy_rf]
  show ?thesis
    unfolding independent_copy_def spec_heap_simps(3) [symmetric] by (metis snd_conv std.k8s_axioms)
qed

text \<open>A nil pointer gives the nil interface, never an interface that holds a nil pointer.\<close>

lemma DeepCopyObject_nil:
  "Problem_DeepCopyObject lib None h = (None, h)"
  "ProblemEnvironment_DeepCopyObject lib None h = (None, h)"
  "ProblemEnvironmentList_DeepCopyObject lib None h = (None, h)"
  "ProblemList_DeepCopyObject lib None h = (None, h)"
  "Worker_DeepCopyObject lib None h = (None, h)"
  "WorkerList_DeepCopyObject lib None h = (None, h)"
  by (simp_all add: Problem_DeepCopyObject_def ProblemEnvironment_DeepCopyObject_def ProblemEnvironmentList_DeepCopyObject_def
      ProblemList_DeepCopyObject_def Worker_DeepCopyObject_def WorkerList_DeepCopyObject_def as_object_def Problem_DeepCopy_def
      ProblemEnvironment_DeepCopy_def ProblemEnvironmentList_DeepCopy_def ProblemList_DeepCopy_def Worker_DeepCopy_def
      WorkerList_DeepCopy_def copy_ptr_def)

section \<open>The new environment of a Problem, in place\<close>

text \<open>
  \<^verbatim>\<open>Reconcile\<close> of the Problem controller builds the new environment from a deep copy of the template and
  then writes the label of the Problem into the map it shares with that copy.
\<close>

definition map_assign :: "addr option \<Rightarrow> string \<Rightarrow> string \<Rightarrow> cell heap \<Rightarrow> cell heap go" where
  "map_assign m k v h =
     (case m of
        None \<Rightarrow> Panic ''assignment to entry in nil map''
      | Some a \<Rightarrow> (case as_map (h ! a) of None \<Rightarrow> Ret h | Some f \<Rightarrow> Ret (h[a := Lib (LMap (f(k \<mapsto> v)))])))"

definition new_environment_in_place :: "k8s_copiers \<Rightarrow> m_Problem \<Rightarrow> cell heap \<Rightarrow> (m_ProblemEnvironment \<times> cell heap) go" where
  "new_environment_in_place lib problem h =
     (case ProblemEnvironmentTemplate_DeepCopy lib (mps_Template (mp_Spec problem)) h of
        (p, h) \<Rightarrow>
          (case Option.bind p (\<lambda>a. as_ProblemEnvironmentTemplate (h ! a)) of
             None \<Rightarrow> Panic ''invalid memory address or nil pointer dereference''
           | Some template \<Rightarrow>
               (let meta = m_ObjectMeta0\<lparr>mm_Labels := mm_Labels (mt_ObjectMeta template),
                                        mm_Annotations := mm_Annotations (mt_ObjectMeta template),
                                        mm_Namespace := mm_Namespace (mp_ObjectMeta problem),
                                        mm_GenerateName := mm_Name (mp_ObjectMeta problem) @ ''-''\<rparr>;
                    newProbEnv = m_ProblemEnvironment0\<lparr>mpe_ObjectMeta := meta, mpe_Spec := mt_Spec template\<rparr>;
                    (newProbEnv, h) =
                      (if mm_Labels meta = None
                       then (newProbEnv\<lparr>mpe_ObjectMeta := meta\<lparr>mm_Labels := Some (length h)\<rparr>\<rparr>, h @ [Lib (LMap Map.empty)])
                       else (newProbEnv, h))
                in case map_assign (mm_Labels (mpe_ObjectMeta newProbEnv)) KeyProblemName (mm_Name (mp_ObjectMeta problem)) h of
                     Panic m \<Rightarrow> Panic m
                   | Ret h \<Rightarrow> Ret (newProbEnv, h))))"

text \<open>The Problem of \<open>Api_Types\<close> that a Problem in memory stands for.\<close>

fun template_view :: "ObjectMeta \<times> ProblemEnvironmentSpec \<Rightarrow> ProblemEnvironmentTemplate" where
  "template_view (m, s) = \<lparr>pet_Labels = om_Labels m, pet_Annotations = om_Annotations m, pet_Spec = s\<rparr>"

definition problem_view :: "cell heap \<Rightarrow> m_Problem \<Rightarrow> Problem" where
  "problem_view h problem =
     (case rv Problem_rep h problem of
        (_, m, (t, n), r) \<Rightarrow>
          \<lparr>pr_ObjectMeta = m, pr_Spec = \<lparr>prs_Template = map_option template_view t, prs_AssignableReplicas = n\<rparr>, pr_Replicas = r\<rparr>)"

lemma map_rep_simps [simp]:
  "rv map_rep h None = None" "rw map_rep h None" "rv map_rep h (Some a) = as_map (h ! a)"
  "rw map_rep h (Some a) \<longleftrightarrow> a < length h \<and> as_map (h ! a) \<noteq> None" "rf map_rep h p = set_option p"
  by (auto simp: map_rep_def rep_defs map_option_case split: option.splits)

interpretation labels: framed map_rep
  unfolding map_rep_def by (intro framed_ptr framed_value)

text \<open>The copied template, as the construction uses it.\<close>

lemma copied_template:
  assumes "k8s lib" "rw (ptr_rep as_ProblemEnvironmentTemplate Template_rep) h (Some a)"
    "ProblemEnvironmentTemplate_DeepCopy lib (Some a) h = (q, h1)"
  obtains b t where "q = Some b" "as_ProblemEnvironmentTemplate (h1 ! b) = Some t" "rw Template_rep h1 t"
    "Some (rv Template_rep h1 t) = rv (ptr_rep as_ProblemEnvironmentTemplate Template_rep) h (Some a)"
    "rf Template_rep h1 t \<inter> {..<length h} = {}" "\<exists>ext. h1 = h @ ext"
    "rf ObjectMeta_rep h1 (mt_ObjectMeta t) \<inter> rf Spec_rep h1 (mt_Spec t) = {}"
    "\<And>l. mm_Labels (mt_ObjectMeta t) = Some l \<Longrightarrow> mm_Annotations (mt_ObjectMeta t) \<noteq> Some l"
proof -
  let ?mk = "Obj \<circ> SProblemEnvironmentTemplate" and ?n = "length h"
  obtain x where x: "as_ProblemEnvironmentTemplate (h ! a) = Some x" "rw Template_rep h x"
    using assms(2) by (auto simp: ptr_rep_def split: option.splits)
  define h0 where "h0 = h @ [?mk m_ProblemEnvironmentTemplate0]"
  obtain y H where y: "ProblemEnvironmentTemplate_DeepCopyInto lib x h0 = (y, H)" "q = Some ?n" "h1 = H[?n := ?mk y]"
    using assms(3) x(1) by (auto simp: ProblemEnvironmentTemplate_DeepCopy_def copy_ptr_def h0_def Let_def split: prod.splits)
  have w: "rw Template_rep h0 x" "rv Template_rep h0 x = rv Template_rep h x"
    using std.template_copy.grows [OF x(2)] by (simp_all add: h0_def)
  obtain ext where H: "H = h0 @ ext" "rw Template_rep H y" "rv Template_rep H y = rv Template_rep h x"
      "rf Template_rep H y \<inter> {..<length h0} = {}"
    using deep_copy.copied [OF k8s.template [OF assms(1)] w(1) y(1)] w(2) by auto
  then have new: "rf Template_rep H y \<subseteq> {?n<..}"
    by (fastforce simp: h0_def)
  have parts: "rw ObjectMeta_rep H (mt_ObjectMeta y)" "rw Spec_rep H (mt_Spec y)"
      "rf ObjectMeta_rep H (mt_ObjectMeta y) \<subseteq> {?n<..}" "rf Spec_rep H (mt_Spec y) \<subseteq> {?n<..}"
    using H(2) new by (auto simp: Template_rep_def struct_rep_def pair_rep_def)
  have same: "rw Template_rep h1 y" "rv Template_rep h1 y = rv Template_rep h x" "rf Template_rep h1 y = rf Template_rep H y"
      "rf ObjectMeta_rep h1 (mt_ObjectMeta y) = rf ObjectMeta_rep H (mt_ObjectMeta y)"
      "rf Spec_rep h1 (mt_Spec y) = rf Spec_rep H (mt_Spec y)"
    using std.template_copy.above [OF H(2) new, of "[]" "?mk y"] std.spec_copy.above [OF parts(2,4), of "[]" "?mk y"]
      std.meta_copy.above [OF parts(1,3), of "[]" "?mk y"] H(3) y(3) by simp_all
  have h1: "h1 = h @ [?mk y] @ ext"
    using y(3) H(1) by (simp add: h0_def)
  show thesis
  proof (rule that [of ?n y])
    show "as_ProblemEnvironmentTemplate (h1 ! ?n) = Some y"
      using fun_cong [OF retract_ProblemEnvironmentTemplate, of y] h1 by (simp add: nth_append)
    show "Some (rv Template_rep h1 y) = rv (ptr_rep as_ProblemEnvironmentTemplate Template_rep) h (Some a)"
      using same(2) x(1) by (simp add: ptr_rep_def)
    show "rf Template_rep h1 y \<inter> {..<?n} = {}"
      using new same(3) by auto
  qed (use same y(2) h1 k8s.template_apart [OF assms(1) w(1) y(1)] in auto)
qed

text \<open>
  The write of the label: whether the map is the template's or a new one, it holds the template's
  labels and the new one, and neither the spec, the annotations nor anything below \<open>n\<close> changes.
\<close>

lemma label_written:
  assumes t: "rw Template_rep h1 t" "rf ObjectMeta_rep h1 (mt_ObjectMeta t) \<inter> rf Spec_rep h1 (mt_Spec t) = {}"
      "\<And>l. mm_Labels (mt_ObjectMeta t) = Some l \<Longrightarrow> mm_Annotations (mt_ObjectMeta t) \<noteq> Some l"
      "rf Template_rep h1 t \<inter> {..<n} = {}" "n \<le> length h1"
    and l: "(l, H) = (case mm_Labels (mt_ObjectMeta t) of
        None \<Rightarrow> (length h1, h1 @ [Lib (LMap Map.empty)]) | Some l \<Rightarrow> (l, h1))"
  obtains f where "as_map (H ! l) = Some f"
    "f = (case om_Labels (fst (rv Template_rep h1 t)) of None \<Rightarrow> Map.empty | Some f \<Rightarrow> f)"
    "\<And>c. l < length (H[l := c]) \<and> (H[l := c]) ! l = c" "\<And>c. same_on {..<n} h1 (H[l := c])"
    "\<And>c. rw Spec_rep (H[l := c]) (mt_Spec t) \<and> rv Spec_rep (H[l := c]) (mt_Spec t) = snd (rv Template_rep h1 t)"
    "\<And>c. rw map_rep (H[l := c]) (mm_Annotations (mt_ObjectMeta t)) \<and>
       rv map_rep (H[l := c]) (mm_Annotations (mt_ObjectMeta t)) = om_Annotations (fst (rv Template_rep h1 t))"
proof -
  let ?m = "mt_ObjectMeta t"
  have v: "rv Template_rep h1 t = (rv ObjectMeta_rep h1 ?m, rv Spec_rep h1 (mt_Spec t))"
    by (simp add: Template_rep_def struct_rep_def pair_rep_def)
  have w: "rw Spec_rep h1 (mt_Spec t)" "rw map_rep h1 (mm_Annotations ?m)" "rw map_rep h1 (mm_Labels ?m)"
    using t(1) by (simp_all add: Template_rep_def ObjectMeta_rep_def struct_rep_def pair_rep_def)
  have vm: "om_Labels (rv ObjectMeta_rep h1 ?m) = rv map_rep h1 (mm_Labels ?m)"
      "om_Annotations (rv ObjectMeta_rep h1 ?m) = rv map_rep h1 (mm_Annotations ?m)"
    by (simp_all add: ObjectMeta_rep_def struct_rep_def pair_rep_def)
  show thesis
  proof (cases "mm_Labels ?m")
    case None
    then have H: "l = length h1" "H = h1 @ [Lib (LMap Map.empty)]"
      using l by simp_all
    have e: "H[l := c] = h1 @ [c]" for c
      by (simp add: H)
    show thesis
      by (rule that [of Map.empty])
        (use std.spec_copy.grows [OF w(1)] labels.grows [OF w(2)] t(5) in
          \<open>simp_all add: e v vm None same_on_append H as_map_def\<close>)
  next
    case (Some a)
    then have H: "l = a" "H = h1"
      using l by simp_all
    obtain f where f: "as_map (h1 ! a) = Some f" "a < length h1"
      using w(3) Some by auto
    have in_m: "a \<in> rf ObjectMeta_rep h1 ?m"
      by (simp add: ObjectMeta_rep_def struct_rep_def pair_rep_def Some)
    have "a \<notin> rf Spec_rep h1 (mt_Spec t)" "a \<notin> {..<n}"
      using in_m t(2,4) by (auto simp: Template_rep_def struct_rep_def pair_rep_def)
    moreover have "a \<notin> rf map_rep h1 (mm_Annotations ?m)"
      using t(3) [OF Some] by (cases "mm_Annotations ?m") simp_all
    ultimately show thesis
      by (intro that [of f])
        (use std.spec_copy.update_outside [OF w(1)] labels.update_outside [OF w(2)] t(5) f in
          \<open>simp_all add: v vm H Some same_on_update\<close>)
  qed
qed

lemma problem_view_simps:
  "pr_Name (problem_view h problem) = mm_Name (mp_ObjectMeta problem)"
  "pr_Namespace (problem_view h problem) = mm_Namespace (mp_ObjectMeta problem)"
  "prs_Template (pr_Spec (problem_view h problem)) =
     map_option template_view (rv (ptr_rep as_ProblemEnvironmentTemplate Template_rep) h (mps_Template (mp_Spec problem)))"
  "rw Problem_rep h problem \<Longrightarrow> rw (ptr_rep as_ProblemEnvironmentTemplate Template_rep) h (mps_Template (mp_Spec problem))"
  by (simp_all add: problem_view_def Problem_rep_def ProblemSpec_rep_def ObjectMeta_rep_def struct_rep_def pair_rep_def)

lemma new_environment_view:
  assumes "l < length h" "as_map (h ! l) = Some f" "rw Spec_rep h s" "rw map_rep h as"
  shows "rw Environment_rep h (m_ProblemEnvironment0\<lparr>mpe_ObjectMeta := m_ObjectMeta0\<lparr>mm_Labels := Some l, mm_Annotations := as,
        mm_Namespace := ns, mm_GenerateName := g\<rparr>, mpe_Spec := s\<rparr>) \<and>
    snd (rv Environment_rep h (m_ProblemEnvironment0\<lparr>mpe_ObjectMeta := m_ObjectMeta0\<lparr>mm_Labels := Some l, mm_Annotations := as,
        mm_Namespace := ns, mm_GenerateName := g\<rparr>, mpe_Spec := s\<rparr>)) =
      ProblemEnvironment0\<lparr>pe_ObjectMeta := ObjectMeta0\<lparr>om_Labels := Some f, om_Annotations := rv map_rep h as, om_Namespace := ns,
        om_GenerateName := g\<rparr>, pe_Spec := rv Spec_rep h s\<rparr>"
  using assms
  by (simp add: Environment_rep_def ObjectMeta_rep_def Status_rep_def strings_rep_def struct_rep_def pair_rep_def ptr_rep_def
      nil_slice_def m_ProblemEnvironment0_def m_ObjectMeta0_def m_ProblemEnvironmentStatus0_def ProblemEnvironment0_def ObjectMeta0_def)

text \<open>
  C15. The creation branch of the Problem controller, which works in memory on a deep copy of the
  template, computes the environment of the value-level model, and the Problem the cache handed out
  has the value it had: the label is not written into the Problem's own template. Without a template
  it panics.
\<close>

theorem new_environment_in_place_refines:
  assumes "k8s lib" "rw Problem_rep h problem"
  shows "case prs_Template (pr_Spec (problem_view h problem)) of
      None \<Rightarrow> new_environment_in_place lib problem h = Panic ''invalid memory address or nil pointer dereference''
    | Some template \<Rightarrow>
        \<exists>pe h'. new_environment_in_place lib problem h = Ret (pe, h') \<and> rw Environment_rep h' pe \<and>
          snd (rv Environment_rep h' pe) = new_environment (problem_view h problem) template \<and>
          problem_view h' problem = problem_view h problem"
proof (cases "mps_Template (mp_Spec problem)")
  case None
  then show ?thesis
    by (simp add: problem_view_simps ptr_rep_def new_environment_in_place_def ProblemEnvironmentTemplate_DeepCopy_def copy_ptr_def)
next
  case (Some a)
  let ?p = "mps_Template (mp_Spec problem)" and ?R = "ptr_rep as_ProblemEnvironmentTemplate Template_rep"
  obtain q h1 where q: "ProblemEnvironmentTemplate_DeepCopy lib ?p h = (q, h1)"
    by fastforce
  have w: "rw ?R h (Some a)"
    using problem_view_simps(4) [OF assms(2)] Some by simp
  show ?thesis
  proof (rule copied_template [OF assms(1) w q [unfolded Some]], goal_cases)
    case (1 b t)
    note t = 1
    have n: "length h \<le> length h1"
      using t(6) by auto
    obtain l H where l: "(l, H) = (case mm_Labels (mt_ObjectMeta t) of
        None \<Rightarrow> (length h1, h1 @ [Lib (LMap Map.empty)]) | Some l \<Rightarrow> (l, h1))"
      by (metis surj_pair)
    show ?case
    proof (rule label_written [OF t(3,7,8,5) n l], goal_cases)
      case (2 f)
      note f = 2
      let ?c = "Lib (LMap (f(KeyProblemName \<mapsto> mm_Name (mp_ObjectMeta problem))))"
      let ?pe = "m_ProblemEnvironment0\<lparr>mpe_ObjectMeta := m_ObjectMeta0\<lparr>mm_Labels := Some l,
          mm_Annotations := mm_Annotations (mt_ObjectMeta t), mm_Namespace := mm_Namespace (mp_ObjectMeta problem),
          mm_GenerateName := mm_Name (mp_ObjectMeta problem) @ ''-''\<rparr>, mpe_Spec := mt_Spec t\<rparr>"
      have "new_environment_in_place lib problem h = Ret (?pe, H[l := ?c])"
        using q t(1,2) l f(1) by (cases "mm_Labels (mt_ObjectMeta t)") (simp_all add: new_environment_in_place_def map_assign_def)
      moreover have "same_on {..<length h} h (H[l := ?c])"
        using t(6) f(4) same_on_trans same_on_append [of "{..<length h}" h] by blast
      then have "problem_view (H[l := ?c]) problem = problem_view h problem"
        using std.problem_copy.below [OF assms(2)] by (simp add: problem_view_def)
      moreover have "rw Environment_rep (H[l := ?c]) ?pe \<and> snd (rv Environment_rep (H[l := ?c]) ?pe) =
          new_environment (problem_view h problem) (template_view (rv Template_rep h1 t))"
        using new_environment_view [of l "H[l := ?c]" "f(KeyProblemName \<mapsto> mm_Name (mp_ObjectMeta problem))"] f(2) f(3,5,6) [of ?c]
        by (cases "rv Template_rep h1 t") (simp add: new_environment_def problem_view_simps as_map_def)
      moreover have "prs_Template (pr_Spec (problem_view h problem)) = Some (template_view (rv Template_rep h1 t))"
        by (simp add: problem_view_simps Some flip: t(4))
      ultimately show ?case
        by (simp only: option.case) blast
    qed (use t(8) in blast)
  qed
qed

text \<open>A Problem whose template, at address 0, has a label in the map at address 1.\<close>

definition template_heap :: "cell heap" where
  "template_heap =
     [Obj (SProblemEnvironmentTemplate (m_ProblemEnvironmentTemplate0\<lparr>mt_ObjectMeta := m_ObjectMeta0\<lparr>mm_Labels := Some 1\<rparr>\<rparr>)),
      Lib (LMap [''round'' \<mapsto> ''final''])]"

definition sample_problem :: m_Problem where
  "sample_problem =
     m_Problem0\<lparr>mp_ObjectMeta := m_ObjectMeta0\<lparr>mm_Name := ''bgp''\<rparr>,
               mp_Spec := \<lparr>mps_Template = Some 0, mps_AssignableReplicas = 1\<rparr>\<rparr>"

lemma template_heap_simps:
  "rw Problem_rep template_heap sample_problem"
  "prs_Template (pr_Spec (problem_view template_heap sample_problem)) =
     Some \<lparr>pet_Labels = Some [''round'' \<mapsto> ''final''], pet_Annotations = None, pet_Spec = pe_Spec ProblemEnvironment0\<rparr>"
  "pr_Name (problem_view template_heap sample_problem) = ''bgp''"
  by (simp_all add: template_heap_def sample_problem_def problem_view_def Problem_rep_def ProblemSpec_rep_def Template_rep_def
      Spec_rep_def ObjectMeta_rep_def strings_rep_def rep_defs nil_slice_def m_Problem0_def m_ObjectMeta0_def
      m_ProblemEnvironmentTemplate0_def m_ProblemEnvironmentSpec0_def ProblemEnvironment0_def FileSource0_def
      ConfigMapFileSource0_def as_defs map_rep_def)

theorem new_environment_in_place_refines_witness:
  "\<exists>pe h'. new_environment_in_place std_copiers sample_problem template_heap = Ret (pe, h') \<and>
     om_Labels (pe_ObjectMeta (snd (rv Environment_rep h' pe))) = Some [''round'' \<mapsto> ''final'', ''problemName'' \<mapsto> ''bgp''] \<and>
     prs_Template (pr_Spec (problem_view h' sample_problem)) =
       Some \<lparr>pet_Labels = Some [''round'' \<mapsto> ''final''], pet_Annotations = None, pet_Spec = pe_Spec ProblemEnvironment0\<rparr>"
  using new_environment_in_place_refines [OF std.k8s_axioms template_heap_simps(1)]
  by (auto simp: template_heap_simps new_environment_def KeyProblemName_def)

end
