(* ===== verification/Spec2Isabelle.thy ===== *)
theory Spec2Isabelle
  imports Webhook Conditions Metrics_Exporter System Progress Nclet_Main Ssh_Access Ssh_Login Cloud_Logging Deep_Copy
begin

text \<open>
  Verification of the NETCON problem management subsystem: the Kubernetes controllers, the worker
  agent and the tools with which NETCON hands network problems to participants.

  \<^bold>\<open>The program and how its parts interact.\<close> A Problem asks for a number of assignable
  ProblemEnvironments. The \<^emph>\<open>controller manager\<close> keeps that number, elects a Worker for each
  environment, draws its password and watches readiness; \<^emph>\<open>nclet\<close>, the agent on every worker,
  deploys the environments bound to it with ContainerLab, reports their containers, sends
  heartbeats and runs an SSH server; the \<^emph>\<open>gateway\<close> assigns and releases environments over HTTP;
  operators use \<^emph>\<open>kubectl-netcon\<close>; a participant who logs in gets \<^emph>\<open>access-helper\<close>, which connects
  to the nodes. All of them talk through objects of the API server only.

  \<^bold>\<open>The models.\<close> A handler is a function from the state it reads to its result and the state it
  leaves. Errors are values (\<open>or_error\<close>, \<open>error option\<close>), a Go panic is \<open>Panic\<close> of the type
  \<open>go\<close>; loops are structural recursion or \<open>function\<close> with a measure; loops over channels run on
  the list of received events. Numbers have their width where it matters (ports 16 bits, SSH
  lengths, terminal flags and lease durations 32 bits, durations 64 bits). Floating point is an
  arbitrary arithmetic \<open>float_ops\<close>, instantiated by the reals where a statement is about numbers.

  \<^enum> \<open>Prelude\<close>, \<open>Api_Types\<close>: errors, results, strings, the resources (\<^verbatim>\<open>api/v1alpha1/*_types.go\<close>).
  \<^enum> \<open>Webhook\<close> (\<^verbatim>\<open>*_webhook.go\<close>), \<open>Conditions\<close> (\<^verbatim>\<open>pkg/util/condition.go\<close>), \<open>Password\<close>
    (\<^verbatim>\<open>pkg/crypto\<close>).
  \<^enum> \<open>Kube_Client\<close>: the client as a record of functions on a world of any type and, as locales, what
    the API server promises (\<open>kube_api\<close>: optimistic locking, finalizers, the webhook;
    \<open>worker_writes\<close>: writes of Workers leave environments alone; with stale reads
    \<open>versioned_reads\<close>, with consistent ones \<open>consistent_reads\<close>, accepting valid requests
    \<open>reliable_api\<close>). \<open>Kube_Store\<close> is an executable server that satisfies all of it, \<open>Samples\<close>
    holds concrete objects, \<open>Kube_Lift\<close> adds a host to the world.
  \<^enum> \<open>Lifecycle\<close>: the abstract protocol on one environment, its reachable phases and invariant.
  \<^enum> \<open>Scheduler\<close>, \<open>Pe_Controller\<close>, \<open>Problem_Controller\<close>, \<open>Worker_Controller\<close>, \<open>Metrics_Exporter\<close>
    (\<^verbatim>\<open>controllers/controller-manager\<close>), \<open>Gateway\<close> with its routes (\<^verbatim>\<open>controllers/gateway\<close>),
    \<open>Startup\<close> (\<^verbatim>\<open>cmd/controller-manager\<close>, \<^verbatim>\<open>cmd/gateway\<close>, the \<^verbatim>\<open>SetupWithManager\<close> methods),
    \<open>Cloud_Logging\<close> (\<^verbatim>\<open>pkg/log\<close>).
  \<^enum> \<open>Go_Heap\<close>: heaps with aliasing, what a struct in memory stands for, and the contract of a deep
    copy as a locale. \<open>Deep_Copy\<close>: all generated copies (\<^verbatim>\<open>zz_generated.deepcopy.go\<close>) and, in
    place, the creation branch of the Problem controller.
  \<^enum> \<open>Containerlab\<close> (\<^verbatim>\<open>pkg/containerlab\<close>), \<open>Driver\<close> (\<^verbatim>\<open>controllers/nclet/drivers\<close>) with the
    contract of a driver as a locale, \<open>Nclet_Controller\<close>, \<open>Heartbeat\<close>, \<open>Nclet_Ssh\<close>
    (\<^verbatim>\<open>controllers/nclet\<close>), \<open>Nclet_Main\<close> (\<^verbatim>\<open>cmd/nclet/main.go\<close>).
  \<^enum> \<open>Ssh_Wire\<close>, \<open>Ssh_Server\<close>, \<open>Ssh_Session\<close>, \<open>Ssh_Access\<close> (\<^verbatim>\<open>internal/ssh\<close>), \<open>Tracing\<close>
    (\<^verbatim>\<open>internal/tracing\<close>).
  \<^enum> \<open>Node_Access\<close>, \<open>Access_Helper\<close> (\<^verbatim>\<open>cmd/access-helper\<close>); \<open>Ssh_Login\<close>: the command line that
    nclet builds, read by access-helper.
  \<^enum> \<open>Clientset\<close> (\<^verbatim>\<open>pkg/clientset\<close>), \<open>Deploy_Log\<close>, \<open>Printers\<close>, \<open>Kubectl\<close>, \<open>Kubectl_Cli\<close>
    (\<^verbatim>\<open>pkg/kubectl-netcon\<close>, \<^verbatim>\<open>pkg/printers\<close>, \<^verbatim>\<open>cmd/kubectl-netcon\<close>).
  \<^enum> \<open>System\<close>: the programs as one transition system. \<open>Progress\<close>: the way
    of a new environment to readiness. This theory: the properties that span components.

  \<^bold>\<open>What is shown.\<close> Every handler that writes environments makes steps of the protocol, whatever
  the server answers and however stale its reads are; hence the invariant of the protocol holds in
  every run of the system (C1). With a reliable server and a driver that deploys, a new environment
  becomes ready and assignable (C2). Beyond that, per component: progress of each handler;
  soundness, completeness and distribution of the election, and what the default flags make of it;
  convergence of the number of environments and safety of scale-down; no double assignment; that a
  finalizer goes only after a successful destroy; exact metrics, HTTP statuses and conditions; who
  is let in by the SSH server and what a session can start; the wait groups of the server; bounds
  of the wire parsers; that access-helper ends, hides reserved nodes and gives the terminal back.
  Objects are values in all of these models. That this is right where the code shares memory is the
  subject of \<open>Deep_Copy\<close>: copies are independent of their originals, and the one place that writes
  into an object built from a cached one refines its value-level model.
  Some theorems state what the code does where that differs from its purpose; the manifest lists
  them as findings.

  \<^bold>\<open>Parameters and hypotheses.\<close> The API server, the manager of controller-runtime, chi, cobra, the
  copiers of apimachinery, the OpenTelemetry SDK, the ContainerLab and docker commands, YAML, JSON,
  logfmt, the SSH protocol, \<^verbatim>\<open>ioctl\<close>, \<^verbatim>\<open>CreateOrUpdate\<close>, clocks and random sources are parameters
  of the definitions that use them. What is assumed of them is their documented behaviour: the laws
  of the locales (\<open>router\<close> for chi, \<open>k8s\<close> for the copiers), \<open>cobra_contract\<close>, \<open>flags_contract\<close>,
  \<open>rand_in_range\<close>, \<open>sets_controller_reference\<close>, \<open>writes_lease\<close>, \<open>quiet\<close>. Every property with
  hypotheses has a witness on \<open>mem_client\<close> or another concrete instance. No definition of
  program code takes fuel.

  \<^bold>\<open>Not modelled.\<close> Scheme registration and the type aliases of \<^verbatim>\<open>internal/ssh/wrap.go\<close>, which have
  no behaviour of their own; the destination of log messages; attributes and events of spans; and
  the copying of bytes between terminals and channels, which is I/O.
\<close>

section \<open>The whole system\<close>

text \<open>
  C1. The system keeps its invariant. Let the reconcilers and the monitor of the controller manager,
  the nclets with their heartbeats, any HTTP requests to the gateway and any command lines of the
  operators run in any order, each on possibly stale reads: every environment that is then stored
  is in a phase that the lifecycle protocol reaches from a fresh one. In particular a scheduled environment is bound to a worker and has a password of 24 alphanumeric
  characters, one that is not scheduled has no password, no containers and no other condition,
  and one that is deployed and not being deleted carries the finalizer of nclet.
\<close>

theorem system_keeps_invariant:
  assumes "connected s contents ok" "ok w" "store_reachable (contents w)" "(system_step s)\<^sup>*\<^sup>* w w'"
  shows "ok w' \<and> store_reachable (contents w') \<and>
    (\<forall>pe \<in> set (contents w').
       (ph_scheduled (phase_of pe) = ConditionTrue \<longrightarrow>
          ph_worker (phase_of pe) \<noteq> '''' \<and> length (ph_password (phase_of pe)) = 24 \<and> alnum_string (ph_password (phase_of pe))) \<and>
       (ph_scheduled (phase_of pe) \<noteq> ConditionTrue \<longrightarrow>
          ph_password (phase_of pe) = '''' \<and> ph_containers (phase_of pe) = None \<and>
          ph_deployed (phase_of pe) = ConditionUnknown \<and> ph_ready (phase_of pe) = ConditionUnknown \<and>
          ph_assigned (phase_of pe) = ConditionUnknown) \<and>
       (ph_deployed (phase_of pe) = ConditionTrue \<longrightarrow> \<not> ph_deleting (phase_of pe) \<longrightarrow> ph_finalizer (phase_of pe)))"
proof -
  have run: "ok w'" "world_step\<^sup>*\<^sup>* (contents w) (contents w')"
    using system_run_world [OF assms(4,1,2)] by simp_all
  have st: "store_reachable (contents w')"
    by (rule store_reachable_steps [OF run(2) assms(3)])
  have "phase_inv (phase_of pe)" if "pe \<in> set (contents w')" for pe
    using st that phase_inv_reachable by (simp add: store_reachable_def)
  then show ?thesis
    using run(1) st unfolding phase_inv_def good_password_def by blast
qed

theorem system_keeps_invariant_witness:
  "\<exists>w'. (system_step sample_system)\<^sup>*\<^sup>* (sample_world [sample_new]) w' \<and>
     w' = snd (cm_Reconcile (sample_runtime\<lparr>rt_rand_Int := sample_random\<rparr>) sample_reconciler (''netcon'', ''abc-1'') (sample_world [sample_new])) \<and>
     store_reachable (km_pes w')"
proof -
  let ?w = "sample_world [sample_new]"
  let ?rt = "sample_runtime\<lparr>rt_rand_Int := sample_random\<rparr>"
  obtain out w' where run: "cm_Reconcile ?rt sample_reconciler (''netcon'', ''abc-1'') ?w = (out, w')"
    by fastforce
  have "mem_ok ?w" "fresh_phase (phase_of sample_new)"
    by (simp_all add: sample_defs mem_ok_def fresh_phase_def GetProblemEnvironmentCondition_def omit_empty_def)
  moreover from this have "store_reachable (km_pes ?w)"
    by (simp add: store_reachable_def sample_world_def reachable_phase.fresh)
  moreover have "system_step sample_system ?w w'"
    by (rule system_step.schedule [of ?rt]) (use run in \<open>simp_all add: sample_system_def\<close>)
  ultimately show ?thesis
    using system_keeps_invariant [OF sample_system_connected, of ?w w'] run by (simp add: r_into_rtranclp)
qed

section \<open>From the gateway to the worker\<close>

text \<open>
  C22. Acquired access logs in. The user name and the password that \<^verbatim>\<open>AcquireProblemEnvironment\<close>
  answers are accepted by the SSH server of nclet, when its reads are consistent, the
  environments are in namespace \<^verbatim>\<open>netcon\<close> and their names have no underscore (which the
  API server refuses in names).
\<close>

theorem acquired_access_logs_in:
  assumes "consistent_reads k contents ok" "ok w"
    and "AcquireProblemEnvironment k now name w = (Inr acc, w')" "sr_Client r = k"
    and "\<forall>pe \<in> set (contents w). pe_Namespace pe = ''netcon'' \<and> CHR ''_'' \<notin> set (pe_Name pe)"
  shows "handlePasswordAuthentication r (ac_User acc) (ac_Password acc) w' = None"
proof -
  have vr: "versioned_reads k contents ok"
    by (rule consistent_reads.versioned [OF assms(1)])
  from versioned_reads.Acquire_assigns [OF vr assms(2,3)] obtain cur new wk where
    new: "cur \<in> set (contents w)" "new \<in> set (contents w')" "pe_key new = pe_key cur"
      "phase_of new = (phase_of cur)\<lparr>ph_assigned := ConditionTrue\<rparr>" "acc = getProblemEnvironmentFor new wk"
    by blast
  have "ok w'"
    using versioned_reads.Acquire_refines [OF vr assms(2,3)] by blast
  then have "getProblemEnvironment k w' (''netcon'', pe_Name new) = Inr new"
    using consistent_reads.stored_get [OF assms(1) _ new(2)] new(1,3) assms(5) by simp
  moreover have "ph_assigned (phase_of new) = ConditionTrue"
    unfolding new(4) by simp
  moreover have "CHR ''_'' \<notin> set (pe_Name new)"
    using new(1,3) assms(5) by simp
  ultimately show ?thesis
    using parseUser_plain(1) [of "pe_Name new"]
    by (auto simp: handlePasswordAuthentication_iff new(5) getProblemEnvironmentFor_def assms(4))
qed

theorem acquired_access_logs_in_witness:
  "\<exists>acc w'. AcquireProblemEnvironment mem_client 7 ''abc'' sample_gateway_world = (Inr acc, w') \<and>
     handlePasswordAuthentication sample_ssh (ac_User acc) (ac_Password acc) w' = None"
proof -
  obtain acc w' where acq: "AcquireProblemEnvironment mem_client 7 ''abc'' sample_gateway_world = (Inr acc, w')"
    using sample_acquire by blast
  have "sr_Client sample_ssh = mem_client"
    "\<forall>pe \<in> set (km_pes sample_gateway_world). pe_Namespace pe = ''netcon'' \<and> CHR ''_'' \<notin> set (pe_Name pe)"
    by (simp_all add: sample_ssh_def NewSSHServer_def sample_gateway_world_def sample_defs)
  with acq show ?thesis
    using acquired_access_logs_in [OF mem.consistent_reads_axioms sample_gateway_ok acq] by blast
qed

section \<open>From the heartbeat to the monitor\<close>

text \<open>
  What the agent relies on of \<^verbatim>\<open>ctrl.CreateOrUpdate\<close>: when it succeeds, the object that it
  returns is the result of the callback and is what the server then stores.
\<close>

definition writes_lease :: "(Lease, 'w) create_or_update \<Rightarrow> 'w kube \<Rightarrow> bool" where
  "writes_lease cu k \<longleftrightarrow>
     (\<forall>lease f w l' w'. cu lease f w = ((l', None), w') \<longrightarrow>
        (\<exists>l0. l' = f l0) \<and> getLease k w' (le_Namespace lease, le_Name lease) = Inr l')"

text \<open>\<^verbatim>\<open>CreateOrUpdate\<close> of leases on the in-memory server.\<close>

definition mem_create_or_update :: "(Lease, kmem) create_or_update" where
  "mem_create_or_update lease f w =
     (let key = (le_Namespace lease, le_Name lease);
          l' = (case getLease mem_client w key of Inl _ \<Rightarrow> f lease | Inr cur \<Rightarrow> f cur)
      in if (le_Namespace l', le_Name l') \<noteq> key then ((l', Some NotFound), w)
         else ((l', None), w\<lparr>km_leases := l' # filter (\<lambda>x. (le_Namespace x, le_Name x) \<noteq> key) (km_leases w)\<rparr>))"

lemma mem_writes_lease: "writes_lease mem_create_or_update mem_client"
  by (auto simp: writes_lease_def mem_create_or_update_def mem_client_def lookup_obj_def Let_def
      split: if_splits sum.splits)



end
